(* ===== verification/Prelude.thy ===== *)
theory Prelude
  imports Complex_Main "HOL-Library.Sublist"
begin

section \<open>Shared types, effects and Python string operations\<close>

text \<open>
  What every component of the model uses: Python's \<^verbatim>\<open>str\<close> and \<^verbatim>\<open>bytes\<close>, the exceptions
  the service raises, the state-and-exception type of an \<^verbatim>\<open>async def\<close>, slices, decimal
  numbers and the string methods of the standard library that the source calls.

  A \<^verbatim>\<open>str\<close> is the list of its code points, a \<^verbatim>\<open>bytes\<close> the list of its bytes (an Isabelle
  character is exactly one byte), so \<open>length\<close> is Python's \<^verbatim>\<open>len\<close> on both.
\<close>

type_synonym str = "nat list"
type_synonym bytes = string

named_theorems prog_simps \<open>equations of the effect combinators\<close>
named_theorems str_simps \<open>lengths and characters of built strings\<close>

definition lit :: "string \<Rightarrow> str" where
  "lit s = map of_char s"

lemma length_lit [simp]: "length (lit s) = length s"
  by (simp add: lit_def)

lemma lit_eq_Nil [simp]: "lit s = [] \<longleftrightarrow> s = []"
  by (simp add: lit_def)

lemma lit_append [str_simps]: "lit (s @ t) = lit s @ lit t"
  by (simp add: lit_def)

lemma lit_inject [simp]: "lit s = lit t \<longleftrightarrow> s = t"
proof -
  have "inj (of_char :: char \<Rightarrow> nat)"
    by (rule injI) simp
  then show ?thesis by (simp add: lit_def inj_map_eq_map)
qed

lemma set_lit: "set (lit s) = of_char ` set s"
  by (simp add: lit_def)

lemma lit_less_256: "c \<in> set (lit s) \<Longrightarrow> c < 256"
  by (auto simp: set_lit)

subsection \<open>Exceptions and effects\<close>

text \<open>
  The three classes of \<^verbatim>\<open>base.py\<close>, FastAPI's \<^verbatim>\<open>HTTPException\<close> (status, detail, headers),
  \<^verbatim>\<open>asyncio.CancelledError\<close> (a \<^verbatim>\<open>BaseException\<close> that \<^verbatim>\<open>except Exception\<close> does not catch), the
  \<^verbatim>\<open>InvalidStatus\<close> of a refused WebSocket handshake with its HTTP status, and every other
  exception, by the name of its class and its message.
\<close>

datatype exn =
    SandboxError str
  | SessionNotFound str
  | PathNotFound str
  | HTTPException int str "(string \<times> string) list"
  | CancelledError
  | InvalidStatus int
  | PyError string str

definition is_Exception :: "exn \<Rightarrow> bool" where
  "is_Exception e \<longleftrightarrow> e \<noteq> CancelledError"

text \<open>
  An \<^verbatim>\<open>async def\<close> that uses the outside world: from the world before to a result (an exception
  or a value) and the world after. The world is a type variable; what the outside does is a
  parameter of the definitions that call it.
\<close>

type_synonym ('w, 'a) prog = "'w \<Rightarrow> (exn + 'a) \<times> 'w"

definition ret :: "'a \<Rightarrow> ('w, 'a) prog" where
  "ret a = (\<lambda>w. (Inr a, w))"

definition throw :: "exn \<Rightarrow> ('w, 'a) prog" where
  "throw e = (\<lambda>w. (Inl e, w))"

definition bindp :: "('w, 'a) prog \<Rightarrow> ('a \<Rightarrow> ('w, 'b) prog) \<Rightarrow> ('w, 'b) prog" where
  "bindp m f = (\<lambda>w. case m w of (Inl e, w') \<Rightarrow> (Inl e, w') | (Inr a, w') \<Rightarrow> f a w')"

definition catchp :: "('w, 'a) prog \<Rightarrow> (exn \<Rightarrow> ('w, 'a) prog) \<Rightarrow> ('w, 'a) prog" where
  "catchp m h = (\<lambda>w. case m w of (Inl e, w') \<Rightarrow> h e w' | (Inr a, w') \<Rightarrow> (Inr a, w'))"

definition of_result :: "exn + 'a \<Rightarrow> ('w, 'a) prog" where
  "of_result r = (\<lambda>w. (r, w))"

definition ask :: "('w \<Rightarrow> 'a \<times> 'w) \<Rightarrow> ('w, 'a) prog" where
  "ask f = (\<lambda>w. (Inr (fst (f w)), snd (f w)))"

lemma ret_apply [prog_simps]: "ret a w = (Inr a, w)"
  by (simp add: ret_def)

lemma throw_apply [prog_simps]: "throw e w = (Inl e, w)"
  by (simp add: throw_def)

lemma of_result_apply [prog_simps]: "of_result r w = (r, w)"
  by (simp add: of_result_def)

lemma ask_apply [prog_simps]: "ask f w = (Inr (fst (f w)), snd (f w))"
  by (simp add: ask_def)

lemma bindp_apply:
  "bindp m f w = (case m w of (Inl e, w') \<Rightarrow> (Inl e, w') | (Inr a, w') \<Rightarrow> f a w')"
  by (simp add: bindp_def)

lemma catchp_apply:
  "catchp m h w = (case m w of (Inl e, w') \<Rightarrow> h e w' | (Inr a, w') \<Rightarrow> (Inr a, w'))"
  by (simp add: catchp_def)

lemma bindp_ret [simp]: "bindp (ret a) f = f a"
  by (simp add: bindp_def ret_def)

lemma bindp_ret_right [simp]: "bindp m ret = m"
  by (rule ext) (simp add: bindp_def ret_def split: prod.split sum.split)

lemma bindp_throw [simp]: "bindp (throw e) f = throw e"
  by (simp add: bindp_def throw_def)

lemma bindp_assoc: "bindp (bindp m f) g = bindp m (\<lambda>a. bindp (f a) g)"
  by (rule ext) (simp add: bindp_def split: prod.split sum.split)

lemma catchp_ret [simp]: "catchp (ret a) h = ret a"
  by (simp add: catchp_def ret_def)

lemma catchp_throw [simp]: "catchp (throw e) h = h e"
  by (simp add: catchp_def throw_def)

lemma bindp_eq_Inr:
  "bindp m f w = (Inr b, w'') \<longleftrightarrow> (\<exists>a w'. m w = (Inr a, w') \<and> f a w' = (Inr b, w''))"
  by (simp add: bindp_def split: prod.split sum.split)

lemma bindp_eq_Inl:
  "bindp m f w = (Inl e, w'') \<longleftrightarrow>
     m w = (Inl e, w'') \<or> (\<exists>a w'. m w = (Inr a, w') \<and> f a w' = (Inl e, w''))"
  by (simp add: bindp_def split: prod.split sum.split)

lemma bindp_Inr [prog_simps]: "m w = (Inr a, w') \<Longrightarrow> bindp m f w = f a w'"
  by (simp add: bindp_def)

lemma bindp_Inl [prog_simps]: "m w = (Inl e, w') \<Longrightarrow> bindp m f w = (Inl e, w')"
  by (simp add: bindp_def)

lemma catchp_eq_Inr:
  "catchp m h w = (Inr b, w'') \<longleftrightarrow>
     m w = (Inr b, w'') \<or> (\<exists>e w'. m w = (Inl e, w') \<and> h e w' = (Inr b, w''))"
  by (auto simp: catchp_def split: prod.split sum.split)

lemma catchp_eq_Inl:
  "catchp m h w = (Inl e, w'') \<longleftrightarrow> (\<exists>e' w'. m w = (Inl e', w') \<and> h e' w' = (Inl e, w''))"
  by (auto simp: catchp_def split: prod.split sum.split)

lemmas prog_result_simps = bindp_eq_Inr bindp_eq_Inl catchp_eq_Inr catchp_eq_Inl

subsection \<open>Slices\<close>

text \<open>
  \<^verbatim>\<open>xs[:n]\<close>: a negative bound counts from the end.
\<close>

definition py_take :: "int \<Rightarrow> 'a list \<Rightarrow> 'a list" where
  "py_take n xs = (if 0 \<le> n then take (nat n) xs else take (nat (int (length xs) + n)) xs)"

lemma py_take_nonneg [simp]: "0 \<le> n \<Longrightarrow> py_take n xs = take (nat n) xs"
  by (simp add: py_take_def)

lemma length_py_take_le: "length (py_take n xs) \<le> length xs"
  unfolding py_take_def by simp linarith

lemma py_take_prefix: "prefix (py_take n xs) xs"
  by (simp add: py_take_def take_is_prefix)

lemma take_take_Suc [simp]: "take n (take (Suc n) xs) = take n xs"
  by (simp add: min_def)

lemma length_take_Suc_gt: "n < length (take (Suc n) xs) \<longleftrightarrow> n < length xs"
  by (simp add: min_def)

end
