(* ===== verification/Py_Text.thy ===== *)
theory Py_Text
  imports Prelude
begin

section \<open>The string methods and number formats of the standard library\<close>

text \<open>
  The parts of Python's \<^verbatim>\<open>str\<close>, \<^verbatim>\<open>bytes\<close> and \<^verbatim>\<open>int\<close> that the service calls: \<^verbatim>\<open>strip\<close>,
  \<^verbatim>\<open>split\<close>, \<^verbatim>\<open>partition\<close>, \<^verbatim>\<open>rpartition\<close>, \<^verbatim>\<open>startswith\<close>, the \<^verbatim>\<open>in\<close> test, \<^verbatim>\<open>lower\<close>, decimal
  printing and \<^verbatim>\<open>int(...)\<close>, with the facts about them that the components share.
\<close>

subsection \<open>White space and stripping\<close>

text \<open>The code points for which \<^verbatim>\<open>str.isspace\<close> holds, which are also those of \<^verbatim>\<open>\s\<close> in a str pattern.\<close>

definition is_space :: "nat \<Rightarrow> bool" where
  "is_space c \<longleftrightarrow> (9 \<le> c \<and> c \<le> 13) \<or> (28 \<le> c \<and> c \<le> 32) \<or> c = 133 \<or> c = 160 \<or> c = 5760
     \<or> (8192 \<le> c \<and> c \<le> 8202) \<or> c = 8232 \<or> c = 8233 \<or> c = 8239 \<or> c = 8287 \<or> c = 12288"

definition lstrip_by :: "('a \<Rightarrow> bool) \<Rightarrow> 'a list \<Rightarrow> 'a list" where
  "lstrip_by P s = dropWhile P s"

definition rstrip_by :: "('a \<Rightarrow> bool) \<Rightarrow> 'a list \<Rightarrow> 'a list" where
  "rstrip_by P s = rev (dropWhile P (rev s))"

definition strip_by :: "('a \<Rightarrow> bool) \<Rightarrow> 'a list \<Rightarrow> 'a list" where
  "strip_by P s = rstrip_by P (lstrip_by P s)"

definition strip :: "str \<Rightarrow> str" where
  "strip s = strip_by is_space s"

text \<open>\<^verbatim>\<open>bytes.strip()\<close> and \<^verbatim>\<open>bytes.split()\<close> know the six ASCII white space bytes only.\<close>

definition is_space_byte :: "char \<Rightarrow> bool" where
  "is_space_byte c \<longleftrightarrow> (of_char c :: nat) \<in> {9, 10, 11, 12, 13, 32}"

definition strip_bytes :: "bytes \<Rightarrow> bytes" where
  "strip_bytes b = strip_by is_space_byte b"

lemma rstrip_by_append_strip: "\<exists>t. s = rstrip_by P s @ t \<and> (\<forall>c \<in> set t. P c)"
proof -
  have "rev s = takeWhile P (rev s) @ dropWhile P (rev s)" by simp
  then have "s = rstrip_by P s @ rev (takeWhile P (rev s))"
    by (metis rev_append rev_rev_ident rstrip_by_def)
  moreover have "\<forall>c \<in> set (rev (takeWhile P (rev s))). P c"
    by (auto dest: set_takeWhileD)
  ultimately show ?thesis by blast
qed

lemma rstrip_by_id: "s = [] \<or> \<not> P (last s) \<Longrightarrow> rstrip_by P s = s"
  by (cases s rule: rev_cases) (auto simp: rstrip_by_def)

lemma rstrip_by_all: "(\<forall>c \<in> set t. P c) \<Longrightarrow> rstrip_by P (s @ t) = rstrip_by P s"
  unfolding rstrip_by_def by (subst rev_append, subst dropWhile_append2) auto

lemma rstrip_by_Nil [simp]: "rstrip_by P [] = []"
  by (simp add: rstrip_by_def)

lemma last_rstrip_by: "rstrip_by P s \<noteq> [] \<Longrightarrow> \<not> P (last (rstrip_by P s))"
proof -
  assume "rstrip_by P s \<noteq> []"
  then have "dropWhile P (rev s) \<noteq> []" by (simp add: rstrip_by_def)
  then have "\<not> P (hd (dropWhile P (rev s)))" by (rule hd_dropWhile)
  then show ?thesis using \<open>dropWhile P (rev s) \<noteq> []\<close> by (simp add: rstrip_by_def last_rev)
qed

lemma rstrip_by_idem [simp]: "rstrip_by P (rstrip_by P s) = rstrip_by P s"
  by (rule rstrip_by_id) (use last_rstrip_by [of P s] in blast)

lemma strip_by_no: "(\<forall>c \<in> set s. \<not> P c) \<Longrightarrow> strip_by P s = s"
  unfolding strip_by_def lstrip_by_def
  by (cases s) (auto intro!: rstrip_by_id dest: last_in_set split: if_splits)

lemma strip_no_space: "(\<forall>c \<in> set s. \<not> is_space c) \<Longrightarrow> strip s = s"
  by (simp add: strip_def strip_by_no)

lemma set_rstrip_by: "set (rstrip_by P s) \<subseteq> set s"
  by (metis Un_upper1 rstrip_by_append_strip set_append)

lemma set_strip: "set (strip s) \<subseteq> set s"
  unfolding strip_def strip_by_def lstrip_by_def
  by (meson set_dropWhileD set_rstrip_by subset_iff)

subsection \<open>Searching and splitting\<close>

definition starts_with :: "'a list \<Rightarrow> 'a list \<Rightarrow> bool" where
  "starts_with s p \<longleftrightarrow> take (length p) s = p"

lemma starts_with_iff: "starts_with s p \<longleftrightarrow> (\<exists>t. s = p @ t)"
  unfolding starts_with_def by (metis append_eq_conv_conj)

lemma starts_with_append [simp]: "starts_with (p @ t) p"
  by (simp add: starts_with_def)

lemma starts_with_drop: "starts_with s p \<Longrightarrow> p @ drop (length p) s = s"
  by (metis append_take_drop_id starts_with_def)

text \<open>\<^verbatim>\<open>p in s\<close> on strings and bytes.\<close>

fun occurs_in :: "'a list \<Rightarrow> 'a list \<Rightarrow> bool" where
  "occurs_in p [] = (p = [])"
| "occurs_in p (c # s) = (starts_with (c # s) p \<or> occurs_in p s)"

lemma occurs_in_iff: "occurs_in p s \<longleftrightarrow> (\<exists>a b. s = a @ p @ b)"
proof (induction s)
  case Nil
  then show ?case by auto
next
  case (Cons c s)
  have "(\<exists>a b. c # s = a @ p @ b) \<longleftrightarrow> (\<exists>b. c # s = p @ b) \<or> (\<exists>a b. s = a @ p @ b)"
    by (metis append_Cons append_Nil append_eq_Cons_conv)
  then show ?case using Cons by (simp add: starts_with_iff)
qed

text \<open>\<^verbatim>\<open>s.split(sep)\<close> for a one-character separator: at least one piece, empty pieces kept.\<close>

fun split_on :: "'a \<Rightarrow> 'a list \<Rightarrow> 'a list list" where
  "split_on c [] = [[]]"
| "split_on c (x # xs) =
     (if x = c then [] # split_on c xs
      else case split_on c xs of [] \<Rightarrow> [[x]] | p # ps \<Rightarrow> (x # p) # ps)"

lemma split_on_nonempty [simp]: "split_on c s \<noteq> []"
  by (cases s) (auto split: list.splits)

lemma split_on_no_sep: "c \<notin> set s \<Longrightarrow> split_on c s = [s]"
  by (induction s) auto

lemma split_on_append: "c \<notin> set p \<Longrightarrow> split_on c (p @ c # s) = p # split_on c s"
  by (induction p) auto

fun join_with :: "'a list \<Rightarrow> 'a list list \<Rightarrow> 'a list" where
  "join_with sep [] = []"
| "join_with sep [p] = p"
| "join_with sep (p # q # ps) = p @ sep @ join_with sep (q # ps)"

lemma join_split_on: "join_with [c] (split_on c s) = s"
proof (induction s)
  case (Cons x s)
  obtain p ps where s: "split_on c s = p # ps" by (cases "split_on c s") auto
  then show ?case using Cons by (cases ps) auto
qed simp

lemma split_join_on:
  "ps \<noteq> [] \<Longrightarrow> (\<forall>p \<in> set ps. c \<notin> set p) \<Longrightarrow> split_on c (join_with [c] ps) = ps"
  by (induction "[c]" ps rule: join_with.induct) (auto simp: split_on_append split_on_no_sep)

lemma split_on_pieces: "p \<in> set (split_on c s) \<Longrightarrow> c \<notin> set p \<and> set p \<subseteq> set s"
proof (induction s arbitrary: p)
  case (Cons x s)
  then show ?case by (auto split: if_splits list.splits) fastforce+
qed simp

text \<open>
  \<^verbatim>\<open>s.partition(c)\<close> and \<^verbatim>\<open>s.rpartition(c)\<close>: head, whether the separator was found, tail. Where it
  was not found, \<^verbatim>\<open>partition\<close> returns \<open>(s, '', '')\<close> and \<^verbatim>\<open>rpartition\<close> \<open>('', '', s)\<close>.
\<close>

definition partition_on :: "'a \<Rightarrow> 'a list \<Rightarrow> 'a list \<times> bool \<times> 'a list" where
  "partition_on c s =
     (if c \<in> set s
      then (takeWhile (\<lambda>x. x \<noteq> c) s, True, tl (dropWhile (\<lambda>x. x \<noteq> c) s))
      else (s, False, []))"

definition rpartition_on :: "'a \<Rightarrow> 'a list \<Rightarrow> 'a list \<times> bool \<times> 'a list" where
  "rpartition_on c s =
     (case partition_on c (rev s) of (t, found, h) \<Rightarrow> (rev h, found, rev t))"

lemma partition_on_append [simp]:
  "c \<notin> set p \<Longrightarrow> partition_on c (p @ c # q) = (p, True, q)"
  by (auto simp: partition_on_def takeWhile_append dropWhile_append)

lemma partition_on_none [simp]: "c \<notin> set p \<Longrightarrow> partition_on c p = (p, False, [])"
  by (simp add: partition_on_def)

lemma rpartition_on_append [simp]:
  "c \<notin> set q \<Longrightarrow> rpartition_on c (p @ c # q) = (p, True, q)"
  by (simp add: rpartition_on_def)

lemma rpartition_on_none [simp]: "c \<notin> set p \<Longrightarrow> rpartition_on c p = ([], False, p)"
  by (simp add: rpartition_on_def)

text \<open>\<^verbatim>\<open>s.split()\<close>: the maximal runs of characters that are not white space.\<close>

function split_ws :: "str \<Rightarrow> str list" where
  "split_ws [] = []"
| "split_ws (c # cs) =
     (if is_space c then split_ws cs
      else (c # takeWhile (\<lambda>x. \<not> is_space x) cs) # split_ws (dropWhile (\<lambda>x. \<not> is_space x) cs))"
  by pat_completeness auto
termination
  by (relation "measure length") (auto simp: le_imp_less_Suc length_dropWhile_le)

lemma split_ws_word:
  assumes "\<forall>c \<in> set w. \<not> is_space c" "w \<noteq> []" "is_space c"
  shows "split_ws (w @ c # s) = w # split_ws s"
  using assms by (cases w) (auto simp: takeWhile_append dropWhile_append)

lemma split_ws_last:
  assumes "\<forall>c \<in> set w. \<not> is_space c" "w \<noteq> []"
  shows "split_ws w = [w]"
proof -
  obtain c cs where w: "w = c # cs" using assms(2) by (cases w) auto
  then have "takeWhile (\<lambda>x. \<not> is_space x) cs = cs" using assms(1) by auto
  moreover have "dropWhile (\<lambda>x. \<not> is_space x) cs = []"
    using assms(1) w by (auto simp: dropWhile_eq_Nil_conv)
  then have "split_ws (dropWhile (\<lambda>x. \<not> is_space x) cs) = []" by (simp only: split_ws.simps)
  ultimately show ?thesis using w assms(1) by simp
qed

subsection \<open>Case\<close>

text \<open>
  \<^verbatim>\<open>lower\<close>: the ASCII capitals, and the two other characters whose lower case has an ASCII
  letter in it (the Kelvin sign and the dotted capital I). The remaining capitals lower to
  characters outside ASCII; the service only compares the result with ASCII texts, so they are
  left alone.
\<close>

definition lower_char :: "nat \<Rightarrow> str" where
  "lower_char c =
     (if 65 \<le> c \<and> c \<le> 90 then [c + 32]
      else if c = 8490 then [107]
      else if c = 304 then [105, 775]
      else [c])"

definition lower :: "str \<Rightarrow> str" where
  "lower s = concat (map lower_char s)"

subsection \<open>repr\<close>

text \<open>
  \<^verbatim>\<open>repr\<close> of a str: single quotes unless only they occur in it, backslash escapes, control
  characters as \<^verbatim>\<open>\xNN\<close>. (Unprintable characters outside ASCII, which Python escapes too, are left
  as they are.)
\<close>

definition hex_digit :: "nat \<Rightarrow> nat" where
  "hex_digit n = (if n < 10 then 48 + n else 87 + n)"

definition repr_char :: "nat \<Rightarrow> nat \<Rightarrow> str" where
  "repr_char q c =
     (if c = q \<or> c = 92 then [92, c]
      else if c = 9 then [92, 116] else if c = 10 then [92, 110] else if c = 13 then [92, 114]
      else if c < 32 \<or> c = 127 then [92, 120, hex_digit (c div 16), hex_digit (c mod 16)]
      else [c])"

definition repr_quote :: "str \<Rightarrow> nat" where
  "repr_quote s = (if 39 \<in> set s \<and> 34 \<notin> set s then 34 else 39)"

definition py_repr :: "str \<Rightarrow> str" where
  "py_repr s = [repr_quote s] @ concat (map (repr_char (repr_quote s)) s) @ [repr_quote s]"

subsection \<open>Decimal numbers\<close>

text \<open>\<^verbatim>\<open>str(n)\<close> of an int.\<close>

fun nat_str :: "nat \<Rightarrow> str" where
  "nat_str n = (if n < 10 then [48 + n] else nat_str (n div 10) @ [48 + n mod 10])"

declare nat_str.simps [simp del]

definition int_str :: "int \<Rightarrow> str" where
  "int_str i = (if i < 0 then 45 # nat_str (nat (- i)) else nat_str (nat i))"

definition is_digit :: "nat \<Rightarrow> bool" where
  "is_digit c \<longleftrightarrow> 48 \<le> c \<and> c \<le> 57"

text \<open>
  \<^verbatim>\<open>int(text)\<close>: surrounding white space, a sign, ASCII digits with single underscores between
  them, and at most 4300 digits; \<^verbatim>\<open>None\<close> is the \<^verbatim>\<open>ValueError\<close>. (Python also takes the decimal
  digits of other scripts, which this leaves out.)
\<close>

fun read_digits :: "nat \<Rightarrow> str \<Rightarrow> nat option" where
  "read_digits acc [] = Some acc"
| "read_digits acc (c # cs) =
     (if is_digit c then read_digits (10 * acc + (c - 48)) cs
      else if c = 95 then
        (case cs of [] \<Rightarrow> None
         | d # ds \<Rightarrow> if is_digit d then read_digits (10 * acc + (d - 48)) ds else None)
      else None)"

definition read_nat :: "str \<Rightarrow> nat option" where
  "read_nat s =
     (case s of [] \<Rightarrow> None | c # _ \<Rightarrow> if is_digit c then read_digits 0 s else None)"

definition py_int :: "str \<Rightarrow> int option" where
  "py_int s =
     (let t = strip s in
      if 4300 < length (filter is_digit t) then None
      else case t of
        [] \<Rightarrow> None
      | c # cs \<Rightarrow>
          if c = 45 then map_option (\<lambda>n. - int n) (read_nat cs)
          else if c = 43 then map_option int (read_nat cs)
          else map_option int (read_nat t))"

lemma nat_str_nonempty [simp]: "nat_str n \<noteq> []"
  by (subst nat_str.simps) simp

lemma nat_str_digits: "c \<in> set (nat_str n) \<Longrightarrow> is_digit c"
proof (induction n arbitrary: c rule: nat_str.induct)
  case (1 n)
  have "n mod 10 < 10" by simp
  with 1 show ?case
    by (cases "n < 10")
       (auto simp: nat_str.simps [of n] is_digit_def split: if_splits)
qed

lemma read_digits_append:
  "(\<forall>c \<in> set s. is_digit c) \<Longrightarrow>
   read_digits acc (s @ t) =
     (case read_digits acc s of None \<Rightarrow> None | Some a \<Rightarrow> read_digits a t)"
  by (induction s arbitrary: acc) auto

lemma read_digits_nat_str: "read_digits 0 (nat_str n) = Some n"
proof (induction n rule: nat_str.induct)
  case (1 n)
  show ?case
  proof (cases "n < 10")
    case True
    then show ?thesis by (simp add: nat_str.simps [of n] is_digit_def)
  next
    case False
    have "\<forall>c \<in> set (nat_str (n div 10)). is_digit c" using nat_str_digits by blast
    note app = read_digits_append [OF this, of 0 "[48 + n mod 10]"]
    have "n mod 10 < 10" by simp
    then have "is_digit (48 + n mod 10)" by (simp add: is_digit_def)
    with False 1 app show ?thesis by (simp add: nat_str.simps [of n])
  qed
qed

lemma read_nat_nat_str [simp]: "read_nat (nat_str n) = Some n"
proof -
  obtain c cs where "nat_str n = c # cs" by (cases "nat_str n") auto
  moreover from this have "is_digit c" using nat_str_digits [of c n] by simp
  ultimately show ?thesis using read_digits_nat_str [of n] by (simp add: read_nat_def)
qed

lemma is_digit_not_space: "is_digit c \<Longrightarrow> \<not> is_space c"
  by (auto simp: is_digit_def is_space_def)

lemma set_int_str: "c \<in> set (int_str i) \<Longrightarrow> is_digit c \<or> c = 45"
  by (auto simp: int_str_def dest: nat_str_digits split: if_splits)

lemma strip_int_str [simp]: "strip (int_str i) = int_str i"
  by (rule strip_no_space) (auto dest!: set_int_str is_digit_not_space simp: is_space_def)

lemma int_str_nonempty [simp]: "int_str i \<noteq> []"
  by (simp add: int_str_def)

theorem py_int_int_str:
  assumes "length (int_str i) \<le> 4300"
  shows "py_int (int_str i) = Some i"
proof -
  have few: "\<not> 4300 < length (filter is_digit (int_str i))"
    using assms length_filter_le [of is_digit "int_str i"] by linarith
  show ?thesis
  proof (cases "i < 0")
    case True
    with few show ?thesis
      unfolding py_int_def Let_def strip_int_str by (simp add: int_str_def)
  next
    case False
    obtain c cs where c: "nat_str (nat i) = c # cs" by (cases "nat_str (nat i)") auto
    then have "is_digit c" using nat_str_digits [of c "nat i"] by simp
    then have "c \<noteq> 45 \<and> c \<noteq> 43" by (simp add: is_digit_def)
    with few False c read_nat_nat_str [of "nat i"] show ?thesis
      unfolding py_int_def Let_def strip_int_str by (simp add: int_str_def)
  qed
qed

lemma nat_str_inject: "nat_str m = nat_str n \<longleftrightarrow> m = n"
  by (metis option.inject read_nat_nat_str)

lemma length_nat_str_le: "n < 10 ^ k \<Longrightarrow> 0 < k \<Longrightarrow> length (nat_str n) \<le> k"
proof (induction n arbitrary: k rule: nat_str.induct)
  case (1 n)
  show ?case
  proof (cases "n < 10")
    case True
    with 1 show ?thesis by (simp add: nat_str.simps [of n])
  next
    case False
    with "1.prems" obtain k' where k: "k = Suc k'" "0 < k'"
      by (cases k; cases "k - 1") auto
    with "1.prems" have "n div 10 < 10 ^ k'" by (simp add: less_mult_imp_div_less)
    with "1.IH" False k have "length (nat_str (n div 10)) \<le> k'" by simp
    with False k show ?thesis by (simp add: nat_str.simps [of n])
  qed
qed

subsection \<open>or\<close>

text \<open>\<^verbatim>\<open>x or d\<close> for an optional and for a plain text.\<close>

definition or_else :: "str option \<Rightarrow> str \<Rightarrow> str" where
  "or_else x d = (case x of None \<Rightarrow> d | Some s \<Rightarrow> if s = [] then d else s)"

definition or_text :: "str \<Rightarrow> str \<Rightarrow> str" where
  "or_text s d = (if s = [] then d else s)"

end
