(* ===== verification/Slots.thy ===== *)
theory Slots
  imports Py_Text "HOL-Library.AList"
begin

section \<open>Session slots: the per-replica cap on live sessions\<close>

text \<open>
  \<^verbatim>\<open>SessionSlots\<close> of \<^verbatim>\<open>app.py\<close>. The deadlines are Python's dict as an association list with distinct
  keys. The code between two awaits runs without interruption, so each such section is one
  function on the state: entering \<^verbatim>\<open>acquire\<close>, finishing a \<^verbatim>\<open>_resync\<close> once the backend answered, the
  decision, \<^verbatim>\<open>commit\<close>, \<^verbatim>\<open>rollback\<close>, \<^verbatim>\<open>release\<close>. \<open>acquire\<close> composes them for one request running
  alone; theory \<open>Slots_System\<close> interleaves them.
\<close>

record slots =
  limit :: int
  deadlines :: "(str \<times> rat) list"
  pending :: int

definition init_slots :: "int \<Rightarrow> slots" where
  "init_slots l = \<lparr>limit = l, deadlines = [], pending = 0\<rparr>"

definition slot_ids :: "slots \<Rightarrow> str list" where
  "slot_ids s = map fst (deadlines s)"

definition load :: "slots \<Rightarrow> int" where
  "load s = int (length (deadlines s)) + pending s"

subsection \<open>The atomic sections\<close>

definition live :: "rat \<Rightarrow> slots \<Rightarrow> int \<times> slots" where
  "live now s =
     (let s' = s\<lparr>deadlines := filter (\<lambda>(sid, deadline). \<not> deadline \<le> now) (deadlines s)\<rparr>
      in (int (length (deadlines s')) + pending s', s'))"

datatype entered = Admitted | Full int | NeedResync

definition acquire_decide :: "int \<Rightarrow> slots \<Rightarrow> entered \<times> slots" where
  "acquire_decide lv s =
     (if limit s \<le> lv then (Full lv, s) else (Admitted, s\<lparr>pending := pending s + 1\<rparr>))"

definition acquire_enter :: "bool \<Rightarrow> rat \<Rightarrow> slots \<Rightarrow> entered \<times> slots" where
  "acquire_enter has_recount now s =
     (if limit s \<le> 0 then (Admitted, s)
      else (let (lv, s1) = live now s
            in if limit s1 \<le> lv \<and> has_recount then (NeedResync, s1) else acquire_decide lv s1))"

definition drop_stale :: "str set \<Rightarrow> slots \<Rightarrow> slots" where
  "drop_stale actual s =
     s\<lparr>deadlines := filter (\<lambda>(sid, deadline). sid \<in> actual) (deadlines s)\<rparr>"

text \<open>\<open>actual\<close> is \<open>None\<close> both where the provider said it does not know and where it raised.\<close>

definition resync_finish :: "str set option \<Rightarrow> rat \<Rightarrow> slots \<Rightarrow> int \<times> slots" where
  "resync_finish actual now s =
     (case actual of None \<Rightarrow> live now s | Some ids \<Rightarrow> live now (drop_stale ids s))"

definition commit :: "str \<Rightarrow> int \<Rightarrow> rat \<Rightarrow> slots \<Rightarrow> slots" where
  "commit sid timeout_seconds now s =
     (if limit s \<le> 0 then s
      else s\<lparr>pending := max 0 (pending s - 1),
             deadlines := AList.update sid (now + of_int (max 0 timeout_seconds)) (deadlines s)\<rparr>)"

definition rollback :: "slots \<Rightarrow> slots" where
  "rollback s = (if limit s \<le> 0 then s else s\<lparr>pending := max 0 (pending s - 1)\<rparr>)"

definition release :: "str \<Rightarrow> slots \<Rightarrow> slots" where
  "release sid s = s\<lparr>deadlines := AList.delete sid (deadlines s)\<rparr>"

subsection \<open>acquire, run alone\<close>

definition slots_full :: "int \<Rightarrow> int \<Rightarrow> exn" where
  "slots_full lv cap =
     HTTPException 429
       (lit ''session limit reached ('' @ int_str lv @ lit ''/'' @ int_str cap
          @ lit '' live on this replica) '' @ [8212] @ lit '' retry once a running session finishes'')
       [(''Retry-After'', ''5'')]"

definition answer :: "entered \<times> slots \<Rightarrow> (slots \<times> 'w, unit) prog" where
  "answer d = (\<lambda>(_, w). case d of
       (Admitted, s') \<Rightarrow> (Inr (), (s', w))
     | (Full lv, s') \<Rightarrow> (Inl (slots_full lv (limit s')), (s', w))
     | (NeedResync, s') \<Rightarrow> (Inr (), (s', w)))"

text \<open>
  \<open>recount\<close> is the provider hook under its ten-second \<^verbatim>\<open>wait_for\<close>; \<^verbatim>\<open>except Exception\<close> lets a
  cancellation through. The world is the pair of the slots and the outside.
\<close>

definition resync ::
  "('w \<Rightarrow> rat \<times> 'w) \<Rightarrow> ('w, str set option) prog \<Rightarrow> (slots \<times> 'w, int) prog" where
  "resync clock recount = (\<lambda>(s, w).
     case recount w of
       (Inl e, w1) \<Rightarrow>
         if is_Exception e
         then (let (now, w2) = clock w1; (lv, s') = live now s in (Inr lv, (s', w2)))
         else (Inl e, (s, w1))
     | (Inr actual, w1) \<Rightarrow>
         (let (now, w2) = clock w1; (lv, s') = resync_finish actual now s
          in (Inr lv, (s', w2))))"

definition acquire ::
  "('w \<Rightarrow> rat \<times> 'w) \<Rightarrow> ('w, str set option) prog option \<Rightarrow> (slots \<times> 'w, unit) prog" where
  "acquire clock recount = (\<lambda>(s, w).
     if limit s \<le> 0 then (Inr (), (s, w))
     else (let (now, w1) = clock w
           in case acquire_enter (recount \<noteq> None) now s of
                (NeedResync, s1) \<Rightarrow>
                  bindp (resync clock (the recount))
                    (\<lambda>lv (s2, w2). answer (acquire_decide lv s2) (s2, w2)) (s1, w1)
              | d \<Rightarrow> answer d (s, w1)))"

subsection \<open>Invariant and loads of the sections\<close>

definition slots_ok :: "slots \<Rightarrow> bool" where
  "slots_ok s \<longleftrightarrow> distinct (slot_ids s) \<and> 0 \<le> pending s"

named_theorems slot_simps \<open>fields after each atomic section\<close>

lemma live_simps [slot_simps]:
  "limit (snd (live now s)) = limit s"
  "pending (snd (live now s)) = pending s"
  "fst (live now s) = load (snd (live now s))"
  "deadlines (snd (live now s)) = filter (\<lambda>(sid, deadline). \<not> deadline \<le> now) (deadlines s)"
  by (simp_all add: live_def load_def Let_def)

lemma drop_stale_simps [slot_simps]:
  "limit (drop_stale ids s) = limit s"
  "pending (drop_stale ids s) = pending s"
  "deadlines (drop_stale ids s) = filter (\<lambda>(sid, deadline). sid \<in> ids) (deadlines s)"
  by (simp_all add: drop_stale_def)

lemma resync_finish_simps [slot_simps]:
  "limit (snd (resync_finish a now s)) = limit s"
  "pending (snd (resync_finish a now s)) = pending s"
  "fst (resync_finish a now s) = load (snd (resync_finish a now s))"
  by (auto simp: resync_finish_def slot_simps split: option.split)

lemma acquire_decide_simps [slot_simps]:
  "limit (snd (acquire_decide lv s)) = limit s"
  "deadlines (snd (acquire_decide lv s)) = deadlines s"
  by (simp_all add: acquire_decide_def)

lemma commit_simps [slot_simps]:
  "limit (commit sid t now s) = limit s"
  "limit (rollback s) = limit s"
  "limit (release sid s) = limit s"
  "pending (release sid s) = pending s"
  "deadlines (rollback s) = deadlines s"
  by (simp_all add: commit_def rollback_def release_def)

lemma load_filter:
  "pending s' = pending s \<Longrightarrow> deadlines s' = filter P (deadlines s) \<Longrightarrow> load s' \<le> load s"
  by (simp add: load_def length_filter_le)

lemma live_load: "load (snd (live now s)) \<le> load s"
  by (rule load_filter) (simp_all add: slot_simps)

lemma drop_stale_load: "load (drop_stale ids s) \<le> load s"
  by (rule load_filter) (simp_all add: slot_simps)

lemma resync_finish_load: "load (snd (resync_finish a now s)) \<le> load s"
  by (cases a) (auto simp: resync_finish_def intro: live_load order_trans [OF live_load drop_stale_load])

lemma release_load: "load (release sid s) \<le> load s"
  by (simp add: load_def release_def AList.delete_eq length_filter_le)

lemma length_update_le: "length (AList.update k v al) \<le> Suc (length al)"
  by (induction al) auto

lemma commit_load:
  assumes "0 < limit s" "1 \<le> pending s"
  shows "load (commit sid t now s) \<le> load s"
  using assms length_update_le [of sid "now + of_int (max 0 t)" "deadlines s"]
  by (simp add: load_def commit_def)

lemma commit_load_new:
  assumes "0 < limit s" "1 \<le> pending s" "sid \<notin> set (slot_ids s)"
  shows "load (commit sid t now s) = load s"
proof -
  have "length (AList.update sid v al) = Suc (length al)"
    if "sid \<notin> fst ` set al" for v and al :: "(str \<times> rat) list"
    using that by (induction al) auto
  then show ?thesis using assms by (simp add: load_def commit_def slot_ids_def)
qed

lemma rollback_load:
  "0 < limit s \<Longrightarrow> 1 \<le> pending s \<Longrightarrow> load (rollback s) = load s - 1"
  by (simp add: load_def rollback_def)

lemma acquire_decide_load:
  "acquire_decide lv s = (Admitted, s') \<longleftrightarrow>
     lv < limit s \<and> s' = s\<lparr>pending := pending s + 1\<rparr>"
  by (auto simp: acquire_decide_def)

lemma distinct_filter_ids:
  "distinct (slot_ids s) \<Longrightarrow> deadlines s' = filter P (deadlines s) \<Longrightarrow> distinct (slot_ids s')"
  by (simp add: slot_ids_def distinct_map_filter)

lemma slots_ok_init: "slots_ok (init_slots l)"
  by (simp add: slots_ok_def init_slots_def slot_ids_def)

lemma slots_ok_live: "slots_ok s \<Longrightarrow> slots_ok (snd (live now s))"
  by (auto simp: slots_ok_def slot_simps intro: distinct_filter_ids)

lemma slots_ok_drop_stale: "slots_ok s \<Longrightarrow> slots_ok (drop_stale ids s)"
  by (auto simp: slots_ok_def slot_simps intro: distinct_filter_ids)

lemma slots_ok_resync: "slots_ok s \<Longrightarrow> slots_ok (snd (resync_finish a now s))"
  by (cases a) (auto simp: resync_finish_def slots_ok_live slots_ok_drop_stale)

lemma slots_ok_decide: "slots_ok s \<Longrightarrow> slots_ok (snd (acquire_decide lv s))"
  by (auto simp: slots_ok_def acquire_decide_def slot_ids_def)

lemma slots_ok_enter: "slots_ok s \<Longrightarrow> slots_ok (snd (acquire_enter hr now s))"
  using slots_ok_live [of s now] slots_ok_decide [of "snd (live now s)"]
  by (auto simp: acquire_enter_def split: prod.split)

lemma slots_ok_commit: "slots_ok s \<Longrightarrow> slots_ok (commit sid t now s)"
  by (auto simp: slots_ok_def commit_def slot_ids_def distinct_update)

lemma slots_ok_rollback: "slots_ok s \<Longrightarrow> slots_ok (rollback s)"
  by (auto simp: slots_ok_def rollback_def slot_ids_def)

lemma slots_ok_release: "slots_ok s \<Longrightarrow> slots_ok (release sid s)"
  by (auto simp: slots_ok_def release_def slot_ids_def distinct_delete)

lemmas slots_ok_intros = slots_ok_live slots_ok_resync slots_ok_decide slots_ok_enter
  slots_ok_commit slots_ok_rollback slots_ok_release

end
