(* ===== verification/Slots_Props.thy ===== *)
theory Slots_Props
  imports Slots
begin

section \<open>What acquire decides, and the reservation protocol of create_session\<close>

text \<open>
  The exact condition under which \<^verbatim>\<open>acquire\<close> admits, the life time of a committed slot, and the
  interface \<open>admission\<close> between slot accounting and the handler that reserves a slot, creates a
  session and commits or rolls back.
\<close>

subsection \<open>acquire\<close>

lemma acquire_unlimited: "limit s \<le> 0 \<Longrightarrow> acquire clock recount (s, w) = (Inr (), (s, w))"
  by (simp add: acquire_def)

lemma answer_decide:
  "answer (acquire_decide lv s) (s0, w) =
     (if limit s \<le> lv then (Inl (slots_full lv (limit s)), (s, w))
      else (Inr (), (s\<lparr>pending := pending s + 1\<rparr>, w)))"
  by (simp add: answer_def acquire_decide_def)

text \<open>The three ways to leave the first atomic section under a positive limit.\<close>

lemma enter_room:
  assumes "0 < limit s" "load (snd (live now s)) < limit s"
  shows "acquire_enter hr now s
    = (Admitted, (snd (live now s))\<lparr>pending := pending s + 1\<rparr>)"
  using assms
  by (simp add: acquire_enter_def acquire_decide_def case_prod_beta slot_simps)

lemma enter_full:
  assumes "0 < limit s" "limit s \<le> load (snd (live now s))"
  shows "acquire_enter hr now s
    = (if hr then NeedResync else Full (load (snd (live now s))), snd (live now s))"
  using assms
  by (simp add: acquire_enter_def acquire_decide_def case_prod_beta slot_simps)

lemma acquire_room:
  assumes "0 < limit s" "clock w = (now, w1)" "load (snd (live now s)) < limit s"
  shows "acquire clock recount (s, w)
    = (Inr (), (snd (live now s))\<lparr>pending := pending s + 1\<rparr>, w1)"
  using assms by (simp add: acquire_def enter_room answer_def)

lemma acquire_full_no_recount:
  assumes "0 < limit s" "clock w = (now, w1)" "limit s \<le> load (snd (live now s))"
  shows "acquire clock None (s, w)
    = (Inl (slots_full (load (snd (live now s))) (limit s)), (snd (live now s), w1))"
  using assms by (simp add: acquire_def enter_full answer_def slot_simps)

text \<open>The state a resync leaves when the backend answers (\<open>Some ids\<close>) or does not know.\<close>

definition resynced :: "str set option \<Rightarrow> rat \<Rightarrow> rat \<Rightarrow> slots \<Rightarrow> slots" where
  "resynced actual now now' s = snd (resync_finish actual now' (snd (live now s)))"

lemma acquire_full_resync:
  assumes "0 < limit s" "clock w = (now, w1)" "limit s \<le> load (snd (live now s))"
    and "recount w1 = (Inr actual, w2)" "clock w2 = (now', w3)"
  shows "acquire clock (Some recount) (s, w) =
    (if limit s \<le> load (resynced actual now now' s)
     then (Inl (slots_full (load (resynced actual now now' s)) (limit s)),
           (resynced actual now now' s, w3))
     else (Inr (), ((resynced actual now now' s)
                      \<lparr>pending := pending s + 1\<rparr>, w3)))"
  using assms
  by (simp add: acquire_def enter_full resync_def bindp_apply case_prod_beta answer_decide
      resynced_def slot_simps)

lemma acquire_full_recount_fails:
  assumes "0 < limit s" "clock w = (now, w1)" "limit s \<le> load (snd (live now s))"
    and "recount w1 = (Inl e, w2)" "clock w2 = (now', w3)"
  shows "acquire clock (Some recount) (s, w) =
    (if is_Exception e
     then (let s' = resynced None now now' s
           in if limit s \<le> load s'
              then (Inl (slots_full (load s') (limit s)), (s', w3))
              else (Inr (), (s'\<lparr>pending := pending s + 1\<rparr>, w3)))
     else (Inl e, (snd (live now s), w2)))"
  using assms
  by (simp add: acquire_def enter_full resync_def bindp_apply case_prod_beta answer_decide
      resynced_def slot_simps resync_finish_def Let_def)

lemma resynced_simps [slot_simps]:
  "limit (resynced a now now' s) = limit s"
  "pending (resynced a now now' s) = pending s"
  by (simp_all add: resynced_def slot_simps)

lemma resynced_load: "load (resynced a now now' s) \<le> load (snd (live now s))"
  by (simp add: resynced_def resync_finish_load)

lemma slots_ok_resynced: "slots_ok s \<Longrightarrow> slots_ok (resynced a now now' s)"
  by (simp add: resynced_def slots_ok_resync slots_ok_live)

text \<open>
  All outcomes at once. \<open>after\<close> is the state the decision was taken on: admitted means that one more
  is reserved on top of it and the limit still holds.
\<close>

lemma acquire_outcome:
  assumes ok: "slots_ok s" and lim: "0 < limit s" and run: "acquire clock recount (s, w) = (r, s', w')"
  shows "\<exists>after. slots_ok after \<and> limit after = limit s \<and> pending after = pending s
     \<and> load after \<le> load s
     \<and> (r = Inr () \<and> load after < limit s \<and> s' = after\<lparr>pending := pending s + 1\<rparr>
        \<or> r = Inl (slots_full (load after) (limit s)) \<and> limit s \<le> load after \<and> s' = after
        \<or> r = Inl CancelledError \<and> s' = after)"
proof -
  obtain now w1 where c1: "clock w = (now, w1)" by fastforce
  let ?a = "snd (live now s)"
  have a: "slots_ok ?a" "limit ?a = limit s" "pending ?a = pending s" "load ?a \<le> load s"
    using ok by (simp_all add: slot_simps slots_ok_live live_load)
  have b: "slots_ok (resynced x now y s)" "load (resynced x now y s) \<le> load s" for x y
    using ok resynced_load [of x now y s] live_load [of now s]
    by (auto simp: slots_ok_resynced)
  consider (room) "load ?a < limit s" | (full) "limit s \<le> load ?a" "recount = None"
    | (resync) rc r1 w2 now' w3 where "limit s \<le> load ?a" "recount = Some rc"
        "rc w1 = (r1, w2)" "clock w2 = (now', w3)"
    by (cases recount) (force+)
  then show ?thesis
  proof cases
    case room
    with run acquire_room [of s clock w now w1 recount] lim c1 a show ?thesis
      by (intro exI [of _ ?a]) auto
  next
    case full
    with run acquire_full_no_recount [of s clock w now w1] lim c1 a show ?thesis
      by (intro exI [of _ ?a]) auto
  next
    case resync
    show ?thesis
    proof (cases r1)
      case (Inr actual)
      with run acquire_full_resync [of s clock w now w1 rc actual w2 now' w3] resync lim c1 b
      show ?thesis
        by (intro exI [of _ "resynced actual now now' s"]) (auto simp: slot_simps split: if_splits)
    next
      case (Inl e)
      note run' = acquire_full_recount_fails [of s clock w now w1 rc e w2 now' w3]
      show ?thesis
      proof (cases "is_Exception e")
        case True
        with Inl run run' resync lim c1 b show ?thesis
          by (intro exI [of _ "resynced None now now' s"])
             (auto simp: slot_simps Let_def split: if_splits)
      next
        case False
        with Inl run run' resync lim c1 a show ?thesis
          by (intro exI [of _ ?a]) (auto simp: is_Exception_def)
      qed
    qed
  qed
qed

subsection \<open>How long a slot lives\<close>

lemma slot_ids_live:
  "sid \<in> set (slot_ids (snd (live now s))) \<longleftrightarrow> (\<exists>d. (sid, d) \<in> set (deadlines s) \<and> now < d)"
  by (force simp: slot_ids_def slot_simps)

lemma committed_slot:
  assumes "0 < limit s" and ok: "slots_ok s"
  shows "sid \<in> set (slot_ids (snd (live now (commit sid t now0 s))))
    \<longleftrightarrow> now < now0 + of_int (max 0 t)"
proof -
  let ?v = "now0 + of_int (max 0 t) :: rat"
  let ?al = "AList.update sid ?v (deadlines s)"
  have dl: "deadlines (commit sid t now0 s) = ?al"
    using assms(1) by (simp add: commit_def)
  have dist: "distinct (map fst ?al)"
    using ok by (simp add: slots_ok_def slot_ids_def distinct_update)
  have "(sid, d) \<in> set ?al \<longleftrightarrow> d = ?v" for d
    using map_of_eq_Some_iff [OF dist, of sid d] by (auto simp: update_conv')
  then show ?thesis by (simp add: slot_ids_live dl)
qed

lemma commit_keeps_others:
  assumes "sid' \<noteq> sid"
  shows "(sid', d) \<in> set (deadlines (commit sid t now s)) \<longleftrightarrow> (sid', d) \<in> set (deadlines s)"
proof -
  have "(sid', d) \<in> set (AList.update sid v al) \<longleftrightarrow> (sid', d) \<in> set al"
    for v and al :: "(str \<times> rat) list"
    using assms by (induction al) auto
  then show ?thesis by (simp add: commit_def)
qed

lemma released_slot: "sid \<notin> set (slot_ids (release sid s))"
  by (auto simp: slot_ids_def release_def AList.delete_eq)

text \<open>What a resync drops: the sessions the backend no longer reports, and the expired ones.\<close>

lemma resync_keeps:
  "sid \<in> set (slot_ids (snd (resync_finish (Some ids) now s)))
     \<longleftrightarrow> sid \<in> ids \<and> (\<exists>d. (sid, d) \<in> set (deadlines s) \<and> now < d)"
  by (auto simp: resync_finish_def slot_ids_live slot_simps)

subsection \<open>The reservation protocol\<close>

text \<open>
  The shape of \<^verbatim>\<open>create_session\<close>: acquire; create; on any \<^verbatim>\<open>BaseException\<close> roll back and re-raise;
  otherwise commit.
\<close>

definition with_slot ::
  "('st, unit) prog \<Rightarrow> ('st, str) prog \<Rightarrow> ('st \<Rightarrow> 'st) \<Rightarrow> (str \<Rightarrow> 'st \<Rightarrow> 'st) \<Rightarrow> ('st, str) prog" where
  "with_slot acq create roll com =
     bindp acq (\<lambda>_.
     bindp (catchp create (\<lambda>e st. (Inl e, roll st))) (\<lambda>sid st. (Inr sid, com sid st)))"

locale admission =
  fixes acq :: "('st, unit) prog" and create :: "('st, str) prog"
    and roll :: "'st \<Rightarrow> 'st" and com :: "str \<Rightarrow> 'st \<Rightarrow> 'st"
    and used :: "'st \<Rightarrow> int" and reserved :: "'st \<Rightarrow> bool" and good :: "'st \<Rightarrow> bool" and cap :: int
  assumes acq_admits: "good st \<Longrightarrow> acq st = (Inr u, st') \<Longrightarrow>
      good st' \<and> reserved st' \<and> used st' \<le> cap \<and> used st' \<le> used st + 1"
    and acq_refuses: "good st \<Longrightarrow> acq st = (Inl e, st') \<Longrightarrow> good st' \<and> used st' \<le> used st"
    and create_frame: "good st \<Longrightarrow> create st = (r, st') \<Longrightarrow>
      good st' \<and> used st' = used st \<and> (reserved st \<longrightarrow> reserved st')"
    and roll_frees: "good st \<Longrightarrow> reserved st \<Longrightarrow> good (roll st) \<and> used (roll st) = used st - 1"
    and com_keeps: "good st \<Longrightarrow> reserved st \<Longrightarrow> good (com sid st) \<and> used (com sid st) \<le> used st"
begin

lemma with_slot_success:
  assumes "good st" "with_slot acq create roll com st = (Inr sid, st')"
  shows "good st' \<and> used st' \<le> cap \<and> used st' \<le> used st + 1"
proof -
  from assms(2) obtain u st1 st2 where a: "acq st = (Inr u, st1)" and c: "create st1 = (Inr sid, st2)"
    and st': "st' = com sid st2"
    unfolding with_slot_def bindp_eq_Inr catchp_eq_Inr by auto
  show ?thesis
    using acq_admits [OF assms(1) a] create_frame [OF _ c] com_keeps [of st2 sid] st' by force
qed

lemma with_slot_failure:
  assumes "good st" "with_slot acq create roll com st = (Inl e, st')"
  shows "good st' \<and> used st' \<le> used st"
proof -
  from assms(2) consider (refused) "acq st = (Inl e, st')"
    | (failed) u st1 st2 where "acq st = (Inr u, st1)" "create st1 = (Inl e, st2)" "st' = roll st2"
    unfolding with_slot_def bindp_eq_Inl catchp_eq_Inl by auto
  then show ?thesis
  proof cases
    case refused
    then show ?thesis using acq_refuses assms(1) by blast
  next
    case failed
    with acq_admits [OF assms(1)] create_frame [of st1] roll_frees [of st2] show ?thesis by force
  qed
qed

end

text \<open>The world of a handler: the slots, and the outside a provider call works on.\<close>

definition on_world :: "('w, 'a) prog \<Rightarrow> (slots \<times> 'w, 'a) prog" where
  "on_world m = (\<lambda>(s, w). let (r, w') = m w in (r, (s, w')))"

definition commit_at :: "('w \<Rightarrow> rat \<times> 'w) \<Rightarrow> int \<Rightarrow> str \<Rightarrow> slots \<times> 'w \<Rightarrow> slots \<times> 'w" where
  "commit_at clock timeout_seconds sid =
     (\<lambda>(s, w). let (now, w') = clock w in (commit sid timeout_seconds now s, w'))"

interpretation slot_admission: admission
  "acquire clock recount" "on_world create" "map_prod rollback id" "commit_at clock t"
  "\<lambda>(s, w). load s" "\<lambda>(s, w). 1 \<le> pending s"
  "\<lambda>(s, w). slots_ok s \<and> limit s = cap \<and> 0 < cap" cap
  for clock :: "'w \<Rightarrow> rat \<times> 'w" and recount create t cap
proof (unfold_locales, goal_cases)
  case (1 st u st')
  obtain s w s' w' where st: "st = (s, w)" "st' = (s', w')" by fastforce
  with 1 have "slots_ok s" "0 < limit s" "acquire clock recount (s, w) = (Inr u, s', w')" by auto
  from acquire_outcome [OF this] 1 st show ?case
    by (auto simp: slots_ok_def slot_ids_def load_def)
next
  case (2 st e st')
  obtain s w s' w' where st: "st = (s, w)" "st' = (s', w')" by fastforce
  with 2 have "slots_ok s" "0 < limit s" "acquire clock recount (s, w) = (Inl e, s', w')" by auto
  from acquire_outcome [OF this] 2 st show ?case by auto
next
  case (3 st r st')
  then show ?case by (auto simp: on_world_def split: prod.splits)
next
  case (4 st)
  then show ?case by (auto simp: slots_ok_rollback slot_simps rollback_load)
next
  case (5 st sid)
  then show ?case by (auto simp: commit_at_def slots_ok_commit slot_simps commit_load split: prod.splits)
qed

end
