(* ===== verification/Codec.thy ===== *)
theory Codec
  imports Py_Text
begin

section \<open>Text encodings: UTF-8, Latin-1, base64\<close>

text \<open>
  The codecs of the standard library that the service calls: \<^verbatim>\<open>str.encode("utf-8")\<close> (which
  refuses lone surrogates), \<^verbatim>\<open>bytes.decode("utf-8")\<close> strict and with \<^verbatim>\<open>errors="replace"\<close>,
  \<^verbatim>\<open>encode("latin-1", errors="replace")\<close> and \<^verbatim>\<open>base64.b64encode\<close>. Bytes are handled by their
  values. The decoder follows CPython: one step consumes a well-formed sequence, or the maximal
  ill-formed prefix of one, which \<open>replace\<close> turns into one U+FFFD and \<open>strict\<close> refuses.
\<close>

subsection \<open>UTF-8\<close>

definition is_scalar :: "nat \<Rightarrow> bool" where
  "is_scalar c \<longleftrightarrow> c < 55296 \<or> (57343 < c \<and> c < 1114112)"

definition enc_cp :: "nat \<Rightarrow> nat list" where
  "enc_cp c =
     (if c < 128 then [c]
      else if c < 2048 then [192 + c div 64, 128 + c mod 64]
      else if c < 65536 then [224 + c div 4096, 128 + c div 64 mod 64, 128 + c mod 64]
      else [240 + c div 262144, 128 + c div 4096 mod 64, 128 + c div 64 mod 64, 128 + c mod 64])"

definition of_byte_values :: "nat list \<Rightarrow> bytes" where
  "of_byte_values vs = map char_of vs"

definition byte_values :: "bytes \<Rightarrow> nat list" where
  "byte_values b = map of_char b"

definition utf8_encode :: "str \<Rightarrow> exn + bytes" where
  "utf8_encode s =
     (if \<forall>c \<in> set s. is_scalar c then Inr (of_byte_values (concat (map enc_cp s)))
      else Inl (PyError ''UnicodeEncodeError'' []))"

text \<open>\<^verbatim>\<open>encode("utf-8", errors="replace")\<close>: a lone surrogate becomes a question mark.\<close>

definition utf8_encode_replace :: "str \<Rightarrow> bytes" where
  "utf8_encode_replace s =
     of_byte_values (concat (map (\<lambda>c. if is_scalar c then enc_cp c else [63]) s))"

definition is_cont :: "nat \<Rightarrow> bool" where
  "is_cont v \<longleftrightarrow> 128 \<le> v \<and> v < 192"

definition second3 :: "nat \<Rightarrow> nat \<Rightarrow> bool" where
  "second3 b v \<longleftrightarrow> is_cont v \<and> (b = 224 \<longrightarrow> 160 \<le> v) \<and> (b = 237 \<longrightarrow> v < 160)"

definition second4 :: "nat \<Rightarrow> nat \<Rightarrow> bool" where
  "second4 b v \<longleftrightarrow> is_cont v \<and> (b = 240 \<longrightarrow> 144 \<le> v) \<and> (b = 244 \<longrightarrow> v < 144)"

definition next_two :: "nat \<Rightarrow> nat list \<Rightarrow> nat option \<times> nat list" where
  "next_two b bs =
     (case bs of [] \<Rightarrow> (None, [])
      | v1 # r1 \<Rightarrow>
          if is_cont v1 then (Some ((b - 192) * 64 + (v1 - 128)), r1) else (None, bs))"

definition next_three :: "nat \<Rightarrow> nat list \<Rightarrow> nat option \<times> nat list" where
  "next_three b bs =
     (case bs of [] \<Rightarrow> (None, [])
      | v1 # r1 \<Rightarrow>
          if second3 b v1 then
            (case r1 of [] \<Rightarrow> (None, [])
             | v2 # r2 \<Rightarrow>
                 if is_cont v2
                 then (Some ((b - 224) * 4096 + (v1 - 128) * 64 + (v2 - 128)), r2)
                 else (None, r1))
          else (None, bs))"

definition next_four :: "nat \<Rightarrow> nat list \<Rightarrow> nat option \<times> nat list" where
  "next_four b bs =
     (case bs of [] \<Rightarrow> (None, [])
      | v1 # r1 \<Rightarrow>
          if second4 b v1 then
            (case r1 of [] \<Rightarrow> (None, [])
             | v2 # r2 \<Rightarrow>
                 if is_cont v2 then
                   (case r2 of [] \<Rightarrow> (None, [])
                    | v3 # r3 \<Rightarrow>
                        if is_cont v3
                        then (Some ((b - 240) * 262144 + (v1 - 128) * 4096
                                    + (v2 - 128) * 64 + (v3 - 128)), r3)
                        else (None, r2))
                 else (None, r1))
          else (None, bs))"

definition utf8_next :: "nat \<Rightarrow> nat list \<Rightarrow> nat option \<times> nat list" where
  "utf8_next b bs =
     (if b < 128 then (Some b, bs)
      else if 194 \<le> b \<and> b \<le> 223 then next_two b bs
      else if 224 \<le> b \<and> b \<le> 239 then next_three b bs
      else if 240 \<le> b \<and> b \<le> 244 then next_four b bs
      else (None, bs))"

lemmas next_defs = next_two_def next_three_def next_four_def

lemma utf8_next_shrinks: "length (snd (utf8_next b bs)) \<le> length bs"
  unfolding utf8_next_def next_defs by (auto split: list.splits)

function decode_cps :: "nat list \<Rightarrow> nat option list" where
  "decode_cps [] = []"
| "decode_cps (b # bs) = fst (utf8_next b bs) # decode_cps (snd (utf8_next b bs))"
  by pat_completeness auto
termination
  by (relation "measure length") (auto simp: le_imp_less_Suc utf8_next_shrinks)

definition utf8_decode :: "bytes \<Rightarrow> exn + str" where
  "utf8_decode b =
     (let r = decode_cps (byte_values b)
      in if None \<in> set r then Inl (PyError ''UnicodeDecodeError'' []) else Inr (map the r))"

definition utf8_decode_replace :: "bytes \<Rightarrow> str" where
  "utf8_decode_replace b =
     map (\<lambda>r. case r of None \<Rightarrow> 65533 | Some c \<Rightarrow> c) (decode_cps (byte_values b))"

lemma length_values [simp]: "length (byte_values b) = length b"
  by (simp add: byte_values_def)

lemma byte_values_bound: "v \<in> set (byte_values b) \<Longrightarrow> v < 256"
  by (auto simp: byte_values_def)

lemma values_of_byte_values: "(\<forall>v \<in> set vs. v < 256) \<Longrightarrow> byte_values (of_byte_values vs) = vs"
  by (induction vs) (auto simp: byte_values_def of_byte_values_def)

lemma of_byte_values_values [simp]: "of_byte_values (byte_values b) = b"
  by (simp add: byte_values_def of_byte_values_def comp_def)

lemma enc_cp_nonempty [simp]: "enc_cp c \<noteq> []"
  by (simp add: enc_cp_def)

lemma enc_cp_bound: "c < 1114112 \<Longrightarrow> v \<in> set (enc_cp c) \<Longrightarrow> v < 256"
  by (auto simp: enc_cp_def split: if_splits)

lemma is_scalar_bound: "is_scalar c \<Longrightarrow> c < 1114112"
  by (auto simp: is_scalar_def)

lemma length_enc_cp: "1 \<le> length (enc_cp c) \<and> length (enc_cp c) \<le> 4"
  by (simp add: enc_cp_def)

lemma split64: "(c::nat) = 64 * (c div 64) + c mod 64"
  by simp
lemma split4096: "(c::nat) = 4096 * (c div 4096) + 64 * (c div 64 mod 64) + c mod 64"
proof -
  have "c div 4096 = c div 64 div 64" by (simp add: div_mult2_eq [symmetric])
  then show ?thesis using split64 [of c] split64 [of "c div 64"] by linarith
qed
lemma split262144:
  "(c::nat) = 262144 * (c div 262144) + 4096 * (c div 4096 mod 64) + 64 * (c div 64 mod 64) + c mod 64"
proof -
  have "c div 262144 = c div 4096 div 64" by (simp add: div_mult2_eq [symmetric])
  then show ?thesis using split4096 [of c] split64 [of "c div 4096"] by linarith
qed

lemma next_enc2:
  assumes "128 \<le> c" "c < 2048"
  shows "utf8_next (192 + c div 64) ((128 + c mod 64) # r) = (Some c, r)"
proof -
  have "2 \<le> c div 64" "c div 64 < 32" using assms by auto
  then show ?thesis using assms by (simp add: utf8_next_def next_defs is_cont_def)
qed

lemma next_enc3:
  assumes "2048 \<le> c" "c < 65536" "is_scalar c"
  shows "utf8_next (224 + c div 4096) ((128 + c div 64 mod 64) # (128 + c mod 64) # r) = (Some c, r)"
proof -
  define a b d where abd: "a = c div 4096" "b = c div 64 mod 64" "d = c mod 64"
  have c: "c = 4096 * a + 64 * b + d" using split4096 [of c] by (simp add: abd)
  have bd: "b < 64" "d < 64" "a < 16" using assms by (auto simp: abd)
  have lo: "a = 0 \<Longrightarrow> 32 \<le> b" using assms c bd by simp
  have sur: "a = 13 \<Longrightarrow> b < 32"
    using assms(3) c bd unfolding is_scalar_def by auto
  have "utf8_next (224 + a) ((128 + b) # (128 + d) # r) = (Some c, r)"
    using c bd lo sur by (simp add: utf8_next_def next_defs second3_def is_cont_def)
  then show ?thesis by (simp add: abd)
qed

lemma next_enc4:
  assumes "65536 \<le> c" "c < 1114112"
  shows "utf8_next (240 + c div 262144)
     ((128 + c div 4096 mod 64) # (128 + c div 64 mod 64) # (128 + c mod 64) # r) = (Some c, r)"
proof -
  define a b d e where abd: "a = c div 262144" "b = c div 4096 mod 64" "d = c div 64 mod 64" "e = c mod 64"
  have c: "c = 262144 * a + 4096 * b + 64 * d + e" using split262144 [of c] by (simp add: abd)
  have bd: "b < 64" "d < 64" "e < 64" "a \<le> 4" using assms by (auto simp: abd)
  have lo: "a = 0 \<Longrightarrow> 16 \<le> b" using assms c bd by simp
  have hi: "a = 4 \<Longrightarrow> b < 16" using assms c bd by simp
  have "utf8_next (240 + a) ((128 + b) # (128 + d) # (128 + e) # r) = (Some c, r)"
    using c bd lo hi by (simp add: utf8_next_def next_defs second4_def is_cont_def)
  then show ?thesis by (simp add: abd)
qed

lemma next_enc: "is_scalar c \<Longrightarrow> enc_cp c = b # t \<Longrightarrow> utf8_next b (t @ r) = (Some c, r)"
  using next_enc2 [of c r] next_enc3 [of c r] next_enc4 [of c r]
  by (auto simp: enc_cp_def is_scalar_bound utf8_next_def [of b] split: if_splits)

lemma div64 [simp]: "(b::nat) < 64 \<Longrightarrow> (64 * a + b) div 64 = a"
  and mod64 [simp]: "(b::nat) < 64 \<Longrightarrow> (64 * a + b) mod 64 = b"
  by auto

lemma enc_two: "2 \<le> x \<Longrightarrow> x < 32 \<Longrightarrow> y < 64 \<Longrightarrow> enc_cp (64 * x + y) = [192 + x, 128 + y]"
  by (simp add: enc_cp_def)

lemma enc_three:
  assumes "x < 16" "y < 64" "z < 64" "x = 0 \<Longrightarrow> 32 \<le> y"
  shows "enc_cp (64 * (64 * x + y) + z) = [224 + x, 128 + y, 128 + z]"
proof -
  let ?c = "64 * (64 * x + y) + z"
  have q: "?c div 64 = 64 * x + y" using assms by simp
  then have "?c div 4096 = x" using assms div_mult2_eq [of ?c 64 64] by simp
  moreover have "2048 \<le> ?c" using assms by (cases "x = 0") auto
  moreover have "?c < 65536"
  proof -
    have "64 * (64 * x + y) + z \<le> 64 * (64 * 15 + 63) + 63"
      using assms(1-3) by (intro add_mono mult_mono) auto
    then show ?thesis by simp
  qed
  moreover have "?c mod 64 = z" using assms(3) by (rule mod64)
  ultimately show ?thesis using q assms by (simp add: enc_cp_def)
qed

lemma enc_four:
  assumes "x \<le> 4" "y < 64" "z < 64" "u < 64" "x = 0 \<Longrightarrow> 16 \<le> y"
  shows "enc_cp (64 * (64 * (64 * x + y) + z) + u) = [240 + x, 128 + y, 128 + z, 128 + u]"
proof -
  let ?c = "64 * (64 * (64 * x + y) + z) + u"
  have q: "?c div 64 = 64 * (64 * x + y) + z" using assms by simp
  then have q2: "?c div 4096 = 64 * x + y" using assms div_mult2_eq [of ?c 64 64] by simp
  then have "?c div 262144 = x" using assms div_mult2_eq [of ?c 4096 64] by simp
  moreover have "65536 \<le> ?c" using assms by (cases "x = 0") auto
  moreover have "?c mod 64 = u" "?c div 64 mod 64 = z" "?c div 4096 mod 64 = y"
    unfolding q q2 using assms(2-4) by (auto intro: mod64 simp del: distrib_left distrib_left_numeral)
  ultimately show ?thesis using q q2 by (simp add: enc_cp_def)
qed

lemma offset: "(k::nat) \<le> v \<Longrightarrow> \<exists>y. v = k + y"
  by (rule le_Suc_ex)

lemma next_sound2:
  assumes "194 \<le> b" "b \<le> 223" "next_two b bs = (Some c, r)"
  shows "is_scalar c \<and> enc_cp c @ r = b # bs"
proof -
  from assms obtain v where bs: "bs = v # r" and v: "128 \<le> v" "v < 192"
     and c: "c = (b - 192) * 64 + (v - 128)"
    by (auto simp: next_two_def is_cont_def split: list.splits if_splits)
  obtain y where y: "v = 128 + y" using offset [OF v(1)] by blast
  obtain x where x: "b = 194 + x" using offset [OF assms(1)] by blast
  have "c = 64 * (x + 2) + y" using c x y by simp
  then show ?thesis using enc_two [of "x + 2" y] bs v y x assms
    by (simp add: is_scalar_def)
qed

lemma next_sound3:
  assumes "224 \<le> b" "b \<le> 239" "next_three b bs = (Some c, r)"
  shows "is_scalar c \<and> enc_cp c @ r = b # bs"
proof -
  from assms obtain v w where bs: "bs = v # w # r" and v: "second3 b v" "is_cont w"
     and c: "c = (b - 224) * 4096 + (v - 128) * 64 + (w - 128)"
    by (auto simp: next_three_def split: list.splits if_splits)
  obtain x where x: "b = 224 + x" using offset [OF assms(1)] by blast
  from v obtain y z where yz: "v = 128 + y" "w = 128 + z"
    using offset unfolding second3_def is_cont_def by metis
  have lt: "x < 16" "y < 64" "z < 64" "x = 0 \<Longrightarrow> 32 \<le> y" "x = 13 \<Longrightarrow> y < 32"
    using assms x yz v by (auto simp: second3_def is_cont_def)
  have c': "c = 64 * (64 * x + y) + z" using c x yz by simp
  have "is_scalar c" using c' lt unfolding is_scalar_def by (cases "x = 13") auto
  then show ?thesis using enc_three [of x y z] lt c' bs x yz by simp
qed

lemma next_sound4:
  assumes "240 \<le> b" "b \<le> 244" "next_four b bs = (Some c, r)"
  shows "is_scalar c \<and> enc_cp c @ r = b # bs"
proof -
  from assms obtain v w u where bs: "bs = v # w # u # r" and v: "second4 b v" "is_cont w" "is_cont u"
     and c: "c = (b - 240) * 262144 + (v - 128) * 4096 + (w - 128) * 64 + (u - 128)"
    by (auto simp: next_four_def split: list.splits if_splits)
  obtain x where x: "b = 240 + x" using offset [OF assms(1)] by blast
  from v obtain y z t where yz: "v = 128 + y" "w = 128 + z" "u = 128 + t"
    using offset unfolding second4_def is_cont_def by metis
  have lt: "x \<le> 4" "y < 64" "z < 64" "t < 64" "x = 0 \<Longrightarrow> 16 \<le> y" "x = 4 \<Longrightarrow> y < 16"
    using assms x yz v by (auto simp: second4_def is_cont_def)
  have c': "c = 64 * (64 * (64 * x + y) + z) + t" using c x yz by simp
  have "65536 \<le> c" using c' lt by (cases "x = 0") auto
  moreover have "c < 1114112" using c' lt by (cases "x = 4") auto
  ultimately have "is_scalar c" by (simp add: is_scalar_def)
  then show ?thesis using enc_four [of x y z t] lt c' bs x yz by simp
qed

lemma next_sound: "utf8_next b bs = (Some c, r) \<Longrightarrow> is_scalar c \<and> enc_cp c @ r = b # bs"
  using next_sound2 [of b bs c r] next_sound3 [of b bs c r] next_sound4 [of b bs c r]
  unfolding utf8_next_def
  by (auto simp: is_scalar_def enc_cp_def split: if_splits)

lemma decode_cps_encode:
  "(\<forall>c \<in> set s. is_scalar c) \<Longrightarrow> decode_cps (concat (map enc_cp s)) = map Some s"
proof (induction s)
  case (Cons c s)
  obtain b t where bt: "enc_cp c = b # t" by (cases "enc_cp c") auto
  with Cons show ?case by (simp add: next_enc [OF _ bt])
qed simp

lemma decode_cps_sound:
  "None \<notin> set (decode_cps vs) \<Longrightarrow>
   (\<forall>c \<in> set (map the (decode_cps vs)). is_scalar c)
   \<and> concat (map enc_cp (map the (decode_cps vs))) = vs"
proof (induction vs rule: decode_cps.induct)
  case (2 b bs)
  obtain c r where n: "utf8_next b bs = (Some c, r)"
    using "2.prems" by (cases "utf8_next b bs") (auto, metis option.exhaust)
  from next_sound [OF n] show ?case using 2 n by auto
qed simp

lemma decode_cps_scalar: "Some c \<in> set (decode_cps vs) \<Longrightarrow> is_scalar c"
proof (induction vs rule: decode_cps.induct)
  case (2 b bs)
  then show ?case using next_sound [of b bs c "snd (utf8_next b bs)"]
    by (auto simp: prod_eq_iff)
qed simp

lemma length_decode_cps: "length (decode_cps vs) \<le> length vs"
proof (induction vs rule: decode_cps.induct)
  case (2 b bs)
  then show ?case using utf8_next_shrinks [of b bs] by simp
qed simp

lemma concat_enc_cp_bound:
  "(\<forall>c \<in> set s. is_scalar c) \<Longrightarrow> \<forall>v \<in> set (concat (map enc_cp s)). v < 256"
  using enc_cp_bound is_scalar_bound by auto

lemma utf8_encode_eq_Inr:
  "utf8_encode s = Inr b \<longleftrightarrow>
     (\<forall>c \<in> set s. is_scalar c) \<and> b = of_byte_values (concat (map enc_cp s))"
  by (auto simp: utf8_encode_def)

lemma utf8_encode_lit:
  assumes "\<forall>c \<in> set (lit s). c < 128"
  shows "utf8_encode (lit s) = Inr s"
proof -
  have "concat (map enc_cp (lit s)) = lit s"
    using assms by (induction s) (auto simp: lit_def enc_cp_def)
  moreover have "of_byte_values (lit s) = s"
    by (simp add: of_byte_values_def lit_def comp_def)
  ultimately show ?thesis using assms by (auto simp: utf8_encode_def is_scalar_def)
qed

lemma utf8_decode_encode: "utf8_encode s = Inr b \<Longrightarrow> utf8_decode b = Inr s"
  by (auto simp: utf8_encode_eq_Inr utf8_decode_def values_of_byte_values
        concat_enc_cp_bound decode_cps_encode comp_def)

lemma utf8_encode_decode: "utf8_decode b = Inr s \<Longrightarrow> utf8_encode s = Inr b"
  using decode_cps_sound [of "byte_values b"]
  by (auto simp: utf8_decode_def utf8_encode_eq_Inr Let_def split: if_splits)

lemma utf8_decode_replace_strict: "utf8_decode b = Inr s \<Longrightarrow> utf8_decode_replace b = s"
  by (auto simp: utf8_decode_def utf8_decode_replace_def Let_def
        split: if_splits option.splits)

lemma length_utf8_decode_replace: "length (utf8_decode_replace b) \<le> length b"
  using length_decode_cps [of "byte_values b"] by (simp add: utf8_decode_replace_def)

lemma utf8_decode_replace_scalar: "c \<in> set (utf8_decode_replace b) \<Longrightarrow> is_scalar c"
proof -
  assume "c \<in> set (utf8_decode_replace b)"
  then obtain r where "r \<in> set (decode_cps (byte_values b))"
    and "c = (case r of None \<Rightarrow> 65533 | Some c \<Rightarrow> c)"
    by (auto simp: utf8_decode_replace_def)
  then show ?thesis
    by (auto simp: is_scalar_def [of 65533] dest: decode_cps_scalar split: option.splits)
qed

lemma utf8_decode_length: "utf8_decode b = Inr s \<Longrightarrow> length s \<le> length b"
  using length_utf8_decode_replace [of b] by (auto dest: utf8_decode_replace_strict)

subsection \<open>Latin-1\<close>

text \<open>
  HTTP header values reach the application decoded as Latin-1, one character per byte;
  \<^verbatim>\<open>encode("latin-1", errors="replace")\<close> puts a question mark for anything above U+00FF.
\<close>

definition latin1_decode :: "bytes \<Rightarrow> str" where
  "latin1_decode b = byte_values b"

definition latin1_encode_replace :: "str \<Rightarrow> bytes" where
  "latin1_encode_replace s = of_byte_values (map (\<lambda>c. if c < 256 then c else 63) s)"

lemma latin1_roundtrip [simp]: "latin1_encode_replace (latin1_decode b) = b"
proof -
  have "map (\<lambda>c. if c < 256 then c else 63) (byte_values b) = byte_values b"
    by (rule map_idI) (use byte_values_bound in auto)
  then show ?thesis by (simp add: latin1_encode_replace_def latin1_decode_def)
qed

subsection \<open>base64\<close>

definition b64_char :: "nat \<Rightarrow> nat" where
  "b64_char n =
     (if n < 26 then 65 + n else if n < 52 then 71 + n else if n < 62 then n - 4
      else if n = 62 then 43 else 47)"

fun b64_values :: "nat list \<Rightarrow> str" where
  "b64_values [] = []"
| "b64_values [a] = [b64_char (a div 4), b64_char (a mod 4 * 16), 61, 61]"
| "b64_values [a, b] =
     [b64_char (a div 4), b64_char (a mod 4 * 16 + b div 16), b64_char (b mod 16 * 4), 61]"
| "b64_values (a # b # c # r) =
     b64_char (a div 4) # b64_char (a mod 4 * 16 + b div 16)
       # b64_char (b mod 16 * 4 + c div 64) # b64_char (c mod 64) # b64_values r"

text \<open>\<^verbatim>\<open>base64.b64encode(b).decode()\<close>.\<close>

definition b64encode :: "bytes \<Rightarrow> str" where
  "b64encode b = b64_values (byte_values b)"

text \<open>The inverse of RFC 4648, on padded texts without line breaks.\<close>

definition b64_digit :: "nat \<Rightarrow> nat option" where
  "b64_digit c =
     (if 65 \<le> c \<and> c \<le> 90 then Some (c - 65) else if 97 \<le> c \<and> c \<le> 122 then Some (c - 71)
      else if 48 \<le> c \<and> c \<le> 57 then Some (c + 4) else if c = 43 then Some 62
      else if c = 47 then Some 63 else None)"

fun b64_decode :: "str \<Rightarrow> nat list option" where
  "b64_decode [] = Some []"
| "b64_decode (w # x # y # z # r) =
     (case (b64_digit w, b64_digit x) of
        (Some w', Some x') \<Rightarrow>
          (if y = 61 \<and> z = 61 \<and> r = [] then Some [w' * 4 + x' div 16]
           else case b64_digit y of None \<Rightarrow> None
                | Some y' \<Rightarrow>
                    if z = 61 \<and> r = [] then Some [w' * 4 + x' div 16, x' mod 16 * 16 + y' div 4]
                    else case (b64_digit z, b64_decode r) of
                           (Some z', Some vs) \<Rightarrow>
                             Some ((w' * 4 + x' div 16) # (x' mod 16 * 16 + y' div 4)
                                   # (y' mod 4 * 64 + z') # vs)
                         | _ \<Rightarrow> None)
      | _ \<Rightarrow> None)"
| "b64_decode _ = None"

definition b64decode :: "str \<Rightarrow> bytes option" where
  "b64decode s = map_option of_byte_values (b64_decode s)"

lemma b64_digit_char [simp]: "n < 64 \<Longrightarrow> b64_digit (b64_char n) = Some n"
  by (auto simp: b64_digit_def b64_char_def)

lemma b64_char_not_pad [simp]: "n < 64 \<Longrightarrow> b64_char n \<noteq> 61"
  by (auto simp: b64_char_def)

lemma b64_decode_values: "(\<forall>v \<in> set vs. v < 256) \<Longrightarrow> b64_decode (b64_values vs) = Some vs"
proof (induction vs rule: b64_values.induct)
  case (2 a)
  then have "a div 4 < 64" "a mod 4 * 16 < 64" by auto
  then show ?case by simp
next
  case (3 a b)
  have "a mod 4 < 4" "b mod 16 < 16" by simp_all
  with 3 have "a div 4 < 64" "a mod 4 * 16 + b div 16 < 64" "b mod 16 * 4 < 64" "b div 16 < 16"
    by auto
  then show ?case by simp
next
  case (4 a b c r)
  have "a mod 4 < 4" "b mod 16 < 16" "c mod 64 < 64" by simp_all
  with 4 have "a div 4 < 64" "a mod 4 * 16 + b div 16 < 64" "b mod 16 * 4 + c div 64 < 64"
    "b div 16 < 16" "c div 64 < 4" by auto
  with 4 show ?case by simp
qed simp

lemma b64decode_b64encode [simp]: "b64decode (b64encode b) = Some b"
  using byte_values_bound by (simp add: b64decode_def b64encode_def b64_decode_values)

lemma length_b64encode: "length (b64encode b) = 4 * ((length b + 2) div 3)"
proof -
  have "length (b64_values vs) = 4 * ((length vs + 2) div 3)" for vs
  proof (induction vs rule: b64_values.induct)
    case (4 a b c r)
    have "(length r + 5) div 3 = Suc ((length r + 2) div 3)" by presburger
    with 4 show ?case by (simp add: add.commute)
  qed simp_all
  then show ?thesis by (simp add: b64encode_def)
qed

text \<open>The characters before the padding: as many as carry the bits of the payload.\<close>

lemma rstrip_b64_values:
  assumes "\<forall>v \<in> set vs. v < 256" and P: "\<And>n. n < 64 \<Longrightarrow> \<not> P (b64_char n)" and "P 61"
  shows "length (rstrip_by P (b64_values vs)) = (4 * length vs + 2) div 3"
  using assms(1)
proof (induction vs rule: b64_values.induct)
  case 1
  then show ?case by simp
next
  case (2 a)
  then have "\<not> P (b64_char (a mod 4 * 16))" by (intro P) auto
  with \<open>P 61\<close> show ?case by (simp add: rstrip_by_def)
next
  case (3 a b)
  then have "\<not> P (b64_char (b mod 16 * 4))" by (intro P) auto
  with \<open>P 61\<close> show ?case by (simp add: rstrip_by_def)
next
  case (4 a b c r)
  let ?h = "[b64_char (a div 4), b64_char (a mod 4 * 16 + b div 16),
             b64_char (b mod 16 * 4 + c div 64), b64_char (c mod 64)]"
  have np: "\<not> P (b64_char (c mod 64))" by (rule P) simp
  have "rstrip_by P (?h @ b64_values r) = ?h @ rstrip_by P (b64_values r)"
  proof -
    have "dropWhile P (rev (b64_values r) @ rev ?h) = dropWhile P (rev (b64_values r)) @ rev ?h"
    proof (cases "\<forall>c \<in> set (rev (b64_values r)). P c")
      case True
      then have "dropWhile P (rev (b64_values r)) = []" by (simp add: dropWhile_eq_Nil_conv)
      moreover have "dropWhile P (rev (b64_values r) @ rev ?h) = dropWhile P (rev ?h)"
        using True by (intro dropWhile_append2) auto
      ultimately show ?thesis using np by simp
    qed (auto simp: dropWhile_append1)
    then show ?thesis by (simp add: rstrip_by_def)
  qed
  with 4 show ?case by simp
qed

subsection \<open>The interface of a payload codec\<close>

text \<open>
  What \<^verbatim>\<open>read_file\<close> relies on: a file's bytes are put into a text, under a name for the encoding,
  and whoever knows the encoding gets the same bytes back.
\<close>

locale payload_codec =
  fixes to_text :: "bytes \<Rightarrow> str option"
    and of_text :: "str \<Rightarrow> bytes option"
  assumes recover: "to_text b = Some s \<Longrightarrow> of_text s = Some b"
begin

lemma to_text_inject: "to_text b = Some s \<Longrightarrow> to_text b' = Some s \<Longrightarrow> b = b'"
  by (drule recover, drule recover) simp

lemma recover_the: "to_text b = Some s \<Longrightarrow> the (of_text s) = b"
  by (simp add: recover)

end

definition result_option :: "exn + 'a \<Rightarrow> 'a option" where
  "result_option r = (case r of Inl _ \<Rightarrow> None | Inr a \<Rightarrow> Some a)"

lemma result_option_Some [simp]: "result_option r = Some a \<longleftrightarrow> r = Inr a"
  by (auto simp: result_option_def split: sum.splits)

interpretation utf8_payload: payload_codec
  "\<lambda>b. result_option (utf8_decode b)" "\<lambda>s. result_option (utf8_encode s)"
  by unfold_locales (simp add: utf8_encode_decode)

interpretation b64_payload: payload_codec "\<lambda>b. Some (b64encode b)" b64decode
  by unfold_locales auto

end
