(* ===== verification/Run_Cli.thy ===== *)
theory Run_Cli
  imports Codec
begin

section \<open>Running a command line: run_cli\<close>

text \<open>
  \<^verbatim>\<open>run_cli\<close> of \<^verbatim>\<open>providers/base.py\<close>: start a process, pump its two output streams into capped
  buffers while they arrive, feed its stdin, and give up at a deadline. The operating system and
  the clock are parameters, bundled in the record \<open>os\<close>; what comes back from the outside is what
  the successive \<^verbatim>\<open>stream.read\<close> calls returned and the exit code.
\<close>

definition TIMEOUT_EXIT :: int where
  "TIMEOUT_EXIT = 124"

definition timed_out_message :: bytes where
  "timed_out_message = ''sandbox: operation timed out''"

record child =
  out_reads :: "bytes list"
  err_reads :: "bytes list"
  returncode :: "int option"

text \<open>
  \<open>spawn\<close> is \<^verbatim>\<open>asyncio.create_subprocess_exec\<close> (the flag: stdin is a pipe) and returns a process
  id; \<open>gather\<close> is \<^verbatim>\<open>wait_for(gather(...), timeout)\<close> over the pumps, the feeder and \<^verbatim>\<open>proc.wait\<close>,
  \<open>None\<close> being its \<^verbatim>\<open>TimeoutError\<close>; \<open>kill_wait\<close> is \<^verbatim>\<open>proc.kill()\<close> and \<^verbatim>\<open>proc.wait()\<close>. A provider
  has two semaphores, one for data operations and one for control operations (the flag);
  \<open>sem_enter\<close> waits for a place in one and \<open>sem_exit\<close> gives it back. \<open>deadline_hit t w\<close> says
  whether an \<^verbatim>\<open>asyncio.wait_for(..., timeout=t)\<close> started in \<open>w\<close> runs out first, and the world it
  then leaves.
\<close>

record 'w os =
  spawn :: "str list \<Rightarrow> bool \<Rightarrow> ('w, nat) prog"
  gather :: "nat \<Rightarrow> bytes option \<Rightarrow> int option \<Rightarrow> ('w, child option) prog"
  kill_wait :: "nat \<Rightarrow> 'w \<Rightarrow> 'w"
  uuid4_hex :: "'w \<Rightarrow> str \<times> 'w"
  monotonic :: "'w \<Rightarrow> rat \<times> 'w"
  sem_enter :: "bool \<Rightarrow> ('w, unit) prog"
  sem_exit :: "bool \<Rightarrow> 'w \<Rightarrow> 'w"
  deadline_hit :: "int \<Rightarrow> 'w \<Rightarrow> 'w option"

text \<open>\<^verbatim>\<open>async with semaphore: body\<close>: the place is given back however the body ends.\<close>

definition in_lane :: "'w os \<Rightarrow> bool \<Rightarrow> ('w, 'a) prog \<Rightarrow> ('w, 'a) prog" where
  "in_lane os control body =
     bindp (sem_enter os control) (\<lambda>_ w. let (r, w') = body w in (r, sem_exit os control w'))"

definition timeout_error :: exn where
  "timeout_error = PyError ''TimeoutError'' []"

definition wait_for :: "'w os \<Rightarrow> int option \<Rightarrow> ('w, 'a) prog \<Rightarrow> ('w, 'a) prog" where
  "wait_for os timeout body = (\<lambda>w.
     case timeout of None \<Rightarrow> body w
     | Some t \<Rightarrow> (case deadline_hit os t w of Some w' \<Rightarrow> (Inl timeout_error, w') | None \<Rightarrow> body w))"

lemma in_lane_eq:
  assumes "sem_enter os control w = (Inr u, w0)" "body w0 = (r, w1)"
  shows "in_lane os control body w = (r, sem_exit os control w1)"
  using assms by (simp add: in_lane_def bindp_apply)

lemma in_lane_eq_Inr:
  "in_lane os control body w = (Inr a, w') \<longleftrightarrow>
     (\<exists>u w0 w1. sem_enter os control w = (Inr u, w0) \<and> body w0 = (Inr a, w1)
        \<and> w' = sem_exit os control w1)"
  by (auto simp: in_lane_def bindp_apply split: prod.splits sum.splits)

text \<open>
  An argument goes to the new process as a C string: a NUL in it is a \<^verbatim>\<open>ValueError\<close>, a lone
  surrogate outside U+DC80..U+DCFF a \<^verbatim>\<open>UnicodeEncodeError\<close> (file system encoding UTF-8 with
  \<^verbatim>\<open>surrogateescape\<close>).
\<close>

definition arg_error :: "str \<Rightarrow> exn option" where
  "arg_error a =
     (if \<exists>c \<in> set a. \<not> is_scalar c \<and> \<not> (56448 \<le> c \<and> c \<le> 56575)
      then Some (PyError ''UnicodeEncodeError'' [])
      else if 0 \<in> set a then Some (PyError ''ValueError'' (lit ''embedded null byte''))
      else None)"

fun argv_error :: "str list \<Rightarrow> exn option" where
  "argv_error [] = None"
| "argv_error (a # as) = (case arg_error a of Some e \<Rightarrow> Some e | None \<Rightarrow> argv_error as)"

definition create_subprocess :: "'w os \<Rightarrow> str list \<Rightarrow> bool \<Rightarrow> ('w, nat) prog" where
  "create_subprocess os argv has_stdin =
     (case argv_error argv of Some e \<Rightarrow> throw e | None \<Rightarrow> spawn os argv has_stdin)"

text \<open>
  One output pump: append what was read until an empty read (end of stream), keeping at most
  \<open>max_bytes\<close> bytes in the buffer.
\<close>

fun pump :: "int option \<Rightarrow> bytes \<Rightarrow> bytes list \<Rightarrow> bytes" where
  "pump max_bytes buf [] = buf"
| "pump max_bytes buf (chunk # reads) =
     (if chunk = [] then buf
      else case max_bytes of
        None \<Rightarrow> pump max_bytes (buf @ chunk) reads
      | Some m \<Rightarrow>
          (let room = m - int (length buf)
           in pump max_bytes (if 0 < room then buf @ py_take room chunk else buf) reads))"

text \<open>\<^verbatim>\<open>return (returncode or -1 when it is None), bytes(out), bytes(err)\<close>.\<close>

definition child_result :: "int option \<Rightarrow> child \<Rightarrow> int \<times> bytes \<times> bytes" where
  "child_result max_bytes c =
     (case returncode c of Some rc \<Rightarrow> rc | None \<Rightarrow> -1,
      pump max_bytes [] (out_reads c), pump max_bytes [] (err_reads c))"

definition run_cli ::
  "'w os \<Rightarrow> str list \<Rightarrow> bytes option \<Rightarrow> int option \<Rightarrow> int option
     \<Rightarrow> ('w, int \<times> bytes \<times> bytes) prog" where
  "run_cli os argv stdin timeout max_bytes =
     bindp (create_subprocess os argv (stdin \<noteq> None)) (\<lambda>pid.
     bindp (gather os pid stdin timeout) (\<lambda>r.
       case r of
         None \<Rightarrow> (\<lambda>w. (Inr (TIMEOUT_EXIT, [], timed_out_message), kill_wait os pid w))
       | Some c \<Rightarrow> ret (child_result max_bytes c)))"

subsection \<open>The pump keeps a prefix\<close>

text \<open>The bytes of a stream, up to its end.\<close>

definition stream_of :: "bytes list \<Rightarrow> bytes" where
  "stream_of reads = concat (takeWhile (\<lambda>c. c \<noteq> []) reads)"

lemma stream_of_simps [simp]:
  "stream_of [] = []"
  "stream_of (c # reads) = (if c = [] then [] else c @ stream_of reads)"
  by (simp_all add: stream_of_def)

lemma pump_uncapped: "pump None buf reads = buf @ stream_of reads"
  by (induction "None :: int option" buf reads rule: pump.induct) auto

lemma pump_full: "int (length buf) \<ge> m \<Longrightarrow> pump (Some m) buf reads = buf"
  by (induction reads) auto

lemma pump_capped_buf:
  "int (length buf) \<le> m \<Longrightarrow> pump (Some m) buf reads = take (nat m) (buf @ stream_of reads)"
proof (induction reads arbitrary: buf)
  case Nil
  then show ?case by simp
next
  case (Cons chunk reads)
  show ?case
  proof (cases "chunk = []")
    case True
    with Cons.prems show ?thesis by simp
  next
    case ne: False
    show ?thesis
    proof (cases "int (length buf) = m")
      case True
      then have "pump (Some m) buf reads = buf" by (simp add: pump_full)
      with True ne show ?thesis by simp
    next
      case False
      with Cons.prems have room: "0 < m - int (length buf)" by simp
      let ?k = "nat m - length buf"
      have k: "nat (m - int (length buf)) = ?k" by simp
      let ?buf = "buf @ take ?k chunk"
      have le: "int (length ?buf) \<le> m" using room by auto
      have "pump (Some m) buf (chunk # reads) = pump (Some m) ?buf reads"
        using ne room k by simp
      also have "\<dots> = take (nat m) (?buf @ stream_of reads)"
        using Cons.IH [OF le] .
      also have "\<dots> = take (nat m) (buf @ chunk @ stream_of reads)"
        using room by (cases "length chunk \<le> ?k") auto
      finally show ?thesis using ne by simp
    qed
  qed
qed

lemma pump_capped: "pump (Some m) [] reads = take (nat m) (stream_of reads)"
proof (cases "0 \<le> m")
  case True
  then show ?thesis by (simp add: pump_capped_buf)
next
  case False
  then show ?thesis by (simp add: pump_full)
qed

lemma length_pump_capped: "length (pump (Some m) [] reads) \<le> nat m"
  by (simp add: pump_capped)

subsection \<open>Capping at the stream\<close>

text \<open>
  How a capped result relates to the full one: each stream whole, or its first \<open>cap + 1\<close> bytes.
\<close>

definition capped :: "int \<Rightarrow> bytes \<Rightarrow> bytes \<Rightarrow> bool" where
  "capped cap full got \<longleftrightarrow> got = full \<or> got = take (nat (cap + 1)) full"

lemma run_cli_elim:
  assumes "run_cli os argv stdin t mb w = (Inr r, w')"
  obtains (deadline) pid w1 w2 where "create_subprocess os argv (stdin \<noteq> None) w = (Inr pid, w1)"
      "gather os pid stdin t w1 = (Inr None, w2)" "r = (TIMEOUT_EXIT, [], timed_out_message)"
      "w' = kill_wait os pid w2"
    | (exited) pid w1 c where "create_subprocess os argv (stdin \<noteq> None) w = (Inr pid, w1)"
      "gather os pid stdin t w1 = (Inr (Some c), w')" "r = child_result mb c"
proof -
  from assms obtain pid w1 g w2 where st: "create_subprocess os argv (stdin \<noteq> None) w = (Inr pid, w1)"
      "gather os pid stdin t w1 = (Inr g, w2)"
    and k: "(case g of None \<Rightarrow> (\<lambda>w. (Inr (TIMEOUT_EXIT, [], timed_out_message), kill_wait os pid w))
             | Some c \<Rightarrow> ret (child_result mb c)) w2 = (Inr r, w')"
    unfolding run_cli_def bindp_eq_Inr by blast
  show thesis
  proof (cases g)
    case None
    with st k show ?thesis by (intro deadline) auto
  next
    case (Some c)
    with st k show ?thesis by (intro exited) (auto simp: prog_simps)
  qed
qed

lemma run_cli_deadline:
  assumes "create_subprocess os argv (stdin \<noteq> None) w = (Inr pid, w1)"
    and "gather os pid stdin t w1 = (Inr None, w2)"
  shows "run_cli os argv stdin t mb w
    = (Inr (TIMEOUT_EXIT, [], timed_out_message), kill_wait os pid w2)"
  using assms by (simp add: run_cli_def prog_simps)

lemma run_cli_exited:
  assumes "create_subprocess os argv (stdin \<noteq> None) w = (Inr pid, w1)"
    and "gather os pid stdin t w1 = (Inr (Some c), w2)"
  shows "run_cli os argv stdin t mb w = (Inr (child_result mb c), w2)"
  using assms by (simp add: run_cli_def prog_simps)

lemma run_cli_uncapped:
  assumes "run_cli os argv stdin t (Some (cap + 1)) w = (Inr (rc, out, err), w')"
  shows "\<exists>full_out full_err. run_cli os argv stdin t None w = (Inr (rc, full_out, full_err), w')
    \<and> capped cap full_out out \<and> capped cap full_err err"
  using assms
proof (cases rule: run_cli_elim)
  case (deadline pid w1 w2)
  then show ?thesis using run_cli_deadline [of os argv stdin w pid w1 t w2 None]
    by (simp add: capped_def)
next
  case (exited pid w1 c)
  then show ?thesis using run_cli_exited [of os argv stdin w pid w1 t c w' None]
    by (auto simp: capped_def child_result_def pump_capped pump_uncapped)
qed

lemma run_cli_bounded:
  assumes "run_cli os argv stdin t (Some m) w = (Inr (rc, out, err), w')"
  shows "length out \<le> max (nat m) 28 \<and> length err \<le> max (nat m) 28"
  using assms
  by (cases rule: run_cli_elim)
     (auto simp: child_result_def pump_capped timed_out_message_def)

end
