(* ===== verification/Shell.thy ===== *)
theory Shell
  imports Py_Text
begin

section \<open>Shell quoting and path names\<close>

text \<open>
  \<^verbatim>\<open>shlex.quote\<close> and \<^verbatim>\<open>posixpath.dirname\<close> of the standard library, with which
  \<^verbatim>\<open>SessionOpsMixin\<close> puts caller-supplied text into \<^verbatim>\<open>sh -c\<close> scripts, and an abstract
  specification to hold the scripts against: how POSIX sh cuts a command into words (the quoting
  rules of the Shell Command Language). The reader \<open>sh_argv\<close> returns the words of the first
  simple command and the unread rest; it gives up (\<open>None\<close>) on an expansion or an open quote, so
  whatever it reads, the shell reads literally.
\<close>

subsection \<open>shlex.quote\<close>

definition shell_safe :: "nat \<Rightarrow> bool" where
  "shell_safe c \<longleftrightarrow> (65 \<le> c \<and> c \<le> 90) \<or> (97 \<le> c \<and> c \<le> 122) \<or> (48 \<le> c \<and> c \<le> 57)
     \<or> c \<in> {95, 64, 37, 43, 61, 58, 44, 46, 47, 45}"

definition esc_single :: "nat \<Rightarrow> str" where
  "esc_single c = (if c = 39 then [39, 34, 39, 34, 39] else [c])"

definition shlex_quote :: "str \<Rightarrow> str" where
  "shlex_quote s =
     (if s = [] then [39, 39]
      else if \<forall>c \<in> set s. shell_safe c then s
      else [39] @ concat (map esc_single s) @ [39])"

subsection \<open>How sh reads words\<close>

datatype quoting = Bare | Single | Double

definition sh_meta :: "nat \<Rightarrow> bool" where
  "sh_meta c \<longleftrightarrow> c \<in> {32, 9, 10, 59, 38, 124, 60, 62, 40, 41}"

definition sh_expands :: "nat \<Rightarrow> bool" where
  "sh_expands c \<longleftrightarrow> c \<in> {36, 96, 92, 42, 63, 91, 35, 126}"

fun sh_word :: "quoting \<Rightarrow> str \<Rightarrow> (str \<times> str) option" where
  "sh_word q [] = (if q = Bare then Some ([], []) else None)"
| "sh_word Bare (c # cs) =
     (if sh_meta c then Some ([], c # cs)
      else if c = 39 then sh_word Single cs
      else if c = 34 then sh_word Double cs
      else if sh_expands c then None
      else map_option (apfst ((#) c)) (sh_word Bare cs))"
| "sh_word Single (c # cs) =
     (if c = 39 then sh_word Bare cs else map_option (apfst ((#) c)) (sh_word Single cs))"
| "sh_word Double (c # cs) =
     (if c = 34 then sh_word Bare cs
      else if c = 36 \<or> c = 96 \<or> c = 92 then None
      else map_option (apfst ((#) c)) (sh_word Double cs))"

lemma sh_word_shrinks: "sh_word q s = Some (w, r) \<Longrightarrow> length r \<le> length s"
proof (induction q s arbitrary: w r rule: sh_word.induct)
  case (1 q)
  then show ?case by (auto split: if_splits)
next
  case (2 c cs)
  then show ?case by (fastforce split: if_splits)
next
  case (3 c cs)
  then show ?case by (fastforce split: if_splits)
next
  case (4 c cs)
  then show ?case by (fastforce split: if_splits)
qed

lemma sh_word_progress:
  "\<not> sh_meta c \<Longrightarrow> sh_word Bare (c # cs) = Some (w, r) \<Longrightarrow> length r < length (c # cs)"
  by (auto split: if_splits dest!: sh_word_shrinks)

function sh_argv :: "str \<Rightarrow> (str list \<times> str) option" where
  "sh_argv [] = Some ([], [])"
| "sh_argv (c # cs) =
     (if c = 32 then sh_argv cs
      else if sh_meta c then Some ([], c # cs)
      else case sh_word Bare (c # cs) of
             None \<Rightarrow> None
           | Some (w, r) \<Rightarrow> map_option (apfst ((#) w)) (sh_argv r))"
  by pat_completeness auto
termination
  by (relation "measure length") (auto dest: sh_word_progress simp del: sh_word.simps)

declare sh_argv.simps(2) [simp del]

definition word_end :: "str \<Rightarrow> bool" where
  "word_end r \<longleftrightarrow> r = [] \<or> sh_meta (hd r)"

lemma word_end_simps [simp]: "word_end []" "word_end (32 # r)" "word_end (10 # r)"
  by (simp_all add: word_end_def sh_meta_def)

lemma sh_argv_blank [simp]: "sh_argv (32 # r) = sh_argv r"
  by (simp add: sh_argv.simps)

lemma sh_argv_stop: "sh_meta c \<Longrightarrow> c \<noteq> 32 \<Longrightarrow> sh_argv (c # r) = Some ([], c # r)"
  by (simp add: sh_argv.simps)

lemma shell_safe_plain:
  "shell_safe c \<Longrightarrow> \<not> sh_meta c \<and> c \<noteq> 39 \<and> c \<noteq> 34 \<and> \<not> sh_expands c \<and> c \<noteq> 32"
  by (auto simp: shell_safe_def sh_meta_def sh_expands_def)

lemma sh_word_end: "word_end r \<Longrightarrow> sh_word Bare r = Some ([], r)"
  by (cases r) (auto simp: word_end_def)

lemma sh_word_safe:
  "(\<forall>c \<in> set s. shell_safe c) \<Longrightarrow> word_end r \<Longrightarrow> sh_word Bare (s @ r) = Some (s, r)"
  by (induction s) (auto simp: sh_word_end dest: shell_safe_plain)

lemma sh_word_escaped:
  "word_end r \<Longrightarrow> sh_word Single (concat (map esc_single s) @ 39 # r) = Some (s, r)"
  by (induction s) (auto simp: esc_single_def sh_word_end sh_expands_def sh_meta_def)

theorem sh_word_quote:
  assumes "word_end r"
  shows "sh_word Bare (shlex_quote s @ r) = Some (s, r)"
proof (cases "s = [] \<or> (\<forall>c \<in> set s. shell_safe c)")
  case True
  then show ?thesis using assms
    by (auto simp: shlex_quote_def sh_word_safe sh_word_end sh_meta_def)
next
  case False
  then have "shlex_quote s @ r = 39 # concat (map esc_single s) @ 39 # r"
    by (auto simp: shlex_quote_def)
  then show ?thesis using assms by (simp add: sh_word_escaped sh_meta_def)
qed

lemma shlex_quote_head: "\<exists>c cs. shlex_quote s = c # cs \<and> \<not> sh_meta c \<and> c \<noteq> 32"
  by (cases s) (auto simp: shlex_quote_def sh_meta_def dest: shell_safe_plain)

text \<open>The rules with which a script is read: a quoted text is one word, and so is a plain one.\<close>

lemma sh_argv_quote:
  assumes "word_end r"
  shows "sh_argv (shlex_quote s @ r) = map_option (apfst ((#) s)) (sh_argv r)"
proof -
  obtain c cs where q: "shlex_quote s = c # cs" "\<not> sh_meta c" "c \<noteq> 32"
    using shlex_quote_head by blast
  with sh_word_quote [OF assms, of s] show ?thesis
    by (simp add: sh_argv.simps del: sh_word.simps)
qed

lemma sh_argv_quote_last: "sh_argv (shlex_quote s) = Some ([s], [])"
  using sh_argv_quote [of "[]" s] by simp

lemma sh_argv_safe:
  assumes "\<forall>c \<in> set s. shell_safe c" "s \<noteq> []" "word_end r"
  shows "sh_argv (s @ r) = map_option (apfst ((#) s)) (sh_argv r)"
  using sh_argv_quote [OF assms(3), of s] assms by (simp add: shlex_quote_def)

lemma shlex_quote_inject: "shlex_quote s = shlex_quote t \<longleftrightarrow> s = t"
  by (metis fst_conv option.inject sh_word_quote word_end_simps(1))

lemma shell_safe_int_str: "c \<in> set (int_str i) \<Longrightarrow> shell_safe c"
  by (drule set_int_str) (auto simp: shell_safe_def is_digit_def)

lemma sh_argv_int:
  "word_end r \<Longrightarrow> sh_argv (int_str i @ r) = map_option (apfst ((#) (int_str i))) (sh_argv r)"
  by (rule sh_argv_safe) (auto simp: shell_safe_int_str)

subsection \<open>posixpath.dirname\<close>

definition dirname :: "str \<Rightarrow> str" where
  "dirname p =
     (let head = rev (dropWhile (\<lambda>c. c \<noteq> 47) (rev p))
      in if head \<noteq> [] \<and> \<not> (\<forall>c \<in> set head. c = 47) then rstrip_by (\<lambda>c. c = 47) head else head)"

lemma dirname_relative: "47 \<notin> set p \<Longrightarrow> dirname p = []"
proof -
  assume "47 \<notin> set p"
  then have "dropWhile (\<lambda>c. c \<noteq> 47) (rev p) = []"
    by (auto simp: dropWhile_eq_Nil_conv)
  then show ?thesis by (simp add: dirname_def)
qed

lemma dirname_join:
  assumes "47 \<notin> set f" "d \<noteq> []" "last d \<noteq> 47"
  shows "dirname (d @ 47 # f) = d"
proof -
  have "dropWhile (\<lambda>c. c \<noteq> 47) (rev f @ 47 # rev d) = 47 # rev d"
    using assms(1) by (subst dropWhile_append2) auto
  then have h: "rev (dropWhile (\<lambda>c. c \<noteq> 47) (rev (d @ 47 # f))) = d @ [47]" by simp
  have "rstrip_by (\<lambda>c. c = 47) (d @ [47]) = d"
    using assms by (simp add: rstrip_by_all rstrip_by_id)
  moreover have "\<not> (\<forall>c \<in> set (d @ [47]). c = 47)"
    using assms by (metis Un_iff last_in_set set_append)
  ultimately show ?thesis unfolding dirname_def h Let_def by simp
qed

lemma dirname_root: "47 \<notin> set f \<Longrightarrow> dirname (47 # f) = [47]"
proof -
  assume "47 \<notin> set f"
  then have "dropWhile (\<lambda>c. c \<noteq> 47) (rev f @ [47]) = [47]"
    by (subst dropWhile_append2) auto
  then show ?thesis by (simp add: dirname_def)
qed

end
