(* ===== verification/Resource_Limits.thy ===== *)
theory Resource_Limits
  imports Codec
begin

section \<open>Limits on what a caller asks for and gets: clamp_resources, cap_output\<close>

text \<open>
  The two functions of \<^verbatim>\<open>providers/base.py\<close> that bound caller-supplied numbers and output sizes.
  A Python float is a finite number, an infinity or NaN; the service only compares and selects
  floats, so a finite one is its exact value. \<^verbatim>\<open>min\<close> and \<^verbatim>\<open>max\<close> are written as Python computes
  them (the first argument unless the second compares as smaller or greater), which decides what a
  NaN does.
\<close>

subsection \<open>Floats\<close>

datatype pyfloat = Finite rat | PosInf | NegInf | NaN

fun fl_less :: "pyfloat \<Rightarrow> pyfloat \<Rightarrow> bool" where
  "fl_less (Finite x) (Finite y) = (x < y)"
| "fl_less (Finite x) PosInf = True"
| "fl_less NegInf (Finite y) = True"
| "fl_less NegInf PosInf = True"
| "fl_less _ _ = False"

definition fl_min :: "pyfloat \<Rightarrow> pyfloat \<Rightarrow> pyfloat" where
  "fl_min a b = (if fl_less b a then b else a)"

definition fl_max :: "pyfloat \<Rightarrow> pyfloat \<Rightarrow> pyfloat" where
  "fl_max a b = (if fl_less a b then b else a)"

fun is_finite :: "pyfloat \<Rightarrow> bool" where
  "is_finite (Finite _) = True"
| "is_finite _ = False"

text \<open>The double nearest to 0.1, the literal of the source.\<close>

definition tenth :: rat where
  "tenth = 3602879701896397 / 36028797018963968"

subsection \<open>clamp_resources\<close>

definition clamp_resources :: "int \<Rightarrow> pyfloat \<Rightarrow> int \<Rightarrow> pyfloat \<Rightarrow> int \<times> pyfloat" where
  "clamp_resources memory_mb cpus max_memory_mb max_cpus =
     (max 64 (min memory_mb max_memory_mb), fl_max (Finite tenth) (fl_min cpus max_cpus))"

lemma clamp_memory:
  "fst (clamp_resources m c mm mc) = (if mm < 64 \<or> m < 64 then 64 else if m \<le> mm then m else mm)"
  by (auto simp: clamp_resources_def max_def min_def)

text \<open>
  Whatever finite CPU share is asked for, a finite ceiling of at least a tenth is respected, and
  so is the floor; a share within the bounds is kept.
\<close>

lemma clamp_cpus:
  assumes "is_finite c" "tenth \<le> mx"
  shows "\<exists>x. snd (clamp_resources m c mm (Finite mx)) = Finite x \<and> tenth \<le> x \<and> x \<le> mx"
proof -
  obtain v where "c = Finite v" using assms(1) by (cases c) auto
  then show ?thesis using assms(2)
    by (auto simp: clamp_resources_def fl_max_def fl_min_def)
qed

lemma clamp_idem:
  assumes "64 \<le> mm" "tenth \<le> mx"
  shows "(case clamp_resources m c mm (Finite mx) of (m', c') \<Rightarrow> clamp_resources m' c' mm (Finite mx))
    = clamp_resources m c mm (Finite mx)"
  using assms by (cases c) (auto simp: clamp_resources_def fl_max_def fl_min_def)

subsection \<open>cap_output\<close>

datatype payload = PBytes bytes | PStr str

fun cap_output :: "payload \<Rightarrow> int \<Rightarrow> str \<times> bool" where
  "cap_output (PBytes data) limit =
     (utf8_decode_replace (py_take limit data), limit < int (length data))"
| "cap_output (PStr data) limit = (py_take limit data, limit < int (length data))"

lemma cap_output_length:
  assumes "0 \<le> limit"
  shows "int (length (fst (cap_output d limit))) \<le> limit"
proof (cases d)
  case (PBytes b)
  have "length (utf8_decode_replace (py_take limit b)) \<le> length (py_take limit b)"
    by (rule length_utf8_decode_replace)
  also have "\<dots> \<le> nat limit" using assms by simp
  finally show ?thesis using PBytes assms by simp
next
  case (PStr s)
  then show ?thesis using assms by simp
qed

text \<open>
  One byte past the cap is enough: a stream cut at \<^verbatim>\<open>limit + 1\<close> gives the same text and the same
  flag as the whole stream.
\<close>

lemma cap_output_cut:
  assumes "0 \<le> limit"
  shows "cap_output (PBytes (take (nat (limit + 1)) b)) limit = cap_output (PBytes b) limit"
proof -
  have n: "nat (limit + 1) = Suc (nat limit)" using assms by simp
  have "limit < int (length (take (Suc (nat limit)) b)) \<longleftrightarrow> limit < int (length b)"
    using assms by auto
  then show ?thesis using assms by (simp add: n)
qed

lemma cap_output_keeps:
  "int (length b) \<le> limit \<Longrightarrow> utf8_decode b = Inr s \<Longrightarrow> cap_output (PBytes b) limit = (s, False)"
  by (simp add: utf8_decode_replace_strict)

end
