(* ===== verification/Models.thy ===== *)
theory Models
  imports Resource_Limits
begin

section \<open>The wire contract: request and response models\<close>

text \<open>
  The pydantic models of \<^verbatim>\<open>models.py\<close> as records, and the field constraints the source declares
  on them (\<^verbatim>\<open>ge\<close>, \<^verbatim>\<open>min_length\<close>, \<^verbatim>\<open>max_length\<close>, \<^verbatim>\<open>allow_inf_nan\<close>, the \<^verbatim>\<open>Literal\<close> types, the base64
  validator) as predicates on a parsed body. A body for which the predicate fails is answered
  with 422 before any handler runs.
\<close>

record create_request =
  cr_image :: "str option"
  cr_timeout_seconds :: int
  cr_network :: bool
  cr_memory_mb :: int
  cr_cpus :: pyfloat

definition create_defaults :: create_request where
  "create_defaults =
     \<lparr>cr_image = None, cr_timeout_seconds = 900, cr_network = False, cr_memory_mb = 512,
      cr_cpus = Finite 1\<rparr>"

definition valid_create :: "create_request \<Rightarrow> bool" where
  "valid_create r \<longleftrightarrow>
     (case cr_image r of None \<Rightarrow> True | Some i \<Rightarrow> 1 \<le> length i \<and> length i \<le> 512)
     \<and> 1 \<le> cr_timeout_seconds r \<and> is_finite (cr_cpus r)"

record session =
  s_session_id :: str
  s_provider :: str

record exec_request =
  er_command :: str
  er_timeout_seconds :: int
  er_workdir :: "str option"

definition valid_exec :: "exec_request \<Rightarrow> bool" where
  "valid_exec r \<longleftrightarrow>
     1 \<le> er_timeout_seconds r
     \<and> (case er_workdir r of None \<Rightarrow> True | Some d \<Rightarrow> 1 \<le> length d)"

record run_request =
  rr_language :: str
  rr_code :: str
  rr_timeout_seconds :: int

definition valid_run :: "run_request \<Rightarrow> bool" where
  "valid_run r \<longleftrightarrow> rr_language r = lit ''python'' \<and> 1 \<le> rr_timeout_seconds r"

record exec_result =
  stdout :: str
  stderr :: str
  exit_code :: int
  truncated :: bool
  duration_ms :: "int option"

record write_request =
  wr_path :: str
  wr_content :: str
  wr_encoding :: str

text \<open>\<^verbatim>\<open>_BASE64_RE\<close>: \<^verbatim>\<open>^[A-Za-z0-9+/=\s]*$\<close>; the class has the newline, so \<^verbatim>\<open>$\<close> is the end.\<close>

definition base64_class :: "nat \<Rightarrow> bool" where
  "base64_class c \<longleftrightarrow> (65 \<le> c \<and> c \<le> 90) \<or> (97 \<le> c \<and> c \<le> 122) \<or> (48 \<le> c \<and> c \<le> 57)
     \<or> c = 43 \<or> c = 47 \<or> c = 61 \<or> is_space c"

definition base64_re_match :: "str \<Rightarrow> bool" where
  "base64_re_match s \<longleftrightarrow> (\<forall>c \<in> set s. base64_class c)"

definition base64_is_well_formed :: "write_request \<Rightarrow> bool" where
  "base64_is_well_formed r \<longleftrightarrow>
     \<not> (wr_encoding r = lit ''base64'' \<and> \<not> base64_re_match (wr_content r))"

definition valid_write :: "write_request \<Rightarrow> bool" where
  "valid_write r \<longleftrightarrow>
     1 \<le> length (wr_path r)
     \<and> (wr_encoding r = lit ''utf-8'' \<or> wr_encoding r = lit ''base64'')
     \<and> base64_is_well_formed r"

record read_response =
  rf_path :: str
  rf_content :: str
  rf_encoding :: str
  rf_truncated :: bool

record file_entry =
  fe_name :: str
  fe_path :: str
  fe_is_dir :: bool
  fe_size :: int

record list_response =
  lf_path :: str
  lf_entries :: "file_entry list"
  lf_truncated :: bool

text \<open>
  \<^verbatim>\<open>SessionId\<close> of \<^verbatim>\<open>app.py\<close>: \<^verbatim>\<open>^[0-9a-f]{16}$\<close>, matched by pydantic's own engine, whose \<^verbatim>\<open>$\<close> is the
  very end of the text.
\<close>

definition hex_char :: "nat \<Rightarrow> bool" where
  "hex_char c \<longleftrightarrow> (48 \<le> c \<and> c \<le> 57) \<or> (97 \<le> c \<and> c \<le> 102)"

definition valid_session_id :: "str \<Rightarrow> bool" where
  "valid_session_id s \<longleftrightarrow> length s = 16 \<and> (\<forall>c \<in> set s. hex_char c)"

definition valid_read_query :: "str \<Rightarrow> int \<Rightarrow> bool" where
  "valid_read_query path max_bytes \<longleftrightarrow> 1 \<le> length path \<and> 1 \<le> max_bytes"

definition valid_list_query :: "str \<Rightarrow> bool" where
  "valid_list_query path \<longleftrightarrow> 1 \<le> length path"

subsection \<open>What the validators let through\<close>

lemma b64_char_class: "n < 64 \<Longrightarrow> base64_class (b64_char n)"
  by (auto simp: base64_class_def b64_char_def)

lemma b64_values_class:
  "(\<forall>v \<in> set vs. v < 256) \<Longrightarrow> (\<forall>c \<in> set (b64_values vs). base64_class c)"
proof (induction vs rule: b64_values.induct)
  case (2 a)
  then show ?case by (auto intro!: b64_char_class simp: base64_class_def [of 61])
next
  case (3 a b)
  then have "a mod 4 < 4" "b mod 16 < 16" "b div 16 < 16" by auto
  with 3 show ?case by (auto intro!: b64_char_class simp: base64_class_def [of 61])
next
  case (4 a b c r)
  then have "a mod 4 < 4" "b mod 16 < 16" "b div 16 < 16" "c div 64 < 4" by auto
  with 4 show ?case by (auto intro!: b64_char_class)
qed simp

lemma b64encode_well_formed: "base64_re_match (b64encode b)"
  unfolding base64_re_match_def b64encode_def
  by (rule b64_values_class) (use byte_values_bound in auto)

lemma hex_char_safe: "hex_char c \<Longrightarrow> c < 128 \<and> c \<noteq> 0 \<and> \<not> is_space c \<and> c \<noteq> 47 \<and> c \<noteq> 45"
  by (auto simp: hex_char_def is_space_def)

end
