(* ===== verification/Json.thy ===== *)
theory Json
  imports Resource_Limits
begin

section \<open>JSON values as the service reads and writes them\<close>

text \<open>
  The values \<^verbatim>\<open>json.loads\<close> returns and the operations the source performs on them: \<^verbatim>\<open>d.get(k, x)\<close>,
  \<^verbatim>\<open>d[k]\<close>, iteration, truth. An operation on a value of the wrong type is the exception Python
  raises. Of a repeated key the last value counts. Turning text into values is a parameter
  (\<open>loads\<close>) of the definitions that do it.
\<close>

datatype json =
    JNull
  | JBool bool
  | JInt int
  | JFloat pyfloat
  | JStr str
  | JList "json list"
  | JObj "(str \<times> json) list"

definition jlookup :: "(str \<times> json) list \<Rightarrow> str \<Rightarrow> json option" where
  "jlookup kvs k = map_of (rev kvs) k"

definition attribute_error :: exn where
  "attribute_error = PyError ''AttributeError'' []"

definition type_error :: exn where
  "type_error = PyError ''TypeError'' []"

text \<open>What \<^verbatim>\<open>except ValueError\<close> and \<^verbatim>\<open>except OSError\<close> catch.\<close>

definition is_value_error :: "exn \<Rightarrow> bool" where
  "is_value_error e \<longleftrightarrow>
     (case e of PyError c m \<Rightarrow> c \<in> {''ValueError'', ''JSONDecodeError'', ''UnicodeDecodeError''}
      | _ \<Rightarrow> False)"

definition is_os_error :: "exn \<Rightarrow> bool" where
  "is_os_error e \<longleftrightarrow>
     (case e of PyError c m \<Rightarrow> c \<in> {''OSError'', ''FileNotFoundError'', ''PermissionError'',
        ''IsADirectoryError'', ''NotADirectoryError'', ''TimeoutError'', ''ConnectionError''}
      | PathNotFound _ \<Rightarrow> True
      | _ \<Rightarrow> False)"

text \<open>\<^verbatim>\<open>j.get(k, d)\<close>\<close>

fun jget :: "string \<Rightarrow> json \<Rightarrow> json \<Rightarrow> exn + json" where
  "jget k d (JObj kvs) = Inr (case jlookup kvs (lit k) of None \<Rightarrow> d | Some v \<Rightarrow> v)"
| "jget k d _ = Inl attribute_error"

text \<open>\<^verbatim>\<open>j[k]\<close> for a string key\<close>

fun jitem :: "string \<Rightarrow> json \<Rightarrow> exn + json" where
  "jitem k (JObj kvs) =
     (case jlookup kvs (lit k) of None \<Rightarrow> Inl (PyError ''KeyError'' (lit k)) | Some v \<Rightarrow> Inr v)"
| "jitem k _ = Inl type_error"

text \<open>The items of \<^verbatim>\<open>for x in j\<close>: a list's values, a string's characters, a dict's keys.\<close>

fun jiter :: "json \<Rightarrow> exn + json list" where
  "jiter (JList xs) = Inr xs"
| "jiter (JStr s) = Inr (map (\<lambda>c. JStr [c]) s)"
| "jiter (JObj kvs) = Inr (map JStr (remdups (map fst kvs)))"
| "jiter _ = Inl type_error"

fun truthy :: "json \<Rightarrow> bool" where
  "truthy JNull = False"
| "truthy (JBool b) = b"
| "truthy (JInt i) = (i \<noteq> 0)"
| "truthy (JFloat f) = (f \<noteq> Finite 0)"
| "truthy (JStr s) = (s \<noteq> [])"
| "truthy (JList xs) = (xs \<noteq> [])"
| "truthy (JObj kvs) = (kvs \<noteq> [])"

definition bindr :: "exn + 'a \<Rightarrow> ('a \<Rightarrow> exn + 'b) \<Rightarrow> exn + 'b" where
  "bindr r f = (case r of Inl e \<Rightarrow> Inl e | Inr a \<Rightarrow> f a)"

lemma bindr_simps [simp]:
  "bindr (Inl e) f = Inl e"
  "bindr (Inr a) f = f a"
  by (simp_all add: bindr_def)

lemma bindr_eq_Inr: "bindr r f = Inr b \<longleftrightarrow> (\<exists>a. r = Inr a \<and> f a = Inr b)"
  by (cases r) auto

text \<open>\<^verbatim>\<open>[f(x) for x in xs]\<close>, stopping at the first exception\<close>

fun mapr :: "('a \<Rightarrow> exn + 'b) \<Rightarrow> 'a list \<Rightarrow> exn + 'b list" where
  "mapr f [] = Inr []"
| "mapr f (x # xs) = bindr (f x) (\<lambda>y. bindr (mapr f xs) (\<lambda>ys. Inr (y # ys)))"

lemma mapr_Inr: "(\<forall>x \<in> set xs. f (g x) = Inr (h x)) \<Longrightarrow> mapr f (map g xs) = Inr (map h xs)"
  by (induction xs) auto

lemma jlookup_simps [simp]:
  "jlookup [] k = None"
  "jlookup (kvs @ [(k', v)]) k = (if k' = k then Some v else jlookup kvs k)"
  by (simp_all add: jlookup_def)

lemma jlookup_Cons:
  "jlookup ((k', v) # kvs) k =
     (case jlookup kvs k of Some x \<Rightarrow> Some x | None \<Rightarrow> if k' = k then Some v else None)"
  by (simp add: jlookup_def map_add_def split: option.split)

end
