(* ===== verification/Session_Ops.thy ===== *)
theory Session_Ops
  imports Run_Cli Shell Models Json
begin

section \<open>In-session operations: SessionOpsMixin\<close>

text \<open>
  \<^verbatim>\<open>SessionOpsMixin\<close> of \<^verbatim>\<open>providers/base.py\<close>: \<^verbatim>\<open>exec\<close>, \<^verbatim>\<open>run_script\<close>, \<^verbatim>\<open>write_file\<close>, \<^verbatim>\<open>read_file\<close> and
  \<^verbatim>\<open>list_files\<close> over the single hook \<^verbatim>\<open>_exec_cli\<close>, which is the argument \<open>cli\<close> here. The shell
  scripts are built exactly as the source builds them.
\<close>

definition WORKDIR :: str where
  "WORKDIR = lit ''/workspace''"

definition LIST_MAX_ENTRIES :: nat where
  "LIST_MAX_ENTRIES = 2000"

type_synonym 'w exec_cli =
  "str \<Rightarrow> str list \<Rightarrow> bytes option \<Rightarrow> int option \<Rightarrow> ('w, int \<times> bytes \<times> bytes) prog"

text \<open>\<^verbatim>\<open>int(x)\<close> of a float, towards zero.\<close>

definition trunc_rat :: "rat \<Rightarrow> int" where
  "trunc_rat x = (if 0 \<le> x then \<lfloor>x\<rfloor> else \<lceil>x\<rceil>)"

definition stripped_error :: "bytes \<Rightarrow> str" where
  "stripped_error err = strip (utf8_decode_replace err)"

subsection \<open>exec and run_script\<close>

definition session_result ::
  "'w os \<Rightarrow> int \<Rightarrow> int \<Rightarrow> bytes \<Rightarrow> bytes \<Rightarrow> rat \<Rightarrow> ('w, exec_result) prog" where
  "session_result os max_output_bytes rc out err start =
     bindp (ask (monotonic os)) (\<lambda>now.
       (let dur_ms = trunc_rat ((now - start) * 1000);
            (so, t1) = cap_output (PBytes out) max_output_bytes;
            (se, t2) = cap_output (PBytes err) max_output_bytes
        in ret \<lparr>stdout = so, stderr = se, exit_code = rc, truncated = t1 \<or> t2,
                duration_ms = Some dur_ms\<rparr>))"

definition exec_argv :: "str \<Rightarrow> int \<Rightarrow> str option \<Rightarrow> str list" where
  "exec_argv command seconds workdir =
     [lit ''timeout'', lit ''-k'', lit ''1'', int_str seconds, lit ''sh'', lit ''-c'',
      lit ''cd '' @ shlex_quote (or_else workdir WORKDIR) @ lit '' && '' @ command]"

definition exec ::
  "'w os \<Rightarrow> int \<Rightarrow> 'w exec_cli \<Rightarrow> str \<Rightarrow> str \<Rightarrow> int \<Rightarrow> str option \<Rightarrow> ('w, exec_result) prog" where
  "exec os max_output_bytes cli session_id command timeout_seconds workdir =
     (let seconds = max 1 timeout_seconds
      in bindp (ask (monotonic os)) (\<lambda>start.
         bindp (cli session_id (exec_argv command seconds workdir) None (Some (seconds + 2)))
           (\<lambda>(rc, out, err). session_result os max_output_bytes rc out err start)))"

definition size_check :: "str \<Rightarrow> nat \<Rightarrow> str" where
  "size_check file n =
     lit ''[ \"$(wc -c < '' @ file @ lit '')\" -eq '' @ nat_str n @ lit '' ]''"

definition run_script_text :: "str \<Rightarrow> nat \<Rightarrow> int \<Rightarrow> str \<Rightarrow> str" where
  "run_script_text path n seconds interpreter =
     lit ''cat > '' @ path @ lit '' && '' @ size_check path n @ lit '' && cd ''
       @ shlex_quote WORKDIR @ lit '' && timeout -k 1 '' @ int_str seconds @ lit '' ''
       @ shlex_quote interpreter @ lit '' '' @ path @ lit ''; rc=$?; rm -f '' @ path
       @ lit ''; exit $rc''"

definition run_script ::
  "'w os \<Rightarrow> int \<Rightarrow> 'w exec_cli \<Rightarrow> str \<Rightarrow> str \<Rightarrow> str \<Rightarrow> str \<Rightarrow> int \<Rightarrow> ('w, exec_result) prog" where
  "run_script os max_output_bytes cli session_id code interpreter ext timeout_seconds =
     (let seconds = max 1 timeout_seconds
      in bindp (of_result (utf8_encode code)) (\<lambda>data.
         bindp (ask (uuid4_hex os)) (\<lambda>hex.
         (let path = shlex_quote (lit ''/tmp/_run_'' @ hex @ lit ''.'' @ ext);
              script = run_script_text path (length data) seconds interpreter
          in bindp (ask (monotonic os)) (\<lambda>start.
             bindp (cli session_id [lit ''sh'', lit ''-c'', script] (Some data)
                      (Some (seconds + 5)))
               (\<lambda>(rc, out, err). session_result os max_output_bytes rc out err start))))))"

subsection \<open>write_file\<close>

definition write_finish :: "str \<Rightarrow> str \<Rightarrow> str \<Rightarrow> str" where
  "write_finish encoding tmp dest =
     (if encoding = lit ''base64''
      then lit ''base64 -d '' @ tmp @ lit '' > '' @ dest @ lit '' || { rm -f '' @ dest
             @ lit ''; false; }''
      else lit ''mv -f '' @ tmp @ lit '' '' @ dest)"

definition write_cmd :: "str \<Rightarrow> str \<Rightarrow> nat \<Rightarrow> str \<Rightarrow> str" where
  "write_cmd path hex8 n encoding =
     (let parent = or_text (dirname path) WORKDIR;
          dest = shlex_quote path;
          tmp = shlex_quote (path @ lit ''.partial-'' @ hex8)
      in lit ''mkdir -p '' @ shlex_quote parent @ lit '' && cat > '' @ tmp @ lit '' && ''
           @ size_check tmp n @ lit '' && '' @ write_finish encoding tmp dest
           @ lit ''; rc=$?; rm -f '' @ tmp @ lit ''; exit $rc'')"

definition write_file ::
  "'w os \<Rightarrow> 'w exec_cli \<Rightarrow> str \<Rightarrow> str \<Rightarrow> str \<Rightarrow> str \<Rightarrow> ('w, unit) prog" where
  "write_file os cli session_id path content encoding =
     bindp (of_result (utf8_encode content)) (\<lambda>data.
     bindp (ask (uuid4_hex os)) (\<lambda>hex.
     bindp (cli session_id
              [lit ''sh'', lit ''-c'', write_cmd path (take 8 hex) (length data) encoding]
              (Some data) (Some 60)) (\<lambda>(rc, out, err).
       if rc \<noteq> 0 then throw (SandboxError (lit ''write_file failed: '' @ stripped_error err))
       else ret ())))"

subsection \<open>read_file and list_files\<close>

definition read_argv :: "str \<Rightarrow> int \<Rightarrow> str list" where
  "read_argv path limit =
     [lit ''sh'', lit ''-c'', lit ''head -c '' @ int_str (limit + 1) @ lit '' '' @ shlex_quote path]"

definition read_result :: "bytes \<Rightarrow> int \<Rightarrow> str \<times> str \<times> bool" where
  "read_result out limit =
     (let cut = py_take limit out; too_long = limit < int (length out)
      in case utf8_decode cut of
           Inr s \<Rightarrow> (s, lit ''utf-8'', too_long)
         | Inl _ \<Rightarrow> (b64encode cut, lit ''base64'', too_long))"

definition read_file ::
  "int \<Rightarrow> 'w exec_cli \<Rightarrow> str \<Rightarrow> str \<Rightarrow> int \<Rightarrow> ('w, str \<times> str \<times> bool) prog" where
  "read_file max_output_bytes cli session_id path max_bytes =
     (let limit = min max_bytes max_output_bytes
      in bindp (cli session_id (read_argv path limit) None (Some 30)) (\<lambda>(rc, out, err).
           if rc \<noteq> 0 then throw (PathNotFound (or_text (stripped_error err) path))
           else ret (read_result out limit)))"

definition empty_listing :: str where
  "empty_listing = lit ''{\"truncated\":false,\"entries\":[]}''"

definition listing_of ::
  "(json \<Rightarrow> exn + file_entry) \<Rightarrow> json \<Rightarrow> exn + file_entry list \<times> bool" where
  "listing_of entry_of listing =
     bindr (jitem ''entries'' listing) (\<lambda>es.
     bindr (jiter es) (\<lambda>xs.
     bindr (mapr entry_of xs) (\<lambda>entries.
     bindr (jitem ''truncated'' listing) (\<lambda>t. Inr (entries, truthy t)))))"

text \<open>\<^verbatim>\<open>_LIST_FILES_SNIPPET\<close>, the program that lists a directory inside the session.\<close>

definition LIST_FILES_SNIPPET :: str where
  "LIST_FILES_SNIPPET =
     lit ''import os,sys,json,itertools;p=sys.argv[1];n=int(sys.argv[2]);es''
       @ lit ''=list(itertools.islice(os.scandir(p),n+1))'' @ [10]
       @ lit ''def sz(e):'' @ [10]
       @ lit ''  try: return e.stat().st_size if e.is_file() else 0'' @ [10]
       @ lit ''  except OSError: return 0'' @ [10]
       @ lit ''print(json.dumps({'truncated':len(es)>n,'entries':[{'name':e.nam''
       @ lit ''e,'path':os.path.join(p,e.name),'is_dir':e.is_dir(),'size':sz(e)''
       @ lit ''} for e in es[:n]]}))''"

definition list_files ::
  "(str \<Rightarrow> exn + json) \<Rightarrow> (json \<Rightarrow> exn + file_entry) \<Rightarrow> 'w exec_cli \<Rightarrow> str \<Rightarrow> str
     \<Rightarrow> ('w, file_entry list \<times> bool) prog" where
  "list_files loads entry_of cli session_id path =
     bindp (cli session_id
              [lit ''python3'', lit ''-c'', LIST_FILES_SNIPPET, path, nat_str LIST_MAX_ENTRIES]
              None (Some 30)) (\<lambda>(rc, out, err).
       if rc \<noteq> 0 then throw (PathNotFound (or_text (stripped_error err) path))
       else bindp (of_result (utf8_decode out)) (\<lambda>text.
            bindp (of_result (loads (or_text text empty_listing))) (\<lambda>listing.
            of_result (listing_of entry_of listing))))"

end
