(* ===== verification/Provider.thy ===== *)
theory Provider
  imports Session_Ops
begin

section \<open>The provider seam\<close>

text \<open>
  \<^verbatim>\<open>SandboxProvider\<close> of \<^verbatim>\<open>providers/base.py\<close>: the operations the HTTP layer calls, as a record of
  effects. \<^verbatim>\<open>build_provider\<close> fills it from one of the two backends.
\<close>

record 'w provider =
  provider_name :: str
  startup :: "('w, unit) prog"
  shutdown :: "('w, unit) prog"
  preflight :: "('w, unit) prog"
  create :: "str option \<Rightarrow> int \<Rightarrow> bool \<Rightarrow> int \<Rightarrow> pyfloat \<Rightarrow> ('w, str) prog"
  destroy :: "str \<Rightarrow> ('w, unit) prog"
  exec_op :: "str \<Rightarrow> str \<Rightarrow> int \<Rightarrow> str option \<Rightarrow> ('w, exec_result) prog"
  run_script_op :: "str \<Rightarrow> str \<Rightarrow> str \<Rightarrow> str \<Rightarrow> int \<Rightarrow> ('w, exec_result) prog"
  live_session_ids :: "('w, str set option) prog"
  write_file_op :: "str \<Rightarrow> str \<Rightarrow> str \<Rightarrow> str \<Rightarrow> ('w, unit) prog"
  read_file_op :: "str \<Rightarrow> str \<Rightarrow> int \<Rightarrow> ('w, str \<times> str \<times> bool) prog"
  list_files_op :: "str \<Rightarrow> str \<Rightarrow> ('w, file_entry list \<times> bool) prog"

text \<open>
  The service in its environment: the operating system, \<^verbatim>\<open>json.loads\<close>, pydantic's construction of
  a \<^verbatim>\<open>FileEntry\<close> and \<^verbatim>\<open>str\<close> of a float are parameters; they are bundled here.
\<close>

record 'w libs =
  the_os :: "'w os"
  json_loads :: "str \<Rightarrow> exn + json"
  file_entry_of :: "json \<Rightarrow> exn + file_entry"
  float_str :: "pyfloat \<Rightarrow> str"

end
