(* ===== verification/Url.thy ===== *)
theory Url
  imports Codec Json
begin

section \<open>Query strings: urlencode\<close>

text \<open>
  \<^verbatim>\<open>urllib.parse.urlencode\<close> on a list of pairs of strings, which builds the query of the exec
  WebSocket, and a reader of such queries (form decoding: pairs at \<^verbatim>\<open>&\<close>, key and value at the
  first \<^verbatim>\<open>=\<close>, \<^verbatim>\<open>+\<close> and \<^verbatim>\<open>%HH\<close> undone). The reader is the specification: it gives back the bytes of
  every key and value, in order.
\<close>

definition always_safe :: "nat \<Rightarrow> bool" where
  "always_safe v \<longleftrightarrow> (65 \<le> v \<and> v \<le> 90) \<or> (97 \<le> v \<and> v \<le> 122) \<or> (48 \<le> v \<and> v \<le> 57)
     \<or> v = 95 \<or> v = 46 \<or> v = 45 \<or> v = 126"

definition upper_hex :: "nat \<Rightarrow> nat" where
  "upper_hex n = (if n < 10 then 48 + n else 55 + n)"

definition quote_byte :: "nat \<Rightarrow> str" where
  "quote_byte v =
     (if always_safe v then [v] else if v = 32 then [43]
      else [37, upper_hex (v div 16), upper_hex (v mod 16)])"

definition quote_bytes :: "bytes \<Rightarrow> str" where
  "quote_bytes b = concat (map quote_byte (byte_values b))"

definition quote_plus :: "str \<Rightarrow> exn + str" where
  "quote_plus s = bindr (utf8_encode s) (\<lambda>b. Inr (quote_bytes b))"

definition urlencode :: "(str \<times> str) list \<Rightarrow> exn + str" where
  "urlencode query =
     bindr (mapr (\<lambda>(k, v). bindr (quote_plus k) (\<lambda>k'. bindr (quote_plus v) (\<lambda>v'.
              Inr (k' @ lit ''='' @ v')))) query) (\<lambda>pairs.
     Inr (join_with (lit ''&'') pairs))"

subsection \<open>Reading a query\<close>

definition hex_value :: "nat \<Rightarrow> nat option" where
  "hex_value c =
     (if 48 \<le> c \<and> c \<le> 57 then Some (c - 48)
      else if 65 \<le> c \<and> c \<le> 70 then Some (c - 55)
      else if 97 \<le> c \<and> c \<le> 102 then Some (c - 87) else None)"

fun unquote_values :: "str \<Rightarrow> nat list option" where
  "unquote_values [] = Some []"
| "unquote_values (c # cs) =
     (if c = 37 then
        (case cs of
           a # b # r \<Rightarrow>
             (case (hex_value a, hex_value b) of
                (Some x, Some y) \<Rightarrow> map_option ((#) (16 * x + y)) (unquote_values r)
              | _ \<Rightarrow> None)
         | _ \<Rightarrow> None)
      else map_option ((#) (if c = 43 then 32 else c)) (unquote_values cs))"

definition unquote :: "str \<Rightarrow> bytes option" where
  "unquote s = map_option of_byte_values (unquote_values s)"

fun read_all :: "'a option list \<Rightarrow> 'a list option" where
  "read_all [] = Some []"
| "read_all (x # xs) = (case x of None \<Rightarrow> None | Some a \<Rightarrow> map_option ((#) a) (read_all xs))"

definition read_pair :: "str \<Rightarrow> (bytes \<times> bytes) option" where
  "read_pair s =
     (case partition_on 61 s of (k, _, v) \<Rightarrow>
        (case (unquote k, unquote v) of (Some k', Some v') \<Rightarrow> Some (k', v') | _ \<Rightarrow> None))"

definition read_query :: "str \<Rightarrow> (bytes \<times> bytes) list option" where
  "read_query s = read_all (map read_pair (filter (\<lambda>p. p \<noteq> []) (split_on 38 s)))"

subsection \<open>The reader undoes the writer\<close>

lemma hex_value_upper: "n < 16 \<Longrightarrow> hex_value (upper_hex n) = Some n"
  by (auto simp: hex_value_def upper_hex_def)

lemma unquote_quote_byte:
  assumes "v < 256"
  shows "unquote_values (quote_byte v @ s) = map_option ((#) v) (unquote_values s)"
proof -
  have "v div 16 < 16" "v mod 16 < 16" using assms by auto
  then show ?thesis using assms
    by (auto simp: quote_byte_def hex_value_upper always_safe_def)
qed

lemma unquote_quote_values:
  "(\<forall>v \<in> set vs. v < 256) \<Longrightarrow> unquote_values (concat (map quote_byte vs)) = Some vs"
  by (induction vs) (auto simp: unquote_quote_byte)

lemma of_byte_values_inverse [simp]: "of_byte_values (byte_values b) = b"
  by (simp add: of_byte_values_def byte_values_def comp_def)

lemma unquote_quote: "unquote (quote_bytes b) = Some b"
  using unquote_quote_values [of "byte_values b"]
  by (simp add: unquote_def quote_bytes_def byte_values_bound)

lemma upper_hex_plain: "n < 16 \<Longrightarrow> upper_hex n \<noteq> 38 \<and> upper_hex n \<noteq> 61"
  by (auto simp: upper_hex_def)

lemma quote_byte_plain:
  assumes "v < 256" "c \<in> set (quote_byte v)"
  shows "c \<noteq> 38 \<and> c \<noteq> 61"
proof -
  have "v div 16 < 16" "v mod 16 < 16" using assms(1) by auto
  from upper_hex_plain [OF this(1)] upper_hex_plain [OF this(2)] assms(2) show ?thesis
    by (auto simp: quote_byte_def always_safe_def split: if_splits)
qed

lemma quote_bytes_plain: "c \<in> set (quote_bytes b) \<Longrightarrow> c \<noteq> 38 \<and> c \<noteq> 61"
  using quote_byte_plain byte_values_bound by (auto simp: quote_bytes_def)

lemma quote_plus_eq_Inr:
  "quote_plus s = Inr q \<longleftrightarrow> (\<exists>b. utf8_encode s = Inr b \<and> q = quote_bytes b)"
  by (auto simp: quote_plus_def bindr_eq_Inr)

definition query_piece :: "bytes \<times> bytes \<Rightarrow> str" where
  "query_piece = (\<lambda>(k, v). quote_bytes k @ lit ''='' @ quote_bytes v)"

lemma read_query_piece: "read_pair (query_piece kv) = Some kv"
proof -
  obtain k v where kv: "kv = (k, v)" by force
  have "61 \<notin> set (quote_bytes k)" using quote_bytes_plain by blast
  then have "partition_on 61 (quote_bytes k @ 61 # quote_bytes v)
      = (quote_bytes k, True, quote_bytes v)" by simp
  then show ?thesis by (simp add: kv query_piece_def read_pair_def lit_def unquote_quote)
qed

lemma query_piece_plain: "query_piece kv \<noteq> [] \<and> 38 \<notin> set (query_piece kv)"
proof -
  obtain k v where "kv = (k, v)" by force
  moreover have "38 \<notin> set (quote_bytes b)" for b using quote_bytes_plain by blast
  ultimately show ?thesis by (simp add: query_piece_def lit_def)
qed

lemma read_all_Some: "read_all (map Some xs) = Some xs"
  by (induction xs) auto

lemma read_query_pieces: "read_query (join_with (lit ''&'') (map query_piece kvs)) = Some kvs"
proof (cases "kvs = []")
  case True
  then show ?thesis by (simp add: read_query_def)
next
  case False
  let ?ps = "map query_piece kvs"
  have "split_on 38 (join_with [38] ?ps) = ?ps"
    using False query_piece_plain by (intro split_join_on) auto
  moreover have "filter (\<lambda>p. p \<noteq> []) ?ps = ?ps"
    using query_piece_plain by (auto simp: filter_id_conv)
  moreover have "map read_pair ?ps = map Some kvs" by (simp add: read_query_piece)
  moreover have "lit ''&'' = [38]" by (simp add: lit_def)
  ultimately show ?thesis by (simp only: read_query_def read_all_Some)
qed

lemma urlencode_eq_Inr:
  "urlencode query = Inr s \<Longrightarrow>
   \<exists>kvs. s = join_with (lit ''&'') (map query_piece kvs)
     \<and> list_all2 (\<lambda>(k, v) (k', v'). utf8_encode k = Inr k' \<and> utf8_encode v = Inr v') query kvs"
proof -
  assume "urlencode query = Inr s"
  then obtain ps where ps: "mapr (\<lambda>(k, v). bindr (quote_plus k) (\<lambda>k'. bindr (quote_plus v) (\<lambda>v'.
      Inr (k' @ lit ''='' @ v')))) query = Inr ps" and s: "s = join_with (lit ''&'') ps"
    by (auto simp: urlencode_def bindr_eq_Inr)
  from ps have "\<exists>kvs. ps = map query_piece kvs
     \<and> list_all2 (\<lambda>(k, v) (k', v'). utf8_encode k = Inr k' \<and> utf8_encode v = Inr v') query kvs"
  proof (induction query arbitrary: ps)
    case Nil
    then show ?case by simp
  next
    case (Cons kv query)
    obtain k v where kv: "kv = (k, v)" by force
    from Cons.prems obtain bk bv ps' where
      "utf8_encode k = Inr bk" "utf8_encode v = Inr bv" "ps = query_piece (bk, bv) # ps'"
      and tl: "mapr (\<lambda>(k, v). bindr (quote_plus k) (\<lambda>k'. bindr (quote_plus v) (\<lambda>v'.
         Inr (k' @ lit ''='' @ v')))) query = Inr ps'"
      by (auto simp: kv bindr_eq_Inr quote_plus_eq_Inr query_piece_def)
    moreover from Cons.IH [OF tl] obtain kvs where "ps' = map query_piece kvs"
      "list_all2 (\<lambda>(k, v) (k', v'). utf8_encode k = Inr k' \<and> utf8_encode v = Inr v') query kvs"
      by blast
    ultimately show ?case by (intro exI [of _ "(bk, bv) # kvs"]) (simp add: kv)
  qed
  with s show ?thesis by blast
qed

text \<open>Whatever the strings are, the reader finds exactly their UTF-8 bytes, pair by pair.\<close>

lemma read_urlencode:
  assumes "urlencode query = Inr s"
  shows "\<exists>kvs. read_query s = Some kvs
    \<and> list_all2 (\<lambda>(k, v) (k', v'). utf8_decode k' = Inr k \<and> utf8_decode v' = Inr v) query kvs"
proof -
  from urlencode_eq_Inr [OF assms] obtain kvs where s: "s = join_with (lit ''&'') (map query_piece kvs)"
    and l: "list_all2 (\<lambda>(k, v) (k', v'). utf8_encode k = Inr k' \<and> utf8_encode v = Inr v') query kvs"
    by blast
  have "list_all2 (\<lambda>(k, v) (k', v'). utf8_decode k' = Inr k \<and> utf8_decode v' = Inr v) query kvs"
    by (rule list_all2_mono [OF l]) (auto intro: utf8_decode_encode)
  then show ?thesis using read_query_pieces [of kvs] s by blast
qed

end
