(* ===== verification/Config.thy ===== *)
theory Config
  imports Resource_Limits Json
begin

section \<open>Configuration from the environment\<close>

text \<open>
  \<^verbatim>\<open>config.py\<close>: the \<^verbatim>\<open>.env\<close> loader, the readers \<^verbatim>\<open>_env\<close>, \<^verbatim>\<open>_int\<close> and \<^verbatim>\<open>_flag\<close>, the \<^verbatim>\<open>Config\<close> class
  and \<^verbatim>\<open>Config.from_env\<close>. The environment is a map from names to values; \<^verbatim>\<open>float(...)\<close> is a
  parameter. A value that does not parse is the \<^verbatim>\<open>ValueError\<close> that stops the service at import.
\<close>

type_synonym environ = "str \<Rightarrow> str option"

subsection \<open>The .env file\<close>

definition line_break :: "nat \<Rightarrow> bool" where
  "line_break c \<longleftrightarrow> (10 \<le> c \<and> c \<le> 13) \<or> (28 \<le> c \<and> c \<le> 30) \<or> c = 133 \<or> c = 8232 \<or> c = 8233"

text \<open>\<^verbatim>\<open>str.splitlines()\<close>; the first argument is the current line, reversed.\<close>

function split_lines :: "str \<Rightarrow> str \<Rightarrow> str list" where
  "split_lines cur [] = (if cur = [] then [] else [rev cur])"
| "split_lines cur (c # cs) =
     (if c = 13 \<and> starts_with cs [10] then rev cur # split_lines [] (tl cs)
      else if line_break c then rev cur # split_lines [] cs
      else split_lines (c # cur) cs)"
  by pat_completeness auto
termination
  by (relation "measure (\<lambda>(_, s). length s)") auto

definition strip_char :: "nat \<Rightarrow> str \<Rightarrow> str" where
  "strip_char q s = strip_by (\<lambda>c. c = q) s"

definition dotenv_entry :: "str \<Rightarrow> (str \<times> str) option" where
  "dotenv_entry raw =
     (let line = strip raw
      in if line = [] \<or> starts_with line (lit ''#'') \<or> 61 \<notin> set line then None
         else (case partition_on 61 line of (key, _, val) \<Rightarrow>
                 Some (strip key, strip_char 39 (strip_char 34 (strip val)))))"

definition setdefault :: "environ \<Rightarrow> str \<Rightarrow> str \<Rightarrow> environ" where
  "setdefault env k v = (case env k of None \<Rightarrow> env(k \<mapsto> v) | Some _ \<Rightarrow> env)"

definition load_local_dotenv :: "str option \<Rightarrow> environ \<Rightarrow> environ" where
  "load_local_dotenv file env =
     (case file of None \<Rightarrow> env
      | Some text \<Rightarrow>
          foldl (\<lambda>e raw. case dotenv_entry raw of None \<Rightarrow> e | Some (k, v) \<Rightarrow> setdefault e k v)
            env (split_lines [] text))"

subsection \<open>Readers\<close>

definition env_get :: "environ \<Rightarrow> string \<Rightarrow> str \<Rightarrow> str" where
  "env_get env name dflt = (case env (lit name) of None \<Rightarrow> dflt | Some v \<Rightarrow> v)"

definition value_error :: exn where
  "value_error = PyError ''ValueError'' []"

definition env_int :: "environ \<Rightarrow> string \<Rightarrow> int \<Rightarrow> exn + int" where
  "env_int env name dflt =
     (let v = env_get env name (int_str dflt)
      in if v = [] then Inr dflt
         else case py_int v of None \<Rightarrow> Inl value_error | Some i \<Rightarrow> Inr i)"

definition env_flag :: "environ \<Rightarrow> string \<Rightarrow> bool \<Rightarrow> bool" where
  "env_flag env name dflt =
     (lower (strip (env_get env name (if dflt then lit ''1'' else lit ''0'')))
        \<in> {lit ''1'', lit ''true'', lit ''yes'', lit ''on''})"

definition env_float ::
  "(str \<Rightarrow> exn + pyfloat) \<Rightarrow> environ \<Rightarrow> string \<Rightarrow> string \<Rightarrow> pyfloat \<Rightarrow> exn + pyfloat" where
  "env_float float_of env name default_text dflt =
     (let v = env_get env name (lit default_text) in if v = [] then Inr dflt else float_of v)"

text \<open>\<^verbatim>\<open>[s.strip() for s in raw.split(",") if s.strip()]\<close>, also \<^verbatim>\<open>parse_csv\<close> of \<^verbatim>\<open>k8s.py\<close>.\<close>

definition parse_csv :: "str \<Rightarrow> str list" where
  "parse_csv raw = filter (\<lambda>s. s \<noteq> []) (map strip (split_on 44 raw))"

subsection \<open>Config\<close>

record config =
  provider :: str
  auth_token :: str
  default_image :: str
  allowed_images :: "str list"
  cfg_docker_runtime :: str
  cfg_docker_network :: str
  max_output_bytes :: int
  max_memory_mb :: int
  max_cpus :: pyfloat
  disk_mb :: int
  max_concurrency :: int
  max_session_seconds :: int
  max_exec_seconds :: int
  max_request_bytes :: int
  expose_docs :: bool
  max_sessions :: int
  log_payloads :: bool
  k8s_namespace :: str
  k8s_runtime_class :: str
  k8s_node_selector :: str
  k8s_toleration :: str
  k8s_create_timeout :: int
  k8s_image_pull_secrets :: str
  k8s_reap_interval :: int
  k8s_allow_no_runtime_class :: bool

definition from_env :: "(str \<Rightarrow> exn + pyfloat) \<Rightarrow> environ \<Rightarrow> exn + config" where
  "from_env float_of env =
     bindr (env_int env ''SANDBOX_MAX_OUTPUT_BYTES'' 1000000) (\<lambda>mob.
     bindr (env_int env ''SANDBOX_MAX_MEMORY_MB'' 4096) (\<lambda>mmb.
     bindr (env_float float_of env ''SANDBOX_MAX_CPUS'' ''2'' (Finite 2)) (\<lambda>cpu.
     bindr (env_int env ''SANDBOX_DISK_MB'' 256) (\<lambda>disk.
     bindr (env_int env ''SANDBOX_MAX_CONCURRENCY'' 32) (\<lambda>conc.
     bindr (env_int env ''SANDBOX_MAX_SESSION_SECONDS'' 3600) (\<lambda>mss.
     bindr (env_int env ''SANDBOX_MAX_EXEC_SECONDS'' 600) (\<lambda>mes.
     bindr (env_int env ''SANDBOX_MAX_REQUEST_BYTES'' (32 * 1024 * 1024)) (\<lambda>mrb.
     bindr (env_int env ''SANDBOX_MAX_SESSIONS'' 24) (\<lambda>msn.
     bindr (env_int env ''SANDBOX_K8S_CREATE_TIMEOUT'' 120) (\<lambda>kct.
     bindr (env_int env ''SANDBOX_K8S_REAP_INTERVAL'' 120) (\<lambda>kri.
     Inr \<lparr>provider = lower (strip (env_get env ''SANDBOX_PROVIDER'' (lit ''gvisor''))),
          auth_token = env_get env ''LLM_SANDBOX_TOKEN'' [],
          default_image = env_get env ''SANDBOX_IMAGE'' (lit ''llm-sandbox-runtime:latest''),
          allowed_images = parse_csv (env_get env ''SANDBOX_ALLOWED_IMAGES'' []),
          cfg_docker_runtime = env_get env ''SANDBOX_DOCKER_RUNTIME'' (lit ''runsc''),
          cfg_docker_network = env_get env ''SANDBOX_DOCKER_NETWORK'' (lit ''bridge''),
          max_output_bytes = mob, max_memory_mb = mmb, max_cpus = cpu, disk_mb = disk,
          max_concurrency = conc, max_session_seconds = mss, max_exec_seconds = mes,
          max_request_bytes = mrb,
          expose_docs = env_flag env ''SANDBOX_EXPOSE_DOCS'' False,
          max_sessions = msn,
          log_payloads = env_flag env ''SANDBOX_LOG_PAYLOADS'' True,
          k8s_namespace = env_get env ''SANDBOX_K8S_NAMESPACE'' [],
          k8s_runtime_class = env_get env ''SANDBOX_K8S_RUNTIME_CLASS'' (lit ''gvisor''),
          k8s_node_selector = env_get env ''SANDBOX_K8S_NODE_SELECTOR''
            (lit ''kops.k8s.io/instancegroup=ai-sandbox''),
          k8s_toleration = env_get env ''SANDBOX_K8S_TOLERATION''
            (lit ''dedicated=ai-sandbox:NoSchedule''),
          k8s_create_timeout = kct,
          k8s_image_pull_secrets = env_get env ''SANDBOX_K8S_IMAGE_PULL_SECRETS'' [],
          k8s_reap_interval = kri,
          k8s_allow_no_runtime_class = env_flag env ''SANDBOX_K8S_ALLOW_NO_RUNTIME_CLASS'' False\<rparr>)))))))))))"

subsection \<open>Facts\<close>

lemma setdefault_keeps: "env k = Some v \<Longrightarrow> setdefault env k' v' k = Some v"
  by (auto simp: setdefault_def split: option.split)

lemma load_local_dotenv_keeps: "env k = Some v \<Longrightarrow> load_local_dotenv file env k = Some v"
proof -
  have "env k = Some v \<Longrightarrow>
    foldl (\<lambda>e raw. case dotenv_entry raw of None \<Rightarrow> e | Some (k, v) \<Rightarrow> setdefault e k v) env ls k
      = Some v" for ls env
    by (induction ls arbitrary: env) (auto simp: setdefault_keeps split: option.split)
  then show "env k = Some v \<Longrightarrow> ?thesis" by (simp add: load_local_dotenv_def split: option.split)
qed

lemma parse_csv_nonempty: "s \<in> set (parse_csv raw) \<Longrightarrow> s \<noteq> []"
  by (simp add: parse_csv_def)

lemma parse_csv_no_comma: "s \<in> set (parse_csv raw) \<Longrightarrow> 44 \<notin> set s"
  using set_strip split_on_pieces by (fastforce simp: parse_csv_def)

text \<open>A list of plain names, joined by commas, is read back.\<close>

lemma parse_csv_join:
  assumes "\<forall>n \<in> set names. n \<noteq> [] \<and> 44 \<notin> set n \<and> (\<forall>c \<in> set n. \<not> is_space c)"
  shows "parse_csv (join_with [44] names) = names"
proof (cases "names = []")
  case True
  then show ?thesis by (simp add: parse_csv_def strip_def strip_by_def lstrip_by_def)
next
  case False
  with assms have "split_on 44 (join_with [44] names) = names" by (intro split_join_on) auto
  moreover have "map strip names = names"
    by (rule map_idI) (use assms in \<open>auto simp: strip_no_space\<close>)
  ultimately show ?thesis using assms by (simp add: parse_csv_def filter_id_conv)
qed

lemma env_int_unset: "env (lit name) = None \<Longrightarrow> length (int_str d) \<le> 4300 \<Longrightarrow> env_int env name d = Inr d"
  by (simp add: env_int_def env_get_def py_int_int_str)

end
