(* ===== verification/K8s_Api.thy ===== *)
theory K8s_Api
  imports Provider Url Config "HOL-Library.AList"
begin

section \<open>The apiserver client and the parsers of k8s.py\<close>

text \<open>
  The module-level parsers of \<^verbatim>\<open>providers/k8s.py\<close> and its class \<^verbatim>\<open>ApiServer\<close>. What the client
  remembers between calls (the bearer token, when it was read, whether the HTTP client is open) is
  \<open>api_state\<close>; it lives in the world and is reached through \<open>api_get\<close> and \<open>api_put\<close>. HTTP, the
  WebSocket, files, sleeping and JSON text are parameters, bundled in the record \<open>cluster\<close>.
\<close>

subsection \<open>Parsers\<close>

definition parse_node_selector :: "str \<Rightarrow> (str \<times> str) list" where
  "parse_node_selector raw =
     foldl (\<lambda>out pair.
        let pair = strip pair
        in if pair = [] then out
           else (case partition_on 61 pair of (key, _, val) \<Rightarrow>
                   AList.update (strip key) (strip val) out))
       [] (split_on 44 raw)"

definition parse_toleration :: "str \<Rightarrow> (str \<times> str) list option" where
  "parse_toleration raw =
     (let raw = strip raw
      in if raw = [] then None
         else (case rpartition_on 58 raw of (head, sep, effect) \<Rightarrow>
          (let (head, effect) = (if \<not> sep then (raw, []) else (head, effect));
               (key, eq, val) = partition_on 61 head
           in Some ([(lit ''key'', strip key)]
              @ (if eq then [(lit ''operator'', lit ''Equal''), (lit ''value'', strip val)]
                 else [(lit ''operator'', lit ''Exists'')])
              @ (if effect \<noteq> [] then [(lit ''effect'', strip effect)] else [])))))"

text \<open>\<^verbatim>\<open>int(j)\<close> of a JSON value.\<close>

fun json_int :: "json \<Rightarrow> exn + int" where
  "json_int (JStr s) = (case py_int s of None \<Rightarrow> Inl value_error | Some i \<Rightarrow> Inr i)"
| "json_int (JInt i) = Inr i"
| "json_int (JBool b) = Inr (if b then 1 else 0)"
| "json_int (JFloat (Finite x)) = Inr (trunc_rat x)"
| "json_int (JFloat NaN) = Inl value_error"
| "json_int (JFloat _) = Inl (PyError ''OverflowError'' [])"
| "json_int _ = Inl type_error"

fun exit_cause :: "json list \<Rightarrow> exn + int" where
  "exit_cause [] = Inr 1"
| "exit_cause (cause # causes) =
     bindr (jget ''reason'' JNull cause) (\<lambda>reason.
       if reason = JStr (lit ''ExitCode'')
       then bindr (jget ''message'' (JStr (lit ''1'')) cause) (\<lambda>message.
              case json_int message of
                Inr i \<Rightarrow> Inr i
              | Inl e \<Rightarrow> if is_value_error e then Inr 1 else Inl e)
       else exit_cause causes)"

definition exit_code_from_status :: "(bytes \<Rightarrow> exn + json) \<Rightarrow> bytes \<Rightarrow> exn + int" where
  "exit_code_from_status loads payload =
     (if payload = [] then Inr 0
      else case loads payload of
        Inl e \<Rightarrow> if is_value_error e then Inr 1 else Inl e
      | Inr status \<Rightarrow>
          bindr (jget ''status'' JNull status) (\<lambda>s.
            if s = JStr (lit ''Success'') then Inr 0
            else bindr (jget ''details'' (JObj []) status) (\<lambda>details.
                 bindr (jget ''causes'' (JList []) details) (\<lambda>causes.
                 bindr (jiter causes) exit_cause))))"

subsection \<open>ApiServer\<close>

record api_server =
  authority :: str
  token_path :: str
  ns_path :: str

record api_state =
  a_token :: str
  a_token_at :: rat
  a_client :: bool
  a_reaper :: bool

definition init_api_state :: api_state where
  "init_api_state = \<lparr>a_token = [], a_token_at = 0, a_client = False, a_reaper = False\<rparr>"

datatype frame = Text str | Binary bytes

text \<open>
  \<open>ws_open\<close> is the handshake (a handle and the negotiated subprotocol, or an exception), \<open>ws_recv\<close>
  the frames until the connection closes, \<open>ws_close\<close> the end of \<^verbatim>\<open>async with\<close>. \<open>http_call\<close> gives the status and what \<^verbatim>\<open>resp.json()\<close> does.
\<close>

record 'w cluster =
  api_get :: "'w \<Rightarrow> api_state"
  api_put :: "api_state \<Rightarrow> 'w \<Rightarrow> 'w"
  open_read :: "str \<Rightarrow> ('w, str) prog"
  http_call :: "str \<Rightarrow> str \<Rightarrow> (str \<times> str) list option \<Rightarrow> (str \<times> str) list \<Rightarrow> json option
    \<Rightarrow> int option \<Rightarrow> ('w, int \<times> (exn + json)) prog"
  ws_open :: "str \<Rightarrow> (str \<times> str) list \<Rightarrow> ('w, nat \<times> str) prog"
  ws_send :: "nat \<Rightarrow> bytes \<Rightarrow> ('w, unit) prog"
  ws_recv :: "nat \<Rightarrow> ('w, frame list) prog"
  ws_close :: "nat \<Rightarrow> 'w \<Rightarrow> 'w"
  sleep_for :: "rat \<Rightarrow> ('w, unit) prog"
  loads_bytes :: "bytes \<Rightarrow> exn + json"
  json_show :: "json \<Rightarrow> str"
  load_ca :: "str \<Rightarrow> exn + unit"

definition update_api :: "'w cluster \<Rightarrow> (api_state \<Rightarrow> api_state) \<Rightarrow> 'w \<Rightarrow> 'w" where
  "update_api c f w = api_put c (f (api_get c w)) w"

text \<open>\<^verbatim>\<open>os.path.join\<close> with a relative second part.\<close>

definition path_join :: "str \<Rightarrow> str \<Rightarrow> str" where
  "path_join a b = (if a = [] \<or> last a = 47 then a @ b else a @ [47] @ b)"

definition SA_DIR :: str where
  "SA_DIR = lit ''/var/run/secrets/kubernetes.io/serviceaccount''"

definition TOKEN_TTL :: rat where
  "TOKEN_TTL = 60"

definition runtime_error :: "str \<Rightarrow> exn" where
  "runtime_error m = PyError ''RuntimeError'' m"

definition api_server_init :: "environ \<Rightarrow> (str \<Rightarrow> exn + unit) \<Rightarrow> str \<Rightarrow> exn + api_server" where
  "api_server_init env ca sa_dir =
     (let host = env_get env ''KUBERNETES_SERVICE_HOST'' [];
          port = or_else (env (lit ''KUBERNETES_SERVICE_PORT_HTTPS''))
                   (or_else (env (lit ''KUBERNETES_SERVICE_PORT'')) (lit ''443''))
      in if host = []
         then Inl (runtime_error (lit ''KUBERNETES_SERVICE_HOST is unset '' @ [8212]
                @ lit '' SANDBOX_PROVIDER=k8s only works from inside the cluster (the service ''
                @ lit ''runs as a Deployment; see example_k8s/deployment.yaml)''))
         else (let host = (if 58 \<in> set host then [91] @ host @ [93] else host)
               in bindr (ca (path_join sa_dir (lit ''ca.crt''))) (\<lambda>_.
                  Inr \<lparr>authority = host @ [58] @ port,
                       token_path = path_join sa_dir (lit ''token''),
                       ns_path = path_join sa_dir (lit ''namespace'')\<rparr>)))"

definition default_namespace :: "'w cluster \<Rightarrow> api_server \<Rightarrow> ('w, str) prog" where
  "default_namespace c a =
     catchp (bindp (open_read c (ns_path a)) (\<lambda>text. ret (strip text)))
       (\<lambda>e. if is_os_error e then ret (lit ''default'') else throw e)"

definition bearer :: "'w os \<Rightarrow> 'w cluster \<Rightarrow> api_server \<Rightarrow> ('w, str) prog" where
  "bearer os c a =
     bindp (ask (monotonic os)) (\<lambda>now.
     bindp (ask (\<lambda>w. (api_get c w, w))) (\<lambda>st.
     bindp (if a_token st = [] \<or> TOKEN_TTL < now - a_token_at st
            then bindp (open_read c (token_path a)) (\<lambda>text w.
                   (Inr (strip text),
                    update_api c (\<lambda>s. s\<lparr>a_token := strip text, a_token_at := now\<rparr>) w))
            else ret (a_token st)) (\<lambda>token.
     ret (lit ''Bearer '' @ token))))"

definition api_start :: "'w cluster \<Rightarrow> ('w, unit) prog" where
  "api_start c = (\<lambda>w. (Inr (), update_api c (\<lambda>s. s\<lparr>a_client := True\<rparr>) w))"

definition api_close :: "'w cluster \<Rightarrow> ('w, unit) prog" where
  "api_close c = (\<lambda>w. (Inr (), update_api c (\<lambda>s. s\<lparr>a_client := False\<rparr>) w))"

definition request ::
  "'w os \<Rightarrow> 'w cluster \<Rightarrow> api_server \<Rightarrow> str \<Rightarrow> str \<Rightarrow> (str \<times> str) list option \<Rightarrow> json option
     \<Rightarrow> int option \<Rightarrow> ('w, int \<times> json) prog" where
  "request os c a method path params body timeout =
     bindp (ask (\<lambda>w. (api_get c w, w))) (\<lambda>st.
     bindp (if \<not> a_client st then api_start c else ret ()) (\<lambda>_.
     bindp (bearer os c a) (\<lambda>token.
     bindp (http_call c method path params
              [(lit ''Authorization'', token), (lit ''Accept'', lit ''application/json'')]
              body timeout) (\<lambda>(status, parsed).
       case parsed of
         Inr j \<Rightarrow> ret (status, j)
       | Inl e \<Rightarrow> if is_value_error e then ret (status, JObj []) else throw e))))"

definition ws_url :: "api_server \<Rightarrow> str \<Rightarrow> (str \<times> str) list \<Rightarrow> exn + str" where
  "ws_url a path query =
     bindr (urlencode query) (\<lambda>q. Inr (lit ''wss://'' @ authority a @ path @ lit ''?'' @ q))"

definition ws_headers :: "'w os \<Rightarrow> 'w cluster \<Rightarrow> api_server \<Rightarrow> ('w, (str \<times> str) list) prog" where
  "ws_headers os c a = bindp (bearer os c a) (\<lambda>token. ret [(lit ''Authorization'', token)])"

text \<open>\<^verbatim>\<open>str(j)\<close>: a string is itself, any other value is shown as Python shows it.\<close>

definition json_text :: "'w cluster \<Rightarrow> json \<Rightarrow> str" where
  "json_text c j = (case j of JStr s \<Rightarrow> s | _ \<Rightarrow> json_show c j)"

definition api_error :: "'w cluster \<Rightarrow> int \<Rightarrow> json \<Rightarrow> exn + str" where
  "api_error c status payload =
     bindr (jget ''message'' JNull payload) (\<lambda>m.
     Inr (lit ''HTTP '' @ int_str status @ lit '': ''
       @ (if truthy m then json_text c m
          else if truthy payload then json_text c payload else lit ''no detail'')))"

end
