(* ===== verification/Session_Props.thy ===== *)
theory Session_Props
  imports Session_Ops
begin

section \<open>Correctness of the in-session operations\<close>

text \<open>
  The scripts read back by the shell's rules, the payloads of \<^verbatim>\<open>read_file\<close>, every error branch,
  and the interface \<open>exec_backend\<close>: what \<^verbatim>\<open>SessionOpsMixin\<close> relies on in a provider's
  \<^verbatim>\<open>_exec_cli\<close>, namely that it may cut a stream, but only past the byte that shows it was too
  long.
\<close>

subsection \<open>Scripts\<close>

lemma lit_space: "lit (s @ '' '') @ r = lit s @ 32 # r"
  by (simp add: lit_def)

lemma sh_argv_lit:
  "(\<forall>c \<in> set (lit s). shell_safe c) \<Longrightarrow> s \<noteq> [] \<Longrightarrow>
   sh_argv (lit s @ 32 # r) = map_option (apfst ((#) (lit s))) (sh_argv r)"
  by (simp add: sh_argv_safe)

lemma sh_argv_and: "sh_argv (lit ''&&'' @ r) = Some ([], lit ''&&'' @ r)"
  by (simp add: lit_def sh_argv_stop sh_meta_def)

lemma and_split: "lit '' && '' @ r = 32 # lit ''&&'' @ 32 # r"
  by (simp add: lit_def)

lemma safe_words:
  "\<forall>c \<in> set (lit ''cd''). shell_safe c"
  "\<forall>c \<in> set (lit ''head''). shell_safe c"
  "\<forall>c \<in> set (lit ''-c''). shell_safe c"
  "\<forall>c \<in> set (lit ''mkdir''). shell_safe c"
  "\<forall>c \<in> set (lit ''-p''). shell_safe c"
  by (simp_all add: lit_def shell_safe_def)

lemma exec_script_words:
  "sh_argv (last (exec_argv command seconds workdir))
     = Some ([lit ''cd'', or_else workdir WORKDIR], lit ''&& '' @ command)"
proof -
  let ?wd = "or_else workdir WORKDIR"
  have "last (exec_argv command seconds workdir)
    = lit ''cd'' @ 32 # shlex_quote ?wd @ 32 # lit ''&&'' @ 32 # command"
    using lit_space [of "''cd''"] by (simp add: exec_argv_def and_split)
  then show ?thesis
    by (simp add: sh_argv_lit safe_words sh_argv_quote sh_argv_and) (simp add: lit_def)
qed

lemma read_script_words:
  "sh_argv (last (read_argv path limit))
     = Some ([lit ''head'', lit ''-c'', int_str (limit + 1), path], [])"
proof -
  have "last (read_argv path limit)
    = lit ''head'' @ 32 # lit ''-c'' @ 32 # int_str (limit + 1) @ 32 # shlex_quote path"
    by (simp add: read_argv_def lit_def)
  then show ?thesis
    by (simp add: sh_argv_lit safe_words sh_argv_int sh_argv_quote_last)
qed

lemma write_script_words:
  "\<exists>script. write_cmd path hex8 n encoding
       = lit ''mkdir -p '' @ shlex_quote (or_text (dirname path) WORKDIR) @ script
     \<and> sh_argv (write_cmd path hex8 n encoding)
       = Some ([lit ''mkdir'', lit ''-p'', or_text (dirname path) WORKDIR], tl script)"
proof -
  let ?p = "or_text (dirname path) WORKDIR"
  obtain r where w: "write_cmd path hex8 n encoding
      = lit ''mkdir'' @ 32 # lit ''-p'' @ 32 # shlex_quote ?p @ 32 # lit ''&&'' @ r"
    and r: "write_cmd path hex8 n encoding
      = lit ''mkdir -p '' @ shlex_quote ?p @ 32 # lit ''&&'' @ r"
    by (simp add: write_cmd_def lit_def Let_def)
  show ?thesis
    by (rule exI [of _ "32 # lit ''&&'' @ r"], intro conjI, rule r, subst w)
       (simp add: sh_argv_lit safe_words sh_argv_quote sh_argv_and)
qed

subsection \<open>Payloads of read_file\<close>

text \<open>What a caller gets out of a returned \<open>(content, encoding)\<close>.\<close>

definition payload_bytes :: "str \<Rightarrow> str \<Rightarrow> bytes option" where
  "payload_bytes content encoding =
     (if encoding = lit ''utf-8'' then result_option (utf8_encode content)
      else b64decode content)"

lemma read_result_recovers:
  assumes "read_result out limit = (content, encoding, tr)"
  shows "payload_bytes content encoding = Some (py_take limit out)
    \<and> (tr \<longleftrightarrow> limit < int (length out))
    \<and> encoding \<in> {lit ''utf-8'', lit ''base64''}"
proof (cases "utf8_decode (py_take limit out)")
  case (Inl e)
  with assms show ?thesis by (auto simp: read_result_def payload_bytes_def Let_def)
next
  case (Inr s)
  moreover from this have "result_option (utf8_encode s) = Some (py_take limit out)"
    by (intro utf8_payload.recover) simp
  ultimately show ?thesis using assms
    by (auto simp: read_result_def payload_bytes_def Let_def)
qed

lemma read_result_cut:
  assumes "0 \<le> limit" "limit \<le> cap" "capped cap full out"
  shows "read_result out limit = read_result full limit"
proof -
  have "py_take limit out = py_take limit full
      \<and> (limit < int (length out) \<longleftrightarrow> limit < int (length full))"
    using assms by (auto simp: capped_def min_def split: if_splits)
  then show ?thesis by (simp add: read_result_def)
qed

lemma read_result_head:
  assumes "0 \<le> limit"
  shows "read_result (take (nat (limit + 1)) bs) limit = read_result bs limit"
  using read_result_cut [of limit limit bs "take (nat (limit + 1)) bs"] assms
  by (simp add: capped_def)

subsection \<open>Errors\<close>

lemma write_file_error:
  assumes "utf8_encode content = Inr data" and "uuid4_hex os w = (hex, w1)"
    and "cli sid [lit ''sh'', lit ''-c'', write_cmd path (take 8 hex) (length data) encoding]
           (Some data) (Some 60) w1 = (Inr (rc, out, err), w2)"
  shows "write_file os cli sid path content encoding w =
    (if rc = 0 then Inr () else Inl (SandboxError (lit ''write_file failed: '' @ stripped_error err)), w2)"
  using assms by (simp add: write_file_def prog_simps)

lemma read_file_error:
  assumes "cli sid (read_argv path (min max_bytes cap)) None (Some 30) w = (Inr (rc, out, err), w1)"
    and "rc \<noteq> 0"
  shows "read_file cap cli sid path max_bytes w
    = (Inl (PathNotFound (or_text (stripped_error err) path)), w1)"
  using assms by (simp add: read_file_def prog_simps Let_def)

lemma read_file_ok:
  assumes "cli sid (read_argv path (min max_bytes cap)) None (Some 30) w = (Inr (0, out, err), w1)"
  shows "read_file cap cli sid path max_bytes w = (Inr (read_result out (min max_bytes cap)), w1)"
  using assms by (simp add: read_file_def prog_simps Let_def)

lemma read_file_elim:
  assumes "read_file cap cli sid path max_bytes w = (Inr r, w1)"
  obtains out err where
    "cli sid (read_argv path (min max_bytes cap)) None (Some 30) w = (Inr (0, out, err), w1)"
    "r = read_result out (min max_bytes cap)"
proof -
  from assms obtain rc out err w2 where
    c: "cli sid (read_argv path (min max_bytes cap)) None (Some 30) w = (Inr (rc, out, err), w2)"
    and k: "(if rc \<noteq> 0 then throw (PathNotFound (or_text (stripped_error err) path))
             else ret (read_result out (min max_bytes cap))) w2 = (Inr r, w1)"
    unfolding read_file_def Let_def bindp_eq_Inr by auto
  from k have "rc = 0 \<and> r = read_result out (min max_bytes cap) \<and> w1 = w2"
    by (auto simp: prog_simps split: if_splits)
  with c show thesis by (auto intro: that)
qed

lemma session_result_apply:
  "session_result os cap rc out err start w =
     (Inr \<lparr>stdout = fst (cap_output (PBytes out) cap), stderr = fst (cap_output (PBytes err) cap),
           exit_code = rc,
           truncated = snd (cap_output (PBytes out) cap) \<or> snd (cap_output (PBytes err) cap),
           duration_ms = Some (trunc_rat ((fst (monotonic os w) - start) * 1000))\<rparr>,
      snd (monotonic os w))"
  by (simp add: session_result_def prog_simps bindp_apply Let_def del: cap_output.simps
      split: prod.split)

lemma exec_elim:
  assumes "exec os cap cli sid command t wd w = (Inr r, w')"
  obtains rc out err w2 where
    "cli sid (exec_argv command (max 1 t) wd) None (Some (max 1 t + 2)) (snd (monotonic os w))
       = (Inr (rc, out, err), w2)"
    "session_result os cap rc out err (fst (monotonic os w)) w2 = (Inr r, w')"
  using assms unfolding exec_def Let_def bindp_eq_Inr by (auto simp: prog_simps)

subsection \<open>The interface of a provider's exec transport\<close>

text \<open>
  \<open>streams\<close> gives the exit code and the whole streams of the command; \<open>cli\<close>, whenever it returns,
  returns that exit code and each stream either whole or cut to one byte past the cap.
\<close>

locale exec_backend =
  fixes cli :: "'w exec_cli"
    and streams :: "str \<Rightarrow> str list \<Rightarrow> bytes option \<Rightarrow> int option \<Rightarrow> 'w
      \<Rightarrow> (int \<times> bytes \<times> bytes) option"
    and cap :: int
  assumes cut_only: "cli sid cmd stdin t w = (Inr (rc, out, err), w') \<Longrightarrow>
    \<exists>full_out full_err. streams sid cmd stdin t w = Some (rc, full_out, full_err)
      \<and> capped cap full_out out \<and> capped cap full_err err"
begin

lemma capped_output: "0 \<le> cap \<Longrightarrow> capped cap full got \<Longrightarrow>
   cap_output (PBytes got) cap = cap_output (PBytes full) cap"
  using cap_output_cut [of cap full] by (auto simp: capped_def)

lemma exec_sees_whole_streams:
  assumes cap: "0 \<le> cap" and run: "exec os cap cli sid command t wd w = (Inr r, w')"
  shows "\<exists>rc full_out full_err.
     streams sid (exec_argv command (max 1 t) wd) None (Some (max 1 t + 2)) (snd (monotonic os w))
       = Some (rc, full_out, full_err)
     \<and> exit_code r = rc
     \<and> stdout r = fst (cap_output (PBytes full_out) cap)
     \<and> stderr r = fst (cap_output (PBytes full_err) cap)
     \<and> (truncated r \<longleftrightarrow> cap < int (length full_out) \<or> cap < int (length full_err))"
  using run
proof (cases rule: exec_elim)
  case (1 rc out err w2)
  from cut_only [OF 1(1)] obtain fo fe where f:
    "streams sid (exec_argv command (max 1 t) wd) None (Some (max 1 t + 2)) (snd (monotonic os w))
       = Some (rc, fo, fe)" "capped cap fo out" "capped cap fe err"
    by blast
  have "cap_output (PBytes out) cap = cap_output (PBytes fo) cap"
    "cap_output (PBytes err) cap = cap_output (PBytes fe) cap"
    using capped_output [OF cap] f by blast+
  with 1(2) f(1) show ?thesis by (auto simp: session_result_apply)
qed

lemma exec_bounded:
  assumes "0 \<le> cap" and "exec os cap cli sid command t wd w = (Inr r, w')"
  shows "int (length (stdout r)) \<le> cap \<and> int (length (stderr r)) \<le> cap"
  using exec_sees_whole_streams [OF assms] cap_output_length [OF assms(1)] by metis

lemma read_file_sees_whole_stream:
  assumes limit: "0 \<le> min max_bytes cap"
    and run: "read_file cap cli sid path max_bytes w = (Inr r, w')"
  shows "\<exists>full_out full_err.
     streams sid (read_argv path (min max_bytes cap)) None (Some 30) w = Some (0, full_out, full_err)
     \<and> r = read_result full_out (min max_bytes cap)"
  using run
proof (cases rule: read_file_elim)
  case (1 out err)
  from cut_only [OF 1(1)] obtain fo fe where
    "streams sid (read_argv path (min max_bytes cap)) None (Some 30) w = Some (0, fo, fe)"
    "capped cap fo out" by blast
  moreover from this have "read_result out (min max_bytes cap) = read_result fo (min max_bytes cap)"
    using limit by (intro read_result_cut) auto
  ultimately show ?thesis using 1(2) by auto
qed

text \<open>
  Under the documented behaviour of \<^verbatim>\<open>head -c N\<close> (its output is the first N bytes of the file),
  the caller gets back the file's first bytes and knows whether there are more.
\<close>

lemma read_file_returns_file:
  assumes limit: "0 \<le> min max_bytes cap"
    and run: "read_file cap cli sid path max_bytes w = (Inr (content, encoding, tr), w')"
    and head: "\<And>rc fo fe. streams sid (read_argv path (min max_bytes cap)) None (Some 30) w
                 = Some (rc, fo, fe) \<Longrightarrow> fo = take (nat (min max_bytes cap + 1)) bs"
  shows "payload_bytes content encoding = Some (take (nat (min max_bytes cap)) bs)
    \<and> (tr \<longleftrightarrow> min max_bytes cap < int (length bs))"
proof -
  from read_file_sees_whole_stream [OF limit run] head
  have "read_result (take (nat (min max_bytes cap + 1)) bs) (min max_bytes cap)
      = (content, encoding, tr)" by metis
  then have "read_result bs (min max_bytes cap) = (content, encoding, tr)"
    using read_result_head [OF limit] by simp
  from read_result_recovers [OF this] limit show ?thesis by simp
qed

end

end
