(* ===== verification/K8s.thy ===== *)
theory K8s
  imports K8s_Api Session_Props
begin

section \<open>The Kubernetes provider: one pod per session through the apiserver\<close>

text \<open>
  \<^verbatim>\<open>K8sProvider\<close> of \<^verbatim>\<open>providers/k8s.py\<close>: constructor, life cycle, pod manifest, readiness wait,
  reaper, and the exec WebSocket. The readiness loop runs on fuel, one unit per poll; theory
  \<open>K8s_Props\<close> shows how much is enough.
\<close>

record k8s =
  k_default_image :: str
  runtime_class :: str
  node_selector :: "(str \<times> str) list"
  toleration :: "(str \<times> str) list option"
  image_pull_secrets :: "str list"
  create_timeout :: int
  k_max_output_bytes :: int
  k_disk_mb :: int
  reap_interval :: int
  api :: api_server
  namespace :: str

definition PREFIX :: str where
  "PREFIX = lit ''llmsbx-''"

definition SESSION_LABEL :: str where
  "SESSION_LABEL = lit ''llm-sandbox-session''"

definition NETWORK_LABEL :: str where
  "NETWORK_LABEL = lit ''llm-sandbox/network''"

text \<open>\<^verbatim>\<open>asyncio.Semaphore(n)\<close> refuses a negative count.\<close>

definition semaphore :: "int \<Rightarrow> exn + unit" where
  "semaphore n = (if n < 0 then Inl value_error else Inr ())"

definition k8s_init ::
  "'w cluster \<Rightarrow> environ \<Rightarrow> config \<Rightarrow> ('w, k8s) prog" where
  "k8s_init c env cfg =
     (if k8s_runtime_class cfg = [] \<and> \<not> k8s_allow_no_runtime_class cfg
      then throw (runtime_error (lit ''SANDBOX_K8S_RUNTIME_CLASS is empty '' @ [8212]
             @ lit '' session pods would run on the cluster's default runtime (runc), which is ''
             @ lit ''NOT an isolation boundary for untrusted code. Set it to 'gvisor', or set ''
             @ lit ''SANDBOX_K8S_ALLOW_NO_RUNTIME_CLASS=1 to accept that.''))
      else bindp (of_result (api_server_init env (load_ca c) SA_DIR)) (\<lambda>a.
           bindp (if k8s_namespace cfg = [] then default_namespace c a
                  else ret (k8s_namespace cfg)) (\<lambda>ns.
           bindp (of_result (semaphore (max_concurrency cfg))) (\<lambda>_.
           ret \<lparr>k_default_image = default_image cfg,
                runtime_class = k8s_runtime_class cfg,
                node_selector = parse_node_selector (k8s_node_selector cfg),
                toleration = parse_toleration (k8s_toleration cfg),
                image_pull_secrets = parse_csv (k8s_image_pull_secrets cfg),
                create_timeout = k8s_create_timeout cfg,
                k_max_output_bytes = max_output_bytes cfg,
                k_disk_mb = disk_mb cfg,
                reap_interval = k8s_reap_interval cfg,
                api = a, namespace = ns\<rparr>))))"

subsection \<open>Life cycle\<close>

definition pod :: "str \<Rightarrow> str" where
  "pod session_id = PREFIX @ session_id"

definition pods_path :: "k8s \<Rightarrow> str \<Rightarrow> str" where
  "pods_path p name =
     (let base = lit ''/api/v1/namespaces/'' @ namespace p @ lit ''/pods''
      in if name = [] then base else base @ [47] @ name)"

definition k8s_startup :: "'w cluster \<Rightarrow> ('w, unit) prog" where
  "k8s_startup c =
     bindp (api_start c) (\<lambda>_ w. (Inr (), update_api c (\<lambda>s. s\<lparr>a_reaper := True\<rparr>) w))"

definition k8s_shutdown :: "'w cluster \<Rightarrow> ('w, unit) prog" where
  "k8s_shutdown c =
     bindp (\<lambda>w. (Inr (), update_api c (\<lambda>s. s\<lparr>a_reaper := False\<rparr>) w)) (\<lambda>_. api_close c)"

definition k8s_preflight :: "'w os \<Rightarrow> 'w cluster \<Rightarrow> k8s \<Rightarrow> ('w, unit) prog" where
  "k8s_preflight os c p =
     bindp (request os c (api p) (lit ''GET'')
              (lit ''/api/v1/namespaces/'' @ namespace p @ lit ''/pods'')
              (Some [(lit ''limit'', lit ''1''),
                     (lit ''labelSelector'', lit ''app='' @ SESSION_LABEL)])
              None (Some 10)) (\<lambda>(status, payload).
       if status = 403
       then bindp (of_result (api_error c status payload)) (\<lambda>err.
              throw (SandboxError (lit ''service account may not list pods in namespace ''
                @ py_repr (namespace p) @ lit '' '' @ [8212]
                @ lit '' apply example_k8s/rbac.yaml ('' @ err @ lit '')'')))
       else if 400 \<le> status
       then bindp (of_result (api_error c status payload)) (\<lambda>err.
              throw (SandboxError (lit ''apiserver unreachable or rejecting us ('' @ err @ lit '')'')))
       else ret ())"

subsection \<open>The pod manifest\<close>

definition jstr :: "string \<Rightarrow> json" where
  "jstr s = JStr (lit s)"

definition jobj :: "(string \<times> json) list \<Rightarrow> json" where
  "jobj kvs = JObj (map (\<lambda>(k, v). (lit k, v)) kvs)"

definition jdict :: "(str \<times> str) list \<Rightarrow> json" where
  "jdict kvs = JObj (map (\<lambda>(k, v). (k, JStr v)) kvs)"

definition manifest_container ::
  "(pyfloat \<Rightarrow> str) \<Rightarrow> k8s \<Rightarrow> str \<Rightarrow> int \<Rightarrow> int \<Rightarrow> pyfloat \<Rightarrow> json" where
  "manifest_container fstr p img timeout_seconds memory_mb cpus =
     jobj [(''name'', jstr ''sandbox''),
           (''image'', JStr img),
           (''args'', JList [jstr ''sleep'', JStr (int_str timeout_seconds)]),
           (''workingDir'', JStr WORKDIR),
           (''imagePullPolicy'', jstr ''IfNotPresent''),
           (''resources'', jobj
             [(''requests'', jobj [(''cpu'', jstr ''100m''), (''memory'', jstr ''64Mi''),
                                   (''ephemeral-storage'', jstr ''64Mi'')]),
              (''limits'', jobj [(''cpu'', JStr (fstr cpus)),
                                 (''memory'', JStr (int_str memory_mb @ lit ''Mi'')),
                                 (''ephemeral-storage'', JStr (int_str (k_disk_mb p) @ lit ''Mi''))])]),
           (''securityContext'', jobj
             [(''allowPrivilegeEscalation'', JBool False),
              (''capabilities'', jobj [(''drop'', JList [jstr ''ALL''])]),
              (''seccompProfile'', jobj [(''type'', jstr ''RuntimeDefault'')])])]"

definition manifest ::
  "(pyfloat \<Rightarrow> str) \<Rightarrow> k8s \<Rightarrow> str \<Rightarrow> str \<Rightarrow> int \<Rightarrow> bool \<Rightarrow> int \<Rightarrow> pyfloat \<Rightarrow> json" where
  "manifest fstr p name img timeout_seconds network memory_mb cpus =
     (let labels = [(lit ''app'', SESSION_LABEL)]
            @ (if network then [(NETWORK_LABEL, lit ''true'')] else []);
          spec =
            [(''restartPolicy'', jstr ''Never''),
             (''automountServiceAccountToken'', JBool False),
             (''enableServiceLinks'', JBool False),
             (''activeDeadlineSeconds'', JInt (timeout_seconds + 60)),
             (''terminationGracePeriodSeconds'', JInt 0),
             (''containers'',
                JList [manifest_container fstr p img timeout_seconds memory_mb cpus])]
            @ (if runtime_class p \<noteq> [] then [(''runtimeClassName'', JStr (runtime_class p))] else [])
            @ (if node_selector p \<noteq> [] then [(''nodeSelector'', jdict (node_selector p))] else [])
            @ (case toleration p of None \<Rightarrow> [] | Some t \<Rightarrow> [(''tolerations'', JList [jdict t])])
            @ (if image_pull_secrets p \<noteq> []
               then [(''imagePullSecrets'',
                      JList (map (\<lambda>n. jobj [(''name'', JStr n)]) (image_pull_secrets p)))]
               else [])
      in jobj [(''apiVersion'', jstr ''v1''), (''kind'', jstr ''Pod''),
               (''metadata'', jobj [(''name'', JStr name), (''labels'', jdict labels)]),
               (''spec'', jobj spec)])"

subsection \<open>The reaper\<close>

text \<open>One round of \<^verbatim>\<open>_reap_loop\<close>; a round that raises is logged and the loop goes on.\<close>

definition reap_round :: "'w os \<Rightarrow> 'w cluster \<Rightarrow> k8s \<Rightarrow> ('w, unit) prog" where
  "reap_round os c p =
     catchp
       (bindp (sleep_for c (of_int (reap_interval p))) (\<lambda>_.
        bindp (request os c (api p) (lit ''DELETE'') (pods_path p [])
                 (Some [(lit ''labelSelector'', lit ''app='' @ SESSION_LABEL),
                        (lit ''fieldSelector'',
                         lit ''status.phase!=Running,status.phase!=Pending'')])
                 None (Some 30)) (\<lambda>(status, payload).
          if 400 \<le> status then bindp (of_result (api_error c status payload)) (\<lambda>_. ret ())
          else ret ())))
       (\<lambda>e. if is_Exception e then ret () else throw e)"

text \<open>\<^verbatim>\<open>while True\<close>: the first \<open>n\<close> rounds.\<close>

fun reap_rounds :: "nat \<Rightarrow> 'w os \<Rightarrow> 'w cluster \<Rightarrow> k8s \<Rightarrow> ('w, unit) prog" where
  "reap_rounds 0 os c p = ret ()"
| "reap_rounds (Suc n) os c p = bindp (reap_round os c p) (\<lambda>_. reap_rounds n os c p)"

subsection \<open>Waiting for the pod\<close>

definition FATAL_WAITING :: "str list" where
  "FATAL_WAITING = [lit ''ErrImagePull'', lit ''ImagePullBackOff'', lit ''InvalidImageName'',
     lit ''CreateContainerConfigError'', lit ''CreateContainerError'']"

text \<open>\<^verbatim>\<open>any(c.get("type") == "Ready" and c.get("status") == "True" for c in conditions)\<close>\<close>

fun any_ready :: "json list \<Rightarrow> exn + bool" where
  "any_ready [] = Inr False"
| "any_ready (cond # conds) =
     bindr (jget ''type'' JNull cond) (\<lambda>t.
       if t = jstr ''Ready''
       then bindr (jget ''status'' JNull cond) (\<lambda>s.
              if s = jstr ''True'' then Inr True else any_ready conds)
       else any_ready conds)"

fun waiting_reason :: "json \<Rightarrow> json list \<Rightarrow> exn + json" where
  "waiting_reason waiting [] = Inr waiting"
| "waiting_reason waiting (cs # css) =
     bindr (jget ''state'' (JObj []) cs) (\<lambda>state.
     bindr (jget ''waiting'' (JObj []) state) (\<lambda>w.
     bindr (jget ''reason'' (JStr []) w) (\<lambda>reason.
       waiting_reason (if truthy reason then reason else waiting) css)))"

text \<open>\<^verbatim>\<open>waiting in _FATAL_WAITING\<close>, a set: a list or dict is not hashable.\<close>

fun is_fatal :: "json \<Rightarrow> exn + bool" where
  "is_fatal (JStr s) = Inr (s \<in> set FATAL_WAITING)"
| "is_fatal (JList _) = Inl type_error"
| "is_fatal (JObj _) = Inl type_error"
| "is_fatal _ = Inr False"

datatype poll = Ready | GiveUp str | KeepWaiting str

text \<open>One look at the pod: what the body of the loop decides on a status below 400.\<close>

definition look :: "'w cluster \<Rightarrow> json \<Rightarrow> exn + poll" where
  "look c pod_json =
     bindr (jget ''status'' (JObj []) pod_json) (\<lambda>pod_status.
     bindr (jget ''phase'' (jstr ''Pending'') pod_status) (\<lambda>phase.
     bindr (jget ''conditions'' (JList []) pod_status) (\<lambda>conditions.
     bindr (jiter conditions) (\<lambda>conds.
     bindr (any_ready conds) (\<lambda>ready.
       if ready then Inr Ready
       else bindr (jget ''containerStatuses'' (JList []) pod_status) (\<lambda>statuses.
            bindr (jiter statuses) (\<lambda>css.
            bindr (waiting_reason (JStr []) css) (\<lambda>waiting.
            (let reason = strip (json_text c phase @ [32] @ json_text c waiting)
             in bindr (is_fatal waiting) (\<lambda>fatal.
                  if fatal \<or> phase = jstr ''Failed'' \<or> phase = jstr ''Succeeded''
                  then Inr (GiveUp reason) else Inr (KeepWaiting reason))))))))))) "

definition not_ready_hint :: "str \<Rightarrow> str \<Rightarrow> str" where
  "not_ready_hint img reason =
     (if list_ex (\<lambda>w. occurs_in w reason)
           [lit ''ErrImagePull'', lit ''ImagePullBackOff'', lit ''InvalidImageName'']
      then lit '' '' @ [8212] @ lit '' image '' @ py_repr img
           @ lit '' is not pullable from the cluster; push it to your registry, point ''
           @ lit ''SANDBOX_IMAGE at it, and set SANDBOX_K8S_IMAGE_PULL_SECRETS if the registry is ''
           @ lit ''private''
      else if starts_with reason (lit ''Pending'')
      then lit '' '' @ [8212] @ lit '' pod unschedulable? check the ai-sandbox instance group is up, ''
           @ lit ''that SANDBOX_K8S_NODE_SELECTOR / SANDBOX_K8S_TOLERATION match it, and that the ''
           @ lit ''namespace ResourceQuota is not exhausted''
      else [])"

definition not_ready :: "str \<Rightarrow> str \<Rightarrow> exn" where
  "not_ready img reason =
     SandboxError (lit ''sandbox pod not ready ('' @ or_text reason (lit ''unknown'') @ lit '')''
       @ not_ready_hint img reason)"

text \<open>
  The loop: \<open>None\<close> says that the fuel was not enough. \<open>delay\<close> is exact where Python rounds the
  product; it only says how long to sleep.
\<close>

fun wait_loop ::
  "nat \<Rightarrow> 'w os \<Rightarrow> 'w cluster \<Rightarrow> k8s \<Rightarrow> str \<Rightarrow> str \<Rightarrow> rat \<Rightarrow> rat \<Rightarrow> str \<Rightarrow> 'w
     \<Rightarrow> ((exn + unit) \<times> 'w) option" where
  "wait_loop 0 os c p name img deadline delay reason w = None"
| "wait_loop (Suc n) os c p name img deadline delay reason w =
     (let (now, w0) = monotonic os w
      in if \<not> now < deadline then Some (Inl (not_ready img reason), w0)
         else case request os c (api p) (lit ''GET'') (pods_path p name) None None (Some 10) w0 of
           (Inl e, w1) \<Rightarrow> Some (Inl e, w1)
         | (Inr (status, pod_json), w1) \<Rightarrow>
             (case (if status < 400 then look c pod_json else Inr (KeepWaiting reason)) of
                Inl e \<Rightarrow> Some (Inl e, w1)
              | Inr Ready \<Rightarrow> Some (Inr (), w1)
              | Inr (GiveUp r) \<Rightarrow> Some (Inl (not_ready img r), w1)
              | Inr (KeepWaiting r) \<Rightarrow>
                  (case sleep_for c delay w1 of
                     (Inl e, w2) \<Rightarrow> Some (Inl e, w2)
                   | (Inr _, w2) \<Rightarrow>
                       wait_loop n os c p name img deadline (min (delay * (3 / 2)) 1) r w2)))"

text \<open>Every round sleeps at least a tenth of a second, so eleven polls a second are enough.\<close>

definition polls :: "k8s \<Rightarrow> nat" where
  "polls p = nat (11 * create_timeout p) + 2"

definition wait_ready_fuel ::
  "nat \<Rightarrow> 'w os \<Rightarrow> 'w cluster \<Rightarrow> k8s \<Rightarrow> str \<Rightarrow> str \<Rightarrow> 'w \<Rightarrow> ((exn + unit) \<times> 'w) option" where
  "wait_ready_fuel n os c p name img w =
     (let (now, w0) = monotonic os w
      in wait_loop n os c p name img (now + of_int (create_timeout p)) tenth (lit ''unknown'') w0)"

definition out_of_fuel :: exn where
  "out_of_fuel = PyError ''OutOfFuel'' []"

definition wait_ready :: "'w os \<Rightarrow> 'w cluster \<Rightarrow> k8s \<Rightarrow> str \<Rightarrow> str \<Rightarrow> ('w, unit) prog" where
  "wait_ready os c p name img = (\<lambda>w.
     case wait_ready_fuel (polls p) os c p name img w of
       Some r \<Rightarrow> r
     | None \<Rightarrow> (Inl out_of_fuel, w))"

subsection \<open>create, destroy, live_session_ids\<close>

definition k8s_destroy :: "'w os \<Rightarrow> 'w cluster \<Rightarrow> k8s \<Rightarrow> str \<Rightarrow> ('w, unit) prog" where
  "k8s_destroy os c p session_id =
     bindp (in_lane os True
              (request os c (api p) (lit ''DELETE'') (pods_path p (pod session_id))
                 (Some [(lit ''gracePeriodSeconds'', lit ''0''),
                        (lit ''propagationPolicy'', lit ''Background'')])
                 None (Some 30))) (\<lambda>(status, payload).
       if 400 \<le> status \<and> status \<noteq> 404
       then bindp (of_result (api_error c status payload)) (\<lambda>_. ret ())
       else ret ())"

definition create_refused :: "'w cluster \<Rightarrow> k8s \<Rightarrow> int \<Rightarrow> json \<Rightarrow> exn + exn" where
  "create_refused c p status payload =
     bindr (jget ''message'' (JStr []) payload) (\<lambda>m.
     bindr (api_error c status payload) (\<lambda>err.
       if occurs_in (lit ''runtimeclass'') (lower (json_text c m))
       then Inr (SandboxError (lit ''RuntimeClass '' @ py_repr (runtime_class p)
              @ lit '' rejected '' @ [8212] @ lit '' is gVisor installed on the cluster ''
              @ lit ''(RuntimeClass + runsc node group)? ('' @ err @ lit '')''))
       else if status = 403
       then Inr (SandboxError (lit ''service account may not create pods '' @ [8212]
              @ lit '' apply example_k8s/rbac.yaml ('' @ err @ lit '')''))
       else Inr (SandboxError (lit ''sandbox create failed: '' @ err))))"

definition k8s_create ::
  "'w os \<Rightarrow> 'w cluster \<Rightarrow> (pyfloat \<Rightarrow> str) \<Rightarrow> k8s \<Rightarrow> str option \<Rightarrow> int \<Rightarrow> bool \<Rightarrow> int \<Rightarrow> pyfloat
     \<Rightarrow> ('w, str) prog" where
  "k8s_create os c fstr p img timeout_seconds network memory_mb cpus =
     bindp (ask (uuid4_hex os)) (\<lambda>hex.
     (let session_id = take 16 hex; name = pod session_id;
          img = or_else img (k_default_image p);
          body = manifest fstr p name img timeout_seconds network memory_mb cpus
      in bindp (in_lane os True
                  (request os c (api p) (lit ''POST'') (pods_path p []) None (Some body) (Some 30)))
           (\<lambda>(status, payload).
           if 400 \<le> status
           then bindp (of_result (create_refused c p status payload)) throw
           else bindp (catchp (wait_ready os c p name img) (\<lambda>e.
                  if is_Exception e then bindp (k8s_destroy os c p session_id) (\<lambda>_. throw e)
                  else throw e)) (\<lambda>_.
                ret session_id))))"

definition pod_name :: "json \<Rightarrow> exn + str" where
  "pod_name item =
     bindr (jget ''metadata'' (JObj []) item) (\<lambda>md.
     bindr (jget ''name'' (JStr []) md) (\<lambda>n.
       case n of JStr s \<Rightarrow> Inr s | _ \<Rightarrow> Inl attribute_error))"

definition pod_ids :: "str list \<Rightarrow> str set" where
  "pod_ids names = (\<lambda>n. drop (length PREFIX) n) ` set (filter (\<lambda>n. starts_with n PREFIX) names)"

definition k8s_live_session_ids :: "'w os \<Rightarrow> 'w cluster \<Rightarrow> k8s \<Rightarrow> ('w, str set option) prog" where
  "k8s_live_session_ids os c p =
     bindp (request os c (api p) (lit ''GET'') (pods_path p [])
              (Some [(lit ''labelSelector'', lit ''app='' @ SESSION_LABEL),
                     (lit ''fieldSelector'',
                      lit ''status.phase!=Succeeded,status.phase!=Failed'')])
              None (Some 15)) (\<lambda>(status, payload).
       if 400 \<le> status then ret None
       else of_result (bindr (jget ''items'' (JList []) payload) (\<lambda>items.
                       bindr (jiter items) (\<lambda>xs.
                       bindr (mapr pod_name xs) (\<lambda>names. Inr (Some (pod_ids names)))))))"

subsection \<open>The exec WebSocket\<close>

definition STDIN_CHUNK :: nat where
  "STDIN_CHUNK = 256 * 1024"

text \<open>Channel numbers of the exec protocol, the first byte of every frame.\<close>

definition CH_STDIN :: nat where "CH_STDIN = 0"
definition CH_STDOUT :: nat where "CH_STDOUT = 1"
definition CH_STDERR :: nat where "CH_STDERR = 2"
definition CH_ERROR :: nat where "CH_ERROR = 3"
definition CH_CLOSE :: nat where "CH_CLOSE = 255"

lemmas channel_defs = CH_STDIN_def CH_STDOUT_def CH_STDERR_def CH_ERROR_def CH_CLOSE_def

definition room_add :: "int \<Rightarrow> bytes \<Rightarrow> bytes \<Rightarrow> bytes" where
  "room_add cap buf payload =
     (let room = cap - int (length buf) in if 0 < room then buf @ py_take room payload else buf)"

text \<open>The receive loop; the state is \<^verbatim>\<open>out\<close>, \<^verbatim>\<open>err\<close> and \<^verbatim>\<open>status_payload\<close>.\<close>

fun take_frame :: "int \<Rightarrow> bytes \<times> bytes \<times> bytes \<Rightarrow> frame \<Rightarrow> bytes \<times> bytes \<times> bytes" where
  "take_frame cap s (Text _) = s"
| "take_frame cap s (Binary []) = s"
| "take_frame cap (out, err, status) (Binary (b # payload)) =
     (let channel = of_char b
      in if channel = CH_ERROR then (out, err, status @ payload)
         else if channel = CH_STDOUT then (room_add cap out payload, err, status)
         else if channel = CH_STDERR then (out, room_add cap err payload, status)
         else (out, err, status))"

definition take_frames :: "int \<Rightarrow> frame list \<Rightarrow> bytes \<times> bytes \<times> bytes" where
  "take_frames cap frames = foldl (take_frame cap) ([], [], []) frames"

text \<open>\<^verbatim>\<open>stdin[i:i + _STDIN_CHUNK]\<close> for \<^verbatim>\<open>i\<close> in steps of the chunk size.\<close>

function chunks :: "bytes \<Rightarrow> bytes list" where
  "chunks data = (if data = [] then [] else take STDIN_CHUNK data # chunks (drop STDIN_CHUNK data))"
  by pat_completeness auto
termination
  by (relation "measure length") (auto simp: STDIN_CHUNK_def)

declare chunks.simps [simp del]

definition stdin_frames :: "bytes \<Rightarrow> bytes list" where
  "stdin_frames data =
     map (\<lambda>chunk. char_of CH_STDIN # chunk) (chunks data) @ [[char_of CH_CLOSE, char_of CH_STDIN]]"

fun send_all :: "'w cluster \<Rightarrow> nat \<Rightarrow> bytes list \<Rightarrow> ('w, unit) prog" where
  "send_all c ws [] = ret ()"
| "send_all c ws (f # fs) = bindp (ws_send c ws f) (\<lambda>_. send_all c ws fs)"

definition v5 :: str where
  "v5 = lit ''v5.channel.k8s.io''"

definition v4_refused :: exn where
  "v4_refused = SandboxError (lit ''apiserver negotiated the v4 exec protocol, which cannot ''
     @ lit ''half-close stdin '' @ [8212]
     @ lit '' writing files needs Kubernetes >= 1.30 (v5.channel.k8s.io)'')"

text \<open>
  \<^verbatim>\<open>async with ws_connect(...) as ws\<close>: the connection is closed however the body ends. \<open>collect\<close> is
  what is kept of the received frames.
\<close>

definition ws_session ::
  "'w os \<Rightarrow> 'w cluster \<Rightarrow> k8s \<Rightarrow> (frame list \<Rightarrow> bytes \<times> bytes \<times> bytes) \<Rightarrow> str \<Rightarrow> bytes option
     \<Rightarrow> ('w, int \<times> bytes \<times> bytes) prog" where
  "ws_session os c p collect url stdin =
     bindp (ws_headers os c (api p)) (\<lambda>headers.
     bindp (ws_open c url headers) (\<lambda>(ws, subprotocol).
     bindp (\<lambda>w. let (r, w') =
              bindp (case stdin of None \<Rightarrow> ret ()
                     | Some data \<Rightarrow> if subprotocol \<noteq> v5 then throw v4_refused
                                   else send_all c ws (stdin_frames data)) (\<lambda>_.
              ws_recv c ws) w
            in (r, ws_close c ws w')) (\<lambda>frames.
       (case collect frames of (out, err, status) \<Rightarrow>
          of_result (bindr (exit_code_from_status (loads_bytes c) status) (\<lambda>rc.
                     Inr (rc, out, err)))))))"

definition stream ::
  "'w os \<Rightarrow> 'w cluster \<Rightarrow> k8s \<Rightarrow> str \<Rightarrow> bytes option \<Rightarrow> ('w, int \<times> bytes \<times> bytes) prog" where
  "stream os c p = ws_session os c p (take_frames (k_max_output_bytes p + 1))"

definition exec_query :: "str list \<Rightarrow> bool \<Rightarrow> (str \<times> str) list" where
  "exec_query cmd has_stdin =
     map (\<lambda>a. (lit ''command'', a)) cmd
     @ [(lit ''stdout'', lit ''true''), (lit ''stderr'', lit ''true''), (lit ''tty'', lit ''false''),
        (lit ''stdin'', if has_stdin then lit ''true'' else lit ''false'')]"

definition exec_failed :: "str \<Rightarrow> exn \<Rightarrow> ('w, int \<times> bytes \<times> bytes) prog" where
  "exec_failed session_id e =
     (case e of
        InvalidStatus code \<Rightarrow>
          if code = 404 then throw (SessionNotFound session_id)
          else throw (SandboxError (lit ''apiserver refused exec (HTTP '' @ int_str code @ lit '')''))
      | PyError cls msg \<Rightarrow>
          if cls = ''TimeoutError'' then ret (TIMEOUT_EXIT, [], timed_out_message) else throw e
      | _ \<Rightarrow> throw e)"

definition exec_url :: "k8s \<Rightarrow> str \<Rightarrow> str list \<Rightarrow> bool \<Rightarrow> exn + str" where
  "exec_url p session_id cmd has_stdin =
     ws_url (api p) (lit ''/api/v1/namespaces/'' @ namespace p @ lit ''/pods/'' @ pod session_id
       @ lit ''/exec'') (exec_query cmd has_stdin)"

definition k8s_exec_cli :: "'w os \<Rightarrow> 'w cluster \<Rightarrow> k8s \<Rightarrow> 'w exec_cli" where
  "k8s_exec_cli os c p session_id cmd stdin timeout =
     bindp (of_result (exec_url p session_id cmd (stdin \<noteq> None))) (\<lambda>url.
       catchp (in_lane os False (wait_for os timeout (stream os c p url stdin)))
         (exec_failed session_id))"

subsection \<open>The provider\<close>

definition k8s_provider :: "'w libs \<Rightarrow> 'w cluster \<Rightarrow> k8s \<Rightarrow> 'w provider" where
  "k8s_provider l c p =
     (let os = the_os l; cap = k_max_output_bytes p; cli = k8s_exec_cli os c p
      in \<lparr>provider_name = lit ''k8s'',
          startup = k8s_startup c, shutdown = k8s_shutdown c,
          preflight = k8s_preflight os c p,
          create = k8s_create os c (float_str l) p,
          destroy = k8s_destroy os c p,
          exec_op = exec os cap cli,
          run_script_op = run_script os cap cli,
          live_session_ids = k8s_live_session_ids os c p,
          write_file_op = write_file os cli,
          read_file_op = read_file cap cli,
          list_files_op = list_files (json_loads l) (file_entry_of l) cli\<rparr>)"

end
