(* ===== verification/Gvisor.thy ===== *)
theory Gvisor
  imports Provider Session_Props "HOL-Library.List_Lexorder"
begin

section \<open>The gVisor provider: one container per session through the docker CLI\<close>

text \<open>
  \<^verbatim>\<open>GvisorProvider\<close> of \<^verbatim>\<open>providers/gvisor.py\<close>. The docker CLI is whatever the operating system
  starts under the name \<^verbatim>\<open>docker\<close>; its exit codes and streams are unconstrained.
\<close>

record gvisor =
  g_default_image :: str
  docker_runtime :: str
  docker_network :: str
  g_max_output_bytes :: int

definition NAME_PREFIX :: str where
  "NAME_PREFIX = lit ''llmsbx_''"

definition container :: "str \<Rightarrow> str" where
  "container session_id = NAME_PREFIX @ session_id"

definition docker ::
  "'w os \<Rightarrow> str list \<Rightarrow> bytes option \<Rightarrow> int option \<Rightarrow> int option \<Rightarrow> bool
     \<Rightarrow> ('w, int \<times> bytes \<times> bytes) prog" where
  "docker os args stdin timeout max_bytes control =
     in_lane os control (run_cli os (lit ''docker'' # args) stdin timeout max_bytes)"

subsection \<open>exec\<close>

definition is_running :: "'w os \<Rightarrow> str \<Rightarrow> ('w, bool) prog" where
  "is_running os session_id =
     bindp (docker os [lit ''inspect'', lit ''-f'', lit ''{{.State.Running}}'', container session_id]
              None (Some 15) None True)
       (\<lambda>(rc, out, err). ret (rc = 0 \<and> strip_bytes out = ''true''))"

definition docker_exec_args :: "str \<Rightarrow> str list \<Rightarrow> bool \<Rightarrow> str list" where
  "docker_exec_args session_id cmd has_stdin =
     [lit ''exec''] @ (if has_stdin then [lit ''-i''] else []) @ [container session_id] @ cmd"

definition looks_missing :: "int \<Rightarrow> bytes \<Rightarrow> bool" where
  "looks_missing rc err \<longleftrightarrow>
     rc \<noteq> 0 \<and> starts_with err ''Error response from daemon:''
     \<and> (occurs_in ''No such container'' err \<or> occurs_in ''is not running'' err)"

definition gvisor_exec_cli :: "'w os \<Rightarrow> gvisor \<Rightarrow> 'w exec_cli" where
  "gvisor_exec_cli os p session_id cmd stdin timeout =
     bindp (docker os (docker_exec_args session_id cmd (stdin \<noteq> None)) stdin timeout
              (Some (g_max_output_bytes p + 1)) False) (\<lambda>(rc, out, err).
       if looks_missing rc err
       then bindp (is_running os session_id) (\<lambda>running.
              if \<not> running then throw (SessionNotFound session_id) else ret (rc, out, err))
       else ret (rc, out, err))"

subsection \<open>Session life cycle\<close>

definition run_args ::
  "(pyfloat \<Rightarrow> str) \<Rightarrow> gvisor \<Rightarrow> str \<Rightarrow> str option \<Rightarrow> int \<Rightarrow> bool \<Rightarrow> int \<Rightarrow> pyfloat \<Rightarrow> str list" where
  "run_args fstr p name img timeout_seconds network memory_mb cpus =
     [lit ''run'', lit ''-d'', lit ''--rm'', lit ''--name'', name,
      lit ''--runtime'', docker_runtime p,
      lit ''--network'', if network then docker_network p else lit ''none'',
      lit ''--memory'', int_str memory_mb @ lit ''m'',
      lit ''--memory-swap'', int_str memory_mb @ lit ''m'',
      lit ''--cpus'', fstr cpus,
      lit ''--pids-limit'', lit ''256'',
      lit ''--cap-drop'', lit ''ALL'', lit ''--security-opt'', lit ''no-new-privileges'',
      lit ''--workdir'', WORKDIR,
      lit ''--'',
      or_else img (g_default_image p),
      lit ''sleep'', int_str timeout_seconds]"

definition create_error :: "gvisor \<Rightarrow> str option \<Rightarrow> bytes \<Rightarrow> exn" where
  "create_error p img err =
     (let msg = stripped_error err; low = lower msg
      in if occurs_in (lit ''unknown or invalid runtime'') low
         then SandboxError (lit ''Docker runtime '' @ py_repr (docker_runtime p)
                @ lit '' is not available. On a host without gVisor (e.g. macOS Docker Desktop) ''
                @ lit ''set SANDBOX_DOCKER_RUNTIME=runc '' @ [8212]
                @ lit '' the standard runtime, NO isolation, dev only. (docker: ''
                @ msg @ lit '')'')
         else if list_ex (\<lambda>s. occurs_in s low)
                   [lit ''pull access denied'', lit ''no such image'', lit ''not found'',
                    lit ''manifest unknown'']
         then SandboxError (lit ''Sandbox image '' @ py_repr (or_else img (g_default_image p))
                @ lit '' not found '' @ [8212] @ lit '' build it first: ''
                @ lit ''`docker build -f sandbox.Dockerfile -t '' @ g_default_image p
                @ lit '' .` (docker: '' @ msg @ lit '')'')
         else SandboxError (lit ''sandbox create failed: '' @ msg))"

definition gvisor_create ::
  "'w os \<Rightarrow> (pyfloat \<Rightarrow> str) \<Rightarrow> gvisor \<Rightarrow> str option \<Rightarrow> int \<Rightarrow> bool \<Rightarrow> int \<Rightarrow> pyfloat
     \<Rightarrow> ('w, str) prog" where
  "gvisor_create os fstr p img timeout_seconds network memory_mb cpus =
     bindp (ask (uuid4_hex os)) (\<lambda>hex.
     (let session_id = take 16 hex;
          args = run_args fstr p (container session_id) img timeout_seconds network memory_mb cpus
      in bindp (docker os args None (Some 60) None True) (\<lambda>(rc, out, err).
           if rc \<noteq> 0 then throw (create_error p img err) else ret session_id)))"

definition gvisor_destroy :: "'w os \<Rightarrow> str \<Rightarrow> ('w, unit) prog" where
  "gvisor_destroy os session_id =
     bindp (docker os [lit ''rm'', lit ''-f'', container session_id] None (Some 30) None True)
       (\<lambda>_. ret ())"

definition ids_of_names :: "str list \<Rightarrow> str set" where
  "ids_of_names lines =
     (\<lambda>line. drop (length NAME_PREFIX) line)
       ` set (filter (\<lambda>line. starts_with line NAME_PREFIX) lines)"

definition gvisor_live_session_ids :: "'w os \<Rightarrow> ('w, str set option) prog" where
  "gvisor_live_session_ids os =
     bindp (docker os [lit ''ps'', lit ''--filter'', lit ''name=^'' @ NAME_PREFIX,
                       lit ''--format'', lit ''{{.Names}}''] None (Some 15) None True)
       (\<lambda>(rc, out, err).
          if rc \<noteq> 0 then ret None
          else ret (Some (ids_of_names (split_ws (utf8_decode_replace out)))))"

subsection \<open>preflight\<close>

text \<open>\<^verbatim>\<open>name in runtimes\<close> and \<^verbatim>\<open>', '.join(sorted(runtimes))\<close> for whatever JSON the daemon printed.\<close>

fun json_contains :: "str \<Rightarrow> json \<Rightarrow> exn + bool" where
  "json_contains name (JObj kvs) = Inr (name \<in> fst ` set kvs)"
| "json_contains name (JList xs) = Inr (JStr name \<in> set xs)"
| "json_contains name (JStr s) = Inr (occurs_in name s)"
| "json_contains name _ = Inl type_error"

definition text_of :: "json \<Rightarrow> exn + str" where
  "text_of j = (case j of JStr s \<Rightarrow> Inr s | _ \<Rightarrow> Inl type_error)"

definition sorted_names :: "json \<Rightarrow> exn + str" where
  "sorted_names j =
     bindr (jiter j) (\<lambda>xs. bindr (mapr text_of xs) (\<lambda>names. Inr (join_with (lit '', '') (sort names))))"

definition unregistered :: "gvisor \<Rightarrow> str \<Rightarrow> exn" where
  "unregistered p names =
     SandboxError (lit ''docker runtime '' @ py_repr (docker_runtime p)
       @ lit '' is not registered with the daemon (available: '' @ or_text names (lit ''none'')
       @ lit '') '' @ [8212] @ lit '' install gVisor and register runsc, or set ''
       @ lit ''SANDBOX_DOCKER_RUNTIME=runc to accept a box with NO isolation (dev only)'')"

definition check_runtimes :: "(str \<Rightarrow> exn + json) \<Rightarrow> gvisor \<Rightarrow> bytes \<Rightarrow> exn + unit" where
  "check_runtimes loads p out =
     (case bindr (utf8_decode out) (\<lambda>text. loads (or_text text (lit ''{}''))) of
        Inl e \<Rightarrow> if is_value_error e then Inr () else Inl e
      | Inr runtimes \<Rightarrow>
          if truthy runtimes
          then bindr (json_contains (docker_runtime p) runtimes) (\<lambda>there.
                 if there then Inr ()
                 else bindr (sorted_names runtimes) (\<lambda>names. Inl (unregistered p names)))
          else Inr ())"

definition gvisor_preflight ::
  "'w os \<Rightarrow> (str \<Rightarrow> exn + json) \<Rightarrow> gvisor \<Rightarrow> ('w, unit) prog" where
  "gvisor_preflight os loads p =
     bindp (docker os [lit ''version'', lit ''--format'', lit ''{{.Server.Version}}'']
              None (Some 10) None False) (\<lambda>(rc, out, err).
       if rc \<noteq> 0
       then throw (SandboxError (lit ''docker daemon unreachable: '' @ stripped_error err))
       else bindp (docker os [lit ''info'', lit ''--format'', lit ''{{json .Runtimes}}'']
                     None (Some 10) None False) (\<lambda>(rc, out, err).
              if rc \<noteq> 0 then ret () else of_result (check_runtimes loads p out)))"

subsection \<open>The provider\<close>

definition gvisor_provider :: "'w libs \<Rightarrow> gvisor \<Rightarrow> 'w provider" where
  "gvisor_provider l p =
     (let os = the_os l; cap = g_max_output_bytes p; cli = gvisor_exec_cli os p
      in \<lparr>provider_name = lit ''gvisor'',
          startup = ret (), shutdown = ret (),
          preflight = gvisor_preflight os (json_loads l) p,
          create = gvisor_create os (float_str l) p,
          destroy = gvisor_destroy os,
          exec_op = exec os cap cli,
          run_script_op = run_script os cap cli,
          live_session_ids = gvisor_live_session_ids os,
          write_file_op = write_file os cli,
          read_file_op = read_file cap cli,
          list_files_op = list_files (json_loads l) (file_entry_of l) cli\<rparr>)"

end
