(* ===== verification/Factory.thy ===== *)
theory Factory
  imports K8s Gvisor
begin

section \<open>The provider factory\<close>

text \<open>
  \<^verbatim>\<open>build_provider\<close> of \<^verbatim>\<open>providers/__init__.py\<close>, with the constructors it calls: which provider the
  configuration selects, the settings each one gets, and the configurations that are refused.
\<close>

definition gvisor_init :: "config \<Rightarrow> exn + gvisor" where
  "gvisor_init cfg =
     bindr (semaphore (max_concurrency cfg)) (\<lambda>_.
     Inr \<lparr>g_default_image = default_image cfg, docker_runtime = cfg_docker_runtime cfg,
          docker_network = cfg_docker_network cfg, g_max_output_bytes = max_output_bytes cfg\<rparr>)"

definition unknown_provider :: "str \<Rightarrow> exn" where
  "unknown_provider name =
     PyError ''ValueError'' (lit ''unknown SANDBOX_PROVIDER='' @ py_repr name
       @ lit '' (expected 'gvisor' or 'k8s')'')"

definition build_provider ::
  "'w libs \<Rightarrow> 'w cluster \<Rightarrow> environ \<Rightarrow> config \<Rightarrow> ('w, 'w provider) prog" where
  "build_provider l c env cfg =
     (if provider cfg = lit ''gvisor''
      then bindp (of_result (gvisor_init cfg)) (\<lambda>p. ret (gvisor_provider l p))
      else if provider cfg = lit ''k8s''
      then bindp (k8s_init c env cfg) (\<lambda>p. ret (k8s_provider l c p))
      else throw (unknown_provider (provider cfg)))"

lemma build_gvisor:
  assumes "provider cfg = lit ''gvisor''" "0 \<le> max_concurrency cfg"
  shows "build_provider l c env cfg w = (Inr (gvisor_provider l
    \<lparr>g_default_image = default_image cfg, docker_runtime = cfg_docker_runtime cfg,
     docker_network = cfg_docker_network cfg, g_max_output_bytes = max_output_bytes cfg\<rparr>), w)"
  using assms by (simp add: build_provider_def gvisor_init_def semaphore_def prog_simps)

text \<open>A Kubernetes provider without a runtime class exists only by explicit opt-in.\<close>

lemma k8s_init_runtime:
  assumes "k8s_init c env cfg w = (Inr p, w')"
  shows "runtime_class p = k8s_runtime_class cfg
    \<and> (runtime_class p \<noteq> [] \<or> k8s_allow_no_runtime_class cfg)
    \<and> toleration p = parse_toleration (k8s_toleration cfg)
    \<and> node_selector p = parse_node_selector (k8s_node_selector cfg)"
  using assms by (auto simp: k8s_init_def bindp_eq_Inr prog_simps split: if_splits)

lemma build_provider_names:
  assumes "build_provider l c env cfg w = (Inr pr, w')"
  shows "provider_name pr = provider cfg"
  using assms
  by (auto simp: build_provider_def bindp_eq_Inr prog_simps gvisor_provider_def k8s_provider_def
      Let_def split: if_splits)

end
