(* ===== verification/Log_Text.thy ===== *)
theory Log_Text
  imports Config
begin

section \<open>What goes into the log\<close>

text \<open>
  The text helpers of \<^verbatim>\<open>app.py\<close>: \<^verbatim>\<open>_preview\<close>, \<^verbatim>\<open>_human_bytes\<close>, \<^verbatim>\<open>_metrics\<close>, \<^verbatim>\<open>_payload_metrics\<close> and
  \<^verbatim>\<open>_block\<close>. Commands and scripts are untrusted, so the shape of a logged block matters: every line
  of it stands behind the gutter.
\<close>

definition CMD_PREVIEW :: int where "CMD_PREVIEW = 2000"
definition CODE_PREVIEW :: int where "CODE_PREVIEW = 4000"

definition preview :: "str \<Rightarrow> int \<Rightarrow> str" where
  "preview s n =
     (if int (length s) \<le> n then s
      else py_take n s @ [8230] @ lit ''(+'' @ int_str (int (length s) - n) @ lit '' chars)'')"

text \<open>
  \<^verbatim>\<open>f"{x:.1f}"\<close> of a non-negative number: the exact value, rounded half to even. The quotients it is
  used on are exact doubles for every size below \<open>2 ^ 53\<close>.
\<close>

definition tenths :: "rat \<Rightarrow> int" where
  "tenths x =
     (let t = x * 10; f = \<lfloor>t\<rfloor>; frac = t - of_int f
      in if frac < 1 / 2 then f else if 1 / 2 < frac then f + 1 else if even f then f else f + 1)"

definition one_decimal :: "rat \<Rightarrow> str" where
  "one_decimal x = int_str (tenths x div 10) @ [46] @ int_str (tenths x mod 10)"

definition human_bytes :: "nat \<Rightarrow> str" where
  "human_bytes n =
     (if n < 1024 then nat_str n @ lit ''B''
      else if n < 1048576 then one_decimal (of_nat n / 1024) @ lit ''KB''
      else one_decimal (of_nat n / 1048576) @ lit ''MB'')"

definition text_bytes :: "str \<Rightarrow> nat" where
  "text_bytes s = (if \<forall>c \<in> set s. c < 128 then length s else length (utf8_encode_replace s))"

fun count_texts :: "nat \<times> nat \<times> nat \<Rightarrow> str list \<Rightarrow> nat \<times> nat \<times> nat" where
  "count_texts acc [] = acc"
| "count_texts (nbytes, nlines, nchars) (s # ss) =
     (if s = [] then count_texts (nbytes, nlines, nchars) ss
      else count_texts (nbytes + text_bytes s, nlines + count_list s 10 + 1, nchars + length s) ss)"

definition metrics :: "str list \<Rightarrow> str" where
  "metrics texts =
     (case count_texts (0, 0, 0) texts of (nbytes, nlines, nchars) \<Rightarrow>
        human_bytes nbytes @ lit '' '' @ [183] @ lit '' '' @ nat_str nlines @ lit ''L '' @ [183]
          @ lit '' ~'' @ nat_str ((nchars + 3) div 4) @ lit ''tok'')"

definition payload_size :: "str \<Rightarrow> nat" where
  "payload_size content =
     length (rstrip_by (\<lambda>c. c = 61 \<or> c = 10 \<or> c = 13 \<or> c = 32) content) * 3 div 4"

definition payload_metrics :: "str \<Rightarrow> str \<Rightarrow> str" where
  "payload_metrics content encoding =
     (if encoding = lit ''base64''
      then human_bytes (payload_size content) @ lit '' '' @ [183] @ lit '' binary/base64''
      else metrics [content])"

definition gutter :: str where
  "gutter = lit ''  | ''"

definition block :: "bool \<Rightarrow> str \<Rightarrow> int \<Rightarrow> str" where
  "block enabled text cap =
     (if \<not> enabled
      then lit ''  | <payload logging disabled (SANDBOX_LOG_PAYLOADS)>''
      else or_text (join_with [10] (map (\<lambda>line. gutter @ line) (split_lines [] (preview text cap))))
             gutter)"

subsection \<open>Lines\<close>

lemma split_lines_step:
  assumes "\<not> line_break c"
  shows "split_lines cur (c # cs) = split_lines (c # cur) cs"
proof -
  have "c \<noteq> 13" using assms by (auto simp: line_break_def)
  with assms show ?thesis by simp
qed

lemma split_lines_no_break:
  "l \<in> set (split_lines cur s) \<Longrightarrow> \<forall>c \<in> set cur. \<not> line_break c \<Longrightarrow> \<forall>c \<in> set l. \<not> line_break c"
proof (induction cur s rule: split_lines.induct)
  case (1 cur)
  then show ?case by (simp split: if_splits)
next
  case (2 cur c cs)
  consider (crlf) "c = 13 \<and> starts_with cs [10]" | (break) "\<not> (c = 13 \<and> starts_with cs [10])" "line_break c"
    | (plain) "\<not> (c = 13 \<and> starts_with cs [10])" "\<not> line_break c" by blast
  then show ?case
  proof cases
    case crlf
    with "2.prems" have "l = rev cur \<or> l \<in> set (split_lines [] (tl cs))" by simp
    with "2.IH"(1) crlf "2.prems" show ?thesis by fastforce
  next
    case break
    with "2.prems"(1) have "l = rev cur \<or> l \<in> set (split_lines [] cs)"
      by (simp only: split_lines.simps if_False if_True set_simps insert_iff)
    with "2.IH"(2) break "2.prems"(2) show ?thesis by fastforce
  next
    case plain
    with "2.prems"(1) have "l \<in> set (split_lines (c # cur) cs)" 
      by (simp only: split_lines_step [OF plain(2)])
    moreover have "\<forall>d \<in> set (c # cur). \<not> line_break d" using plain "2.prems"(2) by auto
    ultimately show ?thesis by (rule "2.IH"(3) [OF plain])
  qed
qed

lemma split_lines_line:
  assumes "\<forall>c \<in> set l. \<not> line_break c"
  shows "split_lines cur (l @ 10 # s) = (rev cur @ l) # split_lines [] s"
  using assms
proof (induction l arbitrary: cur)
  case Nil
  have "line_break 10" by (simp add: line_break_def)
  then show ?case by simp
next
  case (Cons c l)
  then have nb: "\<not> line_break c" by simp
  have "split_lines cur ((c # l) @ 10 # s) = split_lines (c # cur) (l @ 10 # s)"
    by (simp only: append_Cons split_lines_step [OF nb])
  also have "\<dots> = (rev (c # cur) @ l) # split_lines [] s"
    using Cons.prems by (intro Cons.IH) auto
  finally show ?case by simp
qed

lemma split_lines_last:
  "\<forall>c \<in> set l. \<not> line_break c \<Longrightarrow> split_lines cur l = (if cur = [] \<and> l = [] then [] else [rev cur @ l])"
proof (induction l arbitrary: cur)
  case Nil
  then show ?case by simp
next
  case (Cons c l)
  then have nb: "\<not> line_break c" by simp
  have "split_lines cur (c # l) = split_lines (c # cur) l"
    by (simp only: split_lines_step [OF nb])
  also have "\<dots> = [rev (c # cur) @ l]" using Cons.IH [of "c # cur"] Cons.prems by auto
  finally show ?case by simp
qed

lemma split_lines_join:
  assumes "\<forall>l \<in> set ls. l \<noteq> [] \<and> (\<forall>c \<in> set l. \<not> line_break c)"
  shows "split_lines [] (join_with [10] ls) = ls"
  using assms
proof (induction "[10 :: nat]" ls rule: join_with.induct)
  case 1
  then show ?case by simp
next
  case (2 l)
  then show ?case by (simp add: split_lines_last)
next
  case (3 l l' ls)
  then show ?case using split_lines_line [of l "[]"] by simp
qed

lemma gutter_plain: "gutter \<noteq> [] \<and> (\<forall>c \<in> set gutter. \<not> line_break c)"
  by (simp add: gutter_def lit_def line_break_def)

lemma block_lines:
  "block lp text cap = lit ''  | <payload logging disabled (SANDBOX_LOG_PAYLOADS)>'' \<and> \<not> lp
   \<or> lp \<and> (\<exists>ls. split_lines [] (block lp text cap) = map (\<lambda>l. gutter @ l) ls)"
proof (cases lp)
  case False
  then show ?thesis by (simp add: block_def)
next
  case True
  let ?ls = "split_lines [] (preview text cap)"
  have clean: "\<forall>l \<in> set (map (\<lambda>l. gutter @ l) ?ls). l \<noteq> [] \<and> (\<forall>c \<in> set l. \<not> line_break c)"
    using gutter_plain split_lines_no_break [of _ "[]"] by auto
  show ?thesis
  proof (cases "?ls = []")
    case empty: True
    have "split_lines [] gutter = [gutter]"
      using split_lines_last [of gutter "[]"] gutter_plain by auto
    with True empty show ?thesis by (auto simp: block_def or_text_def intro: exI [of _ "[[]]"])
  next
    case False
    with clean have "join_with [10] (map (\<lambda>l. gutter @ l) ?ls) \<noteq> []"
      by (cases ?ls; cases "tl ?ls") auto
    with True split_lines_join [OF clean] show ?thesis by (auto simp: block_def or_text_def)
  qed
qed

lemma preview_length:
  assumes "0 \<le> n"
  shows "preview s n = s \<and> int (length s) \<le> n
    \<or> (\<exists>note. preview s n = take (nat n) s @ note \<and> n < int (length s)
         \<and> note = [8230] @ lit ''(+'' @ int_str (int (length s) - n) @ lit '' chars)'')"
  using assms by (auto simp: preview_def)

text \<open>The estimate for base64 without line breaks is the size of the decoded payload.\<close>

lemma payload_size_b64: "payload_size (b64encode b) = length b"
proof -
  let ?P = "\<lambda>c :: nat. c = 61 \<or> c = 10 \<or> c = 13 \<or> c = 32"
  have "\<not> ?P (b64_char n)" if "n < 64" for n using that by (auto simp: b64_char_def)
  then have "length (rstrip_by ?P (b64_values (byte_values b))) = (4 * length (byte_values b) + 2) div 3"
    by (intro rstrip_b64_values) (auto simp: byte_values_bound)
  moreover have "(4 * n + 2) div 3 * 3 div 4 = n" for n :: nat by presburger
  ultimately show ?thesis by (simp add: payload_size_def b64encode_def byte_values_def)
qed

end
