(* ===== verification/App.thy ===== *)
theory App
  imports Slots_Props Factory Log_Text
begin

section \<open>The HTTP interface: app.py\<close>

text \<open>
  The handlers of \<^verbatim>\<open>app.py\<close>, the authentication dependency, the image allow-list, the life span and
  the mapping from exceptions to responses. A handler works on the pair of the session slots and the
  outside; requests arrive parsed, with the constraints of \<open>Models\<close> checked before the handler runs.
  FastAPI's routing and parsing, and the texts of its validation errors, are outside the model.
\<close>

subsection \<open>Responses\<close>

datatype answer =
    Answer int "(string \<times> string) list" json
  | Server_Error
  | Dropped

definition detail :: "str \<Rightarrow> json" where
  "detail d = jobj [(''detail'', JStr d)]"

fun error_answer :: "exn \<Rightarrow> answer" where
  "error_answer (SessionNotFound m) = Answer 404 [] (detail (lit ''no such session: '' @ m))"
| "error_answer (PathNotFound m) = Answer 404 [] (detail m)"
| "error_answer (SandboxError m) = Answer 502 [] (detail m)"
| "error_answer (HTTPException status d hs) = Answer status hs (detail d)"
| "error_answer CancelledError = Dropped"
| "error_answer (InvalidStatus _) = Server_Error"
| "error_answer (PyError _ _) = Server_Error"

text \<open>\<^verbatim>\<open>_validation_error\<close>: of each error only \<^verbatim>\<open>loc\<close>, \<^verbatim>\<open>msg\<close> and \<^verbatim>\<open>type\<close>, never its \<^verbatim>\<open>input\<close>.\<close>

definition error_entry :: "json \<Rightarrow> exn + json" where
  "error_entry e =
     bindr (jget ''loc'' JNull e) (\<lambda>loc. bindr (jget ''msg'' JNull e) (\<lambda>msg.
     bindr (jget ''type'' JNull e) (\<lambda>ty.
       Inr (jobj [(''loc'', loc), (''msg'', msg), (''type'', ty)]))))"

definition validation_error :: "json list \<Rightarrow> answer" where
  "validation_error errs =
     (case mapr error_entry errs of
        Inl e \<Rightarrow> error_answer e
      | Inr entries \<Rightarrow> Answer 422 [] (jobj [(''detail'', JList entries)]))"

subsection \<open>Authentication and images\<close>

definition unauthorized :: exn where
  "unauthorized = HTTPException 401 (lit ''missing or invalid bearer token'') []"

definition auth :: "config \<Rightarrow> str \<Rightarrow> exn + unit" where
  "auth cfg authorization =
     (if auth_token cfg = [] then Inr ()
      else (let presented = latin1_encode_replace authorization
            in bindr (utf8_encode (lit ''Bearer '' @ auth_token cfg)) (\<lambda>expected.
               if presented \<noteq> expected then Inl unauthorized else Inr ())))"

definition image_refused :: "config \<Rightarrow> str \<Rightarrow> exn" where
  "image_refused cfg requested =
     HTTPException 400
       (lit ''image '' @ py_repr requested @ lit '' is not allowed '' @ [8212]
          @ lit '' the default image is '' @ py_repr (default_image cfg)
          @ lit ''; other images must be listed in SANDBOX_ALLOWED_IMAGES'') []"

definition resolve_image :: "config \<Rightarrow> str option \<Rightarrow> exn + str" where
  "resolve_image cfg requested =
     (case requested of
        None \<Rightarrow> Inr (default_image cfg)
      | Some r \<Rightarrow>
          if r = default_image cfg then Inr (default_image cfg)
          else if r \<in> set (allowed_images cfg) then Inr r
          else Inl (image_refused cfg r))"

subsection \<open>Life span and probes\<close>

text \<open>\<^verbatim>\<open>app.state\<close>: unset until the life span began, then readiness and the reason against it.\<close>

type_synonym app_state = "(bool \<times> str) option"

definition exn_text :: "(exn \<Rightarrow> str) \<Rightarrow> exn \<Rightarrow> str" where
  "exn_text show_exn e =
     (case e of SandboxError m \<Rightarrow> m | SessionNotFound m \<Rightarrow> m | PathNotFound m \<Rightarrow> m | _ \<Rightarrow> show_exn e)"

definition lifespan_begin :: "(exn \<Rightarrow> str) \<Rightarrow> 'w provider \<Rightarrow> ('w, app_state) prog" where
  "lifespan_begin show_exn pr =
     bindp (startup pr) (\<lambda>_.
       catchp (bindp (preflight pr) (\<lambda>_. ret (Some (True, []))))
         (\<lambda>e. if is_Exception e then ret (Some (False, exn_text show_exn e)) else throw e))"

definition lifespan_end :: "'w provider \<Rightarrow> ('w, unit) prog" where
  "lifespan_end pr = shutdown pr"

definition ok_body :: "'w provider \<Rightarrow> json" where
  "ok_body pr = jobj [(''ok'', JBool True), (''provider'', JStr (provider_name pr))]"

definition healthz :: "'w provider \<Rightarrow> exn + json" where
  "healthz pr = Inr (ok_body pr)"

definition readyz :: "'w provider \<Rightarrow> app_state \<Rightarrow> exn + json" where
  "readyz pr st =
     (case st of
        Some (True, _) \<Rightarrow> Inr (ok_body pr)
      | Some (False, reason) \<Rightarrow> Inl (HTTPException 503 reason [])
      | None \<Rightarrow> Inl (HTTPException 503 (lit ''starting'') []))"

subsection \<open>Handlers\<close>

text \<open>\<^verbatim>\<open>slots = SessionSlots(cfg.max_sessions, recount=provider.live_session_ids)\<close>\<close>

definition app_slots :: "config \<Rightarrow> slots" where
  "app_slots cfg = init_slots (max_sessions cfg)"

definition recount_hook :: "'w os \<Rightarrow> 'w provider \<Rightarrow> ('w, str set option) prog" where
  "recount_hook os pr = wait_for os (Some 10) (live_session_ids pr)"

definition create_session ::
  "'w os \<Rightarrow> config \<Rightarrow> 'w provider \<Rightarrow> create_request \<Rightarrow> (slots \<times> 'w, session) prog" where
  "create_session os cfg pr req =
     bindp (of_result (resolve_image cfg (cr_image req))) (\<lambda>img.
     (let (memory_mb, cpus) =
            clamp_resources (cr_memory_mb req) (cr_cpus req) (max_memory_mb cfg) (max_cpus cfg);
          timeout_seconds = min (cr_timeout_seconds req) (max_session_seconds cfg)
      in bindp (with_slot (acquire (monotonic os) (Some (recount_hook os pr)))
                  (on_world (create pr (Some img) timeout_seconds (cr_network req) memory_mb cpus))
                  (map_prod rollback id)
                  (commit_at (monotonic os) timeout_seconds)) (\<lambda>sid.
         ret \<lparr>s_session_id = sid, s_provider = provider_name pr\<rparr>)))"

definition destroy_session :: "'w provider \<Rightarrow> str \<Rightarrow> (slots \<times> 'w, unit) prog" where
  "destroy_session pr sid = (\<lambda>(s, w). on_world (destroy pr sid) (release sid s, w))"

definition exec_command ::
  "config \<Rightarrow> 'w provider \<Rightarrow> str \<Rightarrow> exec_request \<Rightarrow> (slots \<times> 'w, exec_result) prog" where
  "exec_command cfg pr sid req =
     (let timeout_seconds = min (er_timeout_seconds req) (max_exec_seconds cfg)
      in on_world (exec_op pr sid (er_command req) timeout_seconds (er_workdir req)))"

text \<open>\<^verbatim>\<open>_RUNNERS\<close>: language to file extension and interpreter.\<close>

definition RUNNERS :: "(str \<times> str \<times> str) list" where
  "RUNNERS = [(lit ''python'', lit ''py'', lit ''python3'')]"

definition run_code ::
  "config \<Rightarrow> 'w provider \<Rightarrow> str \<Rightarrow> run_request \<Rightarrow> (slots \<times> 'w, exec_result) prog" where
  "run_code cfg pr sid req =
     (case map_of RUNNERS (rr_language req) of
        None \<Rightarrow> throw (PyError ''KeyError'' (rr_language req))
      | Some (ext, interp) \<Rightarrow>
          (let timeout_seconds = min (rr_timeout_seconds req) (max_exec_seconds cfg)
           in on_world (run_script_op pr sid (rr_code req) interp ext timeout_seconds)))"

definition app_write_file :: "'w provider \<Rightarrow> str \<Rightarrow> write_request \<Rightarrow> (slots \<times> 'w, unit) prog" where
  "app_write_file pr sid req =
     on_world (write_file_op pr sid (wr_path req) (wr_content req) (wr_encoding req))"

definition READ_MAX_BYTES :: int where
  "READ_MAX_BYTES = 1000000"

definition app_read_file ::
  "'w provider \<Rightarrow> str \<Rightarrow> str \<Rightarrow> int \<Rightarrow> (slots \<times> 'w, read_response) prog" where
  "app_read_file pr sid path max_bytes =
     bindp (on_world (read_file_op pr sid path max_bytes)) (\<lambda>(content, encoding, tr).
     ret \<lparr>rf_path = path, rf_content = content, rf_encoding = encoding, rf_truncated = tr\<rparr>)"

definition app_list_files :: "'w provider \<Rightarrow> str \<Rightarrow> str \<Rightarrow> (slots \<times> 'w, list_response) prog" where
  "app_list_files pr sid path =
     bindp (on_world (list_files_op pr sid path)) (\<lambda>(entries, tr).
     ret \<lparr>lf_path = path, lf_entries = entries, lf_truncated = tr\<rparr>)"

subsection \<open>Response bodies\<close>

definition session_json :: "session \<Rightarrow> json" where
  "session_json s =
     jobj [(''session_id'', JStr (s_session_id s)), (''provider'', JStr (s_provider s))]"

definition exec_json :: "exec_result \<Rightarrow> json" where
  "exec_json r =
     jobj [(''stdout'', JStr (stdout r)), (''stderr'', JStr (stderr r)),
           (''exit_code'', JInt (exit_code r)), (''truncated'', JBool (truncated r)),
           (''duration_ms'', case duration_ms r of None \<Rightarrow> JNull | Some d \<Rightarrow> JInt d)]"

definition read_json :: "read_response \<Rightarrow> json" where
  "read_json r =
     jobj [(''path'', JStr (rf_path r)), (''content'', JStr (rf_content r)),
           (''encoding'', JStr (rf_encoding r)), (''truncated'', JBool (rf_truncated r))]"

definition entry_json :: "file_entry \<Rightarrow> json" where
  "entry_json e =
     jobj [(''name'', JStr (fe_name e)), (''path'', JStr (fe_path e)),
           (''is_dir'', JBool (fe_is_dir e)), (''size'', JInt (fe_size e))]"

definition list_json :: "list_response \<Rightarrow> json" where
  "list_json r =
     jobj [(''path'', JStr (lf_path r)), (''entries'', JList (map entry_json (lf_entries r))),
           (''truncated'', JBool (lf_truncated r))]"

definition done_json :: json where
  "done_json = jobj [(''ok'', JBool True)]"

end
