(* ===== verification/Service.thy ===== *)
theory Service
  imports App
begin

section \<open>The routed service\<close>

text \<open>
  The routes of \<^verbatim>\<open>app.py\<close> put together: a parsed call, the authentication dependency, the declared
  constraints, the handler, and the response for its result or exception. \<open>handle\<close> is one request
  running alone on the session slots and the outside.
\<close>

datatype call =
    Healthz
  | Readyz
  | Create_Session create_request
  | Destroy_Session str
  | Exec_Command str exec_request
  | Run_Code str run_request
  | Write_File str write_request
  | Read_File str str "int option"
  | List_Files str "str option"

fun protected :: "call \<Rightarrow> bool" where
  "protected Healthz = False"
| "protected Readyz = False"
| "protected _ = True"

definition given :: "'a option \<Rightarrow> 'a \<Rightarrow> 'a" where
  "given x d = (case x of None \<Rightarrow> d | Some v \<Rightarrow> v)"

fun valid_call :: "call \<Rightarrow> bool" where
  "valid_call Healthz = True"
| "valid_call Readyz = True"
| "valid_call (Create_Session req) = valid_create req"
| "valid_call (Destroy_Session sid) = valid_session_id sid"
| "valid_call (Exec_Command sid req) = (valid_session_id sid \<and> valid_exec req)"
| "valid_call (Run_Code sid req) = (valid_session_id sid \<and> valid_run req)"
| "valid_call (Write_File sid req) = (valid_session_id sid \<and> valid_write req)"
| "valid_call (Read_File sid path mb) =
     (valid_session_id sid \<and> valid_read_query path (given mb READ_MAX_BYTES))"
| "valid_call (List_Files sid path) = (valid_session_id sid \<and> valid_list_query (given path WORKDIR))"

record 'w service =
  conf :: config
  backend_of :: "'w provider"
  os_of :: "'w os"
  state_of :: app_state
  errors_of :: "call \<Rightarrow> json list"

definition mapp :: "('a \<Rightarrow> 'b) \<Rightarrow> ('w, 'a) prog \<Rightarrow> ('w, 'b) prog" where
  "mapp f m = bindp m (\<lambda>a. ret (f a))"

fun run_call :: "'w service \<Rightarrow> call \<Rightarrow> (slots \<times> 'w, json) prog" where
  "run_call sv Healthz = of_result (healthz (backend_of sv))"
| "run_call sv Readyz = of_result (readyz (backend_of sv) (state_of sv))"
| "run_call sv (Create_Session req) =
     mapp session_json (create_session (os_of sv) (conf sv) (backend_of sv) req)"
| "run_call sv (Destroy_Session sid) =
     mapp (\<lambda>_. done_json) (destroy_session (backend_of sv) sid)"
| "run_call sv (Exec_Command sid req) =
     mapp exec_json (exec_command (conf sv) (backend_of sv) sid req)"
| "run_call sv (Run_Code sid req) =
     mapp exec_json (run_code (conf sv) (backend_of sv) sid req)"
| "run_call sv (Write_File sid req) =
     mapp (\<lambda>_. done_json) (app_write_file (backend_of sv) sid req)"
| "run_call sv (Read_File sid path mb) =
     mapp read_json (app_read_file (backend_of sv) sid path (given mb READ_MAX_BYTES))"
| "run_call sv (List_Files sid path) =
     mapp list_json (app_list_files (backend_of sv) sid (given path WORKDIR))"

definition answer_of :: "exn + json \<Rightarrow> answer" where
  "answer_of r = (case r of Inl e \<Rightarrow> error_answer e | Inr j \<Rightarrow> Answer 200 [] j)"

definition handle :: "'w service \<Rightarrow> str \<Rightarrow> call \<Rightarrow> slots \<times> 'w \<Rightarrow> answer \<times> (slots \<times> 'w)" where
  "handle sv authorization call st =
     (case (if protected call then auth (conf sv) authorization else Inr ()) of
        Inl e \<Rightarrow> (error_answer e, st)
      | Inr _ \<Rightarrow>
          if \<not> valid_call call then (validation_error (errors_of sv call), st)
          else (case run_call sv call st of (r, st') \<Rightarrow> (answer_of r, st')))"

subsection \<open>Authentication\<close>

text \<open>
  Header values arrive as bytes and are decoded as Latin-1 before the handler sees them; encoding
  gives the same bytes back, so the comparison is on what was sent.
\<close>

lemma auth_bytes:
  assumes "utf8_encode (lit ''Bearer '' @ auth_token cfg) = Inr expected"
  shows "auth cfg (latin1_decode header) =
    (if auth_token cfg = [] \<or> header = expected then Inr () else Inl unauthorized)"
  using assms by (simp add: auth_def latin1_roundtrip Let_def)

lemma handle_unauthorized:
  assumes "protected call" "auth (conf sv) authorization = Inl e"
  shows "handle sv authorization call st = (error_answer e, st)"
  using assms by (simp add: handle_def)

lemma handle_invalid:
  assumes "auth (conf sv) authorization = Inr ()" "\<not> valid_call call"
  shows "handle sv authorization call st = (validation_error (errors_of sv call), st)"
  using assms by (simp add: handle_def)

lemma handle_runs:
  assumes "auth (conf sv) authorization = Inr ()" "valid_call call"
    and "run_call sv call st = (r, st')"
  shows "handle sv authorization call st = (answer_of r, st')"
  using assms by (simp add: handle_def)

subsection \<open>Which state a request touches\<close>

lemma on_world_slots: "on_world m (s, w) = (r, (s', w')) \<Longrightarrow> s' = s"
  by (auto simp: on_world_def split: prod.splits)

lemma mapp_state: "snd (mapp f m st) = snd (m st)"
  by (simp add: mapp_def bindp_apply prog_simps split: prod.split sum.split)

lemma mapp_result:
  "fst (mapp f m st) = (case fst (m st) of Inl e \<Rightarrow> Inl e | Inr a \<Rightarrow> Inr (f a))"
  by (simp add: mapp_def bindp_apply prog_simps split: prod.split sum.split)

text \<open>Only creating and destroying a session change the slots.\<close>

lemma fst_on_world: "fst (snd (on_world m st)) = fst st"
  by (cases st) (auto simp: on_world_def split: prod.split)

lemma fst_snd_bindp_ret: "snd (bindp m (\<lambda>a. ret (f a)) st) = snd (m st)"
  using mapp_state [of f m st] by (simp add: mapp_def)

lemma session_calls_keep_slots:
  assumes "\<forall>req. call \<noteq> Create_Session req" "\<forall>sid. call \<noteq> Destroy_Session sid"
  shows "fst (snd (run_call sv call st)) = fst st"
proof (cases call)
  case (Run_Code sid req)
  then show ?thesis
    by (simp add: mapp_state run_code_def fst_on_world prog_simps Let_def split: option.split)
next
  case (Read_File sid path mb)
  have "snd (app_read_file pr sid p b st) = snd (on_world (read_file_op pr sid p b) st)"
    for pr :: "'a provider" and p b
    by (simp add: app_read_file_def bindp_apply prog_simps split: prod.split sum.split)
  with Read_File show ?thesis by (simp add: mapp_state fst_on_world)
next
  case (List_Files sid path)
  have "snd (app_list_files pr sid p st) = snd (on_world (list_files_op pr sid p) st)"
    for pr :: "'a provider" and p
    by (simp add: app_list_files_def bindp_apply prog_simps split: prod.split sum.split)
  with List_Files show ?thesis by (simp add: mapp_state fst_on_world)
qed (use assms in \<open>simp_all add: mapp_state exec_command_def app_write_file_def fst_on_world prog_simps Let_def\<close>)

subsection \<open>create_session\<close>

lemma create_session_eq:
  assumes "resolve_image cfg (cr_image req) = Inr img"
    and "clamp_resources (cr_memory_mb req) (cr_cpus req) (max_memory_mb cfg) (max_cpus cfg) = (m, c)"
  shows "create_session os cfg pr req st =
    mapp (\<lambda>sid. \<lparr>s_session_id = sid, s_provider = provider_name pr\<rparr>)
      (with_slot (acquire (monotonic os) (Some (recount_hook os pr)))
         (on_world (create pr (Some img) (min (cr_timeout_seconds req) (max_session_seconds cfg))
                      (cr_network req) m c))
         (map_prod rollback id)
         (commit_at (monotonic os) (min (cr_timeout_seconds req) (max_session_seconds cfg)))) st"
  using assms by (simp add: create_session_def prog_simps mapp_def Let_def)

text \<open>The slots after create_session, through the reservation protocol.\<close>

lemma create_session_slots:
  assumes "slots_ok s" "0 < limit s" "create_session os cfg pr req (s, w) = (r, (s', w'))"
  shows "slots_ok s' \<and> limit s' = limit s
    \<and> (case r of Inl e \<Rightarrow> load s' \<le> load s
       | Inr ses \<Rightarrow> load s' \<le> limit s \<and> load s' \<le> load s + 1)"
proof (cases "resolve_image cfg (cr_image req)")
  case (Inl e)
  with assms show ?thesis by (auto simp: create_session_def prog_simps)
next
  case (Inr img)
  let ?m = "fst (clamp_resources (cr_memory_mb req) (cr_cpus req) (max_memory_mb cfg) (max_cpus cfg))"
  let ?c = "snd (clamp_resources (cr_memory_mb req) (cr_cpus req) (max_memory_mb cfg) (max_cpus cfg))"
  let ?t = "min (cr_timeout_seconds req) (max_session_seconds cfg)"
  let ?ws = "with_slot (acquire (monotonic os) (Some (recount_hook os pr)))
         (on_world (create pr (Some img) ?t (cr_network req) ?m ?c))
         (map_prod rollback id) (commit_at (monotonic os) ?t)"
  have eq: "create_session os cfg pr req (s, w) =
    mapp (\<lambda>sid. \<lparr>s_session_id = sid, s_provider = provider_name pr\<rparr>) ?ws (s, w)"
    using Inr by (intro create_session_eq) auto
  have good: "(\<lambda>(s, w). slots_ok s \<and> limit s = limit s0 \<and> 0 < limit s0) (s, w)"
    if "s0 = s" for s0 using assms that by simp
  obtain r0 s1 w1 where Pair: "?ws (s, w) = (r0, (s1, w1))" by (metis prod.exhaust)
  have res: "s' = s1" "r = (case r0 of Inl e \<Rightarrow> Inl e
        | Inr sid \<Rightarrow> Inr \<lparr>s_session_id = sid, s_provider = provider_name pr\<rparr>)"
    using assms(3) mapp_state [of "\<lambda>sid. \<lparr>s_session_id = sid, s_provider = provider_name pr\<rparr>" ?ws "(s, w)"]
        mapp_result [of "\<lambda>sid. \<lparr>s_session_id = sid, s_provider = provider_name pr\<rparr>" ?ws "(s, w)"]
      unfolding eq Pair by auto
  show ?thesis
  proof (cases r0)
    case (Inl e)
    have "slots_ok s1 \<and> limit s1 = limit s \<and> load s1 \<le> load s"
      using slot_admission.with_slot_failure [OF good [OF refl] Pair [unfolded Inl]] by simp
    with res Inl show ?thesis by simp
  next
    case (Inr sid)
    have "slots_ok s1 \<and> limit s1 = limit s \<and> load s1 \<le> limit s \<and> load s1 \<le> load s + 1"
      using slot_admission.with_slot_success [OF good [OF refl] Pair [unfolded Inr]] by simp
    with res Inr show ?thesis by simp
  qed
qed

end
