(* ===== verification/K8s_Props.thy ===== *)
theory K8s_Props
  imports K8s
begin

section \<open>Correctness of the Kubernetes provider\<close>

text \<open>
  What the exec WebSocket collects and sends, the exec query read back by a form decoder, the
  provider as an \<open>exec_backend\<close>, the pod manifest, the readiness wait (fuel is enough), and the
  outcomes of create, destroy and the reaper.
\<close>

subsection \<open>Frames received\<close>

text \<open>What the peer sent on a channel.\<close>

fun channel_payload :: "nat \<Rightarrow> frame \<Rightarrow> bytes" where
  "channel_payload ch (Binary (b # payload)) = (if of_char b = ch then payload else [])"
| "channel_payload ch _ = []"

definition channel_bytes :: "nat \<Rightarrow> frame list \<Rightarrow> bytes" where
  "channel_bytes ch frames = concat (map (channel_payload ch) frames)"

lemma channel_bytes_simps [simp]:
  "channel_bytes ch [] = []"
  "channel_bytes ch (f # fs) = channel_payload ch f @ channel_bytes ch fs"
  by (simp_all add: channel_bytes_def)

lemma room_add_take: "room_add m (take (nat m) xs) ys = take (nat m) (xs @ ys)"
proof (cases "int (length xs) < m")
  case True
  then have "nat (m - int (length xs)) = nat m - length xs" by simp
  with True show ?thesis by (simp add: room_add_def)
next
  case False
  then show ?thesis by (simp add: room_add_def)
qed

lemma take_frame_capped:
  "take_frame m (take (nat m) x, take (nat m) y, z) f
     = (take (nat m) (x @ channel_payload CH_STDOUT f), take (nat m) (y @ channel_payload CH_STDERR f),
        z @ channel_payload CH_ERROR f)"
  by (cases "(m, (take (nat m) x, take (nat m) y, z), f)" rule: take_frame.cases)
     (auto simp: room_add_take channel_defs Let_def)

lemma take_frames_capped:
  "take_frames m frames
     = (take (nat m) (channel_bytes CH_STDOUT frames), take (nat m) (channel_bytes CH_STDERR frames),
        channel_bytes CH_ERROR frames)"
proof -
  have "foldl (take_frame m) (take (nat m) x, take (nat m) y, z) frames
     = (take (nat m) (x @ channel_bytes CH_STDOUT frames), take (nat m) (y @ channel_bytes CH_STDERR frames),
        z @ channel_bytes CH_ERROR frames)" for x y z
    by (induction frames arbitrary: x y z) (simp_all add: take_frame_capped del: take_append)
  from this [of "[]" "[]" "[]"] show ?thesis by (simp add: take_frames_def)
qed

definition all_frames :: "frame list \<Rightarrow> bytes \<times> bytes \<times> bytes" where
  "all_frames frames =
     (channel_bytes CH_STDOUT frames, channel_bytes CH_STDERR frames, channel_bytes CH_ERROR frames)"

subsection \<open>Frames sent\<close>

lemma chunks_join: "concat (chunks data) = data"
  by (induction data rule: chunks.induct) (subst chunks.simps, simp)

lemma chunks_size: "x \<in> set (chunks data) \<Longrightarrow> x \<noteq> [] \<and> length x \<le> STDIN_CHUNK"
proof (induction data rule: chunks.induct)
  case (1 data)
  then show ?case
    by (subst (asm) (2) chunks.simps) (auto simp: STDIN_CHUNK_def split: if_splits)
qed

lemma stdin_frames_payload:
  "channel_bytes CH_STDIN (map Binary (butlast (stdin_frames data))) = data"
proof -
  have "channel_bytes CH_STDIN (map Binary (map (\<lambda>x. char_of CH_STDIN # x) xs)) = concat xs" for xs
    by (induction xs) (simp_all add: channel_defs)
  then show ?thesis by (simp add: stdin_frames_def chunks_join)
qed

lemma stdin_frames_eof: "last (stdin_frames data) = [char_of CH_CLOSE, char_of CH_STDIN]"
  by (simp add: stdin_frames_def)

subsection \<open>The exec transport\<close>

definition k8s_streams ::
  "'w os \<Rightarrow> 'w cluster \<Rightarrow> k8s \<Rightarrow> str \<Rightarrow> str list \<Rightarrow> bytes option \<Rightarrow> int option \<Rightarrow> 'w
     \<Rightarrow> (int \<times> bytes \<times> bytes) option" where
  "k8s_streams os c p sid cmd stdin t w =
     (case exec_url p sid cmd (stdin \<noteq> None) of
        Inl e \<Rightarrow> None
      | Inr url \<Rightarrow>
          (case catchp (in_lane os False (wait_for os t (ws_session os c p all_frames url stdin)))
                  (exec_failed sid) w of
             (Inr r, _) \<Rightarrow> Some r | _ \<Rightarrow> None))"

text \<open>Two results that differ at most in streams cut past the cap.\<close>

definition cut_result ::
  "int \<Rightarrow> exn + (int \<times> bytes \<times> bytes) \<Rightarrow> exn + (int \<times> bytes \<times> bytes) \<Rightarrow> bool" where
  "cut_result cap full got \<longleftrightarrow>
     (case (full, got) of
        (Inl e, Inl e') \<Rightarrow> e = e'
      | (Inr (rc, fo, fe), Inr (rc', out, err)) \<Rightarrow> rc = rc' \<and> capped cap fo out \<and> capped cap fe err
      | _ \<Rightarrow> False)"

lemma capped_refl [simp]: "capped cap x x"
  by (simp add: capped_def)

lemma cut_result_refl [simp]: "cut_result cap r r"
  by (auto simp: cut_result_def split: sum.split)

lemma cut_session:
  "snd (ws_session os c p all_frames url stdin w)
     = snd (ws_session os c p (take_frames (cap + 1)) url stdin w)
   \<and> cut_result cap (fst (ws_session os c p all_frames url stdin w))
       (fst (ws_session os c p (take_frames (cap + 1)) url stdin w))"
proof -
  have "cut_result cap
      (case all_frames fs of (out, err, status) \<Rightarrow> bindr (f status) (\<lambda>rc. Inr (rc, out, err)))
      (case take_frames (cap + 1) fs of (out, err, status) \<Rightarrow> bindr (f status) (\<lambda>rc. Inr (rc, out, err)))"
    for f and fs :: "frame list"
    by (cases "f (channel_bytes CH_ERROR fs)")
       (simp_all add: all_frames_def take_frames_capped cut_result_def capped_def)
  note this [simplified all_frames_def take_frames_capped, simplified]
  then show ?thesis
    by (auto simp: ws_session_def bindp_apply of_result_def all_frames_def take_frames_capped
        split: prod.split sum.split)
qed

lemma cut_in_lane:
  assumes "\<And>w. snd (a w) = snd (b w) \<and> cut_result cap (fst (a w)) (fst (b w))"
  shows "snd (in_lane os ctl a w) = snd (in_lane os ctl b w)
    \<and> cut_result cap (fst (in_lane os ctl a w)) (fst (in_lane os ctl b w))"
proof (cases "sem_enter os ctl w")
  case (Pair r w1)
  then show ?thesis using assms [of w1]
    by (cases r; cases "a w1"; cases "b w1") (auto simp: in_lane_def bindp_apply)
qed

lemma cut_wait_for:
  assumes "\<And>w. snd (a w) = snd (b w) \<and> cut_result cap (fst (a w)) (fst (b w))"
  shows "snd (wait_for os t a w) = snd (wait_for os t b w)
    \<and> cut_result cap (fst (wait_for os t a w)) (fst (wait_for os t b w))"
  using assms [of w] by (auto simp: wait_for_def split: option.split)

lemma cut_catch:
  assumes "snd (a w) = snd (b w) \<and> cut_result cap (fst (a w)) (fst (b w))"
  shows "snd (catchp a h w) = snd (catchp b h w)
    \<and> cut_result cap (fst (catchp a h w)) (fst (catchp b h w))"
  using assms
  by (cases "a w"; cases "b w") (auto simp: catchp_apply cut_result_def split: sum.splits prod.splits)

interpretation k8s_backend: exec_backend
  "k8s_exec_cli os c p" "k8s_streams os c p" "k_max_output_bytes p"
  for os :: "'w os" and c :: "'w cluster" and p :: k8s
proof (unfold_locales, goal_cases)
  case (1 sid cmd stdin t w rc out err w')
  let ?cap = "k_max_output_bytes p"
  from 1 obtain url where url: "exec_url p sid cmd (stdin \<noteq> None) = Inr url"
    and run: "catchp (in_lane os False (wait_for os t (stream os c p url stdin))) (exec_failed sid) w
      = (Inr (rc, out, err), w')"
    unfolding k8s_exec_cli_def bindp_eq_Inr by (auto simp: prog_simps)
  let ?full = "catchp (in_lane os False (wait_for os t (ws_session os c p all_frames url stdin)))
    (exec_failed sid) w"
  have "cut_result ?cap (fst ?full)
      (fst (catchp (in_lane os False (wait_for os t (stream os c p url stdin))) (exec_failed sid) w))"
    unfolding stream_def
    by (intro conjunct2 [OF cut_catch] cut_in_lane cut_wait_for cut_session)
  then have "cut_result ?cap (fst ?full) (Inr (rc, out, err))" using run by simp
  moreover have "k8s_streams os c p sid cmd stdin t w
      = (case ?full of (Inr r, _) \<Rightarrow> Some r | _ \<Rightarrow> None)"
    by (simp only: k8s_streams_def url sum.case)
  ultimately show ?case
    by (cases ?full) (auto simp: cut_result_def split: sum.splits)
qed

subsection \<open>The exec query\<close>

text \<open>
  What the apiserver decodes: one \<^verbatim>\<open>command\<close> per argument, in order, then the four stream flags.
\<close>

lemma exec_url_query:
  assumes "exec_url p sid cmd has_stdin = Inr url"
  shows "\<exists>q kvs. url = lit ''wss://'' @ authority (api p) @ lit ''/api/v1/namespaces/'' @ namespace p
       @ lit ''/pods/'' @ pod sid @ lit ''/exec?'' @ q
     \<and> read_query q = Some kvs
     \<and> list_all2 (\<lambda>(k, v) (k', v'). utf8_decode k' = Inr k \<and> utf8_decode v' = Inr v)
         (exec_query cmd has_stdin) kvs"
proof -
  from assms obtain q where q: "urlencode (exec_query cmd has_stdin) = Inr q"
    and url: "url = lit ''wss://'' @ authority (api p) @ lit ''/api/v1/namespaces/'' @ namespace p
       @ lit ''/pods/'' @ pod sid @ lit ''/exec'' @ lit ''?'' @ q"
    by (auto simp: exec_url_def ws_url_def bindr_eq_Inr)
  have "lit ''/exec'' @ lit ''?'' @ q = lit ''/exec?'' @ q" by (simp add: lit_def)
  with url read_urlencode [OF q] show ?thesis by auto
qed

subsection \<open>Exit codes\<close>

definition exit_status :: "int \<Rightarrow> json" where
  "exit_status n = jobj
     [(''status'', jstr ''Failure''),
      (''details'', jobj [(''causes'', JList
         [jobj [(''reason'', jstr ''ExitCode''), (''message'', JStr (int_str n))]])])]"

lemma jlookup_jobj:
  "jlookup (map (\<lambda>(k, v). (lit k, v)) kvs) (lit k) = map_of (rev kvs) k"
proof -
  have "map_of (map (\<lambda>(k, v). (lit k, v)) xs) (lit k) = map_of xs k" for xs :: "(string \<times> json) list"
    by (induction xs) auto
  then show ?thesis by (simp add: jlookup_def rev_map)
qed

lemma jget_jobj [simp]:
  "jget k d (jobj kvs) = Inr (case map_of (rev kvs) k of None \<Rightarrow> d | Some v \<Rightarrow> v)"
  by (simp add: jobj_def jlookup_jobj)

lemma jstr_inject [simp]: "jstr s = jstr t \<longleftrightarrow> s = t"
  by (simp add: jstr_def)

lemma JStr_lit_jstr: "JStr (lit s) = jstr s"
  by (simp add: jstr_def)

lemma exit_code_reported:
  assumes "payload \<noteq> []" "loads payload = Inr (exit_status n)" "py_int (int_str n) = Some n"
  shows "exit_code_from_status loads payload = Inr n"
  using assms by (simp add: exit_code_from_status_def exit_status_def JStr_lit_jstr)

subsection \<open>The pod manifest\<close>

text \<open>A value inside a document; \<open>''0''\<close> selects the first item of a list.\<close>

fun jpath :: "string list \<Rightarrow> json \<Rightarrow> json option" where
  "jpath [] j = Some j"
| "jpath (k # ks) (JObj kvs) = (case jlookup kvs (lit k) of None \<Rightarrow> None | Some v \<Rightarrow> jpath ks v)"
| "jpath (k # ks) (JList (x # xs)) = (if k = ''0'' then jpath ks x else None)"
| "jpath (k # ks) _ = None"

lemma jpath_jobj [simp]:
  "jpath (k # ks) (jobj kvs) = (case map_of (rev kvs) k of None \<Rightarrow> None | Some v \<Rightarrow> jpath ks v)"
  by (simp add: jobj_def jlookup_jobj)

lemma manifest_spec:
  "jpath (''spec'' # ks) (manifest fstr p name img t network m cpus)
     = jpath ks (jobj
        ([(''restartPolicy'', jstr ''Never''),
          (''automountServiceAccountToken'', JBool False),
          (''enableServiceLinks'', JBool False),
          (''activeDeadlineSeconds'', JInt (t + 60)),
          (''terminationGracePeriodSeconds'', JInt 0),
          (''containers'', JList [manifest_container fstr p img t m cpus])]
         @ (if runtime_class p \<noteq> [] then [(''runtimeClassName'', JStr (runtime_class p))] else [])
         @ (if node_selector p \<noteq> [] then [(''nodeSelector'', jdict (node_selector p))] else [])
         @ (case toleration p of None \<Rightarrow> [] | Some tol \<Rightarrow> [(''tolerations'', JList [jdict tol])])
         @ (if image_pull_secrets p \<noteq> []
            then [(''imagePullSecrets'',
                   JList (map (\<lambda>n. jobj [(''name'', JStr n)]) (image_pull_secrets p)))]
            else [])))"
  by (simp add: manifest_def Let_def)

lemma manifest_hardening:
  fixes fstr p name img t network m cpus
  defines "man \<equiv> manifest fstr p name img t network m cpus"
  shows "jpath [''spec'', ''automountServiceAccountToken''] man = Some (JBool False)"
    and "jpath [''spec'', ''enableServiceLinks''] man = Some (JBool False)"
    and "jpath [''spec'', ''restartPolicy''] man = Some (jstr ''Never'')"
    and "jpath [''spec'', ''activeDeadlineSeconds''] man = Some (JInt (t + 60))"
    and "jpath [''spec'', ''runtimeClassName''] man
      = (if runtime_class p = [] then None else Some (JStr (runtime_class p)))"
    and "jpath (''spec'' # ''containers'' # ''0'' # ks) man
      = jpath ks (manifest_container fstr p img t m cpus)"
    and "jpath [''spec'', ''volumes''] man = None"
    and "jpath [''spec'', ''hostNetwork''] man = None"
    and "jpath [''spec'', ''serviceAccountName''] man = None"
  unfolding man_def by (simp_all add: manifest_spec split: option.split)

lemma manifest_labels:
  fixes fstr p name img t network m cpus
  defines "man \<equiv> manifest fstr p name img t network m cpus"
  shows "jpath [''metadata'', ''name''] man = Some (JStr name)"
    and "jpath [''metadata'', ''labels''] man
      = Some (jdict ((lit ''app'', SESSION_LABEL)
          # (if network then [(NETWORK_LABEL, lit ''true'')] else [])))"
  unfolding man_def by (simp_all add: manifest_def Let_def)

lemma container_hardening:
  fixes fstr p img t m cpus
  defines "con \<equiv> manifest_container fstr p img t m cpus"
  shows "jpath [''image''] con = Some (JStr img)"
    and "jpath [''args''] con = Some (JList [jstr ''sleep'', JStr (int_str t)])"
    and "jpath [''command''] con = None"
    and "jpath [''env''] con = None"
    and "jpath [''securityContext'', ''allowPrivilegeEscalation''] con = Some (JBool False)"
    and "jpath [''securityContext'', ''capabilities'', ''drop''] con = Some (JList [jstr ''ALL''])"
    and "jpath [''securityContext'', ''seccompProfile'', ''type''] con = Some (jstr ''RuntimeDefault'')"
    and "jpath [''securityContext'', ''privileged''] con = None"
    and "jpath [''resources'', ''limits'', ''memory''] con = Some (JStr (int_str m @ lit ''Mi''))"
    and "jpath [''resources'', ''limits'', ''cpu''] con = Some (JStr (fstr cpus))"
    and "jpath [''resources'', ''limits'', ''ephemeral-storage''] con
      = Some (JStr (int_str (k_disk_mb p) @ lit ''Mi''))"
  unfolding con_def by (simp_all add: manifest_container_def)

subsection \<open>Session listing\<close>

lemma pod_ids_iff: "sid \<in> pod_ids names \<longleftrightarrow> pod sid \<in> set names"
proof
  assume "sid \<in> pod_ids names"
  then obtain n where "n \<in> set names" "starts_with n PREFIX" "sid = drop (length PREFIX) n"
    by (auto simp: pod_ids_def)
  moreover from this have "pod sid = n" by (simp add: pod_def starts_with_drop)
  ultimately show "pod sid \<in> set names" by simp
next
  assume "pod sid \<in> set names"
  then show "sid \<in> pod_ids names" by (force simp: pod_ids_def pod_def image_iff)
qed

definition pod_item :: "str \<Rightarrow> json" where
  "pod_item n = jobj [(''metadata'', jobj [(''name'', JStr n)])]"

lemma live_ids_of_list:
  assumes "request os c (api p) (lit ''GET'') (pods_path p [])
      (Some [(lit ''labelSelector'', lit ''app='' @ SESSION_LABEL),
             (lit ''fieldSelector'', lit ''status.phase!=Succeeded,status.phase!=Failed'')])
      None (Some 15) w = (Inr (status, jobj [(''items'', JList (map pod_item names))]), w')"
    and "status < 400"
  shows "k8s_live_session_ids os c p w = (Inr (Some {sid. pod sid \<in> set names}), w')"
proof -
  have "mapr pod_name (map pod_item names) = Inr (map (\<lambda>n. n) names)"
    by (rule mapr_Inr) (simp add: pod_name_def pod_item_def)
  moreover have "pod_ids names = {sid. pod sid \<in> set names}" using pod_ids_iff by blast
  ultimately show ?thesis
    using assms by (simp add: k8s_live_session_ids_def prog_simps)
qed

subsection \<open>The reaper goes on\<close>

lemma reap_round_result:
  assumes "reap_round os c p w = (Inl e, w')"
  shows "e = CancelledError"
  using assms unfolding reap_round_def catchp_eq_Inl
  by (auto simp: prog_simps is_Exception_def split: if_splits)

lemma reap_rounds_cancelled: "reap_rounds n os c p w = (Inl e, w') \<Longrightarrow> e = CancelledError"
  by (induction n arbitrary: w) (auto simp: bindp_eq_Inl prog_simps dest: reap_round_result)

subsection \<open>The readiness wait ends\<close>

definition time_at :: "'w os \<Rightarrow> 'w \<Rightarrow> rat" where
  "time_at os w = fst (monotonic os w)"

text \<open>
  The documented behaviour of the clock: \<^verbatim>\<open>time.monotonic\<close> never goes back, and \<^verbatim>\<open>asyncio.sleep(d)\<close>
  takes at least \<^verbatim>\<open>d\<close> seconds.
\<close>

definition steady :: "'w os \<Rightarrow> 'w cluster \<Rightarrow> bool" where
  "steady os c \<longleftrightarrow>
     (\<forall>w. time_at os w \<le> time_at os (snd (monotonic os w)))
     \<and> (\<forall>path w. time_at os w \<le> time_at os (snd (open_read c path w)))
     \<and> (\<forall>m path q h b t w. time_at os w \<le> time_at os (snd (http_call c m path q h b t w)))
     \<and> (\<forall>st w. time_at os w \<le> time_at os (api_put c st w))
     \<and> (\<forall>d w w'. sleep_for c d w = (Inr (), w') \<longrightarrow> time_at os w + d \<le> time_at os w')"

text \<open>Programs during which the clock does not go back.\<close>

definition forward :: "'w os \<Rightarrow> ('w, 'a) prog \<Rightarrow> bool" where
  "forward os m \<longleftrightarrow> (\<forall>w. time_at os w \<le> time_at os (snd (m w)))"

lemma forward_bindp: "forward os m \<Longrightarrow> (\<And>a. forward os (f a)) \<Longrightarrow> forward os (bindp m f)"
proof (unfold forward_def, intro allI)
  fix w
  assume m: "\<forall>w. time_at os w \<le> time_at os (snd (m w))"
    and f: "\<And>a. \<forall>w. time_at os w \<le> time_at os (snd (f a w))"
  obtain r w1 where mw: "m w = (r, w1)" by force
  with m have "time_at os w \<le> time_at os w1" by (metis snd_conv)
  then show "time_at os w \<le> time_at os (snd (bindp m f w))"
    using f mw by (cases r) (auto simp: bindp_apply intro: order_trans)
qed

lemma forward_intros:
  "forward os (ret a)" "forward os (throw e)" "forward os (of_result r)"
  "(\<And>w. time_at os w \<le> time_at os (snd (f w))) \<Longrightarrow> forward os (ask f)"
  by (simp_all add: forward_def prog_simps)

lemma steady_read:
  assumes "steady os c" "monotonic os w = (now, w0)"
  shows "time_at os w = now" "now \<le> time_at os w0"
proof -
  show t: "time_at os w = now" using assms(2) by (simp add: time_at_def)
  have "time_at os w \<le> time_at os (snd (monotonic os w))"
    using assms(1) by (simp only: steady_def)
  then show "now \<le> time_at os w0" using t assms(2) by simp
qed

lemma forward_request:
  assumes "steady os c"
  shows "forward os (request os c a m path q b t)"
proof -
  note ax = assms [unfolded steady_def]
  have upd: "time_at os w \<le> time_at os (update_api c f w)" for f w
    using ax by (simp add: update_api_def)
  have read: "forward os (open_read c path)" for path
    using ax by (simp add: forward_def)
  have put: "forward os (\<lambda>w. (r, update_api c f w))" for r :: "exn + 'x" and f
    using upd by (simp add: forward_def)
  have tick: "forward os (ask (monotonic os))"
    using ax by (intro forward_intros) blast
  have look: "forward os (ask (\<lambda>w. (api_get c w, w)))"
    by (intro forward_intros) simp
  have bearer: "forward os (bearer os c a)"
    unfolding bearer_def
    by (intro forward_bindp tick look) (simp_all add: forward_intros forward_bindp read put)
  have start: "forward os (api_start c)"
    using upd by (simp add: forward_def api_start_def)
  have call: "forward os (http_call c m path q h b t)" for h
    using ax by (simp add: forward_def)
  have ends: "forward os (case r of (status, parsed) \<Rightarrow> (case parsed of Inr j \<Rightarrow> ret (status, j)
      | Inl e \<Rightarrow> if is_value_error e then ret (status, JObj []) else throw e))" for r
    by (cases r; cases "snd r") (auto simp: forward_intros)
  show ?thesis
    unfolding request_def
    by (intro forward_bindp look bearer call ends) (simp add: start forward_intros)
qed

lemma tenth_pos: "0 < tenth"
  by (simp add: tenth_def)

lemma wait_loop_returns:
  assumes "steady os c" "deadline - time_at os w \<le> of_nat n * tenth" "tenth \<le> delay"
  shows "wait_loop (Suc n) os c p name img deadline delay reason w \<noteq> None"
  using assms(2,3)
proof (induction n arbitrary: w delay reason)
  case 0
  then show ?case
    by (cases "monotonic os w") (simp add: time_at_def)
next
  case (Suc n)
  obtain now w0 where mono: "monotonic os w = (now, w0)" by force
  note t = steady_read [OF assms(1) this]
  let ?req = "request os c (api p) (lit ''GET'') (pods_path p name) None None (Some 10) w0"
  obtain r1 w1 where req: "?req = (r1, w1)" by force
  have t1: "time_at os w0 \<le> time_at os w1"
    using forward_request [OF assms(1), unfolded forward_def, rule_format, of w0] req by (metis snd_conv)
  have next_round: "wait_loop (Suc n) os c p name img deadline (min (delay * (3 / 2)) 1) r w2 \<noteq> None"
    if "sleep_for c delay w1 = (Inr u, w2)" for u r w2
  proof (rule Suc.IH)
    have "time_at os w1 + delay \<le> time_at os w2"
      using that assms(1) by (cases u) (simp add: steady_def)
    then have "now + tenth \<le> time_at os w2" using t t1 Suc.prems(2) by linarith
    then show "deadline - time_at os w2 \<le> of_nat n * tenth"
      using Suc.prems(1) t by (simp add: algebra_simps)
    show "tenth \<le> min (delay * (3 / 2)) 1"
      using Suc.prems(2) by (simp add: tenth_def)
  qed
  show ?case
    by (subst wait_loop.simps)
       (use next_round in \<open>auto simp: mono req simp del: wait_loop.simps split: sum.split poll.split prod.split\<close>)
qed

lemma polls_enough:
  assumes "steady os c"
  shows "wait_ready_fuel (polls p) os c p name img w \<noteq> None"
proof -
  obtain now w0 where mono: "monotonic os w = (now, w0)" by force
  then have "now \<le> time_at os w0" by (rule steady_read [OF assms])
  let ?n = "Suc (nat (11 * create_timeout p))"
  have "of_int (create_timeout p) \<le> of_nat ?n * tenth"
  proof -
    have "of_int (11 * create_timeout p) \<le> (of_nat ?n :: rat)" by simp
    then have "of_int (11 * create_timeout p) * tenth \<le> of_nat ?n * tenth"
      using tenth_pos by (intro mult_right_mono) auto
    moreover have "of_int (create_timeout p) \<le> of_nat ?n * tenth" if "create_timeout p \<le> 0"
    proof -
      have "0 \<le> (of_nat ?n :: rat) * tenth" using tenth_pos by simp
      then show ?thesis using that by (metis of_int_0_le_iff of_int_le_0_iff order_trans)
    qed
    moreover have "of_int (create_timeout p) \<le> of_int (11 * create_timeout p) * tenth"
      if "0 < create_timeout p"
      using that by (simp add: tenth_def)
    ultimately show ?thesis by linarith
  qed
  with \<open>now \<le> time_at os w0\<close>
  have "now + of_int (create_timeout p) - time_at os w0 \<le> of_nat ?n * tenth" by linarith
  from wait_loop_returns [OF assms this, of tenth p name img "lit ''unknown''"]
  show ?thesis by (simp add: wait_ready_fuel_def mono polls_def del: wait_loop.simps)
qed

text \<open>More fuel changes nothing.\<close>

lemma wait_loop_fuel:
  "wait_loop n os c p name img d delay reason w = Some r \<Longrightarrow>
   wait_loop (n + k) os c p name img d delay reason w = Some r"
proof (induction n arbitrary: delay reason w)
  case (Suc n)
  then show ?case
    by (auto simp: Let_def split: prod.splits sum.splits poll.splits if_splits)
qed simp

lemma wait_ready_elim:
  assumes "steady os c"
  shows "wait_ready_fuel (polls p) os c p name img w = Some (wait_ready os c p name img w)"
  using polls_enough [OF assms, of p name img w] by (auto simp: wait_ready_def)

subsection \<open>create and destroy\<close>

text \<open>The world after the pod was accepted, and the readiness wait's result there.\<close>

definition pod_accepted ::
  "'w os \<Rightarrow> 'w cluster \<Rightarrow> (pyfloat \<Rightarrow> str) \<Rightarrow> k8s \<Rightarrow> str option \<Rightarrow> int \<Rightarrow> bool \<Rightarrow> int \<Rightarrow> pyfloat
     \<Rightarrow> 'w \<Rightarrow> str \<Rightarrow> 'w \<Rightarrow> bool" where
  "pod_accepted os c fstr p img t network m cpus w sid w2 \<longleftrightarrow>
     (\<exists>hex w1 status payload.
        uuid4_hex os w = (hex, w1) \<and> sid = take 16 hex \<and> status < 400
        \<and> in_lane os True (request os c (api p) (lit ''POST'') (pods_path p []) None
            (Some (manifest fstr p (pod sid) (or_else img (k_default_image p)) t network m cpus))
            (Some 30)) w1 = (Inr (status, payload), w2))"

lemma create_after_accept:
  assumes "pod_accepted os c fstr p img t network m cpus w sid w2"
  shows "k8s_create os c fstr p img t network m cpus w =
    (case wait_ready os c p (pod sid) (or_else img (k_default_image p)) w2 of
       (Inr u, w3) \<Rightarrow> (Inr sid, w3)
     | (Inl e, w3) \<Rightarrow>
         if is_Exception e then bindp (k8s_destroy os c p sid) (\<lambda>_. throw e) w3 else (Inl e, w3))"
proof -
  from assms obtain hex w1 status payload where h: "uuid4_hex os w = (hex, w1)" "sid = take 16 hex"
    "status < 400"
    and post: "in_lane os True (request os c (api p) (lit ''POST'') (pods_path p []) None
        (Some (manifest fstr p (pod sid) (or_else img (k_default_image p)) t network m cpus))
        (Some 30)) w1 = (Inr (status, payload), w2)"
    unfolding pod_accepted_def by blast
  show ?thesis
    using h post
    by (cases "wait_ready os c p (pod sid) (or_else img (k_default_image p)) w2")
       (auto simp: k8s_create_def prog_simps Let_def bindp_apply catchp_apply
         split: sum.splits prod.splits)
qed

lemma create_failed_destroys:
  assumes "pod_accepted os c fstr p img t network m cpus w sid w2"
    and "wait_ready os c p (pod sid) (or_else img (k_default_image p)) w2 = (Inl e, w3)"
    and "is_Exception e" "k8s_destroy os c p sid w3 = (Inr u, w4)"
  shows "k8s_create os c fstr p img t network m cpus w = (Inl e, w4)"
  using assms by (simp add: create_after_accept prog_simps)

lemma create_cancelled:
  assumes "pod_accepted os c fstr p img t network m cpus w sid w2"
    and "wait_ready os c p (pod sid) (or_else img (k_default_image p)) w2 = (Inl CancelledError, w3)"
  shows "k8s_create os c fstr p img t network m cpus w = (Inl CancelledError, w3)"
  using assms by (simp add: create_after_accept is_Exception_def)

text \<open>A session id is only returned for a pod that was accepted and became ready.\<close>

lemma k8s_create_ok:
  assumes "k8s_create os c fstr p img t network m cpus w = (Inr sid, w')"
  shows "\<exists>w2. pod_accepted os c fstr p img t network m cpus w sid w2
    \<and> wait_ready os c p (pod sid) (or_else img (k_default_image p)) w2 = (Inr (), w')"
proof -
  let ?sid = "take 16 (fst (uuid4_hex os w))"
  let ?img = "or_else img (k_default_image p)"
  obtain status payload w2 where post: "in_lane os True (request os c (api p) (lit ''POST'')
      (pods_path p []) None (Some (manifest fstr p (pod ?sid) ?img t network m cpus)) (Some 30))
      (snd (uuid4_hex os w)) = (Inr (status, payload), w2)" and lt: "status < 400"
    using assms unfolding k8s_create_def Let_def bindp_eq_Inr
    by (auto simp: prog_simps bindp_eq_Inr split: if_splits)
  have acc: "pod_accepted os c fstr p img t network m cpus w ?sid w2"
    using post lt by (auto simp: pod_accepted_def intro!: exI [of _ "fst (uuid4_hex os w)"]
        exI [of _ "snd (uuid4_hex os w)"])
  show ?thesis
    using assms create_after_accept [OF acc]
    by (cases "wait_ready os c p (pod ?sid) ?img w2")
       (auto simp: bindp_eq_Inr prog_simps intro!: exI [of _ w2] acc split: sum.splits if_splits)
qed

lemma destroy_tolerant:
  assumes "in_lane os True (request os c (api p) (lit ''DELETE'') (pods_path p (pod sid))
      (Some [(lit ''gracePeriodSeconds'', lit ''0''),
             (lit ''propagationPolicy'', lit ''Background'')]) None (Some 30)) w
    = (Inr (status, JObj kvs), w')"
  shows "k8s_destroy os c p sid w = (Inr (), w')"
  using assms by (simp add: k8s_destroy_def prog_simps api_error_def)

subsection \<open>Errors of the exec transport\<close>

lemma exec_failed_cases:
  "exec_failed sid (InvalidStatus 404) w = (Inl (SessionNotFound sid), w)"
  "code \<noteq> 404 \<Longrightarrow> exec_failed sid (InvalidStatus code) w
     = (Inl (SandboxError (lit ''apiserver refused exec (HTTP '' @ int_str code @ lit '')'')), w)"
  "exec_failed sid timeout_error w = (Inr (124, [], timed_out_message), w)"
  "exec_failed sid CancelledError w = (Inl CancelledError, w)"
  by (simp_all add: exec_failed_def prog_simps timeout_error_def TIMEOUT_EXIT_def)

text \<open>A payload for stdin is never sent over a protocol that cannot end it.\<close>

lemma v4_sends_nothing:
  assumes "ws_headers os c (api p) w = (Inr headers, w1)"
    and "ws_open c url headers w1 = (Inr (ws, sub), w2)" and "sub \<noteq> v5"
  shows "stream os c p url (Some data) w = (Inl v4_refused, ws_close c ws w2)"
  using assms by (simp add: stream_def ws_session_def prog_simps)

lemma in_lane_Inl:
  "sem_enter os ctl w = (Inr u, w0) \<Longrightarrow> body w0 = (Inl e, w1) \<Longrightarrow>
   in_lane os ctl body w = (Inl e, sem_exit os ctl w1)"
  by (simp add: in_lane_def bindp_apply)

subsection \<open>The bearer token\<close>

lemma bearer_cached:
  assumes "monotonic os w = (now, w1)" "a_token (api_get c w1) = tok" "tok \<noteq> []"
    and "now - a_token_at (api_get c w1) \<le> TOKEN_TTL"
  shows "bearer os c a w = (Inr (lit ''Bearer '' @ tok), w1)"
  using assms by (simp add: bearer_def prog_simps)

lemma bearer_reread:
  assumes "monotonic os w = (now, w1)" "open_read c (token_path a) w1 = (Inr text, w2)"
    and "a_token (api_get c w1) = [] \<or> TOKEN_TTL < now - a_token_at (api_get c w1)"
  shows "bearer os c a w = (Inr (lit ''Bearer '' @ strip text),
    update_api c (\<lambda>s. s\<lparr>a_token := strip text, a_token_at := now\<rparr>) w2)"
  using assms by (auto simp: bearer_def prog_simps)

subsection \<open>Parsers\<close>

definition plain_word :: "str \<Rightarrow> bool" where
  "plain_word s \<longleftrightarrow> s \<noteq> [] \<and> (\<forall>c \<in> set s. \<not> is_space c \<and> c \<noteq> 44 \<and> c \<noteq> 58 \<and> c \<noteq> 61)"

lemma plain_word_strip [simp]: "plain_word s \<Longrightarrow> strip s = s"
  by (simp add: plain_word_def strip_no_space)

lemma strip_two: "plain_word a \<Longrightarrow> plain_word b \<Longrightarrow> \<not> is_space c \<Longrightarrow> strip (a @ c # b) = a @ c # b"
  by (rule strip_no_space) (auto simp: plain_word_def)

lemma parse_toleration_equal:
  assumes "plain_word k" "plain_word v" "plain_word e"
  shows "parse_toleration (k @ [61] @ v @ [58] @ e)
    = Some [(lit ''key'', k), (lit ''operator'', lit ''Equal''), (lit ''value'', v), (lit ''effect'', e)]"
proof -
  have "\<not> is_space 61" "\<not> is_space 58" by (simp_all add: is_space_def)
  then have st: "strip (k @ 61 # v @ 58 # e) = k @ 61 # v @ 58 # e"
    by (intro strip_no_space) (use assms in \<open>auto simp: plain_word_def\<close>)
  have r: "rpartition_on 58 ((k @ 61 # v) @ 58 # e) = (k @ 61 # v, True, e)"
    by (rule rpartition_on_append) (use assms(3) in \<open>auto simp: plain_word_def\<close>)
  have q: "partition_on 61 (k @ 61 # v) = (k, True, v)"
    by (rule partition_on_append) (use assms(1) in \<open>auto simp: plain_word_def\<close>)
  show ?thesis
    using st r q assms by (auto simp: parse_toleration_def Let_def plain_word_def)
qed

lemma parse_toleration_exists:
  assumes "plain_word k" "plain_word e"
  shows "parse_toleration (k @ [58] @ e)
    = Some [(lit ''key'', k), (lit ''operator'', lit ''Exists''), (lit ''effect'', e)]"
proof -
  have st: "strip (k @ 58 # e) = k @ 58 # e"
    using assms by (intro strip_two) (auto simp: is_space_def)
  have r: "rpartition_on 58 (k @ 58 # e) = (k, True, e)"
    by (rule rpartition_on_append) (use assms(2) in \<open>auto simp: plain_word_def\<close>)
  have q: "partition_on 61 k = (k, False, [])"
    by (rule partition_on_none) (use assms(1) in \<open>auto simp: plain_word_def\<close>)
  show ?thesis
    using st r q assms by (auto simp: parse_toleration_def Let_def plain_word_def)
qed

lemma parse_toleration_key:
  assumes "plain_word k"
  shows "parse_toleration k = Some [(lit ''key'', k), (lit ''operator'', lit ''Exists'')]"
proof -
  have no: "58 \<notin> set k" "61 \<notin> set k" "k \<noteq> []"
    using assms unfolding plain_word_def by blast+
  have "rpartition_on 58 k = ([], False, k)" by (rule rpartition_on_none) (rule no)
  moreover have "partition_on 61 k = (k, False, [])" by (rule partition_on_none) (rule no)
  moreover have "strip k = k" using assms by simp
  ultimately show ?thesis using no(3) by (simp add: parse_toleration_def Let_def)
qed

lemma parse_toleration_empty: "parse_toleration [] = None"
  by (simp add: parse_toleration_def strip_def strip_by_def lstrip_by_def)

definition selector_text :: "(str \<times> str) list \<Rightarrow> str" where
  "selector_text kvs = join_with [44] (map (\<lambda>(k, v). k @ [61] @ v) kvs)"

lemma parse_node_selector_text:
  assumes "\<forall>(k, v) \<in> set kvs. plain_word k \<and> plain_word v" "distinct (map fst kvs)"
  shows "parse_node_selector (selector_text kvs) = kvs"
proof (cases "kvs = []")
  case True
  then show ?thesis
    by (simp add: parse_node_selector_def selector_text_def strip_def strip_by_def lstrip_by_def)
next
  case False
  let ?f = "\<lambda>out pair. let pair = strip pair
        in if pair = [] then out
           else (case partition_on 61 pair of (key, _, val) \<Rightarrow> AList.update (strip key) (strip val) out)"
  have split: "split_on 44 (selector_text kvs) = map (\<lambda>(k, v). k @ [61] @ v) kvs"
    unfolding selector_text_def
    using False assms(1) by (intro split_join_on) (auto simp: plain_word_def)
  have step: "?f out (k @ 61 # v) = out @ [(k, v)]"
    if "plain_word k" "plain_word v" "k \<notin> fst ` set out" for out k v
  proof -
    have st: "strip (k @ 61 # v) = k @ 61 # v" using that by (intro strip_two) (auto simp: is_space_def)
    have pa: "partition_on 61 (k @ 61 # v) = (k, True, v)"
      by (rule partition_on_append) (use that(1) in \<open>auto simp: plain_word_def\<close>)
    have "AList.update k v out = out @ [(k, v)]" using that(3) by (induction out) auto
    with st pa that show ?thesis by simp
  qed
  have "foldl ?f out (map (\<lambda>(k, v). k @ [61] @ v) kvs) = out @ kvs"
    if "\<forall>(k, v) \<in> set kvs. plain_word k \<and> plain_word v" "distinct (map fst (out @ kvs))" for out kvs
    using that
  proof (induction kvs arbitrary: out)
    case (Cons kv kvs)
    obtain k v where kv: "kv = (k, v)" by force
    with Cons.prems have "?f out (k @ 61 # v) = out @ [(k, v)]" by (intro step) auto
    with Cons.IH [of "out @ [(k, v)]"] Cons.prems show ?case by (simp add: kv Let_def)
  qed simp
  from this [of kvs "[]"] assms split show ?thesis by (simp add: parse_node_selector_def)
qed

end
