(* ===== verification/Gvisor_Props.thy ===== *)
theory Gvisor_Props
  imports Gvisor
begin

section \<open>Correctness of the gVisor provider\<close>

text \<open>
  The \<^verbatim>\<open>docker run\<close> command line read back as docker reads it (options up to \<^verbatim>\<open>--\<close>, then positional
  arguments), the confirmation of a missing container, the session listing, every error branch of
  create, and the provider as an \<open>exec_backend\<close>.
\<close>

subsection \<open>exec\<close>

definition gvisor_streams ::
  "'w os \<Rightarrow> str \<Rightarrow> str list \<Rightarrow> bytes option \<Rightarrow> int option \<Rightarrow> 'w \<Rightarrow> (int \<times> bytes \<times> bytes) option" where
  "gvisor_streams os sid cmd stdin t w =
     (case docker os (docker_exec_args sid cmd (stdin \<noteq> None)) stdin t None False w of
        (Inr r, _) \<Rightarrow> Some r | _ \<Rightarrow> None)"

lemma docker_uncapped:
  assumes "docker os args stdin t (Some (cap + 1)) ctl w = (Inr (rc, out, err), w')"
  shows "\<exists>full_out full_err. docker os args stdin t None ctl w = (Inr (rc, full_out, full_err), w')
    \<and> capped cap full_out out \<and> capped cap full_err err"
proof -
  from assms obtain u w0 w1 where e: "sem_enter os ctl w = (Inr u, w0)"
    and r: "run_cli os (lit ''docker'' # args) stdin t (Some (cap + 1)) w0 = (Inr (rc, out, err), w1)"
    and w': "w' = sem_exit os ctl w1"
    unfolding docker_def in_lane_eq_Inr by blast
  from run_cli_uncapped [OF r] show ?thesis
    using in_lane_eq [OF e] w' by (fastforce simp: docker_def)
qed

lemma gvisor_exec_cli_apply:
  assumes "docker os (docker_exec_args sid cmd (stdin \<noteq> None)) stdin t
             (Some (g_max_output_bytes p + 1)) False w = (Inr (rc, out, err), w1)"
  shows "gvisor_exec_cli os p sid cmd stdin t w =
    (if looks_missing rc err
     then bindp (is_running os sid)
            (\<lambda>running. if \<not> running then throw (SessionNotFound sid) else ret (rc, out, err)) w1
     else (Inr (rc, out, err), w1))"
  using assms by (simp add: gvisor_exec_cli_def prog_simps)

lemma gvisor_exec_cli_elim:
  assumes "gvisor_exec_cli os p sid cmd stdin t w = (Inr (rc, out, err), w')"
  obtains w1 where "docker os (docker_exec_args sid cmd (stdin \<noteq> None)) stdin t
    (Some (g_max_output_bytes p + 1)) False w = (Inr (rc, out, err), w1)"
proof -
  from assms obtain rc' out' err' w1 where
    d: "docker os (docker_exec_args sid cmd (stdin \<noteq> None)) stdin t
          (Some (g_max_output_bytes p + 1)) False w = (Inr (rc', out', err'), w1)"
    unfolding gvisor_exec_cli_def bindp_eq_Inr by auto
  with assms have "(rc', out', err') = (rc, out, err)"
    by (auto simp: gvisor_exec_cli_apply [OF d] bindp_eq_Inr prog_simps split: if_splits)
  with d show thesis by (auto intro: that)
qed

interpretation gvisor_backend: exec_backend
  "gvisor_exec_cli os p" "gvisor_streams os" "g_max_output_bytes p"
  for os :: "'w os" and p :: gvisor
proof (unfold_locales, goal_cases)
  case (1 sid cmd stdin t w rc out err w')
  then obtain w1 where "docker os (docker_exec_args sid cmd (stdin \<noteq> None)) stdin t
    (Some (g_max_output_bytes p + 1)) False w = (Inr (rc, out, err), w1)"
    by (rule gvisor_exec_cli_elim)
  from docker_uncapped [OF this] show ?case by (auto simp: gvisor_streams_def)
qed

subsection \<open>The docker run command line\<close>

text \<open>
  An option's value is the argument after it (\<^verbatim>\<open>argv[argv.index(flag) + 1]\<close>); options end at the
  terminator \<^verbatim>\<open>--\<close>.
\<close>

definition flag_value :: "string \<Rightarrow> str list \<Rightarrow> str option" where
  "flag_value f args =
     (case dropWhile (\<lambda>a. a \<noteq> lit f) args of _ # v # _ \<Rightarrow> Some v | _ \<Rightarrow> None)"

definition plain_value :: "str \<Rightarrow> bool" where
  "plain_value v \<longleftrightarrow> \<not> starts_with v (lit ''-'')"

lemma plain_not_flag: "plain_value v \<Longrightarrow> v \<noteq> lit (CHR ''-'' # f)"
  by (auto simp: plain_value_def starts_with_def lit_def)

lemma container_plain: "plain_value (container sid)"
  by (simp add: plain_value_def container_def NAME_PREFIX_def starts_with_def lit_def)

lemma int_unit_plain: "0 \<le> i \<Longrightarrow> plain_value (int_str i @ s)"
proof -
  assume "0 \<le> i"
  obtain c cs where c: "nat_str (nat i) = c # cs" by (cases "nat_str (nat i)") auto
  then have "is_digit c" using nat_str_digits [of c "nat i"] by simp
  with c \<open>0 \<le> i\<close> show ?thesis
    by (auto simp: plain_value_def int_str_def starts_with_def lit_def is_digit_def)
qed

lemma plain_neq [simp]:
  "plain_value v \<Longrightarrow> (v = lit (CHR ''-'' # f)) = False"
  "plain_value v \<Longrightarrow> (lit (CHR ''-'' # f) = v) = False"
  using plain_not_flag by metis+

lemma int_str_plain: "0 \<le> i \<Longrightarrow> plain_value (int_str i)"
  using int_unit_plain [of i "[]"] by simp

definition run_options :: "(pyfloat \<Rightarrow> str) \<Rightarrow> gvisor \<Rightarrow> str \<Rightarrow> bool \<Rightarrow> int \<Rightarrow> pyfloat \<Rightarrow> str list" where
  "run_options fstr p sid network m cpus =
     takeWhile (\<lambda>a. a \<noteq> lit ''--'') (run_args fstr p (container sid) None 0 network m cpus)"

lemma run_options_eq:
  assumes "plain_value (docker_runtime p)" "plain_value (docker_network p)"
    "plain_value (fstr cpus)" "0 \<le> m"
  shows "run_options fstr p sid network m cpus =
     [lit ''run'', lit ''-d'', lit ''--rm'', lit ''--name'', container sid,
      lit ''--runtime'', docker_runtime p,
      lit ''--network'', if network then docker_network p else lit ''none'',
      lit ''--memory'', int_str m @ lit ''m'', lit ''--memory-swap'', int_str m @ lit ''m'',
      lit ''--cpus'', fstr cpus, lit ''--pids-limit'', lit ''256'',
      lit ''--cap-drop'', lit ''ALL'', lit ''--security-opt'', lit ''no-new-privileges'',
      lit ''--workdir'', WORKDIR]"
  using assms container_plain [of sid] int_unit_plain [of m "lit ''m''"]
  by (simp add: run_options_def run_args_def WORKDIR_def)

lemma run_args_split:
  assumes "plain_value (docker_runtime p)" "plain_value (docker_network p)"
    "plain_value (fstr cpus)" "0 \<le> m"
  shows "partition_on (lit ''--'') (run_args fstr p (container sid) img t network m cpus)
    = (run_options fstr p sid network m cpus, True,
       [or_else img (g_default_image p), lit ''sleep'', int_str t])"
proof -
  have "run_args fstr p (container sid) img t network m cpus
      = run_options fstr p sid network m cpus
          @ lit ''--'' # [or_else img (g_default_image p), lit ''sleep'', int_str t]"
    using assms by (simp add: run_options_eq run_args_def)
  moreover have "lit ''--'' \<notin> set (run_options fstr p sid network m cpus)"
    unfolding run_options_def by (auto dest: set_takeWhileD)
  ultimately show ?thesis by (simp only: partition_on_append not_False_eq_True)
qed

lemma run_options_flags:
  assumes "plain_value (docker_runtime p)" "plain_value (docker_network p)"
    "plain_value (fstr cpus)" "0 \<le> m"
    and opts: "opts = run_options fstr p sid network m cpus"
  shows "flag_value ''--runtime'' opts = Some (docker_runtime p)"
    and "flag_value ''--network'' opts = Some (if network then docker_network p else lit ''none'')"
    and "flag_value ''--memory'' opts = Some (int_str m @ lit ''m'')"
    and "flag_value ''--memory-swap'' opts = Some (int_str m @ lit ''m'')"
    and "flag_value ''--cpus'' opts = Some (fstr cpus)"
    and "flag_value ''--pids-limit'' opts = Some (lit ''256'')"
    and "flag_value ''--cap-drop'' opts = Some (lit ''ALL'')"
    and "flag_value ''--security-opt'' opts = Some (lit ''no-new-privileges'')"
    and "flag_value ''--name'' opts = Some (container sid)"
    and "lit ''--rm'' \<in> set opts"
  unfolding opts flag_value_def
  using assms(1-4) container_plain [of sid] int_unit_plain [of m "lit ''m''"]
  by (simp_all add: run_options_eq)

subsection \<open>Session ids and the listing\<close>

text \<open>What \<^verbatim>\<open>uuid.uuid4().hex\<close> returns: 32 lower-case hexadecimal digits.\<close>

definition uuid_hex :: "str \<Rightarrow> bool" where
  "uuid_hex h \<longleftrightarrow> length h = 32 \<and> (\<forall>c \<in> set h. hex_char c)"

lemma uuid_session_id: "uuid_hex h \<Longrightarrow> valid_session_id (take 16 h)"
  by (auto simp: uuid_hex_def valid_session_id_def dest: in_set_takeD)

lemma ids_of_names_iff: "sid \<in> ids_of_names names \<longleftrightarrow> container sid \<in> set names"
proof
  assume "sid \<in> ids_of_names names"
  then obtain n where "n \<in> set names" "starts_with n NAME_PREFIX" "sid = drop (length NAME_PREFIX) n"
    by (auto simp: ids_of_names_def)
  moreover from this have "container sid = n"
    by (simp add: container_def starts_with_drop)
  ultimately show "container sid \<in> set names" by simp
next
  assume "container sid \<in> set names"
  then show "sid \<in> ids_of_names names"
    by (force simp: ids_of_names_def container_def image_iff)
qed

text \<open>The listing as \<^verbatim>\<open>docker ps\<close> prints it: one name per line, ASCII without white space.\<close>

definition plain_name :: "string \<Rightarrow> bool" where
  "plain_name n \<longleftrightarrow> n \<noteq> [] \<and> (\<forall>c \<in> set (lit n). c < 128 \<and> \<not> is_space c)"

definition ps_lines :: "string list \<Rightarrow> bytes" where
  "ps_lines names = concat (map (\<lambda>n. n @ [CHR 10]) names)"

lemma split_ps_lines:
  assumes "\<forall>n \<in> set names. plain_name n"
  shows "split_ws (utf8_decode_replace (ps_lines names)) = map lit names"
proof -
  have ascii: "\<forall>c \<in> set (lit (ps_lines names)). c < 128"
    using assms by (auto simp: ps_lines_def plain_name_def lit_def)
  have "utf8_encode (lit (ps_lines names)) = Inr (ps_lines names)"
    using ascii by (rule utf8_encode_lit)
  then have "utf8_decode_replace (ps_lines names) = lit (ps_lines names)"
    by (intro utf8_decode_replace_strict utf8_decode_encode)
  moreover have "split_ws (lit (ps_lines names)) = map lit names"
    using assms
  proof (induction names)
    case Nil
    then show ?case by (simp add: ps_lines_def lit_def)
  next
    case (Cons n ns)
    have l: "lit (ps_lines (n # ns)) = lit n @ 10 # lit (ps_lines ns)"
      by (simp add: ps_lines_def lit_def)
    from Cons have "\<forall>c \<in> set (lit n). \<not> is_space c" "lit n \<noteq> []"
      by (auto simp: plain_name_def)
    then have "split_ws (lit n @ 10 # lit (ps_lines ns)) = lit n # split_ws (lit (ps_lines ns))"
      by (rule split_ws_word) (simp add: is_space_def)
    with l Cons show ?case by simp
  qed
  ultimately show ?thesis by simp
qed

subsection \<open>create and destroy\<close>

lemma gvisor_create_apply:
  assumes "uuid4_hex os w = (hex, w0)"
    and "docker os (run_args fstr p (container (take 16 hex)) img t net m c) None (Some 60) None True w0
           = (Inr (rc, out, err), w1)"
  shows "gvisor_create os fstr p img t net m c w =
    (if rc = 0 then Inr (take 16 hex) else Inl (create_error p img err), w1)"
  using assms by (simp add: gvisor_create_def prog_simps Let_def)

lemma create_error_sandbox: "\<exists>m. create_error p img err = SandboxError m"
  by (simp add: create_error_def Let_def)

end
