(* ===== verification/Simulation.thy ===== *)
theory Simulation
  imports Service K8s_Props Gvisor_Props
begin

section \<open>A small executable environment\<close>

text \<open>
  Concrete instances of the parameters, on which the properties are exercised: an operating system
  whose processes answer by a given function of their command line, and a cluster whose apiserver
  and exec streams answer by given functions. The clock moves only while sleeping.
\<close>

record sim =
  sim_now :: rat
  sim_argv :: "str list list"
  sim_http :: "(str \<times> str) list"
  sim_sent :: "bytes list"
  sim_api :: api_state

definition sim0 :: sim where
  "sim0 = \<lparr>sim_now = 0, sim_argv = [], sim_http = [], sim_sent = [], sim_api = init_api_state\<rparr>"

definition sim_uuid :: str where
  "sim_uuid = lit ''0123456789abcdef0123456789abcdef''"

text \<open>\<open>answers\<close> maps a command line to what the process does; \<open>None\<close> is a process that hangs.\<close>

definition sim_os :: "(str list \<Rightarrow> child option) \<Rightarrow> sim os" where
  "sim_os answers =
     \<lparr>spawn = (\<lambda>argv has_stdin w.
        (Inr (length (sim_argv w)), w\<lparr>sim_argv := sim_argv w @ [argv]\<rparr>)),
      gather = (\<lambda>pid stdin t w. (Inr (answers (sim_argv w ! pid)), w)),
      kill_wait = (\<lambda>pid w. w),
      uuid4_hex = (\<lambda>w. (sim_uuid, w)),
      monotonic = (\<lambda>w. (sim_now w, w)),
      sem_enter = (\<lambda>control w. (Inr (), w)),
      sem_exit = (\<lambda>control w. w),
      deadline_hit = (\<lambda>t w. None)\<rparr>"

definition exits :: "int \<Rightarrow> bytes \<Rightarrow> bytes \<Rightarrow> child option" where
  "exits rc out err = Some \<lparr>out_reads = [out, []], err_reads = [err, []], returncode = Some rc\<rparr>"

text \<open>
  \<open>server\<close> answers an HTTP method and path; \<open>proto\<close> is the negotiated exec subprotocol and
  \<open>frames\<close> what the exec stream delivers; every JSON text reads as \<open>parsed\<close>.
\<close>

definition sim_cluster ::
  "(str \<Rightarrow> str \<Rightarrow> exn + (int \<times> json)) \<Rightarrow> str \<Rightarrow> frame list \<Rightarrow> json \<Rightarrow> sim cluster" where
  "sim_cluster server proto frames parsed =
     \<lparr>api_get = sim_api,
      api_put = (\<lambda>s w. w\<lparr>sim_api := s\<rparr>),
      open_read = (\<lambda>path w. (Inr (lit ''token''), w)),
      http_call = (\<lambda>m path q h b t w.
        (case server m path of
           Inl e \<Rightarrow> (Inl e, w\<lparr>sim_http := sim_http w @ [(m, path)]\<rparr>)
         | Inr (status, j) \<Rightarrow> (Inr (status, Inr j), w\<lparr>sim_http := sim_http w @ [(m, path)]\<rparr>))),
      ws_open = (\<lambda>url h w. (Inr (0, proto), w)),
      ws_send = (\<lambda>ws f w. (Inr (), w\<lparr>sim_sent := sim_sent w @ [f]\<rparr>)),
      ws_recv = (\<lambda>ws w. (Inr frames, w)),
      ws_close = (\<lambda>ws w. w),
      sleep_for = (\<lambda>d w. (Inr (), w\<lparr>sim_now := sim_now w + max 0 d\<rparr>)),
      loads_bytes = (\<lambda>b. Inr parsed),
      json_show = (\<lambda>j. lit ''{}''),
      load_ca = (\<lambda>path. Inr ())\<rparr>"

definition sim_gvisor :: gvisor where
  "sim_gvisor = \<lparr>g_default_image = lit ''img'', docker_runtime = lit ''runsc'',
     docker_network = lit ''bridge'', g_max_output_bytes = 4\<rparr>"

definition sim_k8s :: k8s where
  "sim_k8s = \<lparr>k_default_image = lit ''img'', runtime_class = lit ''gvisor'', node_selector = [],
     toleration = None, image_pull_secrets = [], create_timeout = 1, k_max_output_bytes = 4,
     k_disk_mb = 256, reap_interval = 120,
     api = \<lparr>authority = lit ''10.0.0.1:443'', token_path = lit ''/t'', ns_path = lit ''/n''\<rparr>,
     namespace = lit ''default''\<rparr>"

lemma sim_steady: "steady (sim_os answers) (sim_cluster server proto frames parsed)"
  by (auto simp: steady_def time_at_def sim_os_def sim_cluster_def split: sum.split)

lemma sim_os_fields [simp]:
  "spawn (sim_os a) argv b w = (Inr (length (sim_argv w)), w\<lparr>sim_argv := sim_argv w @ [argv]\<rparr>)"
  "gather (sim_os a) pid stdin limit0 w = (Inr (a (sim_argv w ! pid)), w)"
  "kill_wait (sim_os a) pid w = w"
  "uuid4_hex (sim_os a) w = (sim_uuid, w)"
  "monotonic (sim_os a) w = (sim_now w, w)"
  "sem_enter (sim_os a) control w = (Inr (), w)"
  "sem_exit (sim_os a) control w = w"
  "deadline_hit (sim_os a) seconds w = None"
  by (simp_all add: sim_os_def)

end
