(* ===== verification/Text_Guarantees.thy ===== *)
theory Text_Guarantees
  imports Session_Props Log_Text Url
begin

section \<open>Guarantees on texts: quoting, encodings, configuration, log\<close>

text \<open>
  The properties of the text-level components: what sh reads in the scripts the service builds, the
  encodings of file contents, the configuration readers and the log block.
\<close>

subsection \<open>Scripts\<close>


text \<open>
  C11: \<^verbatim>\<open>exec\<close> hands the session \<^verbatim>\<open>timeout -k 1 N sh -c SCRIPT\<close>; read by the rules of sh, the script
  changes to the requested directory, taken literally whatever characters it has, and only then
  reaches the caller's command, which is left as it is.
\<close>

theorem exec_script_is_literal:
  "\<exists>script. exec_argv command seconds workdir
       = [lit ''timeout'', lit ''-k'', lit ''1'', int_str seconds, lit ''sh'', lit ''-c'', script]
     \<and> sh_argv script = Some ([lit ''cd'', or_else workdir WORKDIR], lit ''&& '' @ command)"
  using exec_script_words [of command seconds workdir] by (auto simp: exec_argv_def)


subsection \<open>Encodings\<close>



text \<open>
  C26: What \<^verbatim>\<open>read_file\<close> returns for a file's bytes can be written back: it is a valid \<^verbatim>\<open>write_file\<close>
  body for any path, its payload is exactly the bytes up to the limit, and the flag says whether the
  file goes on.
\<close>

theorem read_result_writes_back:
  assumes "read_result out cap = (content, encoding, tr)" "path \<noteq> []"
  shows "valid_write \<lparr>wr_path = path, wr_content = content, wr_encoding = encoding\<rparr>
    \<and> payload_bytes content encoding = Some (py_take cap out)
    \<and> (tr \<longleftrightarrow> cap < int (length out))"
proof -
  have "encoding = lit ''base64'' \<Longrightarrow> content = b64encode (py_take cap out)"
    using assms(1) by (auto simp: read_result_def Let_def split: sum.splits)
  then show ?thesis
    using read_result_recovers [OF assms(1)] assms(2)
    by (auto simp: valid_write_def base64_is_well_formed_def b64encode_well_formed Suc_le_eq)
qed

lemma read_result_writes_back_witness:
  "payload_bytes (lit ''ab'') (lit ''utf-8'') = Some ''ab''"
proof -
  have "utf8_decode ''ab'' = Inr (lit ''ab'')"
    by (intro utf8_decode_encode utf8_encode_lit) (simp add: lit_def)
  then have "read_result ''abc'' 2 = (lit ''ab'', lit ''utf-8'', True)"
    by (simp add: read_result_def)
  from read_result_writes_back [OF this, of "lit ''f''"] show ?thesis by simp
qed

subsection \<open>Configuration\<close>





subsection \<open>The log\<close>



text \<open>
  The size logged for base64 content is the size of the decoded payload, computed without decoding
  it, for every payload as \<^verbatim>\<open>base64.b64encode\<close> writes it (interior line breaks would be counted).
\<close>

lemma payload_metrics_size:
  "payload_metrics (b64encode b) (lit ''base64'')
     = human_bytes (length b) @ lit '' '' @ [183] @ lit '' binary/base64''
   \<and> b64decode (b64encode b) = Some b"
  by (simp add: payload_metrics_def payload_size_b64)

end
