(* ===== verification/Gvisor_Guarantees.thy ===== *)
theory Gvisor_Guarantees
  imports Simulation Text_Guarantees
begin

section \<open>Guarantees of the gVisor provider\<close>

text \<open>
  The in-session operations over the docker CLI, the sandbox's command line, the life cycle and the
  listing. The operating system stays arbitrary; the witnesses run on the simulated one.
\<close>

subsection \<open>Evaluating docker in the simulation\<close>

lemma sim_docker:
  assumes "argv_error (lit ''docker'' # args) = None"
  shows "docker (sim_os a) args stdin t mb ctl w =
    (Inr (case a (lit ''docker'' # args) of None \<Rightarrow> (TIMEOUT_EXIT, [], timed_out_message)
          | Some c \<Rightarrow> child_result mb c),
     w\<lparr>sim_argv := sim_argv w @ [lit ''docker'' # args]\<rparr>)"
  using assms
  by (cases "a (lit ''docker'' # args)")
     (simp_all add: docker_def in_lane_def run_cli_def create_subprocess_def prog_simps nth_append)

lemma arg_error_ascii: "\<forall>c \<in> set a. 0 < c \<and> c < 128 \<Longrightarrow> arg_error a = None"
  by (fastforce simp: arg_error_def is_scalar_def)

lemma argv_error_ascii: "\<forall>a \<in> set argv. \<forall>c \<in> set a. 0 < c \<and> c < 128 \<Longrightarrow> argv_error argv = None"
proof (induction argv)
  case (Cons a argv)
  then have "arg_error a = None" by (intro arg_error_ascii) auto
  with Cons show ?case by simp
qed simp

lemma sim_result_exits:
  "child_result (Some m) \<lparr>out_reads = [out, []], err_reads = [err, []], returncode = Some rc\<rparr>
     = (rc, take (nat m) out, take (nat m) err)"
  "child_result None \<lparr>out_reads = [out, []], err_reads = [err, []], returncode = Some rc\<rparr>
     = (rc, out, err)"
  by (simp_all add: child_result_def pump_capped pump_uncapped)

subsection \<open>In-session operations\<close>

text \<open>
  C8: The cap on output is invisible apart from the flag: \<^verbatim>\<open>exec\<close> under the gVisor provider returns
  the exit code of the command and, for each stream, what capping the whole uncut stream gives,
  although only one byte past the cap is ever buffered; the flag is set exactly when a stream is
  longer than the cap, and neither text is longer than it.
\<close>

theorem gvisor_exec_whole_streams:
  assumes "0 \<le> g_max_output_bytes p"
    and "exec os (g_max_output_bytes p) (gvisor_exec_cli os p) sid command t wd w = (Inr r, w')"
  shows "\<exists>rc full_out full_err.
     gvisor_streams os sid (exec_argv command (max 1 t) wd) None (Some (max 1 t + 2))
       (snd (monotonic os w)) = Some (rc, full_out, full_err)
     \<and> exit_code r = rc
     \<and> stdout r = utf8_decode_replace (py_take (g_max_output_bytes p) full_out)
     \<and> stderr r = utf8_decode_replace (py_take (g_max_output_bytes p) full_err)
     \<and> (truncated r \<longleftrightarrow> g_max_output_bytes p < int (length full_out)
          \<or> g_max_output_bytes p < int (length full_err))
     \<and> int (length (stdout r)) \<le> g_max_output_bytes p
     \<and> int (length (stderr r)) \<le> g_max_output_bytes p"
proof -
  obtain rc fo fe where
    "gvisor_streams os sid (exec_argv command (max 1 t) wd) None (Some (max 1 t + 2))
       (snd (monotonic os w)) = Some (rc, fo, fe)" "exit_code r = rc"
    "stdout r = fst (cap_output (PBytes fo) (g_max_output_bytes p))"
    "stderr r = fst (cap_output (PBytes fe) (g_max_output_bytes p))"
    "truncated r \<longleftrightarrow> g_max_output_bytes p < int (length fo) \<or> g_max_output_bytes p < int (length fe)"
    using gvisor_backend.exec_sees_whole_streams [OF assms] by blast
  then show ?thesis using gvisor_backend.exec_bounded [OF assms]
    by (intro exI [of _ rc] exI [of _ fo] exI [of _ fe]) (simp only: cap_output.simps fst_conv)
qed

definition demo_id :: str where
  "demo_id = lit ''0123456789abcdef''"

definition says_hello :: "str list \<Rightarrow> child option" where
  "says_hello argv = exits 3 ''hello'' []"

lemma demo_exec:
  "exec (sim_os says_hello) (g_max_output_bytes sim_gvisor)
     (gvisor_exec_cli (sim_os says_hello) sim_gvisor) demo_id (lit ''ls'') 5 None sim0
   = (Inr \<lparr>stdout = utf8_decode_replace ''hell'', stderr = utf8_decode_replace [], exit_code = 3,
           truncated = True, duration_ms = Some 0\<rparr>,
      sim0\<lparr>sim_argv := [lit ''docker'' # docker_exec_args demo_id (exec_argv (lit ''ls'') 5 None) False]\<rparr>)"
proof -
  have ascii: "\<forall>a \<in> set (lit ''docker'' # docker_exec_args demo_id (exec_argv (lit ''ls'') 5 None) False).
      \<forall>c \<in> set a. 0 < c \<and> c < 128"
    by (simp add: docker_exec_args_def exec_argv_def container_def NAME_PREFIX_def demo_id_def lit_def
        int_str_def nat_str.simps shlex_quote_def WORKDIR_def or_else_def shell_safe_def)
  note d = sim_docker [OF argv_error_ascii [OF ascii], of says_hello]
  show ?thesis
    by (simp add: exec_def gvisor_exec_cli_def d says_hello_def exits_def sim_result_exits bindp_apply
        ask_apply ret_apply looks_missing_def starts_with_def session_result_apply
        sim_gvisor_def sim0_def trunc_rat_def Let_def)
qed

lemma gvisor_exec_whole_streams_witness:
  "\<exists>full_out full_err. gvisor_streams (sim_os says_hello) demo_id (exec_argv (lit ''ls'') 5 None) None
       (Some 7) sim0 = Some (3, full_out, full_err)
     \<and> (4 < length full_out \<or> 4 < length full_err)"
proof -
  have "(0 :: int) \<le> g_max_output_bytes sim_gvisor" by (simp add: sim_gvisor_def)
  from gvisor_exec_whole_streams [OF this demo_exec] show ?thesis by (auto simp: sim_gvisor_def)
qed








subsection \<open>The container's command line\<close>

text \<open>
  C6: Every session container is started isolated and bounded: read as docker reads it (an option's value
  is the next argument, options end at the terminator), the command line names the configured runtime,
  no network unless asked for, the memory limit for both memory and swap, the CPU and process limits,
  all capabilities dropped, no new privileges, removal on exit; and the caller's image is the first
  positional argument, after the terminator, so it can never be taken for an option.
\<close>

theorem containers_are_isolated:
  assumes "plain_value (docker_runtime p)" "plain_value (docker_network p)"
    "plain_value (fstr cpus)" "0 \<le> m"
  shows "\<exists>opts. partition_on (lit ''--'') (run_args fstr p (container sid) img t network m cpus)
       = (opts, True, [or_else img (g_default_image p), lit ''sleep'', int_str t])
     \<and> flag_value ''--runtime'' opts = Some (docker_runtime p)
     \<and> flag_value ''--network'' opts = Some (if network then docker_network p else lit ''none'')
     \<and> flag_value ''--memory'' opts = Some (int_str m @ lit ''m'')
     \<and> flag_value ''--memory-swap'' opts = Some (int_str m @ lit ''m'')
     \<and> flag_value ''--cpus'' opts = Some (fstr cpus)
     \<and> flag_value ''--pids-limit'' opts = Some (lit ''256'')
     \<and> flag_value ''--cap-drop'' opts = Some (lit ''ALL'')
     \<and> flag_value ''--security-opt'' opts = Some (lit ''no-new-privileges'')
     \<and> flag_value ''--name'' opts = Some (container sid)
     \<and> lit ''--rm'' \<in> set opts"
  using run_args_split [of p fstr cpus m sid img t network]
    run_options_flags [of p fstr cpus m "run_options fstr p sid network m cpus" sid network] assms
  by (intro exI [of _ "run_options fstr p sid network m cpus"]) simp

lemma containers_are_isolated_witness:
  "\<exists>opts. partition_on (lit ''--'') (run_args (\<lambda>_. lit ''1'') sim_gvisor (container demo_id)
       (Some (lit ''--privileged'')) 60 False 512 (Finite 1))
     = (opts, True, [lit ''--privileged'', lit ''sleep'', int_str 60])
     \<and> flag_value ''--network'' opts = Some (lit ''none'')"
proof -
  have "plain_value (docker_runtime sim_gvisor)" "plain_value (docker_network sim_gvisor)"
    "plain_value (lit ''1'')" "(0 :: int) \<le> 512"
    by (simp_all add: plain_value_def starts_with_def sim_gvisor_def lit_def)
  then show ?thesis
    using containers_are_isolated [of sim_gvisor "\<lambda>_. lit ''1''" "Finite 1" 512 demo_id
      "Some (lit ''--privileged'')" 60 False]
    by (auto simp: or_else_def)
qed

subsection \<open>Life cycle\<close>


definition hangs :: "str list \<Rightarrow> child option" where
  "hangs argv = None"

definition succeeds :: "bytes \<Rightarrow> str list \<Rightarrow> child option" where
  "succeeds out argv = exits 0 out []"

lemma sim_docker_succeeds:
  assumes "argv_error (lit ''docker'' # args) = None"
  shows "docker (sim_os (succeeds out)) args stdin t None ctl sim0
    = (Inr (0, out, []), sim0\<lparr>sim_argv := [lit ''docker'' # args]\<rparr>)"
  using sim_docker [OF assms, of "succeeds out" stdin t None ctl sim0]
  by (simp add: succeeds_def exits_def sim_result_exits) (simp add: sim0_def)

lemma demo_run_argv:
  "argv_error (lit ''docker'' # run_args (\<lambda>_. lit ''1'') sim_gvisor (container demo_id) None 60 False 512
     (Finite 1)) = None"
  by (rule argv_error_ascii)
     (simp add: run_args_def container_def NAME_PREFIX_def demo_id_def sim_gvisor_def lit_def
        int_str_def nat_str.simps WORKDIR_def or_else_def)

lemma demo_uuid: "uuid_hex sim_uuid \<and> take 16 sim_uuid = demo_id"
  by (simp add: uuid_hex_def sim_uuid_def demo_id_def lit_def hex_char_def)


text \<open>
  C40: When \<^verbatim>\<open>docker run\<close> is still going at the sixty-second deadline, \<^verbatim>\<open>create\<close> kills the docker client
  and reports a failed create; it issues no \<^verbatim>\<open>docker rm\<close>, so a container that the daemon goes on to
  start stays until its own \<^verbatim>\<open>sleep\<close> ends.
\<close>

theorem create_deadline_leaves_container:
  assumes "uuid4_hex os w = (hex, w0)" and "sem_enter os True w0 = (Inr u, w1)"
    and "create_subprocess os (lit ''docker'' # run_args fstr p (container (take 16 hex)) img t net m c)
           False w1 = (Inr pid, w2)"
    and "gather os pid None (Some 60) w2 = (Inr None, w3)"
  shows "\<exists>msg. gvisor_create os fstr p img t net m c w
    = (Inl (SandboxError msg), sem_exit os True (kill_wait os pid w3))"
proof -
  have "docker os (run_args fstr p (container (take 16 hex)) img t net m c) None (Some 60) None True w0
      = (Inr (TIMEOUT_EXIT, [], timed_out_message), sem_exit os True (kill_wait os pid w3))"
    using assms(2-4) by (simp add: docker_def in_lane_eq run_cli_deadline)
  from gvisor_create_apply [OF assms(1) this] create_error_sandbox [of p img timed_out_message]
  show ?thesis by (auto simp: TIMEOUT_EXIT_def)
qed

lemma create_deadline_leaves_container_witness:
  "sim_argv (snd (gvisor_create (sim_os hangs) (\<lambda>_. lit ''1'') sim_gvisor None 60 False 512 (Finite 1) sim0))
     = [lit ''docker'' # run_args (\<lambda>_. lit ''1'') sim_gvisor (container demo_id) None 60 False 512 (Finite 1)]"
proof -
  let ?argv = "lit ''docker'' # run_args (\<lambda>_. lit ''1'') sim_gvisor (container demo_id) None 60 False 512 (Finite 1)"
  have "create_subprocess (sim_os hangs) ?argv False sim0 = (Inr 0, sim0\<lparr>sim_argv := [?argv]\<rparr>)"
    using demo_run_argv by (simp add: create_subprocess_def del: argv_error.simps) (simp add: sim0_def)
  then have "\<exists>msg. gvisor_create (sim_os hangs) (\<lambda>_. lit ''1'') sim_gvisor None 60 False 512 (Finite 1) sim0
      = (Inl (SandboxError msg), sem_exit (sim_os hangs) True
           (kill_wait (sim_os hangs) 0 (sim0\<lparr>sim_argv := [?argv]\<rparr>)))"
    by (intro create_deadline_leaves_container [of "sim_os hangs" sim0 sim_uuid sim0 "()" sim0])
       (simp_all add: demo_uuid hangs_def)
  then show ?thesis by auto
qed

text \<open>
  C30: \<^verbatim>\<open>live_session_ids\<close> reports exactly the sessions whose container the daemon lists, one name per
  line; containers without the service's prefix are ignored, and a daemon that fails is no knowledge
  at all, not an empty replica.
\<close>

theorem gvisor_lists_its_sessions:
  assumes "docker os [lit ''ps'', lit ''--filter'', lit ''name=^'' @ NAME_PREFIX, lit ''--format'',
      lit ''{{.Names}}''] None (Some 15) None True w = (Inr (rc, ps_lines names, err), w')"
    and "\<forall>n \<in> set names. plain_name n"
  shows "gvisor_live_session_ids os w
    = (Inr (if rc = 0 then Some {sid. container sid \<in> lit ` set names} else None), w')"
proof -
  have "ids_of_names (map lit names) = {sid. container sid \<in> lit ` set names}"
    by (auto simp: ids_of_names_iff)
  then show ?thesis
    using assms by (simp add: gvisor_live_session_ids_def prog_simps split_ps_lines)
qed

lemma gvisor_lists_its_sessions_witness:
  "fst (gvisor_live_session_ids (sim_os (succeeds (ps_lines [''llmsbx_ab'', ''db'']))) sim0)
     = Inr (Some {lit ''ab''})"
proof -
  let ?a = "succeeds (ps_lines [''llmsbx_ab'', ''db''])"
  let ?cmd = "[lit ''ps'', lit ''--filter'', lit ''name=^'' @ NAME_PREFIX, lit ''--format'', lit ''{{.Names}}'']"
  have "argv_error (lit ''docker'' # ?cmd) = None"
    by (rule argv_error_ascii) (simp add: NAME_PREFIX_def lit_def)
  from sim_docker_succeeds [OF this]
  have 1: "docker (sim_os ?a) ?cmd None (Some 15) None True sim0
      = (Inr (0, ps_lines [''llmsbx_ab'', ''db''], []), sim0\<lparr>sim_argv := [lit ''docker'' # ?cmd]\<rparr>)" .
  have 2: "\<forall>n \<in> set [''llmsbx_ab'', ''db'']. plain_name n"
    by (simp add: plain_name_def lit_def is_space_def)
  have "{sid. container sid \<in> lit ` set [''llmsbx_ab'', ''db'']} = {lit ''ab''}"
    by (auto simp: container_def NAME_PREFIX_def lit_def)
  with gvisor_lists_its_sessions [OF 1 2] show ?thesis by simp
qed

end
