(* ===== verification/K8s_Guarantees.thy ===== *)
theory K8s_Guarantees
  imports Simulation
begin

section \<open>Guarantees of the Kubernetes provider\<close>

text \<open>
  The exec transport, the pod manifest, readiness, the life cycle of a session pod, the listing, the
  reaper, the bearer token and the settings. The apiserver stays arbitrary; the witnesses run on the
  simulated one.
\<close>

subsection \<open>Evaluating requests in the simulation\<close>

lemma sim_cluster_fields [simp]:
  "api_get (sim_cluster sv pr fr pa) w = sim_api w"
  "api_put (sim_cluster sv pr fr pa) s w = w\<lparr>sim_api := s\<rparr>"
  "open_read (sim_cluster sv pr fr pa) path w = (Inr (lit ''token''), w)"
  "http_call (sim_cluster sv pr fr pa) m path q h b timeout w =
     (case sv m path of Inl e \<Rightarrow> (Inl e, w\<lparr>sim_http := sim_http w @ [(m, path)]\<rparr>)
      | Inr (status, j) \<Rightarrow> (Inr (status, Inr j), w\<lparr>sim_http := sim_http w @ [(m, path)]\<rparr>))"
  "ws_open (sim_cluster sv pr fr pa) url h w = (Inr (0, pr), w)"
  "ws_send (sim_cluster sv pr fr pa) ws f w = (Inr (), w\<lparr>sim_sent := sim_sent w @ [f]\<rparr>)"
  "ws_recv (sim_cluster sv pr fr pa) ws w = (Inr fr, w)"
  "ws_close (sim_cluster sv pr fr pa) ws w = w"
  "sleep_for (sim_cluster sv pr fr pa) d w = (Inr (), w\<lparr>sim_now := sim_now w + max 0 d\<rparr>)"
  "loads_bytes (sim_cluster sv pr fr pa) data = Inr pa"
  by (simp_all add: sim_cluster_def)

lemma sim_bearer:
  "\<exists>w' tok. bearer (sim_os a) (sim_cluster sv pr fr pa) srv w = (Inr tok, w')
     \<and> sim_http w' = sim_http w \<and> sim_now w' = sim_now w \<and> sim_sent w' = sim_sent w"
  by (auto simp: bearer_def bindp_apply ask_apply ret_apply update_api_def)

lemma sim_request:
  "\<exists>w'. request (sim_os a) (sim_cluster sv pr fr pa) srv m path q b timeout w = (sv m path, w')
     \<and> sim_http w' = sim_http w @ [(m, path)] \<and> sim_now w' = sim_now w"
proof -
  let ?c = "sim_cluster sv pr fr pa"
  obtain w1 where w1: "(if \<not> a_client (sim_api w) then api_start ?c else ret ()) w = (Inr (), w1)"
    "sim_http w1 = sim_http w" "sim_now w1 = sim_now w"
    by (cases "a_client (sim_api w)") (auto simp: api_start_def update_api_def ret_apply)
  obtain w2 tok where w2: "bearer (sim_os a) ?c srv w1 = (Inr tok, w2)"
    "sim_http w2 = sim_http w1" "sim_now w2 = sim_now w1"
    using sim_bearer by blast
  show ?thesis
    using w1 w2
    by (cases "sv m path") (auto simp: request_def bindp_apply ask_apply ret_apply split: prod.split)
qed

subsection \<open>In-session operations\<close>

text \<open>
  C9: Over the exec WebSocket, too, the cap on output is invisible apart from the flag: \<^verbatim>\<open>exec\<close> returns
  the exit code and, for each stream, what capping everything the pod sent on that channel gives,
  although the receive loop drops what is past the cap as it arrives.
\<close>

theorem k8s_exec_whole_streams:
  assumes "0 \<le> k_max_output_bytes p"
    and "exec os (k_max_output_bytes p) (k8s_exec_cli os c p) sid command t wd w = (Inr r, w')"
  shows "\<exists>rc full_out full_err.
     k8s_streams os c p sid (exec_argv command (max 1 t) wd) None (Some (max 1 t + 2))
       (snd (monotonic os w)) = Some (rc, full_out, full_err)
     \<and> exit_code r = rc
     \<and> stdout r = utf8_decode_replace (py_take (k_max_output_bytes p) full_out)
     \<and> stderr r = utf8_decode_replace (py_take (k_max_output_bytes p) full_err)
     \<and> (truncated r \<longleftrightarrow> k_max_output_bytes p < int (length full_out)
          \<or> k_max_output_bytes p < int (length full_err))
     \<and> int (length (stdout r)) \<le> k_max_output_bytes p
     \<and> int (length (stderr r)) \<le> k_max_output_bytes p"
proof -
  obtain rc fo fe where
    "k8s_streams os c p sid (exec_argv command (max 1 t) wd) None (Some (max 1 t + 2))
       (snd (monotonic os w)) = Some (rc, fo, fe)" "exit_code r = rc"
    "stdout r = fst (cap_output (PBytes fo) (k_max_output_bytes p))"
    "stderr r = fst (cap_output (PBytes fe) (k_max_output_bytes p))"
    "truncated r \<longleftrightarrow> k_max_output_bytes p < int (length fo) \<or> k_max_output_bytes p < int (length fe)"
    using k8s_backend.exec_sees_whole_streams [OF assms] by blast
  then show ?thesis using k8s_backend.exec_bounded [OF assms]
    by (intro exI [of _ rc] exI [of _ fo] exI [of _ fe]) (simp only: cap_output.simps fst_conv)
qed

text \<open>A pod that prints more than the cap in two frames and succeeds.\<close>

definition demo_cluster :: "sim cluster" where
  "demo_cluster = sim_cluster (\<lambda>m path. Inr (200, JObj [])) v5
     [Binary [CHR 0x01, CHR ''a'', CHR ''b'', CHR ''c''], Binary [CHR 0x01, CHR ''d'', CHR ''e'']]
     (jobj [(''status'', jstr ''Success'')])"

definition idle_os :: "sim os" where
  "idle_os = sim_os (\<lambda>argv. None)"

lemma demo_url:
  "\<exists>url. exec_url sim_k8s sid (exec_argv (lit ''ls'') 5 None) False = Inr url"
proof -
  have q: "\<exists>q. quote_plus (lit s) = Inr q" if "\<forall>c \<in> set (lit s). c < 128" for s
    using utf8_encode_lit [OF that] by (simp add: quote_plus_def)
  have "\<exists>url. urlencode (exec_query (exec_argv (lit ''ls'') 5 None) False) = Inr url"
  proof -
    have "\<forall>c \<in> set a. c < 128"
      if "a \<in> set (exec_argv (lit ''ls'') 5 None)" for a
      using that by (auto simp: exec_argv_def lit_def int_str_def nat_str.simps shlex_quote_def
          WORKDIR_def or_else_def shell_safe_def)
    then have enc: "\<forall>(k, v) \<in> set (exec_query (exec_argv (lit ''ls'') 5 None) False).
        (\<exists>k'. quote_plus k = Inr k') \<and> (\<exists>v'. quote_plus v = Inr v')"
      by (force simp: exec_query_def lit_def quote_plus_def utf8_encode_def is_scalar_def)
    have "\<exists>ps. mapr (\<lambda>(k, v). bindr (quote_plus k) (\<lambda>k'. bindr (quote_plus v) (\<lambda>v'.
        Inr (k' @ lit ''='' @ v')))) xs = Inr ps"
      if "\<forall>(k, v) \<in> set xs. (\<exists>k'. quote_plus k = Inr k') \<and> (\<exists>v'. quote_plus v = Inr v')" for xs
      using that by (induction xs) auto
    from this [OF enc] show ?thesis by (auto simp: urlencode_def)
  qed
  then show ?thesis by (auto simp: exec_url_def ws_url_def)
qed

lemma demo_k8s_exec:
  "\<exists>r w'. exec idle_os (k_max_output_bytes sim_k8s) (k8s_exec_cli idle_os demo_cluster sim_k8s) sid
     (lit ''ls'') 5 None sim0 = (Inr r, w') \<and> exit_code r = 0"
proof -
  obtain url where url: "exec_url sim_k8s sid (exec_argv (lit ''ls'') 5 None) False = Inr url"
    using demo_url by blast
  obtain w1 tok where b: "bearer idle_os demo_cluster (api sim_k8s) sim0 = (Inr tok, w1)"
    unfolding idle_os_def demo_cluster_def using sim_bearer by blast
  have "\<exists>out. stream idle_os demo_cluster sim_k8s url None sim0 = (Inr (0, out, []), w1)"
    by (simp add: stream_def ws_session_def ws_headers_def bindp_apply b ret_apply of_result_apply
        take_frames_capped channel_defs exit_code_from_status_def)
       (simp add: demo_cluster_def bindp_apply of_result_apply)
  then obtain out where s: "stream idle_os demo_cluster sim_k8s url None sim0 = (Inr (0, out, []), w1)" ..
  have "k8s_exec_cli idle_os demo_cluster sim_k8s sid (exec_argv (lit ''ls'') 5 None) None (Some 7) sim0
      = (Inr (0, out, []), w1)"
    using s by (simp add: k8s_exec_cli_def url bindp_apply of_result_apply catchp_apply in_lane_def
        wait_for_def idle_os_def)
  then show ?thesis
    by (simp add: exec_def bindp_apply ask_apply session_result_apply idle_os_def Let_def)
qed

lemma k8s_exec_whole_streams_witness:
  "\<exists>full_out full_err. k8s_streams idle_os demo_cluster sim_k8s (lit ''0123456789abcdef'')
       (exec_argv (lit ''ls'') 5 None) None (Some 7) sim0 = Some (0, full_out, full_err)"
proof -
  obtain r w' where run: "exec idle_os (k_max_output_bytes sim_k8s)
      (k8s_exec_cli idle_os demo_cluster sim_k8s) (lit ''0123456789abcdef'') (lit ''ls'') 5 None sim0
      = (Inr r, w')" "exit_code r = 0"
    using demo_k8s_exec by blast
  have "(0 :: int) \<le> k_max_output_bytes sim_k8s" by (simp add: sim_k8s_def)
  from k8s_exec_whole_streams [OF this run(1)] run(2) show ?thesis by (auto simp: idle_os_def)
qed

text \<open>
  C13: The exec URL carries the command losslessly: a form decoder reads back exactly the arguments, in
  order, as \<^verbatim>\<open>command\<close> parameters, then the four stream flags, whatever characters the arguments
  contain; no argument can add a parameter or reach another part of the URL.
\<close>

theorem exec_url_is_lossless:
  assumes "exec_url p sid cmd has_stdin = Inr url"
  shows "\<exists>q kvs. url = lit ''wss://'' @ authority (api p) @ lit ''/api/v1/namespaces/'' @ namespace p
       @ lit ''/pods/'' @ pod sid @ lit ''/exec?'' @ q
     \<and> read_query q = Some kvs
     \<and> list_all2 (\<lambda>(k, v) (k', v'). utf8_decode k' = Inr k \<and> utf8_decode v' = Inr v)
         (map (\<lambda>a. (lit ''command'', a)) cmd
          @ [(lit ''stdout'', lit ''true''), (lit ''stderr'', lit ''true''), (lit ''tty'', lit ''false''),
             (lit ''stdin'', if has_stdin then lit ''true'' else lit ''false'')]) kvs"
  using exec_url_query [OF assms] by (simp only: exec_query_def)

lemma exec_url_is_lossless_witness:
  "\<exists>url q kvs. exec_url sim_k8s (lit ''ab'') (exec_argv (lit ''ls'') 5 None) False = Inr url
     \<and> read_query q = Some kvs \<and> length kvs = 11"
proof -
  obtain url where url: "exec_url sim_k8s (lit ''ab'') (exec_argv (lit ''ls'') 5 None) False = Inr url"
    using demo_url by blast
  from exec_url_is_lossless [OF url] obtain q kvs where "read_query q = Some kvs"
    "list_all2 (\<lambda>(k, v) (k', v'). utf8_decode k' = Inr k \<and> utf8_decode v' = Inr v)
         (map (\<lambda>a. (lit ''command'', a)) (exec_argv (lit ''ls'') 5 None)
          @ [(lit ''stdout'', lit ''true''), (lit ''stderr'', lit ''true''), (lit ''tty'', lit ''false''),
             (lit ''stdin'', lit ''false'')]) kvs"
    by auto
  with url show ?thesis by (auto simp: exec_argv_def dest!: list_all2_lengthD intro!: exI [of _ kvs])
qed

text \<open>
  C27: A payload for stdin is cut into frames on the stdin channel that join to exactly the payload, each
  of at most 256 KiB, followed by the close frame that ends stdin; and over the older protocol, which
  cannot end stdin, nothing is sent and the connection is closed again.
\<close>

theorem stdin_is_framed:
  "channel_bytes CH_STDIN (map Binary (butlast (stdin_frames data))) = data
   \<and> last (stdin_frames data) = [CHR 0xFF, CHR 0x00]
   \<and> (\<forall>f \<in> set (butlast (stdin_frames data)). 1 < length f \<and> length f \<le> 262145)
   \<and> (ws_headers os c (api p) w = (Inr hs, w1) \<longrightarrow> ws_open c url hs w1 = (Inr (ws, sub), w2) \<longrightarrow>
      sub \<noteq> v5 \<longrightarrow> stream os c p url (Some data) w = (Inl v4_refused, ws_close c ws w2))"
proof (intro conjI impI ballI)
  show "channel_bytes CH_STDIN (map Binary (butlast (stdin_frames data))) = data"
    by (rule stdin_frames_payload)
  show "last (stdin_frames data) = [CHR 0xFF, CHR 0x00]"
    by (simp add: stdin_frames_eof channel_defs char_of_def bit_0)
next
  fix f assume "f \<in> set (butlast (stdin_frames data))"
  then obtain x where "x \<in> set (chunks data)" "f = char_of CH_STDIN # x"
    by (auto simp: stdin_frames_def)
  with chunks_size [of x data] show "1 < length f" "length f \<le> 262145"
    by (auto simp: STDIN_CHUNK_def)
next
  assume "ws_headers os c (api p) w = (Inr hs, w1)" "ws_open c url hs w1 = (Inr (ws, sub), w2)" "sub \<noteq> v5"
  then show "stream os c p url (Some data) w = (Inl v4_refused, ws_close c ws w2)"
    by (rule v4_sends_nothing)
qed

definition old_cluster :: "sim cluster" where
  "old_cluster = sim_cluster (\<lambda>m path. Inr (200, JObj [])) (lit ''v4.channel.k8s.io'') [] JNull"

lemma stdin_is_framed_witness:
  "fst (stream idle_os old_cluster sim_k8s [] (Some ''x'') sim0) = Inl v4_refused"
proof -
  obtain w1 tok where "bearer idle_os old_cluster (api sim_k8s) sim0 = (Inr tok, w1)"
    unfolding idle_os_def old_cluster_def using sim_bearer by blast
  then have 1: "ws_headers idle_os old_cluster (api sim_k8s) sim0 = (Inr [(lit ''Authorization'', tok)], w1)"
    by (simp add: ws_headers_def bindp_apply ret_apply)
  have 2: "ws_open old_cluster [] [(lit ''Authorization'', tok)] w1 = (Inr (0, lit ''v4.channel.k8s.io''), w1)"
    by (simp add: old_cluster_def)
  have 3: "lit ''v4.channel.k8s.io'' \<noteq> v5" by (simp add: v5_def)
  show ?thesis
    using stdin_is_framed [of "''x''" idle_os old_cluster sim_k8s sim0 "[(lit ''Authorization'', tok)]" w1
        "[]" 0 "lit ''v4.channel.k8s.io''" w1] 1 2 3 by simp
qed



subsection \<open>The pod\<close>

text \<open>
  C7: Every session pod is isolated and bounded: no service account token and no service environment,
  the configured runtime class whenever there is one, no privilege escalation, all capabilities
  dropped, the default seccomp profile, no volumes, no host network, no privileged flag, the limits
  of the request, a deadline sixty seconds after the session's own; and the network label exactly when
  egress was asked for.
\<close>

theorem pods_are_isolated:
  fixes fstr p name img t network m cpus
  defines "man \<equiv> manifest fstr p name img t network m cpus"
  shows "jpath [''spec'', ''automountServiceAccountToken''] man = Some (JBool False)
    \<and> jpath [''spec'', ''enableServiceLinks''] man = Some (JBool False)
    \<and> jpath [''spec'', ''runtimeClassName''] man
        = (if runtime_class p = [] then None else Some (JStr (runtime_class p)))
    \<and> jpath [''spec'', ''containers'', ''0'', ''image''] man = Some (JStr img)
    \<and> jpath [''spec'', ''containers'', ''0'', ''securityContext'', ''allowPrivilegeEscalation''] man
        = Some (JBool False)
    \<and> jpath [''spec'', ''containers'', ''0'', ''securityContext'', ''capabilities'', ''drop''] man
        = Some (JList [jstr ''ALL''])
    \<and> jpath [''spec'', ''containers'', ''0'', ''securityContext'', ''seccompProfile'', ''type''] man
        = Some (jstr ''RuntimeDefault'')
    \<and> jpath [''spec'', ''containers'', ''0'', ''securityContext'', ''privileged''] man = None
    \<and> jpath [''spec'', ''containers'', ''0'', ''command''] man = None
    \<and> jpath [''spec'', ''containers'', ''0'', ''resources'', ''limits'', ''memory''] man
        = Some (JStr (int_str m @ lit ''Mi''))
    \<and> jpath [''spec'', ''containers'', ''0'', ''resources'', ''limits'', ''cpu''] man
        = Some (JStr (fstr cpus))
    \<and> jpath [''spec'', ''volumes''] man = None \<and> jpath [''spec'', ''hostNetwork''] man = None
    \<and> jpath [''spec'', ''activeDeadlineSeconds''] man = Some (JInt (t + 60))
    \<and> jpath [''metadata'', ''labels''] man
        = Some (jdict ((lit ''app'', SESSION_LABEL)
            # (if network then [(NETWORK_LABEL, lit ''true'')] else [])))"
  unfolding man_def by (simp add: manifest_hardening manifest_labels container_hardening)

text \<open>
  C20: The readiness wait ends: on a clock that does not go back and with sleeps that last as long as
  they should, the polling loop returns whatever the apiserver answers, and giving it more than
  \<open>polls p\<close> iterations changes nothing.
\<close>

theorem readiness_wait_ends:
  assumes "steady os c"
  shows "wait_ready_fuel (polls p + k) os c p name img w = Some (wait_ready os c p name img w)"
proof -
  obtain now w0 where m: "monotonic os w = (now, w0)" by force
  from wait_ready_elim [OF assms, of p name img w]
  have "wait_loop (polls p) os c p name img (now + of_int (create_timeout p)) tenth (lit ''unknown'') w0
      = Some (wait_ready os c p name img w)" by (simp add: wait_ready_fuel_def m)
  from wait_loop_fuel [OF this, of k] show ?thesis by (simp add: wait_ready_fuel_def m)
qed

lemma readiness_wait_ends_witness:
  "wait_ready_fuel (polls sim_k8s + 5) idle_os demo_cluster sim_k8s [] [] sim0
     = Some (wait_ready idle_os demo_cluster sim_k8s [] [] sim0)"
  unfolding idle_os_def demo_cluster_def by (rule readiness_wait_ends) (rule sim_steady)

subsection \<open>The life of a session pod\<close>





lemma idle_lane: "in_lane idle_os ctl body w = body w"
  by (cases "body w") (simp add: in_lane_def idle_os_def bindp_apply)





text \<open>
  C22: A pod that was accepted but did not become ready is deleted before the error is reported: any
  exception of the readiness wait leads to the DELETE of exactly that pod, after which the original
  error is raised.
\<close>

theorem unready_pod_is_deleted:
  assumes "pod_accepted os c fstr p img t network m cpus w sid w2"
    and "wait_ready os c p (pod sid) (or_else img (k_default_image p)) w2 = (Inl e, w3)" "is_Exception e"
    and "in_lane os True (request os c (api p) (lit ''DELETE'') (pods_path p (pod sid))
        (Some [(lit ''gracePeriodSeconds'', lit ''0''),
               (lit ''propagationPolicy'', lit ''Background'')]) None (Some 30)) w3
      = (Inr (status, JObj kvs), w4)"
  shows "k8s_create os c fstr p img t network m cpus w = (Inl e, w4)"
  by (rule create_failed_destroys [OF assms(1-3) destroy_tolerant [OF assms(4)]])

text \<open>A cluster whose pods fail.\<close>

definition failed_pod :: json where
  "failed_pod = jobj [(''status'', jobj [(''phase'', jstr ''Failed'')])]"

definition failing_cluster :: "sim cluster" where
  "failing_cluster = sim_cluster (\<lambda>m path. Inr (200, failed_pod)) v5 [] JNull"

lemma failing_request:
  "\<exists>w'. request idle_os failing_cluster srv m path q b timeout w = (Inr (200, failed_pod), w')
     \<and> sim_http w' = sim_http w @ [(m, path)]"
  unfolding idle_os_def failing_cluster_def using sim_request by fastforce

lemma look_failed: "\<exists>r. look c failed_pod = Inr (GiveUp r)"
  by (simp add: look_def failed_pod_def JStr_lit_jstr [symmetric])

lemma unready_pod_is_deleted_witness:
  "\<exists>e w'. k8s_create idle_os failing_cluster (\<lambda>_. lit ''1'') sim_k8s None 60 False 512 (Finite 1) sim0
       = (Inl e, w')
     \<and> sim_http w' = [(lit ''POST'', pods_path sim_k8s []),
         (lit ''GET'', pods_path sim_k8s (pod (take 16 sim_uuid))),
         (lit ''DELETE'', pods_path sim_k8s (pod (take 16 sim_uuid)))]"
proof -
  let ?sid = "take 16 sim_uuid"
  let ?img = "or_else None (k_default_image sim_k8s)"
  obtain w2 where w2: "request idle_os failing_cluster (api sim_k8s) (lit ''POST'') (pods_path sim_k8s []) None
      (Some (manifest (\<lambda>_. lit ''1'') sim_k8s (pod ?sid) ?img 60 False 512 (Finite 1))) (Some 30) sim0
      = (Inr (200, failed_pod), w2)" "sim_http w2 = sim_http sim0 @ [(lit ''POST'', pods_path sim_k8s [])]"
    using failing_request by blast
  have "uuid4_hex idle_os sim0 = (sim_uuid, sim0)" by (simp add: idle_os_def)
  with w2(1) have acc: "pod_accepted idle_os failing_cluster (\<lambda>_. lit ''1'') sim_k8s None 60 False 512
      (Finite 1) sim0 ?sid w2"
    unfolding pod_accepted_def idle_lane by auto
  obtain w3 where w3: "request idle_os failing_cluster (api sim_k8s) (lit ''GET'')
      (pods_path sim_k8s (pod ?sid)) None None (Some 10) w2 = (Inr (200, failed_pod), w3)"
      "sim_http w3 = sim_http w2 @ [(lit ''GET'', pods_path sim_k8s (pod ?sid))]"
    using failing_request by blast
  have m: "monotonic idle_os w = (sim_now w, w)" for w by (simp add: idle_os_def)
  obtain n where f: "polls sim_k8s = Suc n" "create_timeout sim_k8s = 1"
    by (simp add: polls_def sim_k8s_def)
  obtain r where r: "look failing_cluster failed_pod = Inr (GiveUp r)" using look_failed by blast
  have wait: "wait_ready idle_os failing_cluster sim_k8s (pod ?sid) ?img w2 = (Inl (not_ready ?img r), w3)"
    by (simp add: wait_ready_def wait_ready_fuel_def f m w3(1) r)
  obtain w4 where w4: "request idle_os failing_cluster (api sim_k8s) (lit ''DELETE'')
      (pods_path sim_k8s (pod ?sid)) (Some [(lit ''gracePeriodSeconds'', lit ''0''),
        (lit ''propagationPolicy'', lit ''Background'')]) None (Some 30) w3 = (Inr (200, failed_pod), w4)"
      "sim_http w4 = sim_http w3 @ [(lit ''DELETE'', pods_path sim_k8s (pod ?sid))]"
    using failing_request by blast
  have "is_Exception (not_ready ?img r)" by (simp add: not_ready_def is_Exception_def)
  moreover obtain kvs where "failed_pod = JObj kvs" by (simp add: failed_pod_def jobj_def)
  moreover have "in_lane idle_os True (request idle_os failing_cluster (api sim_k8s) (lit ''DELETE'')
      (pods_path sim_k8s (pod ?sid)) (Some [(lit ''gracePeriodSeconds'', lit ''0''),
        (lit ''propagationPolicy'', lit ''Background'')]) None (Some 30)) w3 = (Inr (200, failed_pod), w4)"
    by (simp only: idle_lane w4(1))
  ultimately have "k8s_create idle_os failing_cluster (\<lambda>_. lit ''1'') sim_k8s None 60 False 512 (Finite 1) sim0
      = (Inl (not_ready ?img r), w4)"
    using unready_pod_is_deleted [OF acc wait, of 200 kvs w4] by simp
  then show ?thesis using w2(2) w3(2) w4(2) by (simp add: sim0_def)
qed

text \<open>
  C39: A create that is cancelled while the pod is starting (the caller hung up) leaves the pod behind:
  \<^verbatim>\<open>except Exception\<close> does not see \<^verbatim>\<open>CancelledError\<close>, so no DELETE is issued, although the HTTP
  layer gives the slot back; the pod stays until its deadline.
\<close>

theorem cancelled_create_leaves_pod:
  assumes "pod_accepted os c fstr p img t network m cpus w sid w2"
    and "wait_ready os c p (pod sid) (or_else img (k_default_image p)) w2 = (Inl CancelledError, w3)"
  shows "k8s_create os c fstr p img t network m cpus w = (Inl CancelledError, w3)"
  by (rule create_cancelled [OF assms])

definition hung_up_cluster :: "sim cluster" where
  "hung_up_cluster = sim_cluster (\<lambda>m path. if m = lit ''POST'' then Inr (200, JObj []) else Inl CancelledError)
     v5 [] JNull"

lemma hung_up_request:
  "\<exists>w'. request idle_os hung_up_cluster srv m path q b timeout w
       = (if m = lit ''POST'' then Inr (200, JObj []) else Inl CancelledError, w')
     \<and> sim_http w' = sim_http w @ [(m, path)]"
  unfolding idle_os_def hung_up_cluster_def using sim_request by fastforce

lemma hung_up_post:
  "\<exists>w'. request idle_os hung_up_cluster srv (lit ''POST'') path q b timeout w = (Inr (200, JObj []), w')
     \<and> sim_http w' = sim_http w @ [(lit ''POST'', path)]"
  using hung_up_request [of srv "lit ''POST''" path q b timeout w] by simp

lemma hung_up_get:
  "\<exists>w'. request idle_os hung_up_cluster srv (lit ''GET'') path q b timeout w = (Inl CancelledError, w')
     \<and> sim_http w' = sim_http w @ [(lit ''GET'', path)]"
  using hung_up_request [of srv "lit ''GET''" path q b timeout w] by simp


lemma cancelled_create_leaves_pod_witness:
  "\<exists>w'. k8s_create idle_os hung_up_cluster (\<lambda>_. lit ''1'') sim_k8s None 60 False 512 (Finite 1) sim0
       = (Inl CancelledError, w')
     \<and> sim_http w' = [(lit ''POST'', pods_path sim_k8s []),
         (lit ''GET'', pods_path sim_k8s (pod (take 16 sim_uuid)))]"
proof -
  let ?sid = "take 16 sim_uuid"
  let ?img = "or_else None (k_default_image sim_k8s)"
  obtain w2 where w2: "request idle_os hung_up_cluster (api sim_k8s) (lit ''POST'') (pods_path sim_k8s []) None
      (Some (manifest (\<lambda>_. lit ''1'') sim_k8s (pod ?sid) ?img 60 False 512 (Finite 1))) (Some 30) sim0
      = (Inr (200, JObj []), w2)" "sim_http w2 = sim_http sim0 @ [(lit ''POST'', pods_path sim_k8s [])]"
    using hung_up_post by blast
  have "uuid4_hex idle_os sim0 = (sim_uuid, sim0)" by (simp add: idle_os_def)
  with w2(1) have acc: "pod_accepted idle_os hung_up_cluster (\<lambda>_. lit ''1'') sim_k8s None 60 False 512
      (Finite 1) sim0 ?sid w2"
    unfolding pod_accepted_def idle_lane by auto
  obtain w3 where w3: "request idle_os hung_up_cluster (api sim_k8s) (lit ''GET'')
      (pods_path sim_k8s (pod ?sid)) None None (Some 10) w2 = (Inl CancelledError, w3)"
      "sim_http w3 = sim_http w2 @ [(lit ''GET'', pods_path sim_k8s (pod ?sid))]"
    using hung_up_get by blast
  have m: "monotonic idle_os w = (sim_now w, w)" for w by (simp add: idle_os_def)
  obtain n where f: "polls sim_k8s = Suc n" "create_timeout sim_k8s = 1"
    by (simp add: polls_def sim_k8s_def)
  have wait: "wait_ready idle_os hung_up_cluster sim_k8s (pod ?sid) ?img w2 = (Inl CancelledError, w3)"
    by (simp add: wait_ready_def wait_ready_fuel_def f m w3(1))
  from cancelled_create_leaves_pod [OF acc wait] show ?thesis using w2(2) w3(2) by (simp add: sim0_def)
qed







subsection \<open>Settings\<close>

text \<open>
  C35: The settings for placing session pods mean what they say: a node selector written as a list of
  key=value pairs is read back pair by pair, the three forms of a toleration give the three
  toleration objects of the documentation, comma-separated pull secrets (and allowed images) are
  read back name by name, and an empty toleration is none.
\<close>

theorem placement_settings:
  assumes "\<forall>(k, v) \<in> set kvs. plain_word k \<and> plain_word v" "distinct (map fst kvs)"
    and "plain_word k" "plain_word v" "plain_word e"
    and "\<forall>n \<in> set names. n \<noteq> [] \<and> 44 \<notin> set n \<and> (\<forall>c \<in> set n. \<not> is_space c)"
  shows "parse_node_selector (selector_text kvs) = kvs
    \<and> parse_toleration (k @ [61] @ v @ [58] @ e)
        = Some [(lit ''key'', k), (lit ''operator'', lit ''Equal''), (lit ''value'', v), (lit ''effect'', e)]
    \<and> parse_toleration (k @ [58] @ e)
        = Some [(lit ''key'', k), (lit ''operator'', lit ''Exists''), (lit ''effect'', e)]
    \<and> parse_toleration k = Some [(lit ''key'', k), (lit ''operator'', lit ''Exists'')]
    \<and> parse_csv (join_with [44] names) = names
    \<and> parse_toleration [] = None"
  using parse_node_selector_text [OF assms(1,2)] parse_toleration_equal [OF assms(3-5)]
    parse_toleration_exists [OF assms(3,5)] parse_toleration_key [OF assms(3)] parse_toleration_empty
    parse_csv_join [OF assms(6)]
  by blast

lemma placement_settings_witness:
  "parse_toleration (lit ''dedicated=ai-sandbox:NoSchedule'')
     = Some [(lit ''key'', lit ''dedicated''), (lit ''operator'', lit ''Equal''),
             (lit ''value'', lit ''ai-sandbox''), (lit ''effect'', lit ''NoSchedule'')]"
proof -
  have "plain_word (lit ''dedicated'')" "plain_word (lit ''ai-sandbox'')" "plain_word (lit ''NoSchedule'')"
    by (simp_all add: plain_word_def lit_def is_space_def)
  from placement_settings [of "[]", OF _ _ this, of "[]"]
  have "parse_toleration (lit ''dedicated'' @ [61] @ lit ''ai-sandbox'' @ [58] @ lit ''NoSchedule'')
     = Some [(lit ''key'', lit ''dedicated''), (lit ''operator'', lit ''Equal''),
             (lit ''value'', lit ''ai-sandbox''), (lit ''effect'', lit ''NoSchedule'')]" by simp
  then show ?thesis by (simp add: lit_def)
qed

end
