(* ===== verification/Slots_System.thy ===== *)
theory Slots_System
  imports Slots_Props
begin

section \<open>Concurrent requests over one SessionSlots\<close>

text \<open>
  Any number of create requests, deletes, expiries and sibling replicas, interleaved at the
  awaits of \<^verbatim>\<open>acquire\<close> and \<^verbatim>\<open>create_session\<close> (\<^verbatim>\<open>app.py\<close>). A request's phase says at which await
  it stands; \<open>lock\<close> is the holder of \<^verbatim>\<open>self._lock\<close>, which only a request inside \<^verbatim>\<open>_resync\<close> keeps
  across an await. \<open>backend\<close> is the set of sessions that exist. Each rule runs one atomic section
  of theory \<open>Slots\<close>; what the backend does between is free.
\<close>

datatype phase =
    Idle
  | Resyncing "str set option"   \<comment> \<open>awaiting the recount; the ids it listed, once it did\<close>
  | Creating                     \<comment> \<open>awaiting the provider's create\<close>
  | Created str                  \<comment> \<open>the session exists, create has not returned yet\<close>
  | Finished                     \<comment> \<open>committed\<close>
  | Refused                      \<comment> \<open>429, failed or cancelled\<close>

record sys =
  slots :: slots
  clock :: rat
  phases :: "phase list"
  lock :: "nat option"
  backend :: "str set"

definition in_flight :: "phase \<Rightarrow> bool" where
  "in_flight p \<longleftrightarrow> p = Creating \<or> (\<exists>sid. p = Created sid)"

definition init_sys :: "int \<Rightarrow> nat \<Rightarrow> sys" where
  "init_sys l n =
     \<lparr>slots = init_slots l, clock = 0, phases = replicate n Idle, lock = None, backend = {}\<rparr>"

text \<open>The phase a request takes after a decision.\<close>

fun decided :: "entered \<Rightarrow> phase" where
  "decided Admitted = Creating"
| "decided (Full lv) = Refused"
| "decided NeedResync = Resyncing None"

definition moved :: "sys \<Rightarrow> nat \<Rightarrow> phase \<Rightarrow> slots \<Rightarrow> sys" where
  "moved s i p sl = s\<lparr>slots := sl, phases := (phases s)[i := p]\<rparr>"

text \<open>
  Labels: time passing, a session ending on its own or through a sibling replica, a DELETE served
  here, a step of request number i.
\<close>

datatype event = Tick | Gone str | Deleted str | Request nat

inductive step :: "sys \<Rightarrow> event \<Rightarrow> sys \<Rightarrow> bool" where
  tick: "0 \<le> t \<Longrightarrow> step s Tick (s\<lparr>clock := clock s + t\<rparr>)"
| gone: "step s (Gone sid) (s\<lparr>backend := backend s - {sid}\<rparr>)"
| enter: "i < length (phases s) \<Longrightarrow> phases s ! i = Idle \<Longrightarrow>
    lock s = None \<or> limit (slots s) \<le> 0 \<Longrightarrow>
    acquire_enter True (clock s) (slots s) = (d, sl) \<Longrightarrow>
    step s (Request i)
      ((moved s i (decided d) sl)\<lparr>lock := if d = NeedResync then Some i else lock s\<rparr>)"
| listed: "i < length (phases s) \<Longrightarrow> phases s ! i = Resyncing None \<Longrightarrow>
    step s (Request i) (moved s i (Resyncing (Some (backend s))) (slots s))"
| resynced: "i < length (phases s) \<Longrightarrow> phases s ! i = Resyncing (Some ids) \<Longrightarrow>
    resync_finish (Some ids) (clock s) (slots s) = (lv, sl) \<Longrightarrow>
    acquire_decide lv sl = (d, sl') \<Longrightarrow>
    step s (Request i) ((moved s i (decided d) sl')\<lparr>lock := None\<rparr>)"
| resync_unknown: "i < length (phases s) \<Longrightarrow> phases s ! i = Resyncing r \<Longrightarrow>
    resync_finish None (clock s) (slots s) = (lv, sl) \<Longrightarrow>
    acquire_decide lv sl = (d, sl') \<Longrightarrow>
    step s (Request i) ((moved s i (decided d) sl')\<lparr>lock := None\<rparr>)"
| resync_cancelled: "i < length (phases s) \<Longrightarrow> phases s ! i = Resyncing r \<Longrightarrow>
    step s (Request i) ((moved s i Refused (slots s))\<lparr>lock := None\<rparr>)"
| created: "i < length (phases s) \<Longrightarrow> phases s ! i = Creating \<Longrightarrow>
    sid \<notin> backend s \<Longrightarrow> sid \<notin> set (slot_ids (slots s)) \<Longrightarrow>
    step s (Request i) ((moved s i (Created sid) (slots s))\<lparr>backend := insert sid (backend s)\<rparr>)"
| committed: "i < length (phases s) \<Longrightarrow> phases s ! i = Created sid \<Longrightarrow>
    step s (Request i) (moved s i Finished (commit sid t (clock s) (slots s)))"
| failed: "i < length (phases s) \<Longrightarrow> in_flight (phases s ! i) \<Longrightarrow>
    step s (Request i) (moved s i Refused (rollback (slots s)))"
| deleted: "step s (Deleted sid) (s\<lparr>slots := release sid (slots s)\<rparr>)"

inductive trace :: "sys \<Rightarrow> event list \<Rightarrow> sys \<Rightarrow> bool" where
  trace_nil: "trace s [] s"
| trace_cons: "step s e t \<Longrightarrow> trace t es u \<Longrightarrow> trace s (e # es) u"

definition reachable :: "int \<Rightarrow> nat \<Rightarrow> sys \<Rightarrow> bool" where
  "reachable l n s \<longleftrightarrow> (\<exists>es. trace (init_sys l n) es s)"

inductive_simps trace_simps: "trace s [] t" "trace s (e # es) t"

inductive_cases step_elim: "step s e t"

subsection \<open>The invariant\<close>

definition flying :: "sys \<Rightarrow> nat" where
  "flying s = length (filter in_flight (phases s))"

text \<open>
  Under a positive limit: the pending count is the number of requests between admission and
  commit or rollback, and committed plus pending slots never exceed the limit.
\<close>

definition sys_inv :: "int \<Rightarrow> sys \<Rightarrow> bool" where
  "sys_inv l s \<longleftrightarrow>
     slots_ok (slots s) \<and> limit (slots s) = l \<and>
     (0 < l \<longrightarrow> pending (slots s) = int (flying s) \<and> load (slots s) \<le> l)"

lemma flying_update:
  assumes "i < length ps"
  shows "length (filter P (ps[i := p])) + (if P (ps ! i) then 1 else 0)
    = length (filter P ps) + (if P p then 1 else 0)"
  using assms
proof (induction ps arbitrary: i)
  case (Cons q ps)
  then show ?case by (cases i) auto
qed simp

lemma flying_moved:
  assumes "i < length (phases s)"
  shows "flying (moved s i p sl) + (if in_flight (phases s ! i) then 1 else 0)
    = flying s + (if in_flight p then 1 else 0)"
  using flying_update [OF assms, of in_flight p] by (simp add: flying_def moved_def)

lemma moved_simps [simp]:
  "slots (moved s i p sl) = sl"
  "clock (moved s i p sl) = clock s"
  "phases (moved s i p sl) = (phases s)[i := p]"
  "lock (moved s i p sl) = lock s"
  "backend (moved s i p sl) = backend s"
  by (simp_all add: moved_def)

lemma in_flight_simps [simp]:
  "in_flight Creating" "in_flight (Created sid)" "\<not> in_flight Idle" "\<not> in_flight (Resyncing r)"
  "\<not> in_flight Finished" "\<not> in_flight Refused"
  by (auto simp: in_flight_def)

lemma flying_fields [simp]:
  "flying (s\<lparr>clock := c\<rparr>) = flying s" "flying (s\<lparr>backend := b\<rparr>) = flying s"
  "flying (s\<lparr>lock := k\<rparr>) = flying s" "flying (s\<lparr>slots := sl\<rparr>) = flying s"
  by (simp_all add: flying_def)

text \<open>One request taking a decision on slots whose load and pending count are known.\<close>

lemma inv_decide:
  assumes inv: "slots_ok sl" "limit sl = l" "0 < l \<longrightarrow> pending sl = int (flying s) \<and> load sl \<le> l"
    and lv: "lv = load sl" and i: "i < length (phases s)" "\<not> in_flight (phases s ! i)"
    and d: "acquire_decide lv sl = (d, sl')"
  shows "sys_inv l (moved s i (decided d) sl')"
proof -
  have f: "flying (moved s i (decided d) sl') = flying s + (if d = Admitted then 1 else 0)"
    using flying_moved [OF i(1), of "decided d" sl'] i(2) d
    by (auto simp: acquire_decide_def split: if_splits)
  from d have "d = Admitted \<and> load sl < l \<and> sl' = sl\<lparr>pending := pending sl + 1\<rparr>
      \<or> d = Full lv \<and> sl' = sl"
    using inv(2) lv by (auto simp: acquire_decide_def split: if_splits)
  then show ?thesis using inv f slots_ok_decide [of sl lv] d
    by (auto simp: sys_inv_def load_def)
qed

lemma inv_enter:
  assumes inv: "sys_inv l s" and i: "i < length (phases s)" "phases s ! i = Idle"
    and d: "acquire_enter True c (slots s) = (d, sl)"
  shows "sys_inv l (moved s i (decided d) sl)"
proof (cases "l \<le> 0")
  case True
  with inv d show ?thesis by (auto simp: acquire_enter_def sys_inv_def)
next
  case False
  let ?a = "snd (live c (slots s))"
  have a: "slots_ok ?a" "limit ?a = l" "pending ?a = int (flying s) \<and> load ?a \<le> l"
    using inv False live_load [of c "slots s"]
    by (auto simp: sys_inv_def slot_simps slots_ok_live)
  have cases: "acquire_enter True c (slots s)
      = (if l \<le> load ?a then (NeedResync, ?a) else acquire_decide (load ?a) ?a)"
    using inv False by (simp add: acquire_enter_def sys_inv_def case_prod_beta slot_simps)
  show ?thesis
  proof (cases "l \<le> load ?a")
    case True
    with cases d have "d = NeedResync" "sl = ?a" by auto
    then show ?thesis using a i flying_moved [OF i(1), of "decided d" sl]
      by (simp add: sys_inv_def)
  next
    case False
    with cases d have "acquire_decide (load ?a) ?a = (d, sl)" by simp
    from inv_decide [OF a(1,2) _ refl i(1) _ this] a(3) i show ?thesis by simp
  qed
qed

lemma inv_resync:
  assumes inv: "sys_inv l s" and i: "i < length (phases s)" "phases s ! i = Resyncing r"
    and f: "resync_finish a c (slots s) = (lv, sl)" and d: "acquire_decide lv sl = (d, sl')"
  shows "sys_inv l (moved s i (decided d) sl')"
proof -
  have lv: "lv = load sl" "limit sl = l" "pending sl = pending (slots s)" "load sl \<le> load (slots s)"
    "slots_ok sl"
    using f inv resync_finish_simps [of a c "slots s"] resync_finish_load [of a c "slots s"]
      slots_ok_resync [of "slots s" a c]
    by (simp_all add: sys_inv_def)
  show ?thesis
    using inv lv i by (intro inv_decide [OF lv(5,2) _ lv(1) i(1) _ d]) (auto simp: sys_inv_def)
qed

lemma sys_inv_lock [simp]: "sys_inv l (s\<lparr>lock := k\<rparr>) = sys_inv l s"
  by (simp add: sys_inv_def)

lemma step_inv: "step s e t \<Longrightarrow> sys_inv l s \<Longrightarrow> sys_inv l t"
proof (induction rule: step.induct)
  case (tick t s)
  then show ?case by (simp add: sys_inv_def)
next
  case (gone s sid)
  then show ?case by (simp add: sys_inv_def)
next
  case (enter i s d sl)
  then show ?case by (simp add: inv_enter)
next
  case (listed i s)
  then show ?case
    using flying_moved [OF listed(1), of "Resyncing (Some (backend s))" "slots s"]
    by (simp add: sys_inv_def)
next
  case (resynced i s ids lv sl d sl')
  then show ?case by (simp add: inv_resync [OF _ resynced(1,2,3,4)])
next
  case (resync_unknown i s r lv sl d sl')
  then show ?case by (simp add: inv_resync [OF _ resync_unknown(1,2,3,4)])
next
  case (resync_cancelled i s r)
  then show ?case
    using flying_moved [OF resync_cancelled(1), of Refused "slots s"] by (simp add: sys_inv_def)
next
  case (created i s sid)
  then show ?case
    using flying_moved [OF created(1), of "Created sid" "slots s"] by (simp add: sys_inv_def)
next
  case (committed i s sid t)
  let ?sl = "commit sid t (clock s) (slots s)"
  have f: "flying (moved s i Finished ?sl) + 1 = flying s"
    using flying_moved [OF committed(1), of Finished ?sl] committed(2) by simp
  have "0 < l \<Longrightarrow> pending ?sl = pending (slots s) - 1 \<and> load ?sl \<le> load (slots s)"
    using committed(3) f commit_load [of "slots s" sid t "clock s"]
    by (auto simp: sys_inv_def commit_def)
  with committed(3) f show ?case
    by (auto simp: sys_inv_def slot_simps slots_ok_commit)
next
  case (failed i s)
  let ?sl = "rollback (slots s)"
  have f: "flying (moved s i Refused ?sl) + 1 = flying s"
    using flying_moved [OF failed(1), of Refused ?sl] failed(2) by simp
  have "0 < l \<Longrightarrow> pending ?sl = pending (slots s) - 1 \<and> load ?sl \<le> load (slots s)"
    using failed(3) f rollback_load [of "slots s"] by (auto simp: sys_inv_def rollback_def)
  with failed(3) f show ?case
    by (auto simp: sys_inv_def slot_simps slots_ok_rollback)
next
  case (deleted s sid)
  then show ?case using release_load [of sid "slots s"]
    by (auto simp: sys_inv_def slot_simps slots_ok_release)
qed

lemma init_inv: "sys_inv l (init_sys l n)"
  using slots_ok_init [of l]
  by (simp add: sys_inv_def init_sys_def flying_def load_def init_slots_def)

lemma trace_inv: "trace s es t \<Longrightarrow> sys_inv l s \<Longrightarrow> sys_inv l t"
  by (induction rule: trace.induct) (auto simp: step_inv)

lemma reachable_inv: "reachable l n s \<Longrightarrow> sys_inv l s"
  unfolding reachable_def using trace_inv init_inv by blast

subsection \<open>The lock\<close>

text \<open>At most one request is inside \<^verbatim>\<open>_resync\<close>, and it holds the lock.\<close>

definition resyncing :: "phase \<Rightarrow> bool" where
  "resyncing p \<longleftrightarrow> (\<exists>r. p = Resyncing r)"

definition lock_inv :: "sys \<Rightarrow> bool" where
  "lock_inv s \<longleftrightarrow>
     (\<forall>i < length (phases s). resyncing (phases s ! i) \<longleftrightarrow> lock s = Some i)"

lemma resyncing_simps [simp]:
  "resyncing (Resyncing r)" "\<not> resyncing Idle" "\<not> resyncing Creating" "\<not> resyncing (Created sid)"
  "\<not> resyncing Finished" "\<not> resyncing Refused"
  by (auto simp: resyncing_def)

lemma resyncing_decided: "resyncing (decided d) \<longleftrightarrow> d = NeedResync"
  by (cases d) auto

lemma decide_not_resync: "acquire_decide lv sl = (d, sl') \<Longrightarrow> d \<noteq> NeedResync"
  by (auto simp: acquire_decide_def split: if_splits)

lemma enter_unlimited: "limit sl \<le> 0 \<Longrightarrow> acquire_enter hr c sl = (Admitted, sl)"
  by (simp add: acquire_enter_def)

lemma step_lock_inv: "step s e t \<Longrightarrow> lock_inv s \<Longrightarrow> lock_inv t"
proof (induction rule: step.induct)
  case (enter i s d sl)
  have "d = NeedResync \<Longrightarrow> lock s = None"
    using enter(3,4) enter_unlimited [of "slots s" True "clock s"] by auto
  with enter show ?case
    by (auto simp: lock_inv_def nth_list_update resyncing_decided)
next
  case (resynced i s ids lv sl d sl')
  then show ?case
    by (auto simp: lock_inv_def nth_list_update resyncing_decided dest: decide_not_resync)
next
  case (resync_unknown i s r lv sl d sl')
  then show ?case
    by (auto simp: lock_inv_def nth_list_update resyncing_decided dest: decide_not_resync)
next
  case (failed i s)
  then show ?case by (auto simp: lock_inv_def nth_list_update in_flight_def)
qed (auto simp: lock_inv_def nth_list_update)

lemma reachable_lock_inv: "reachable l n s \<Longrightarrow> lock_inv s"
proof -
  have "lock_inv (init_sys l n)" by (simp add: lock_inv_def init_sys_def)
  moreover have "trace s es t \<Longrightarrow> lock_inv s \<Longrightarrow> lock_inv t" for s es t
    by (induction rule: trace.induct) (auto simp: step_lock_inv)
  ultimately show "reachable l n s \<Longrightarrow> lock_inv s" unfolding reachable_def by blast
qed

subsection \<open>A race between the recount and a commit\<close>

text \<open>
  The states of one run with limit 1 and two requests. The first is admitted and is creating its
  session when the second finds the replica full and asks the backend, which answers before the
  first session exists; the first request commits; then the answer is applied, and the new slot
  is dropped as stale.
\<close>

definition race :: "slots \<Rightarrow> phase list \<Rightarrow> nat option \<Rightarrow> str set \<Rightarrow> sys" where
  "race sl ps k b = \<lparr>slots = sl, clock = 0, phases = ps, lock = k, backend = b\<rparr>"

definition slots1 :: "(str \<times> rat) list \<Rightarrow> int \<Rightarrow> slots" where
  "slots1 d p = \<lparr>limit = 1, deadlines = d, pending = p\<rparr>"

lemma race_sections:
  "acquire_enter True 0 (slots1 [] 0) = (Admitted, slots1 [] 1)"
  "acquire_enter True 0 (slots1 [] 1) = (NeedResync, slots1 [] 1)"
  "commit x 100 0 (slots1 [] 1) = slots1 [(x, 100)] 0"
  "resync_finish (Some {}) 0 (slots1 [(x, 100)] 0) = (0, slots1 [] 0)"
  "acquire_decide 0 (slots1 [] 0) = (Admitted, slots1 [] 1)"
  by (simp_all add: slots1_def acquire_enter_def live_def acquire_decide_def commit_def
      resync_finish_def drop_stale_def)

lemma race_fields [simp]:
  "slots (race sl ps k b) = sl" "clock (race sl ps k b) = 0" "phases (race sl ps k b) = ps"
  "lock (race sl ps k b) = k" "backend (race sl ps k b) = b"
  "moved (race sl ps k b) i p sl' = race sl' (ps[i := p]) k b"
  "(race sl ps k b)\<lparr>lock := k'\<rparr> = race sl ps k' b"
  "(race sl ps k b)\<lparr>backend := b'\<rparr> = race sl ps k b'"
  by (simp_all add: race_def moved_def)

lemma race_steps:
  assumes "x \<noteq> y"
  shows
  "step (race (slots1 [] 0) [Idle, Idle] None {}) (Request 0)
        (race (slots1 [] 1) [Creating, Idle] None {})"
  "step (race (slots1 [] 1) [Creating, Idle] None {}) (Request 1)
        (race (slots1 [] 1) [Creating, Resyncing None] (Some 1) {})"
  "step (race (slots1 [] 1) [Creating, Resyncing None] (Some 1) {}) (Request 1)
        (race (slots1 [] 1) [Creating, Resyncing (Some {})] (Some 1) {})"
  "step (race (slots1 [] 1) [Creating, Resyncing (Some {})] (Some 1) {}) (Request 0)
        (race (slots1 [] 1) [Created x, Resyncing (Some {})] (Some 1) {x})"
  "step (race (slots1 [] 1) [Created x, Resyncing (Some {})] (Some 1) {x}) (Request 0)
        (race (slots1 [(x, 100)] 0) [Finished, Resyncing (Some {})] (Some 1) {x})"
  "step (race (slots1 [(x, 100)] 0) [Finished, Resyncing (Some {})] (Some 1) {x}) (Request 1)
        (race (slots1 [] 1) [Finished, Creating] None {x})"
  "step (race (slots1 [] 1) [Finished, Creating] None {x}) (Request 1)
        (race (slots1 [] 1) [Finished, Created y] None {x, y})"
  "step (race (slots1 [] 1) [Finished, Created y] None {x, y}) (Request 1)
        (race (slots1 [(y, 100)] 0) [Finished, Finished] None {x, y})"
proof -
  note sec = race_sections
  show "step (race (slots1 [] 0) [Idle, Idle] None {}) (Request 0)
        (race (slots1 [] 1) [Creating, Idle] None {})"
    using step.enter [of 0 "race (slots1 [] 0) [Idle, Idle] None {}"] sec(1) by simp
  show "step (race (slots1 [] 1) [Creating, Idle] None {}) (Request 1)
        (race (slots1 [] 1) [Creating, Resyncing None] (Some 1) {})"
    using step.enter [of 1 "race (slots1 [] 1) [Creating, Idle] None {}"] sec(2) by simp
  show "step (race (slots1 [] 1) [Creating, Resyncing None] (Some 1) {}) (Request 1)
        (race (slots1 [] 1) [Creating, Resyncing (Some {})] (Some 1) {})"
    using step.listed [of 1 "race (slots1 [] 1) [Creating, Resyncing None] (Some 1) {}"] by simp
  show "step (race (slots1 [] 1) [Creating, Resyncing (Some {})] (Some 1) {}) (Request 0)
        (race (slots1 [] 1) [Created x, Resyncing (Some {})] (Some 1) {x})"
    using step.created [of 0 "race (slots1 [] 1) [Creating, Resyncing (Some {})] (Some 1) {}" x]
    by (simp add: slot_ids_def slots1_def)
  show "step (race (slots1 [] 1) [Created x, Resyncing (Some {})] (Some 1) {x}) (Request 0)
        (race (slots1 [(x, 100)] 0) [Finished, Resyncing (Some {})] (Some 1) {x})"
    using step.committed [of 0 "race (slots1 [] 1) [Created x, Resyncing (Some {})] (Some 1) {x}" x 100]
      sec(3) by simp
  show "step (race (slots1 [(x, 100)] 0) [Finished, Resyncing (Some {})] (Some 1) {x}) (Request 1)
        (race (slots1 [] 1) [Finished, Creating] None {x})"
    using step.resynced [of 1 "race (slots1 [(x, 100)] 0) [Finished, Resyncing (Some {})] (Some 1) {x}" "{}"]
      sec(4,5) by simp
  show "step (race (slots1 [] 1) [Finished, Creating] None {x}) (Request 1)
        (race (slots1 [] 1) [Finished, Created y] None {x, y})"
    using step.created [of 1 "race (slots1 [] 1) [Finished, Creating] None {x}" y] assms
    by (simp add: slot_ids_def slots1_def insert_commute)
  show "step (race (slots1 [] 1) [Finished, Created y] None {x, y}) (Request 1)
        (race (slots1 [(y, 100)] 0) [Finished, Finished] None {x, y})"
    using step.committed [of 1 "race (slots1 [] 1) [Finished, Created y] None {x, y}" y 100]
      sec(3) by simp
qed

lemma race_trace:
  assumes "x \<noteq> y"
  shows "trace (init_sys 1 2)
    [Request 0, Request 1, Request 1, Request 0, Request 0, Request 1, Request 1, Request 1]
    (race (slots1 [(y, 100)] 0) [Finished, Finished] None {x, y})"
proof -
  have "init_sys 1 2 = race (slots1 [] 0) [Idle, Idle] None {}"
    by (simp add: init_sys_def race_def slots1_def init_slots_def numeral_2_eq_2)
  then show ?thesis using race_steps [OF assms] by (auto intro!: trace_cons trace_nil)
qed

end
