(* ===== verification/Slot_Guarantees.thy ===== *)
theory Slot_Guarantees
  imports Slots_System
begin

section \<open>Guarantees of the session slots\<close>

text \<open>
  The properties of \<^verbatim>\<open>SessionSlots\<close>: one request alone, the life time of a slot across any sequence
  of other operations, and every interleaving of requests.
\<close>

subsection \<open>One request\<close>



text \<open>
  C15: A full replica admits after a recount exactly when dropping the expired slots and those of
  sessions the backend no longer lists frees a place: a session destroyed through another replica
  does not hold its slot, and one the backend still lists keeps it until its deadline.
\<close>

theorem full_replica_recounts:
  assumes "slots_ok s" "0 < limit s" "clk w = (now, w1)" "limit s \<le> load (snd (live now s))"
    and "recount w1 = (Inr (Some ids), w2)" "clk w2 = (now', w3)" "now \<le> now'"
  shows "fst (acquire clk (Some recount) (s, w)) = Inr () \<longleftrightarrow>
    int (card {sid \<in> ids. \<exists>d. (sid, d) \<in> set (deadlines s) \<and> now' < d}) + pending s < limit s"
proof -
  let ?b = "resynced (Some ids) now now' s"
  have ok: "slots_ok ?b" using assms(1) by (rule slots_ok_resynced)
  have "set (slot_ids ?b) = {sid \<in> ids. \<exists>d. (sid, d) \<in> set (deadlines s) \<and> now' < d}"
    using assms(7) by (fastforce simp: resynced_def resync_keeps slot_simps)
  moreover have "length (deadlines ?b) = card (set (slot_ids ?b))"
    using ok distinct_card [of "slot_ids ?b"] by (simp add: slots_ok_def slot_ids_def)
  ultimately have "load ?b
      = int (card {sid \<in> ids. \<exists>d. (sid, d) \<in> set (deadlines s) \<and> now' < d}) + pending s"
    by (simp add: load_def slot_simps)
  then show ?thesis
    using acquire_full_resync [of s clk w now w1 recount "Some ids" w2 now' w3] assms(2-6) by simp
qed

definition demo_slots :: slots where
  "demo_slots = \<lparr>limit = 1, deadlines = [(lit ''gone'', 100)], pending = 0\<rparr>"

lemma full_replica_recounts_witness:
  "fst (acquire (\<lambda>w :: unit. (0, w)) (Some (\<lambda>w. (Inr (Some {}), w))) (demo_slots, ())) = Inr ()"
  using full_replica_recounts [of demo_slots "\<lambda>w :: unit. (0, w)" "()" 0 "()"
      "\<lambda>w. (Inr (Some {}), w)" "{}" "()" 0 "()"]
  by (simp add: demo_slots_def slots_ok_def slot_ids_def live_def load_def)

subsection \<open>The life time of a slot\<close>









subsection \<open>Every interleaving\<close>

text \<open>
  C3: However requests, deletes, expiries, recounts and failures interleave, a positive limit holds in
  every reachable state: committed slots and reservations together never exceed it, the pending
  count is exactly the number of requests between admission and commit or rollback, and no session
  id has two slots.
\<close>

theorem cap_holds_always:
  assumes "reachable l n s" "0 < l"
  shows "load (slots s) \<le> l \<and> pending (slots s) = int (flying s)
    \<and> distinct (slot_ids (slots s)) \<and> limit (slots s) = l"
  using reachable_inv [OF assms(1)] assms(2) by (auto simp: sys_inv_def slots_ok_def)

lemma cap_holds_always_witness:
  "load (slots (race (slots1 [(lit ''y'', 100)] 0) [Finished, Finished] None {lit ''x'', lit ''y''})) \<le> 1"
proof -
  have "reachable 1 2 (race (slots1 [(lit ''y'', 100)] 0) [Finished, Finished] None {lit ''x'', lit ''y''})"
    unfolding reachable_def using race_trace [of "lit ''x''" "lit ''y''"] by (auto simp: lit_def)
  from cap_holds_always [OF this] show ?thesis by simp
qed




end
