(* ===== verification/Body_Limit.thy ===== *)
theory Body_Limit
  imports Json
begin

section \<open>The request body limit: BodyLimitMiddleware\<close>

text \<open>
  \<^verbatim>\<open>BodyLimitMiddleware\<close> of \<^verbatim>\<open>app.py\<close>: a declared \<^verbatim>\<open>Content-Length\<close> above the limit is answered
  with 413 at once; otherwise the messages the application receives are counted, and the one that
  crosses the limit becomes an \<^verbatim>\<open>HTTPException\<close>. The world of the application is the pair of the
  counter \<^verbatim>\<open>received\<close> and the outside.
\<close>

datatype message = Http_Request bytes bool | Other_Message

datatype reply = Start int "(string \<times> bytes) list" | Body bytes

record scope =
  is_http :: bool
  headers :: "(string \<times> bytes) list"

text \<open>\<^verbatim>\<open>int(value)\<close> of a bytes value: ASCII only, with the white space of bytes.\<close>

definition bytes_int :: "bytes \<Rightarrow> int option" where
  "bytes_int b =
     (if \<exists>v \<in> set (byte_values b). 128 \<le> v \<or> (28 \<le> v \<and> v \<le> 31) then None
      else py_int (byte_values b))"

definition limit_detail :: "int \<Rightarrow> str" where
  "limit_detail cap =
     lit ''request body exceeds '' @ int_str cap @ lit '' bytes (SANDBOX_MAX_REQUEST_BYTES)''"

definition too_large :: "int \<Rightarrow> exn" where
  "too_large cap = HTTPException 413 (limit_detail cap) []"

fun declared_too_large :: "int \<Rightarrow> (string \<times> bytes) list \<Rightarrow> bool" where
  "declared_too_large cap [] = False"
| "declared_too_large cap ((name, val) # hs) =
     (if name = ''content-length''
      then (let declared = (case bytes_int val of Some n \<Rightarrow> n | None \<Rightarrow> 0)
            in if cap < declared then True else declared_too_large cap hs)
      else declared_too_large cap hs)"

definition limited_receive :: "int \<Rightarrow> ('w, message) prog \<Rightarrow> (int \<times> 'w, message) prog" where
  "limited_receive cap receive = (\<lambda>(received, w).
     case receive w of
       (Inl e, w') \<Rightarrow> (Inl e, (received, w'))
     | (Inr (Http_Request body more_body), w') \<Rightarrow>
         (let received = received + int (length body)
          in if cap < received then (Inl (too_large cap), (received, w'))
             else (Inr (Http_Request body more_body), (received, w')))
     | (Inr Other_Message, w') \<Rightarrow> (Inr Other_Message, (received, w')))"

text \<open>\<^verbatim>\<open>json.dumps({"detail": ...}).encode()\<close>; the detail is plain ASCII without quotes.\<close>

definition reject_body :: "int \<Rightarrow> bytes" where
  "reject_body cap =
     of_byte_values (lit ''{\"detail\": \"'' @ limit_detail cap @ lit ''\"}'')"

definition reject :: "int \<Rightarrow> (reply \<Rightarrow> ('w, unit) prog) \<Rightarrow> ('w, unit) prog" where
  "reject cap send =
     (let body = reject_body cap
      in bindp (send (Start 413 [(''content-type'', ''application/json''),
                                 (''content-length'', of_byte_values (nat_str (length body)))])) (\<lambda>_.
         send (Body body)))"

text \<open>An application reads messages through the receive function it is given.\<close>

type_synonym 'w asgi_app =
  "scope \<Rightarrow> (int \<times> 'w, message) prog \<Rightarrow> (int \<times> 'w, unit) prog"

definition uncounted :: "('w, message) prog \<Rightarrow> (int \<times> 'w, message) prog" where
  "uncounted receive = (\<lambda>(received, w). let (r, w') = receive w in (r, (received, w')))"

definition body_limit ::
  "int \<Rightarrow> 'w asgi_app \<Rightarrow> scope \<Rightarrow> ('w, message) prog \<Rightarrow> (reply \<Rightarrow> ('w, unit) prog)
     \<Rightarrow> ('w, unit) prog" where
  "body_limit cap app sc receive send = (\<lambda>w.
     if \<not> is_http sc
     then (case app sc (uncounted receive) (0, w) of (r, (_, w')) \<Rightarrow> (r, w'))
     else if declared_too_large cap (headers sc) then reject cap send w
     else (case app sc (limited_receive cap receive) (0, w) of (r, (_, w')) \<Rightarrow> (r, w')))"

subsection \<open>What an application can read\<close>

fun receives :: "nat \<Rightarrow> ('w, message) prog \<Rightarrow> ('w, message list) prog" where
  "receives 0 receive = ret []"
| "receives (Suc n) receive =
     bindp receive (\<lambda>m. bindp (receives n receive) (\<lambda>ms. ret (m # ms)))"

fun body_of :: "message \<Rightarrow> bytes" where
  "body_of (Http_Request body more_body) = body"
| "body_of Other_Message = []"

definition body_size :: "message list \<Rightarrow> int" where
  "body_size ms = int (length (concat (map body_of ms)))"

lemma body_size_simps [simp]:
  "body_size [] = 0"
  "body_size (m # ms) = int (length (body_of m)) + body_size ms"
  by (simp_all add: body_size_def)

lemma body_size_nonneg [simp]: "0 \<le> body_size ms"
  by (simp add: body_size_def)

lemma limited_receive_Inr:
  assumes "receive w = (Inr m, w')" "k \<le> cap"
  shows "limited_receive cap receive (k, w) =
    (if cap < k + int (length (body_of m)) then Inl (too_large cap) else Inr m,
     (k + int (length (body_of m)), w'))"
  using assms by (cases m) (auto simp: limited_receive_def Let_def)

lemma receives_limited:
  assumes "receives n receive w = (Inr ms, w')" "k \<le> cap"
  shows "(k + body_size ms \<le> cap \<longrightarrow>
      receives n (limited_receive cap receive) (k, w) = (Inr ms, (k + body_size ms, w')))
    \<and> (cap < k + body_size ms \<longrightarrow>
      (\<exists>st. receives n (limited_receive cap receive) (k, w) = (Inl (too_large cap), st)))"
  using assms
proof (induction n arbitrary: k w ms)
  case 0
  then show ?case by (simp add: prog_simps)
next
  case (Suc n)
  from Suc.prems(1) obtain m w1 ms' where m: "receive w = (Inr m, w1)"
    and rest: "receives n receive w1 = (Inr ms', w')" and ms: "ms = m # ms'"
    by (auto simp: bindp_eq_Inr prog_simps)
  let ?k = "k + int (length (body_of m))"
  note first = limited_receive_Inr [of receive w m w1 k cap, OF m Suc.prems(2)]
  show ?case
  proof (cases "cap < ?k")
    case True
    then have "\<not> k + body_size ms \<le> cap"
      unfolding ms body_size_simps using body_size_nonneg [of ms'] by linarith
    with True first ms show ?thesis by (auto simp: prog_simps)
  next
    case False
    with Suc.IH [OF rest, of ?k] first ms show ?thesis
      by (auto simp: prog_simps bindp_apply add.assoc)
  qed
qed

text \<open>Whatever is delivered stays within the limit.\<close>

lemma limited_delivers:
  assumes "receives n (limited_receive cap receive) (k, w) = (Inr ms, st)" "k \<le> cap"
  shows "k + body_size ms \<le> cap"
  using assms
proof (induction n arbitrary: k w ms)
  case 0
  then show ?case by (simp add: prog_simps)
next
  case (Suc n)
  from Suc.prems(1) obtain m k1 w1 ms' where m: "limited_receive cap receive (k, w) = (Inr m, (k1, w1))"
    and rest: "receives n (limited_receive cap receive) (k1, w1) = (Inr ms', st)" and ms: "ms = m # ms'"
    by (auto simp: bindp_eq_Inr prog_simps)
  from m have "k1 = k + int (length (body_of m)) \<and> k1 \<le> cap \<or> (body_of m = [] \<and> k1 = k)"
    by (auto simp: limited_receive_def Let_def split: prod.splits sum.splits message.splits if_splits)
  with Suc.IH [OF rest] Suc.prems(2) ms show ?case by auto
qed

lemma declared_iff:
  "declared_too_large cap hs \<longleftrightarrow>
     (\<exists>val. (''content-length'', val) \<in> set hs \<and>
        cap < (case bytes_int val of Some n \<Rightarrow> n | None \<Rightarrow> 0))"
  by (induction cap hs rule: declared_too_large.induct) (auto simp: Let_def)

end
