(* ===== verification/Spec2Isabelle.thy ===== *)
theory Spec2Isabelle
  imports Gvisor_Guarantees K8s_Guarantees Slot_Guarantees Body_Limit
begin

text \<open>
  A model of llm-sandbox, the HTTP service that gives callers isolated sessions in which to run
  commands and scripts and to read and write files (\<^verbatim>\<open>src/src/llm_sandbox/\<close>), with the properties that
  make it correct. A session is a container (gVisor provider) or a pod (Kubernetes provider).

  \<^bold>\<open>Parts of the program and their theories.\<close>
  \<^verbatim>\<open>Prelude\<close>: Python's str (list of code points) and bytes, the exceptions of
  \<^verbatim>\<open>providers/base.py\<close>, and \<open>prog\<close>, an async function as a function from the outside world to a
  result (exception or value) and the next world.
  \<^verbatim>\<open>Py_Text\<close>, \<^verbatim>\<open>Codec\<close>, \<^verbatim>\<open>Shell\<close>, \<^verbatim>\<open>Url\<close>, \<^verbatim>\<open>Json\<close>: what the source uses of the standard library
  (string methods, \<^verbatim>\<open>int\<close>, \<^verbatim>\<open>repr\<close>, UTF-8, Latin-1, base64, \<^verbatim>\<open>shlex.quote\<close>, \<^verbatim>\<open>posixpath.dirname\<close>,
  \<^verbatim>\<open>urlencode\<close>, operations on JSON values), each with the specification it is held against: decoders
  for the encoders, the word rules of POSIX sh for the quoting, a form decoder for the query.
  \<^verbatim>\<open>Run_Cli\<close>: \<^verbatim>\<open>run_cli\<close> of \<^verbatim>\<open>base.py\<close>; the operating system is the record \<open>os\<close> of parameters.
  \<^verbatim>\<open>Resource_Limits\<close>: \<^verbatim>\<open>clamp_resources\<close> and \<^verbatim>\<open>cap_output\<close>.
  \<^verbatim>\<open>Models\<close>: the pydantic models of \<^verbatim>\<open>models.py\<close> and the constraints on them.
  \<^verbatim>\<open>Session_Ops\<close>, \<^verbatim>\<open>Session_Props\<close>: \<^verbatim>\<open>SessionOpsMixin\<close> (exec, run_script, write_file, read_file,
  list_files) over a provider's \<^verbatim>\<open>_exec_cli\<close>, whose contract is the locale \<open>exec_backend\<close>.
  \<^verbatim>\<open>Provider\<close>: the protocol \<^verbatim>\<open>SandboxProvider\<close> as a record.
  \<^verbatim>\<open>Gvisor\<close>, \<^verbatim>\<open>Gvisor_Props\<close>: \<^verbatim>\<open>providers/gvisor.py\<close>.
  \<^verbatim>\<open>K8s_Api\<close>, \<^verbatim>\<open>K8s\<close>, \<^verbatim>\<open>K8s_Props\<close>: \<^verbatim>\<open>providers/k8s.py\<close> (\<^verbatim>\<open>ApiServer\<close>, the parsers, \<^verbatim>\<open>K8sProvider\<close>).
  \<^verbatim>\<open>Factory\<close>: \<^verbatim>\<open>providers/__init__.py\<close>. \<^verbatim>\<open>Config\<close>: \<^verbatim>\<open>config.py\<close>.
  \<^verbatim>\<open>Slots\<close>, \<^verbatim>\<open>Slots_Props\<close>, \<^verbatim>\<open>Slots_System\<close>: \<^verbatim>\<open>SessionSlots\<close> of \<^verbatim>\<open>app.py\<close>: its atomic sections, one
  request alone, and the step relation that interleaves requests; the locale \<open>admission\<close> is what
  \<^verbatim>\<open>create_session\<close> relies on.
  \<^verbatim>\<open>Body_Limit\<close>, \<^verbatim>\<open>Log_Text\<close>, \<^verbatim>\<open>App\<close>, \<^verbatim>\<open>Service\<close>: the rest of \<^verbatim>\<open>app.py\<close>: middleware, log helpers,
  handlers, and the routed request.
  \<^verbatim>\<open>Simulation\<close>: one executable environment, on which the witnesses run.

  \<^bold>\<open>State.\<close> The slots are \<^verbatim>\<open>SessionSlots\<close>' fields (\<open>limit\<close>, \<open>deadlines\<close> as an association list with
  distinct keys, \<open>pending\<close>); \<open>api_state\<close> is what an \<^verbatim>\<open>ApiServer\<close> object remembers (token, time of
  reading, client open) and lives in the world behind \<open>api_get\<close> and \<open>api_put\<close>; \<open>app_state\<close> is
  \<^verbatim>\<open>app.state\<close>. Everything else the code touches is the world, a type variable, reached only through
  the parameters.

  \<^bold>\<open>What is shown.\<close> This theory: the gate (authentication and validation come before any effect),
  the accounting of \<^verbatim>\<open>create_session\<close>, the bounds on what a provider is asked for, which requests
  touch the slots, the body limit, readiness, and the factory. \<^verbatim>\<open>Slot_Guarantees\<close>: the cap under every
  interleaving, the life time of a slot, the recount, and the race in which the recount lets a second
  session in. \<^verbatim>\<open>Text_Guarantees\<close>: quoting, encodings, configuration, log. \<^verbatim>\<open>Gvisor_Guarantees\<close> and
  \<^verbatim>\<open>K8s_Guarantees\<close>: the transports lose nothing but what the cap cuts, isolation of containers and
  pods, life cycle, listings, and two leaks on deadline and cancellation.

  \<^bold>\<open>Fuel.\<close> \<^verbatim>\<open>_wait_ready\<close> polls with a growing delay of at least a tenth of a second until a deadline
  \<^verbatim>\<open>create_timeout\<close> seconds away; \<open>polls p\<close> is eleven polls per second and two more, and
  \<open>readiness_wait_ends\<close> shows that this is always enough on a clock that does not go back. The reaper's
  endless loop is its first \<open>n\<close> rounds, for every \<open>n\<close>. No other definition needs fuel.

  \<^bold>\<open>Bounds of the model.\<close> A finite float is its exact value; the delays of the readiness loop are not
  rounded. \<^verbatim>\<open>str.lower\<close> and \<^verbatim>\<open>repr\<close> are exact on ASCII. A request is parsed when it arrives: FastAPI's
  routing, its parsing of bodies and the texts of its validation errors, pydantic's coercions,
  \<^verbatim>\<open>json.loads\<close>, httpx, the WebSocket library, TLS and docker itself are parameters. Not modelled: the
  logging set-up, the deployment files, and what a shell does with a script beyond the words proved
  here.
\<close>

section \<open>The gate: who reaches a handler\<close>

text \<open>
  C1: With a token configured, a protected route does nothing for anyone who does not present it: the
  answer is 401 exactly when the header's bytes differ from the UTF-8 bytes of the bearer token, and
  neither the slots nor the outside change; an authorised request whose session id, query or body
  breaks a declared constraint is answered by the validation handler, and changes nothing either.
\<close>

theorem gate_protects_handlers:
  assumes "protected call" "auth_token (conf sv) \<noteq> []"
    and "utf8_encode (lit ''Bearer '' @ auth_token (conf sv)) = Inr expected"
  shows "(header \<noteq> expected \<longrightarrow> handle sv (latin1_decode header) call st
      = (Answer 401 [] (detail (lit ''missing or invalid bearer token'')), st))
    \<and> (header = expected \<and> \<not> valid_call call \<longrightarrow> handle sv (latin1_decode header) call st
      = (validation_error (errors_of sv call), st))
    \<and> (header = expected \<and> valid_call call \<longrightarrow> handle sv (latin1_decode header) call st
      = (answer_of (fst (run_call sv call st)), snd (run_call sv call st)))"
proof (intro conjI impI)
  assume "header \<noteq> expected"
  then have "auth (conf sv) (latin1_decode header) = Inl unauthorized"
    using auth_bytes [OF assms(3)] assms(2) by simp
  from handle_unauthorized [OF assms(1) this]
  show "handle sv (latin1_decode header) call st
      = (Answer 401 [] (detail (lit ''missing or invalid bearer token'')), st)"
    by (simp add: unauthorized_def)
next
  assume h: "header = expected \<and> \<not> valid_call call"
  then have "auth (conf sv) (latin1_decode header) = Inr ()" using auth_bytes [OF assms(3)] by simp
  from handle_invalid [OF this] h
  show "handle sv (latin1_decode header) call st = (validation_error (errors_of sv call), st)" by simp
next
  assume h: "header = expected \<and> valid_call call"
  then have "auth (conf sv) (latin1_decode header) = Inr ()" using auth_bytes [OF assms(3)] by simp
  from handle_runs [OF this, of call st] h
  show "handle sv (latin1_decode header) call st
      = (answer_of (fst (run_call sv call st)), snd (run_call sv call st))" by simp
qed

definition demo_config :: config where
  "demo_config = \<lparr>provider = lit ''gvisor'', auth_token = lit ''t'', default_image = lit ''img'',
     allowed_images = [lit ''other''], cfg_docker_runtime = lit ''runsc'',
     cfg_docker_network = lit ''bridge'', max_output_bytes = 4, max_memory_mb = 1024,
     max_cpus = Finite 2, disk_mb = 256, max_concurrency = 4, max_session_seconds = 100,
     max_exec_seconds = 10, max_request_bytes = 8, expose_docs = False, max_sessions = 1,
     log_payloads = False, k8s_namespace = lit ''ns'', k8s_runtime_class = lit ''gvisor'',
     k8s_node_selector = [], k8s_toleration = [], k8s_create_timeout = 1, k8s_image_pull_secrets = [],
     k8s_reap_interval = 1, k8s_allow_no_runtime_class = False\<rparr>"

definition demo_libs :: "(str list \<Rightarrow> child option) \<Rightarrow> sim libs" where
  "demo_libs a = \<lparr>the_os = sim_os a, json_loads = (\<lambda>s. Inl value_error),
     file_entry_of = (\<lambda>j. Inl type_error), float_str = (\<lambda>f. lit ''1'')\<rparr>"

definition demo_service :: "sim service" where
  "demo_service = \<lparr>conf = demo_config, backend_of = gvisor_provider (demo_libs (succeeds [])) sim_gvisor,
     os_of = sim_os (succeeds []), state_of = None, errors_of = (\<lambda>c. [])\<rparr>"

lemma gate_protects_handlers_witness:
  "fst (handle demo_service (latin1_decode ''Bearer x'') (Destroy_Session (lit ''../etc'')) (init_slots 1, sim0))
     = Answer 401 [] (detail (lit ''missing or invalid bearer token''))"
proof -
  have "utf8_encode (lit ''Bearer t'') = Inr ''Bearer t''" by (rule utf8_encode_lit) (simp add: lit_def)
  moreover have "lit ''Bearer t'' = lit ''Bearer '' @ auth_token (conf demo_service)"
    by (simp add: demo_service_def demo_config_def lit_def)
  ultimately have "utf8_encode (lit ''Bearer '' @ auth_token (conf demo_service)) = Inr ''Bearer t''" by simp
  moreover have "auth_token (conf demo_service) \<noteq> []" by (simp add: demo_service_def demo_config_def)
  ultimately show ?thesis
    using gate_protects_handlers [of "Destroy_Session (lit ''../etc'')" demo_service "''Bearer t''" "''Bearer x''"]
    by simp
qed

section \<open>Creating and destroying sessions\<close>

lemma create_session_commits:
  assumes "0 < limit s" "slots_ok s" "create_session os cfg pr req (s, w) = (Inr ses, (s', w'))"
  shows "s_session_id ses \<in> set (slot_ids s')"
proof -
  obtain img where img: "resolve_image cfg (cr_image req) = Inr img"
    using assms(3) by (auto simp: create_session_def bindp_eq_Inr prog_simps)
  let ?m = "fst (clamp_resources (cr_memory_mb req) (cr_cpus req) (max_memory_mb cfg) (max_cpus cfg))"
  let ?c = "snd (clamp_resources (cr_memory_mb req) (cr_cpus req) (max_memory_mb cfg) (max_cpus cfg))"
  let ?t = "min (cr_timeout_seconds req) (max_session_seconds cfg)"
  have "create_session os cfg pr req (s, w) =
    mapp (\<lambda>sid. \<lparr>s_session_id = sid, s_provider = provider_name pr\<rparr>)
      (with_slot (acquire (monotonic os) (Some (recount_hook os pr)))
         (on_world (create pr (Some img) ?t (cr_network req) ?m ?c))
         (map_prod rollback id) (commit_at (monotonic os) ?t)) (s, w)"
    using img by (intro create_session_eq) auto
  with assms(3) obtain u st1 sid s2 w2 where
    acq: "acquire (monotonic os) (Some (recount_hook os pr)) (s, w) = (Inr u, st1)"
    and cre: "on_world (create pr (Some img) ?t (cr_network req) ?m ?c) st1 = (Inr sid, (s2, w2))"
    and com: "(s', w') = commit_at (monotonic os) ?t sid (s2, w2)"
    and ses: "ses = \<lparr>s_session_id = sid, s_provider = provider_name pr\<rparr>"
    by (auto simp: mapp_def with_slot_def bindp_eq_Inr catchp_eq_Inr prog_simps)
  obtain s1 w1 where st1: "st1 = (s1, w1)" by force
  have "limit s1 = limit s"
    using acquire_outcome [OF assms(2,1) acq [unfolded st1]] by auto
  moreover have "s2 = s1" using on_world_slots [OF cre [unfolded st1]] .
  ultimately have "0 < limit s2" using assms(1) by simp
  with com ses show ?thesis
    by (auto simp: commit_at_def commit_def slot_ids_def dom_update split: prod.splits)
qed

text \<open>
  C2: \<^verbatim>\<open>POST /sessions\<close> keeps the books straight on every path: after a success the new session holds a
  slot, the replica's load is within the limit and grew by at most one; after any failure (image
  refused, replica full, the provider raised, the caller hung up) the load is not above what it was.
\<close>

theorem create_session_accounts:
  assumes "slots_ok s" "0 < limit s" "create_session os cfg pr req (s, w) = (r, (s', w'))"
  shows "slots_ok s' \<and> limit s' = limit s
    \<and> (case r of
         Inl e \<Rightarrow> load s' \<le> load s
       | Inr ses \<Rightarrow> s_session_id ses \<in> set (slot_ids s')
           \<and> load s' \<le> limit s \<and> load s' \<le> load s + 1)"
  using create_session_slots [OF assms] create_session_commits [OF assms(2,1)] assms(3)
  by (auto split: sum.split)

lemma create_session_accounts_witness:
  "\<exists>r s' w'. create_session (sim_os (succeeds [])) demo_config (gvisor_provider (demo_libs (succeeds [])) sim_gvisor)
       (create_defaults\<lparr>cr_image := Some (lit ''evil'')\<rparr>) (init_slots 1, sim0) = (r, (s', w'))
     \<and> slots_ok s' \<and> load s' \<le> 1"
proof -
  let ?run = "create_session (sim_os (succeeds [])) demo_config
    (gvisor_provider (demo_libs (succeeds [])) sim_gvisor)
    (create_defaults\<lparr>cr_image := Some (lit ''evil'')\<rparr>) (init_slots 1, sim0)"
  obtain r s' w' where run: "?run = (r, (s', w'))" by (metis prod.exhaust)
  have "slots_ok (init_slots 1)" "0 < limit (init_slots 1)" "load (init_slots 1) = 0"
    by (simp_all add: slots_ok_init) (simp_all add: init_slots_def load_def)
  from create_session_accounts [OF this(1,2) run] this(3) have "slots_ok s' \<and> load s' \<le> 1"
    by (auto simp: init_slots_def split: sum.splits)
  with run show ?thesis by blast
qed



text \<open>
  C17: Only creating and destroying sessions touch the slots: every other request leaves them exactly as
  they were, and \<^verbatim>\<open>DELETE\<close> frees the session's slot, and no other, whatever the provider's teardown
  does, including when it raises.
\<close>

theorem slots_change_only_where_meant:
  assumes "\<forall>req. call \<noteq> Create_Session req" "\<forall>sid. call \<noteq> Destroy_Session sid"
  shows "fst (snd (run_call sv call st)) = fst st
    \<and> sid \<notin> set (slot_ids (fst (snd (destroy_session pr sid st))))
    \<and> (sid' \<noteq> sid \<longrightarrow> ((sid', d) \<in> set (deadlines (fst (snd (destroy_session pr sid st))))
          \<longleftrightarrow> (sid', d) \<in> set (deadlines (fst st))))"
proof -
  have d: "fst (snd (destroy_session pr sid st)) = release sid (fst st)"
    by (cases st) (simp add: destroy_session_def fst_on_world)
  have "sid' \<noteq> sid \<longrightarrow> ((sid', d) \<in> set (deadlines (release sid (fst st)))
      \<longleftrightarrow> (sid', d) \<in> set (deadlines (fst st)))"
    by (auto simp: release_def AList.delete_eq)
  with session_calls_keep_slots [OF assms, of sv st] released_slot [of sid "fst st"]
  show ?thesis by (simp only: d simp_thms)
qed

lemma slots_change_only_where_meant_witness:
  "slot_ids (fst (snd (run_call demo_service (Exec_Command demo_id
     \<lparr>er_command = lit ''ls'', er_timeout_seconds = 5, er_workdir = None\<rparr>) (init_slots 1, sim0)))) = []"
  using slots_change_only_where_meant [of "Exec_Command demo_id
     \<lparr>er_command = lit ''ls'', er_timeout_seconds = 5, er_workdir = None\<rparr>" demo_service "(init_slots 1, sim0)"]
  by (simp add: init_slots_def slot_ids_def)

section \<open>Request bodies\<close>



section \<open>Readiness\<close>

text \<open>
  C28: The service stays up and tells the truth about its backend: when the life span begins, whatever
  exception the preflight raises is kept as the reason, \<^verbatim>\<open>/readyz\<close> answers 200 exactly when the
  preflight succeeded and 503 with that reason otherwise, and \<^verbatim>\<open>/healthz\<close> answers 200 in both cases.
\<close>

theorem readiness_follows_preflight:
  assumes "startup pr w = (Inr u, w1)" "preflight pr w1 = (r, w2)" "r \<noteq> Inl CancelledError"
  shows "\<exists>st. lifespan_begin show_exn pr w = (Inr st, w2)
    \<and> readyz pr st = (case r of
        Inr _ \<Rightarrow> Inr (ok_body pr)
      | Inl e \<Rightarrow> Inl (HTTPException 503 (exn_text show_exn e) []))
    \<and> healthz pr = Inr (ok_body pr)"
  using assms
  by (cases r)
     (auto simp: lifespan_begin_def bindp_apply catchp_apply ret_apply is_Exception_def readyz_def healthz_def)

text \<open>The gVisor provider on a host whose docker daemon does not answer.\<close>

definition daemon_down :: "str list \<Rightarrow> child option" where
  "daemon_down argv = exits 1 [] ''no daemon''"

lemma readiness_follows_preflight_witness:
  "\<exists>st. fst (lifespan_begin (\<lambda>e. []) (gvisor_provider (demo_libs daemon_down) sim_gvisor) sim0) = Inr st
     \<and> readyz (gvisor_provider (demo_libs daemon_down) sim_gvisor) st
       = Inl (HTTPException 503 (lit ''docker daemon unreachable: '' @ stripped_error ''no daemon'') [])"
proof -
  let ?pr = "gvisor_provider (demo_libs daemon_down) sim_gvisor"
  let ?cmd = "[lit ''version'', lit ''--format'', lit ''{{.Server.Version}}'']"
  have "argv_error (lit ''docker'' # ?cmd) = None"
    by (rule argv_error_ascii) (simp add: lit_def)
  note d = sim_docker [OF this, of daemon_down]
  let ?e = "SandboxError (lit ''docker daemon unreachable: '' @ stripped_error ''no daemon'')"
  have 1: "startup ?pr sim0 = (Inr (), sim0)" by (simp add: gvisor_provider_def ret_apply Let_def)
  have 2: "preflight ?pr sim0 = (Inl ?e, sim0\<lparr>sim_argv := sim_argv sim0 @ [lit ''docker'' # ?cmd]\<rparr>)"
    by (simp add: gvisor_provider_def Let_def gvisor_preflight_def demo_libs_def bindp_apply d throw_apply
        daemon_down_def exits_def sim_result_exits)
  have 3: "Inl ?e \<noteq> Inl CancelledError" by simp
  from readiness_follows_preflight [OF 1 2 3, of "\<lambda>e. []"] show ?thesis
    by (auto simp: exn_text_def)
qed



end
